(* ===== verification/Ree_Prelude.thy ===== *)
theory Ree_Prelude
  imports Complex_Main "HOL-Library.AList" "HOL-Library.Char_ord" "HOL-Library.List_Lexorder"
    "HOL-Library.Sublist" "HOL-Library.Multiset"
begin

text \<open>
  What every component shares: the error values that stand for Python's exceptions, the
  sequencing of operations that may raise, the string and dictionary operations the source
  uses, and the sorting facts behind the persisted orders.

  A Python \<open>str\<close> is a \<^typ>\<open>string\<close> (ASCII text), compared as Python compares
  it, by code point; a \<open>dict\<close> is an association list in insertion order, whose
  assignment is \<^const>\<open>AList.update\<close> (the position of an existing key is kept, a
  new key goes last) and whose \<open>pop\<close> is \<^const>\<open>AList.delete\<close>.
\<close>

section \<open>Collections of facts\<close>

named_theorems validity \<open>definitions of the document validators\<close>
named_theorems step_defs \<open>definitions of the operations that change state\<close>

section \<open>Raised errors\<close>

text \<open>
  One constructor per exception class the modelled code raises or tells apart.
  \<open>Precondition_Error\<close> is \<open>ReePreconditionError\<close>, a subclass of
  \<open>ValueError\<close> that handlers catch before it; \<open>Revision_Conflict\<close> carries the
  expected and the found revision; \<open>Os_Error\<close> is an \<open>OSError\<close> with its
  \<open>errno\<close> (a code the source does not list has its number and the platform's symbolic
  name, if it has one), and the constructors with a message are raised by the code itself, without one.
\<close>

datatype errno =
    ENOSPC | EDQUOT | EMFILE | ENFILE | EAGAIN | ECONNRESET | ECONNREFUSED | EHOSTUNREACH
  | ENETUNREACH | EPIPE | EROFS | EACCES | EPERM | ENOENT | ENOTDIR | EISDIR | Other_Errno int "string option"

datatype ree_error =
    Value_Error string
  | Type_Error string
  | Key_Error string
  | Precondition_Error string
  | Revision_Conflict string string
  | File_Not_Found string
  | File_Exists string
  | Runtime_Error string
  | Unavailable_Error string
  | Backend_Error string
  | Os_Error errno
  | Timeout_Error

text \<open>Sequencing: an operation that raised stops what follows it.\<close>

fun bind_res :: "'e + 'a \<Rightarrow> ('a \<Rightarrow> 'e + 'b) \<Rightarrow> 'e + 'b" where
  "bind_res (Inl e) f = Inl e"
| "bind_res (Inr a) f = f a"

lemma bind_res_Inr_iff [simp]:
  "bind_res r f = Inr b \<longleftrightarrow> (\<exists>a. r = Inr a \<and> f a = Inr b)"
  by (cases r) auto

lemma bind_res_Inl_iff:
  "bind_res r f = Inl e \<longleftrightarrow> r = Inl e \<or> (\<exists>a. r = Inr a \<and> f a = Inl e)"
  by (cases r) auto

text \<open>\<open>require c e\<close> is \<open>if not c: raise e\<close>.\<close>

definition require :: "bool \<Rightarrow> ree_error \<Rightarrow> ree_error + unit" where
  "require c e = (if c then Inr () else Inl e)"

lemma require_Inr [simp]: "require c e = Inr u \<longleftrightarrow> c"
  by (simp add: require_def)

lemma require_Inl [simp]: "require c e = Inl e' \<longleftrightarrow> \<not> c \<and> e' = e"
  by (auto simp: require_def)

section \<open>Strings\<close>

text \<open>ASCII white space, as \<open>str.isspace\<close> has it.\<close>

definition is_space :: "char \<Rightarrow> bool" where
  "is_space c \<longleftrightarrow> c \<in> {CHR 0x09, CHR 0x0A, CHR 0x0B, CHR 0x0C, CHR 0x0D,
     CHR 0x1C, CHR 0x1D, CHR 0x1E, CHR 0x1F, CHR '' ''}"

definition strip :: "string \<Rightarrow> string" where
  "strip s = rev (dropWhile is_space (rev (dropWhile is_space s)))"

fun split_where :: "('a \<Rightarrow> bool) \<Rightarrow> 'a list \<Rightarrow> 'a list list" where
  "split_where p [] = [[]]"
| "split_where p (x # xs) =
     (if p x then [] # split_where p xs
      else case split_where p xs of [] \<Rightarrow> [[x]] | w # ws \<Rightarrow> (x # w) # ws)"

text \<open>\<open>s.split(c)\<close> and \<open>s.split()\<close>.\<close>

definition split_on :: "char \<Rightarrow> string \<Rightarrow> string list" where
  "split_on c s = split_where (\<lambda>x. x = c) s"

definition split_ws :: "string \<Rightarrow> string list" where
  "split_ws s = filter (\<lambda>w. w \<noteq> []) (split_where is_space s)"

fun join_with :: "'a list \<Rightarrow> 'a list list \<Rightarrow> 'a list" where
  "join_with sep [] = []"
| "join_with sep [w] = w"
| "join_with sep (w # w' # ws) = w @ sep @ join_with sep (w' # ws)"

lemma split_where_not_Nil [simp]: "split_where p xs \<noteq> []"
  by (induction xs) (auto split: list.splits)

lemma split_where_avoid: "\<forall>x \<in> set xs. \<not> p x \<Longrightarrow> split_where p xs = [xs]"
  by (induction xs) auto

lemma split_where_words: "w \<in> set (split_where p xs) \<Longrightarrow> x \<in> set w \<Longrightarrow> \<not> p x"
  by (induction xs arbitrary: w) (fastforce split: list.splits if_splits)+

lemma split_where_chars: "w \<in> set (split_where p xs) \<Longrightarrow> set w \<subseteq> set xs"
  by (induction xs arbitrary: w) (fastforce split: list.splits if_splits)+

lemma split_where_append_sep:
  "\<forall>x \<in> set xs. \<not> p x \<Longrightarrow> p c \<Longrightarrow> split_where p (xs @ c # ys) = xs # split_where p ys"
  by (induction xs) auto

lemma split_where_join:
  assumes "ws \<noteq> []" and "\<forall>w \<in> set ws. \<forall>x \<in> set w. \<not> p x" and "p c"
  shows "split_where p (join_with [c] ws) = ws"
  using assms by (induction "[c]" ws rule: join_with.induct)
    (auto simp: split_where_avoid split_where_append_sep)

lemma split_ws_word:
  "w \<in> set (split_ws s) \<Longrightarrow> w \<noteq> [] \<and> (\<forall>x \<in> set w. \<not> is_space x)"
  by (auto simp: split_ws_def dest: split_where_words)

lemma set_join_with: "set (join_with sep ws) \<subseteq> set sep \<union> (\<Union>w \<in> set ws. set w)"
  by (induction sep ws rule: join_with.induct) auto

lemma join_with_Nil_iff:
  "\<forall>w \<in> set ws. w \<noteq> [] \<Longrightarrow> join_with sep ws = [] \<longleftrightarrow> ws = []"
  by (induction sep ws rule: join_with.induct) auto

text \<open>\<open>str.lower\<close> on ASCII.\<close>

definition lower_char :: "char \<Rightarrow> char" where
  "lower_char c = (if 65 \<le> (of_char c :: nat) \<and> (of_char c :: nat) \<le> 90
     then char_of ((of_char c :: nat) + 32) else c)"

definition lower :: "string \<Rightarrow> string" where
  "lower s = map lower_char s"

section \<open>Dictionaries\<close>

text \<open>\<open>d.setdefault(k, v)\<close> and membership.\<close>

definition setdefault :: "'k \<Rightarrow> 'v \<Rightarrow> ('k \<times> 'v) list \<Rightarrow> ('k \<times> 'v) list" where
  "setdefault k v d = (case map_of d k of None \<Rightarrow> d @ [(k, v)] | Some _ \<Rightarrow> d)"

definition has_key :: "('k \<times> 'v) list \<Rightarrow> 'k \<Rightarrow> bool" where
  "has_key d k \<longleftrightarrow> map_of d k \<noteq> None"

text \<open>A dictionary holds each key once.\<close>

definition dict_ok :: "('k \<times> 'v) list \<Rightarrow> bool" where
  "dict_ok d \<longleftrightarrow> distinct (map fst d)"

lemma dict_ok_Nil [simp]: "dict_ok []"
  by (simp add: dict_ok_def)

lemma dict_ok_update [simp]: "dict_ok d \<Longrightarrow> dict_ok (AList.update k v d)"
  by (simp add: dict_ok_def distinct_update)

lemma dict_ok_delete [simp]: "dict_ok d \<Longrightarrow> dict_ok (AList.delete k d)"
  by (simp add: dict_ok_def distinct_delete)

lemma dict_ok_filter [simp]: "dict_ok d \<Longrightarrow> dict_ok (filter P d)"
  by (simp add: dict_ok_def distinct_map_filter)

lemma dict_ok_setdefault [simp]: "dict_ok d \<Longrightarrow> dict_ok (setdefault k v d)"
  by (auto simp: dict_ok_def setdefault_def map_of_eq_None_iff split: option.splits)

lemma map_of_update [simp]: "map_of (AList.update k v d) = (map_of d)(k \<mapsto> v)"
  by (rule update_conv')

lemma map_of_delete [simp]: "map_of (AList.delete k d) = (map_of d)(k := None)"
  by (rule delete_conv')

lemma map_of_setdefault:
  "map_of (setdefault k v d) k' =
     (if k' = k \<and> map_of d k = None then Some v else map_of d k')"
  by (auto simp: setdefault_def map_add_def split: option.splits)

lemma map_of_filter_key:
  "map_of (filter (\<lambda>(k, v). P k) d) k = (if P k then map_of d k else None)"
  by (induction d) auto

lemma dict_ok_map_of_iff:
  "dict_ok d \<Longrightarrow> map_of d k = Some v \<longleftrightarrow> (k, v) \<in> set d"
  by (simp add: dict_ok_def map_of_eq_Some_iff)

lemma dict_ok_values_update:
  "dict_ok d \<Longrightarrow> (k', v') \<in> set (AList.update k v d) \<longleftrightarrow>
     (if k' = k then v' = v else (k', v') \<in> set d)"
  using dict_ok_map_of_iff[of "AList.update k v d" k' v'] dict_ok_map_of_iff[of d k' v']
  by (auto split: if_splits)

section \<open>Orders and sorting\<close>

text \<open>\<open>max(xs, key=f)\<close>: the first of the greatest elements.\<close>

fun max_by :: "('a \<Rightarrow> 'b::linorder) \<Rightarrow> 'a list \<Rightarrow> 'a option" where
  "max_by f [] = None"
| "max_by f (x # xs) =
     (case max_by f xs of None \<Rightarrow> Some x | Some y \<Rightarrow> if f x < f y then Some y else Some x)"

lemma max_by_None [simp]: "max_by f xs = None \<longleftrightarrow> xs = []"
  by (cases xs) (auto split: option.splits)

lemma max_by_Some:
  "max_by f xs = Some m \<Longrightarrow> m \<in> set xs \<and> (\<forall>x \<in> set xs. f x \<le> f m)"
proof (induction xs arbitrary: m)
  case Nil
  then show ?case by simp
next
  case (Cons x xs)
  then show ?case
    by (cases "max_by f xs") (force split: if_splits)+
qed

text \<open>
  \<open>sorted(xs, key=f, reverse=True)\<close>: Python keeps the original order of equal elements
  under \<open>reverse\<close> too, which is reversing, sorting stably and reversing back.
\<close>

definition sort_desc :: "('a \<Rightarrow> 'b::linorder) \<Rightarrow> 'a list \<Rightarrow> 'a list" where
  "sort_desc f xs = rev (sort_key f (rev xs))"

lemma set_sort_desc [simp]: "set (sort_desc f xs) = set xs"
  by (simp add: sort_desc_def)

lemma length_sort_desc [simp]: "length (sort_desc f xs) = length xs"
  by (simp add: sort_desc_def)

lemma sorted_sort_desc: "sorted_wrt (\<lambda>x y. f y \<le> f x) (sort_desc f xs)"
proof -
  have "sorted (map f (sort_key f (rev xs)))" by (rule sorted_sort_key)
  then have "sorted_wrt (\<lambda>x y. f x \<le> f y) (sort_key f (rev xs))"
    by (simp add: sorted_wrt_map)
  then show ?thesis by (simp add: sort_desc_def sorted_wrt_rev)
qed

lemma distinct_map_sort_desc [simp]: "distinct (map g (sort_desc f xs)) = distinct (map g xs)"
proof -
  have "mset (map g (sort_desc f xs)) = mset (map g xs)"
    by (simp add: sort_desc_def)
  then show ?thesis by (rule mset_eq_imp_distinct_iff)
qed

lemma distinct_map_sort_key [simp]: "distinct (map g (sort_key f xs)) = distinct (map g xs)"
proof -
  have "mset (map g (sort_key f xs)) = mset (map g xs)" by simp
  then show ?thesis by (rule mset_eq_imp_distinct_iff)
qed

lemma filter_one_sort_key:
  assumes "filter P xs = [x]"
  shows "filter P (sort_key f xs) = [x]"
proof -
  have "mset (filter P (sort_key f xs)) = mset (filter P xs)"
    by (simp add: mset_filter)
  also have "\<dots> = mset [x]" by (simp only: assms)
  finally have "mset (filter P (sort_key f xs)) = {#x#}" by (simp del: mset_filter)
  then show ?thesis by (simp only: mset_single_iff)
qed

text \<open>\<open>next((x for x in xs if P x), None)\<close> is \<^const>\<open>List.find\<close>; it only sees \<open>filter P\<close>.\<close>

lemma find_filter: "List.find P xs = (case filter P xs of [] \<Rightarrow> None | x # _ \<Rightarrow> Some x)"
  by (induction xs) auto

lemma find_unique:
  assumes "distinct (map k xs)" and "x \<in> set xs"
  shows "List.find (\<lambda>y. k y = k x) xs = Some x"
  using assms by (induction xs) (auto simp: image_iff)

end
