(* ===== verification/Ree_Paths.thy ===== *)
theory Ree_Paths
  imports Ree_Prelude
begin

text \<open>
  Portable paths: the lexical guards of \<open>path_safety.py\<close>, the reserved script names of
  \<open>reserved_paths.py\<close> and the validated string values of \<open>domain/primitives.py\<close>.
  A \<open>PurePosixPath\<close> is the list of its parts. Symbolic links are the file system's:
  \<open>Path.resolve\<close> is the argument \<open>resolve\<close> of \<open>resolve_within\<close>.
\<close>

section \<open>Lexical path checks\<close>

text \<open>\<open>PurePosixPath(text).parts\<close>: empty and \<open>.\<close> components disappear.\<close>

definition posix_parts :: "string \<Rightarrow> string list" where
  "posix_parts s = filter (\<lambda>p. p \<noteq> [] \<and> p \<noteq> ''.'') (split_on (CHR ''/'') s)"

definition is_rooted :: "string \<Rightarrow> bool" where
  "is_rooted s \<longleftrightarrow> s \<noteq> [] \<and> (hd s = CHR ''/'' \<or> hd s = CHR 0x5C)"

definition validate_relative_path :: "string \<Rightarrow> ree_error + unit" where
  "validate_relative_path s =
     (if s = [] then Inl (Value_Error ''relative path must not be empty'')
      else if is_rooted s then Inl (Value_Error (''relative path must not be absolute: '' @ s))
      else if ''..'' \<in> set (posix_parts s)
        then Inl (Value_Error (''relative path must not contain '' @ s))
      else Inr ())"

definition validate_path_segment :: "string \<Rightarrow> string \<Rightarrow> ree_error + string" where
  "validate_path_segment kind s =
     (if s = [] \<or> CHR ''/'' \<in> set s \<or> CHR 0x5C \<in> set s \<or> hd s = CHR ''.''
      then Inl (Value_Error (''invalid '' @ kind @ '': '' @ s)) else Inr s)"

text \<open>
  \<open>base\<close> and the result are lists of parts; \<open>resolve\<close> follows the links of the
  file system it runs on.
\<close>

definition resolve_within ::
  "(string list \<Rightarrow> string list) \<Rightarrow> string list \<Rightarrow> string \<Rightarrow> string list option" where
  "resolve_within resolve base rel =
     (case validate_relative_path rel of
        Inl _ \<Rightarrow> None
      | Inr _ \<Rightarrow>
          (let base_resolved = resolve base;
               candidate = resolve (base_resolved @ posix_parts rel)
           in if prefix base_resolved candidate then Some candidate else None))"

text \<open>\<open>_resolve_under(base, rel)\<close> of \<open>persistence/layout.py\<close>: the check and the join.\<close>

definition resolve_under :: "string list \<Rightarrow> string \<Rightarrow> ree_error + string list" where
  "resolve_under base rel =
     bind_res (validate_relative_path rel) (\<lambda>_. Inr (base @ posix_parts rel))"

lemma validate_relative_path_Inr:
  "validate_relative_path s = Inr u \<longleftrightarrow>
     s \<noteq> [] \<and> \<not> is_rooted s \<and> ''..'' \<notin> set (posix_parts s)"
  by (simp add: validate_relative_path_def)

lemma validate_path_segment_Inr [simp]:
  "validate_path_segment kind s = Inr t \<longleftrightarrow>
     t = s \<and> s \<noteq> [] \<and> CHR ''/'' \<notin> set s \<and> CHR 0x5C \<notin> set s \<and> hd s \<noteq> CHR ''.''"
  by (auto simp: validate_path_segment_def)

section \<open>What a lexical check buys\<close>

text \<open>
  The specification: walking the parts of a path from a directory, a \<open>..\<close> goes to the
  parent. This is what the operating system does to a path without symbolic links.
\<close>

fun walk :: "string list \<Rightarrow> string list \<Rightarrow> string list" where
  "walk here [] = here"
| "walk here (p # ps) = walk (if p = ''..'' then butlast here else here @ [p]) ps"

lemma walk_no_parent: "''..'' \<notin> set ps \<Longrightarrow> walk here ps = here @ ps"
  by (induction ps arbitrary: here) auto

lemma split_on_no_sep:
  "w \<in> set (split_on c s) \<Longrightarrow> c \<notin> set w"
  by (auto simp: split_on_def dest: split_where_words)

lemma posix_parts_part:
  "p \<in> set (posix_parts s) \<Longrightarrow> p \<noteq> [] \<and> p \<noteq> ''.'' \<and> CHR ''/'' \<notin> set p"
  by (auto simp: posix_parts_def dest: split_on_no_sep)

lemma validate_path_segment_parts:
  assumes "validate_path_segment kind s = Inr t"
  shows "posix_parts s = [s]"
proof -
  from assms have "split_on (CHR ''/'') s = [s]"
    by (auto simp: split_on_def intro!: split_where_avoid)
  moreover from assms have "s \<noteq> []" "s \<noteq> ''.''" by auto
  ultimately show ?thesis by (simp add: posix_parts_def)
qed

text \<open>
  A path the lexical guard admits, joined under a directory, names a location
  inside that directory, and the join performs no parent step: walking the admitted path from
  the directory arrives at the joined path.
\<close>

theorem resolve_under_confined:
  assumes "resolve_under base rel = Inr path"
  shows "walk base (posix_parts rel) = path \<and> prefix base path"
  using assms by (auto simp: resolve_under_def walk_no_parent validate_relative_path_Inr)

theorem resolve_under_confined_witness:
  "walk [''ree'', ''overlay''] (posix_parts ''src/./main.py'')
     = [''ree'', ''overlay'', ''src'', ''main.py'']"
proof -
  have "resolve_under [''ree'', ''overlay''] ''src/./main.py''
      = Inr [''ree'', ''overlay'', ''src'', ''main.py'']"
    by code_simp
  from resolve_under_confined[OF this] show ?thesis by simp
qed

section \<open>Reserved script paths\<close>

definition reserved_script_dir :: string where
  "reserved_script_dir = ''ree-scripts''"

definition reserved_build_script :: string where
  "reserved_build_script = reserved_script_dir @ ''/build_script.sh''"

definition reserved_activation_script :: string where
  "reserved_activation_script = reserved_script_dir @ ''/activation.sh''"

definition reserved_activation_verify_script :: string where
  "reserved_activation_verify_script = reserved_script_dir @ ''/activation.verify.sh''"

definition reserved_experiment_script_dir :: string where
  "reserved_experiment_script_dir = reserved_script_dir @ ''/experiments''"

definition reserved_overlay_scripts :: "string list" where
  "reserved_overlay_scripts = [reserved_build_script, reserved_activation_script]"

definition experiment_slug :: "string \<Rightarrow> string" where
  "experiment_slug name =
     (let s = join_with ''-'' (split_ws name) in if s = [] then ''experiment'' else s)"

definition experiment_run_script_path :: "string \<Rightarrow> string" where
  "experiment_run_script_path name =
     reserved_experiment_script_dir @ ''/'' @ experiment_slug name @ ''.sh''"

definition experiment_verify_script_path :: "string \<Rightarrow> string" where
  "experiment_verify_script_path name =
     reserved_experiment_script_dir @ ''/'' @ experiment_slug name @ ''.verify.sh''"

lemmas reserved_path_defs = reserved_script_dir_def reserved_build_script_def
  reserved_activation_script_def reserved_activation_verify_script_def
  reserved_experiment_script_dir_def

lemma experiment_slug_nonempty: "experiment_slug name \<noteq> []"
  by (simp add: experiment_slug_def Let_def)

lemma experiment_slug_chars:
  "set (experiment_slug name) \<subseteq> {c \<in> set name. \<not> is_space c} \<union> set ''-experiment''"
proof -
  have "(\<Union>w \<in> set (split_ws name). set w) \<subseteq> {c \<in> set name. \<not> is_space c}"
    using split_where_chars[of _ is_space name] split_ws_word[of _ name]
    unfolding split_ws_def by (simp, blast)
  with set_join_with[of "''-''" "split_ws name"]
  have "set (join_with ''-'' (split_ws name)) \<subseteq> {c \<in> set name. \<not> is_space c} \<union> set ''-experiment''"
    by (simp, blast)
  then show ?thesis
    by (cases "join_with ''-'' (split_ws name) = []") (simp_all add: experiment_slug_def)
qed

lemma fallback_slug_no_space: "\<forall>c \<in> set ''-experiment''. \<not> is_space c"
  by (simp add: is_space_def)

lemma experiment_slug_no_space: "c \<in> set (experiment_slug name) \<Longrightarrow> \<not> is_space c"
  using experiment_slug_chars[of name] fallback_slug_no_space by blast

lemma experiment_slug_no_slash:
  assumes "CHR ''/'' \<notin> set name"
  shows "CHR ''/'' \<notin> set (experiment_slug name)"
proof -
  have "CHR ''/'' \<notin> set ''-experiment''" by simp
  with assms experiment_slug_chars[of name] show ?thesis by blast
qed

text \<open>A slug is its own slug, so deriving a path twice gives the same path.\<close>

lemma experiment_slug_idem: "experiment_slug (experiment_slug name) = experiment_slug name"
proof -
  have "split_where is_space (experiment_slug name) = [experiment_slug name]"
    by (rule split_where_avoid) (blast dest: experiment_slug_no_space)
  then have "split_ws (experiment_slug name) = [experiment_slug name]"
    by (simp add: split_ws_def experiment_slug_nonempty)
  then show ?thesis
    unfolding experiment_slug_def[of "experiment_slug name"]
    by (simp add: experiment_slug_nonempty)
qed

lemma experiment_run_script_path_eq_iff:
  "experiment_run_script_path a = experiment_run_script_path b \<longleftrightarrow>
     experiment_slug a = experiment_slug b"
  by (auto simp: experiment_run_script_path_def)

lemma experiment_verify_script_path_eq_iff:
  "experiment_verify_script_path a = experiment_verify_script_path b \<longleftrightarrow>
     experiment_slug a = experiment_slug b"
  by (auto simp: experiment_verify_script_path_def)

text \<open>
  A run script and a verify script coincide exactly when one experiment's slug is the other's
  with \<open>.verify\<close> appended.
\<close>

lemma run_verify_path_clash_iff:
  "experiment_run_script_path a = experiment_verify_script_path b \<longleftrightarrow>
     experiment_slug a = experiment_slug b @ ''.verify''"
proof -
  have "experiment_slug a @ ''.sh'' = experiment_slug b @ ''.verify.sh'' \<longleftrightarrow>
      experiment_slug a @ ''.sh'' = (experiment_slug b @ ''.verify'') @ ''.sh''"
    by simp
  also have "\<dots> \<longleftrightarrow> experiment_slug a = experiment_slug b @ ''.verify''"
    by (simp only: append_same_eq)
  finally show ?thesis
    by (simp add: experiment_run_script_path_def experiment_verify_script_path_def)
qed

section \<open>Validated string values\<close>

text \<open>\<open>SourceType\<close>: the empty string is the constructor \<open>No_Type\<close>.\<close>

datatype source_type = No_Type | Git | Hg | Svn | Cvs | Bzr | Tarball | Zip

definition digest_prefix :: string where
  "digest_prefix = ''sha256:''"

definition valid_digest :: "string \<Rightarrow> bool" where
  [validity]: "valid_digest d \<longleftrightarrow> prefix digest_prefix d \<and> drop (length digest_prefix) d \<noteq> []"

definition valid_ree_path :: "string \<Rightarrow> bool" where
  [validity]: "valid_ree_path p \<longleftrightarrow> validate_relative_path p = Inr ()"

definition valid_run_id :: "string \<Rightarrow> bool" where
  [validity]: "valid_run_id r \<longleftrightarrow> validate_path_segment ''run_id'' r = Inr r"

definition valid_swhid :: "string \<Rightarrow> bool" where
  [validity]: "valid_swhid s \<longleftrightarrow> prefix ''swh:1:'' s"

text \<open>An optional field is valid when absent or when its value is.\<close>

definition opt_ok :: "('a \<Rightarrow> bool) \<Rightarrow> 'a option \<Rightarrow> bool" where
  "opt_ok P x \<longleftrightarrow> (case x of None \<Rightarrow> True | Some a \<Rightarrow> P a)"

lemma opt_ok_simps [simp]:
  "opt_ok P None"
  "opt_ok P (Some a) \<longleftrightarrow> P a"
  "opt_ok (\<lambda>_. True) x"
  by (simp_all add: opt_ok_def split: option.split)

lemma opt_okD: "opt_ok P x \<Longrightarrow> x = Some a \<Longrightarrow> P a"
  by simp

end
