(* ===== verification/Ree_Hbom.thy ===== *)
theory Ree_Hbom
  imports Ree_Paths
begin

text \<open>
  The hardware bill of materials of \<open>domain/hbom.py\<close>: one record per component class,
  its field constraints as a predicate, and the key rules of the five component tables.
  A Python \<open>float\<close> field is a rational; \<open>Any\<close> is a JSON value.
\<close>

datatype json =
    JNull
  | JBool bool
  | JInt int
  | JFloat rat
  | JStr string
  | JList "json list"
  | JObj "(string \<times> json) list"

type_synonym json_object = "(string \<times> json) list"

section \<open>Component definitions\<close>

record cpu_definition =
  cpu_vendor :: string
  cpu_quantity :: int
  cpu_cores_per_cpu :: int
  cpu_threads_per_core :: int
  cpu_architecture :: string
  cpu_extra_info :: json_object

definition valid_cpu :: "cpu_definition \<Rightarrow> bool" where
  [validity]: "valid_cpu c \<longleftrightarrow>
     1 \<le> cpu_quantity c \<and> 1 \<le> cpu_cores_per_cpu c \<and> 1 \<le> cpu_threads_per_core c"

record gpu_definition =
  gpu_vendor :: string
  gpu_quantity :: int
  gpu_memory_gb :: rat
  gpu_interface :: string
  gpu_extra_info :: json_object

definition valid_gpu :: "gpu_definition \<Rightarrow> bool" where
  [validity]: "valid_gpu g \<longleftrightarrow> 1 \<le> gpu_quantity g \<and> 0 \<le> gpu_memory_gb g"

datatype memory_type = DDR3 | DDR4 | DDR5 | LPDDR4 | LPDDR5 | HBM2 | HBM2e | HBM3

record memory_definition =
  mem_vendor :: string
  mem_quantity :: int
  mem_capacity_gb :: rat
  mem_memory_type :: memory_type
  mem_speed_mt_s :: int
  mem_extra_info :: json_object

definition valid_memory :: "memory_definition \<Rightarrow> bool" where
  [validity]: "valid_memory m \<longleftrightarrow>
     1 \<le> mem_quantity m \<and> 0 \<le> mem_capacity_gb m \<and> 0 \<le> mem_speed_mt_s m"

datatype storage_type = HDD | SSD | NVMe | EMMC | SD

record storage_definition =
  sto_vendor :: string
  sto_quantity :: int
  sto_capacity_gb :: rat
  sto_storage_type :: storage_type
  sto_interface :: string
  sto_extra_info :: json_object

definition valid_storage :: "storage_definition \<Rightarrow> bool" where
  [validity]: "valid_storage s \<longleftrightarrow> 1 \<le> sto_quantity s \<and> 0 \<le> sto_capacity_gb s"

datatype network_type = Ethernet | Infiniband | Wifi | Cellular

record network_definition =
  net_vendor :: string
  net_quantity :: int
  net_bandwidth_gbps :: rat
  net_network_type :: network_type
  net_interface :: string
  net_extra_info :: json_object

definition valid_network :: "network_definition \<Rightarrow> bool" where
  [validity]: "valid_network n \<longleftrightarrow> 1 \<le> net_quantity n \<and> 0 \<le> net_bandwidth_gbps n"

section \<open>The document\<close>

record hbom =
  hb_cpus :: "(string \<times> cpu_definition) list"
  hb_gpus :: "(string \<times> gpu_definition) list"
  hb_memory :: "(string \<times> memory_definition) list"
  hb_storage :: "(string \<times> storage_definition) list"
  hb_network :: "(string \<times> network_definition) list"
  hb_extra_info :: json_object

definition empty_hbom :: hbom where
  "empty_hbom = \<lparr>hb_cpus = [], hb_gpus = [], hb_memory = [], hb_storage = [], hb_network = [],
     hb_extra_info = []\<rparr>"

text \<open>\<open>DeviceModel\<close>: stripped, then at least one character.\<close>

definition device_model :: "string \<Rightarrow> ree_error + string" where
  "device_model s = (let t = strip s in
     if t = [] then Inl (Value_Error ''String should have at least 1 character'') else Inr t)"

definition keys_nonblank :: "string \<Rightarrow> (string \<times> 'a) list \<Rightarrow> ree_error + unit" where
  "keys_nonblank field table =
     require (\<forall>k \<in> set (map fst table). strip k \<noteq> [])
       (Value_Error (field @ '' contains an empty model key''))"

definition validate_component_keys :: "hbom \<Rightarrow> ree_error + hbom" where
  "validate_component_keys h =
     bind_res (keys_nonblank ''cpus'' (hb_cpus h)) (\<lambda>_.
     bind_res (keys_nonblank ''gpus'' (hb_gpus h)) (\<lambda>_.
     bind_res (keys_nonblank ''memory'' (hb_memory h)) (\<lambda>_.
     bind_res (keys_nonblank ''storage'' (hb_storage h)) (\<lambda>_.
     bind_res (keys_nonblank ''network'' (hb_network h)) (\<lambda>_. Inr h)))))"

definition valid_table :: "('a \<Rightarrow> bool) \<Rightarrow> (string \<times> 'a) list \<Rightarrow> bool" where
  "valid_table P table \<longleftrightarrow>
     dict_ok table \<and> (\<forall>(k, v) \<in> set table. device_model k = Inr k \<and> P v)"

definition valid_hbom :: "hbom \<Rightarrow> bool" where
  [validity]: "valid_hbom h \<longleftrightarrow>
     valid_table valid_cpu (hb_cpus h) \<and> valid_table valid_gpu (hb_gpus h) \<and>
     valid_table valid_memory (hb_memory h) \<and> valid_table valid_storage (hb_storage h) \<and>
     valid_table valid_network (hb_network h) \<and> validate_component_keys h = Inr h"

section \<open>Stripped keys pass the key rule\<close>

lemma valid_table_keys:
  "valid_table P table \<Longrightarrow> keys_nonblank field table = Inr ()"
  by (force simp: valid_table_def keys_nonblank_def device_model_def Let_def split: if_splits)

text \<open>The field types already imply what the document validator checks.\<close>

lemma validate_component_keys_total:
  assumes "valid_table valid_cpu (hb_cpus h)" "valid_table valid_gpu (hb_gpus h)"
    "valid_table valid_memory (hb_memory h)" "valid_table valid_storage (hb_storage h)"
    "valid_table valid_network (hb_network h)"
  shows "validate_component_keys h = Inr h"
  using assms by (simp add: validate_component_keys_def valid_table_keys)

lemma valid_empty_hbom [simp]: "valid_hbom empty_hbom"
  by (simp add: validity empty_hbom_def valid_table_def validate_component_keys_def keys_nonblank_def)

end
