(* ===== verification/Ree_Receipts.thy ===== *)
theory Ree_Receipts
  imports Ree_Hbom
begin

text \<open>
  The receipts of \<open>domain/ree/receipt.py\<close>: what an REE keeps of each operation that
  succeeded. A receipt class extends \<open>ReceiptEnvelope\<close>, so its record extends the
  envelope's; the validators of the class and of its base are one predicate per class.
  A \<open>UtcInstant\<close> is its number of microseconds.
\<close>

type_synonym utc_instant = int

section \<open>The envelope\<close>

datatype drift_status = Clean | Modified | Unknown

record workspace_drift =
  wd_status :: drift_status
  wd_changed_paths :: "string list"
  wd_changed_path_count :: int

definition valid_workspace_drift :: "workspace_drift \<Rightarrow> bool" where
  [validity]: "valid_workspace_drift w \<longleftrightarrow>
     (\<forall>p \<in> set (wd_changed_paths w). valid_ree_path p) \<and> 0 \<le> wd_changed_path_count w"

record receipt_envelope =
  env_schema_version :: int
  env_run_id :: string
  env_started_at :: utc_instant
  env_finished_at :: utc_instant
  env_duration_ms :: int
  env_recorded_at :: utc_instant

text \<open>\<open>_ordered_timestamps\<close>, with the error it raises.\<close>

definition ordered_timestamps :: "'a receipt_envelope_scheme \<Rightarrow> ree_error + unit" where
  "ordered_timestamps r =
     (if env_finished_at r < env_started_at r
        then Inl (Value_Error ''receipt finished_at must not precede started_at'')
      else if env_recorded_at r < env_finished_at r
        then Inl (Value_Error ''receipt recorded_at must not precede finished_at'')
      else Inr ())"

definition valid_envelope :: "'a receipt_envelope_scheme \<Rightarrow> bool" where
  [validity]: "valid_envelope r \<longleftrightarrow>
     env_schema_version r = 1 \<and> valid_run_id (env_run_id r) \<and> 0 \<le> env_duration_ms r \<and>
     ordered_timestamps r = Inr ()"

lemma ordered_timestamps_Inr [simp]:
  "ordered_timestamps r = Inr u \<longleftrightarrow>
     env_started_at r \<le> env_finished_at r \<and> env_finished_at r \<le> env_recorded_at r"
  by (auto simp: ordered_timestamps_def)

section \<open>The receipt classes\<close>

record acquire_source_receipt = receipt_envelope +
  asr_origin_url :: "string option"
  asr_source_type :: source_type
  asr_requested_ref :: "string option"
  asr_resolved_revision :: "string option"
  asr_observed_swhid :: "string option"
  asr_snapshot_digest :: string

definition valid_acquire_source :: "acquire_source_receipt \<Rightarrow> bool" where
  [validity]: "valid_acquire_source r \<longleftrightarrow>
     valid_envelope r \<and> opt_ok valid_swhid (asr_observed_swhid r) \<and>
     valid_digest (asr_snapshot_digest r)"

record evaluate_receipt = receipt_envelope +
  evr_snapshot_digest :: string
  evr_overlay_digest :: string
  evr_strict :: bool
  evr_dependency_level :: int
  evr_environment_level :: int
  evr_machine_level :: int
  evr_dependency_count :: int
  evr_manifest_count :: int
  evr_report_path :: "string option"
  evr_report_digest :: string
  evr_analyzer_version :: string

definition valid_evaluate :: "evaluate_receipt \<Rightarrow> bool" where
  [validity]: "valid_evaluate r \<longleftrightarrow>
     valid_envelope r \<and> valid_digest (evr_snapshot_digest r) \<and>
     valid_digest (evr_overlay_digest r) \<and> 0 \<le> evr_dependency_level r \<and>
     0 \<le> evr_environment_level r \<and> 0 \<le> evr_machine_level r \<and> 0 \<le> evr_dependency_count r \<and>
     0 \<le> evr_manifest_count r \<and> opt_ok valid_ree_path (evr_report_path r) \<and>
     valid_digest (evr_report_digest r) \<and> evr_analyzer_version r \<noteq> []"

record observe_hardware_receipt = receipt_envelope +
  ohr_observation :: hbom
  ohr_observer_version :: string

definition valid_observe_hardware :: "observe_hardware_receipt \<Rightarrow> bool" where
  [validity]: "valid_observe_hardware r \<longleftrightarrow>
     valid_envelope r \<and> valid_hbom (ohr_observation r) \<and> ohr_observer_version r \<noteq> []"

record build_runtime_receipt = receipt_envelope +
  brr_snapshot_digest :: string
  brr_build_runtime_script_path :: string
  brr_build_runtime_script_digest :: string
  brr_workspace_drift :: workspace_drift
  brr_runtime_path :: string
  brr_produced_runtime_digest :: string

definition valid_build_receipt :: "build_runtime_receipt \<Rightarrow> bool" where
  [validity]: "valid_build_receipt r \<longleftrightarrow>
     valid_envelope r \<and> valid_digest (brr_snapshot_digest r) \<and>
     valid_ree_path (brr_build_runtime_script_path r) \<and>
     valid_digest (brr_build_runtime_script_digest r) \<and>
     valid_workspace_drift (brr_workspace_drift r) \<and> valid_ree_path (brr_runtime_path r) \<and>
     valid_digest (brr_produced_runtime_digest r)"

record generate_sbom_receipt = receipt_envelope +
  gsr_runtime_path :: string
  gsr_runtime_digest :: string
  gsr_sbom_path :: "string option"
  gsr_sbom_digest :: string
  gsr_sbom_format :: string
  gsr_tool_version :: string

definition valid_sbom_receipt :: "generate_sbom_receipt \<Rightarrow> bool" where
  [validity]: "valid_sbom_receipt r \<longleftrightarrow>
     valid_envelope r \<and> valid_ree_path (gsr_runtime_path r) \<and>
     valid_digest (gsr_runtime_digest r) \<and> opt_ok valid_ree_path (gsr_sbom_path r) \<and>
     valid_digest (gsr_sbom_digest r) \<and> gsr_sbom_format r \<noteq> [] \<and> gsr_tool_version r \<noteq> []"

record cross_check_receipt = receipt_envelope +
  ccr_sbom_digest :: string
  ccr_report_digest :: string
  ccr_declared_direct_total :: int
  ccr_observed_matched :: int
  ccr_version_mismatches :: int
  ccr_undeclared_same_ecosystem :: int
  ccr_observed_total :: int

definition valid_cross_check :: "cross_check_receipt \<Rightarrow> bool" where
  [validity]: "valid_cross_check r \<longleftrightarrow>
     valid_envelope r \<and> valid_digest (ccr_sbom_digest r) \<and> valid_digest (ccr_report_digest r) \<and>
     0 \<le> ccr_declared_direct_total r \<and> 0 \<le> ccr_observed_matched r \<and>
     0 \<le> ccr_version_mismatches r \<and> 0 \<le> ccr_undeclared_same_ecosystem r \<and>
     0 \<le> ccr_observed_total r"

record activation_receipt = receipt_envelope +
  tar_snapshot_digest :: string
  tar_runtime_path :: "string option"
  tar_runtime_digest :: "string option"
  tar_run_script_digest :: string
  tar_verify_script_digest :: "string option"
  tar_run_exit_code :: int
  tar_verify_exit_code :: "int option"

text \<open>
  \<open>_verification_pair\<close> of both runnable receipts; the exit codes are the literal 0.
\<close>

definition verification_pair :: "string option \<Rightarrow> int option \<Rightarrow> ree_error + unit" where
  "verification_pair verify_digest verify_exit =
     (if (verify_digest = None) \<noteq> (verify_exit = None)
      then Inl (Value_Error ''verification script digest and exit code must be present together'')
      else Inr ())"

definition valid_activation :: "activation_receipt \<Rightarrow> bool" where
  [validity]: "valid_activation r \<longleftrightarrow>
     valid_envelope r \<and> valid_digest (tar_snapshot_digest r) \<and>
     opt_ok valid_ree_path (tar_runtime_path r) \<and> opt_ok valid_digest (tar_runtime_digest r) \<and>
     valid_digest (tar_run_script_digest r) \<and> opt_ok valid_digest (tar_verify_script_digest r) \<and>
     tar_run_exit_code r = 0 \<and> opt_ok (\<lambda>c. c = 0) (tar_verify_exit_code r) \<and>
     verification_pair (tar_verify_script_digest r) (tar_verify_exit_code r) = Inr ()"

record experiment_receipt = receipt_envelope +
  rer_experiment_name :: string
  rer_snapshot_digest :: string
  rer_runtime_digest :: "string option"
  rer_run_script_digest :: string
  rer_verify_script_digest :: "string option"
  rer_run_exit_code :: int
  rer_verify_exit_code :: "int option"
  rer_produced_output_digest :: "string option"

definition valid_experiment_receipt :: "experiment_receipt \<Rightarrow> bool" where
  [validity]: "valid_experiment_receipt r \<longleftrightarrow>
     valid_envelope r \<and> rer_experiment_name r \<noteq> [] \<and> valid_digest (rer_snapshot_digest r) \<and>
     opt_ok valid_digest (rer_runtime_digest r) \<and> valid_digest (rer_run_script_digest r) \<and>
     opt_ok valid_digest (rer_verify_script_digest r) \<and> rer_run_exit_code r = 0 \<and>
     opt_ok (\<lambda>c. c = 0) (rer_verify_exit_code r) \<and>
     opt_ok valid_digest (rer_produced_output_digest r) \<and>
     verification_pair (rer_verify_script_digest r) (rer_verify_exit_code r) = Inr ()"

text \<open>\<open>RunReceipt\<close>, the union discriminated by \<open>operation\<close>.\<close>

datatype run_receipt =
    Acquire_Source acquire_source_receipt
  | Evaluate_Reproducibility evaluate_receipt
  | Observe_Hardware observe_hardware_receipt
  | Build_Runtime build_runtime_receipt
  | Generate_Sbom generate_sbom_receipt
  | Cross_Check_Sbom cross_check_receipt
  | Test_Activation activation_receipt
  | Run_Experiment experiment_receipt

fun valid_receipt :: "run_receipt \<Rightarrow> bool" where
  "valid_receipt (Acquire_Source r) = valid_acquire_source r"
| "valid_receipt (Evaluate_Reproducibility r) = valid_evaluate r"
| "valid_receipt (Observe_Hardware r) = valid_observe_hardware r"
| "valid_receipt (Build_Runtime r) = valid_build_receipt r"
| "valid_receipt (Generate_Sbom r) = valid_sbom_receipt r"
| "valid_receipt (Cross_Check_Sbom r) = valid_cross_check r"
| "valid_receipt (Test_Activation r) = valid_activation r"
| "valid_receipt (Run_Experiment r) = valid_experiment_receipt r"

section \<open>Operation timing\<close>

record operation_timing =
  tim_started_at :: utc_instant
  tim_finished_at :: utc_instant
  tim_duration_ms :: int

record operation_timer =
  tmr_started_at :: utc_instant
  tmr_started_ns :: int

text \<open>
  \<open>OperationTimer.start\<close> and \<open>finish\<close>: the wall clock and the monotonic clock are read
  by the caller.
\<close>

definition timer_start :: "utc_instant \<Rightarrow> int \<Rightarrow> operation_timer" where
  "timer_start now now_ns = \<lparr>tmr_started_at = now, tmr_started_ns = now_ns\<rparr>"

definition timer_finish :: "operation_timer \<Rightarrow> utc_instant \<Rightarrow> int \<Rightarrow> operation_timing" where
  "timer_finish t now now_ns =
     \<lparr>tim_started_at = tmr_started_at t, tim_finished_at = now,
      tim_duration_ms = max 0 ((now_ns - tmr_started_ns t) div 1000000)\<rparr>"

text \<open>\<open>receipt_envelope(run_id, timing)\<close>: recorded when finished.\<close>

definition mk_envelope :: "string \<Rightarrow> operation_timing \<Rightarrow> receipt_envelope" where
  "mk_envelope run_id t =
     \<lparr>env_schema_version = 1, env_run_id = run_id, env_started_at = tim_started_at t,
      env_finished_at = tim_finished_at t, env_duration_ms = tim_duration_ms t,
      env_recorded_at = tim_finished_at t\<rparr>"

lemma valid_mk_envelope [simp]:
  "valid_envelope (mk_envelope run_id t) \<longleftrightarrow>
     valid_run_id run_id \<and> 0 \<le> tim_duration_ms t \<and> tim_started_at t \<le> tim_finished_at t"
  by (auto simp: mk_envelope_def valid_envelope_def)

lemma timer_finish_duration: "0 \<le> tim_duration_ms (timer_finish t now now_ns)"
  by (simp add: timer_finish_def)

text \<open>
  A timer whose wall clock was set back while the operation ran yields an envelope no receipt
  accepts; a clock that only moves forward always yields a valid one.
\<close>

lemma timer_envelope_valid_iff:
  assumes "valid_run_id run_id"
  shows "valid_envelope (mk_envelope run_id (timer_finish (timer_start t0 n0) t1 n1)) \<longleftrightarrow> t0 \<le> t1"
  using assms by (simp add: timer_finish_def timer_start_def)

end
