(* ===== verification/Ree_Model.thy ===== *)
theory Ree_Model
  imports Ree_Receipts
begin

text \<open>
  The portable REE aggregate of \<open>domain/ree/model.py\<close>: what an REE declares, the receipts
  that back it, the bundle inventory and the seal. Each class is a record; the constraints of
  its fields and its \<open>model_validator\<close>s are one predicate \<open>valid_\<dots>\<close>, and a validator
  that raises is a function into \<open>ree_error + unit\<close>.

  \<open>canonical_subject_digest\<close> hashes the canonical JSON of the subject: \<open>sha\<close> is the
  hexadecimal SHA-256 of \<open>hashlib\<close>, and \<open>dumps\<close> is \<open>json.dumps\<close> after
  pydantic's \<open>model_dump\<close>, code outside the repository. Everything built on the digest
  takes it as the argument \<open>H\<close>.
\<close>

section \<open>The declaration\<close>

record contributor =
  con_identifier :: string
  con_name :: string
  con_affiliation_name :: string
  con_affiliation_identifier :: string

record ree_catalog =
  cat_description :: string
  cat_version :: string
  cat_website :: string
  cat_keywords :: "string list"
  cat_contributors :: "contributor list"
  cat_corresponding_author :: "string option"

record source_definition =
  src_origin_url :: "string option"
  src_source_type :: source_type
  src_requested_ref :: "string option"

text \<open>\<open>_complete_source\<close>: the empty source type is no source.\<close>

definition valid_source_definition :: "source_definition \<Rightarrow> bool" where
  [validity]: "valid_source_definition s \<longleftrightarrow> src_source_type s \<noteq> No_Type"

record build_definition =
  bld_script_path :: string
  bld_script_digest :: string
  bld_script_size :: int
  bld_runtime_path :: "string option"

definition valid_build_definition :: "build_definition \<Rightarrow> bool" where
  [validity]: "valid_build_definition b \<longleftrightarrow>
     valid_ree_path (bld_script_path b) \<and> bld_script_path b = reserved_build_script \<and>
     valid_digest (bld_script_digest b) \<and> 0 \<le> bld_script_size b \<and>
     opt_ok valid_ree_path (bld_runtime_path b)"

record activation_definition =
  act_run_script_path :: string
  act_run_script_digest :: string
  act_run_script_size :: int
  act_verify_script_path :: "string option"
  act_verify_script_digest :: "string option"
  act_verify_script_size :: "int option"

text \<open>Path, digest and size of a verify script are present together or not at all.\<close>

definition verification_complete :: "string option \<Rightarrow> string option \<Rightarrow> int option \<Rightarrow> bool" where
  "verification_complete p d n \<longleftrightarrow>
     (p = None \<and> d = None \<and> n = None) \<or> (p \<noteq> None \<and> d \<noteq> None \<and> n \<noteq> None)"

definition complete_activation :: "activation_definition \<Rightarrow> ree_error + unit" where
  "complete_activation a =
     (if act_run_script_path a \<noteq> reserved_activation_script
        then Inl (Value_Error ''activation script path must be reserved'')
      else if \<not> verification_complete (act_verify_script_path a) (act_verify_script_digest a)
            (act_verify_script_size a)
        then Inl (Value_Error
          ''activation verification path, digest, and size must be present together'')
      else if act_verify_script_path a \<notin> {None, Some reserved_activation_verify_script}
        then Inl (Value_Error ''activation verification path must be reserved'')
      else Inr ())"

definition valid_activation_definition :: "activation_definition \<Rightarrow> bool" where
  [validity]: "valid_activation_definition a \<longleftrightarrow>
     valid_ree_path (act_run_script_path a) \<and> valid_digest (act_run_script_digest a) \<and>
     0 \<le> act_run_script_size a \<and> opt_ok valid_ree_path (act_verify_script_path a) \<and>
     opt_ok valid_digest (act_verify_script_digest a) \<and>
     opt_ok (\<lambda>n. 0 \<le> n) (act_verify_script_size a) \<and> complete_activation a = Inr ()"

record experiment_definition =
  exp_name :: string
  exp_run_script_path :: string
  exp_run_script_digest :: string
  exp_run_script_size :: int
  exp_verify_script_path :: "string option"
  exp_verify_script_digest :: "string option"
  exp_verify_script_size :: "int option"
  exp_output_paths :: "string list"

definition conventional_paths :: "experiment_definition \<Rightarrow> ree_error + unit" where
  "conventional_paths e =
     (if exp_run_script_path e \<noteq> experiment_run_script_path (exp_name e)
        then Inl (Value_Error ''experiment run script path must be derived from its name'')
      else if \<not> verification_complete (exp_verify_script_path e) (exp_verify_script_digest e)
            (exp_verify_script_size e)
        then Inl (Value_Error
          ''experiment verification path, digest, and size must be present together'')
      else if exp_verify_script_path e \<notin>
            {None, Some (experiment_verify_script_path (exp_name e))}
        then Inl (Value_Error
          ''experiment verification script path must be derived from its name'')
      else if \<not> distinct (exp_output_paths e)
        then Inl (Value_Error ''experiment output paths must be unique'')
      else Inr ())"

definition valid_experiment_definition :: "experiment_definition \<Rightarrow> bool" where
  [validity]: "valid_experiment_definition e \<longleftrightarrow>
     exp_name e \<noteq> [] \<and> valid_ree_path (exp_run_script_path e) \<and>
     valid_digest (exp_run_script_digest e) \<and> 0 \<le> exp_run_script_size e \<and>
     opt_ok valid_ree_path (exp_verify_script_path e) \<and>
     opt_ok valid_digest (exp_verify_script_digest e) \<and>
     opt_ok (\<lambda>n. 0 \<le> n) (exp_verify_script_size e) \<and>
     (\<forall>p \<in> set (exp_output_paths e). valid_ree_path p) \<and> conventional_paths e = Inr ()"

record ree_definition =
  def_name :: string
  def_catalog :: ree_catalog
  def_source :: "source_definition option"
  def_build_runtime :: "build_definition option"
  def_test_activation :: "activation_definition option"
  def_hardware :: "hbom option"
  def_experiments :: "experiment_definition list"

definition unique_experiments :: "ree_definition \<Rightarrow> ree_error + unit" where
  "unique_experiments d =
     (let names = map exp_name (def_experiments d);
          slugs = map experiment_slug names
      in if \<not> distinct names then Inl (Value_Error ''experiment names must be unique'')
         else if \<not> distinct slugs then Inl (Value_Error ''experiment slugs must be unique'')
         else Inr ())"

definition valid_definition :: "ree_definition \<Rightarrow> bool" where
  [validity]: "valid_definition d \<longleftrightarrow>
     opt_ok valid_source_definition (def_source d) \<and>
     opt_ok valid_build_definition (def_build_runtime d) \<and>
     opt_ok valid_activation_definition (def_test_activation d) \<and>
     opt_ok valid_hbom (def_hardware d) \<and>
     (\<forall>e \<in> set (def_experiments d). valid_experiment_definition e) \<and>
     unique_experiments d = Inr ()"

section \<open>Receipts, inventory, subject\<close>

record ree_receipts =
  rcp_source :: "acquire_source_receipt option"
  rcp_evaluation :: "evaluate_receipt option"
  rcp_hardware_observation :: "observe_hardware_receipt option"
  rcp_build :: "build_runtime_receipt option"
  rcp_sbom :: "generate_sbom_receipt option"
  rcp_sbom_cross_check :: "cross_check_receipt option"
  rcp_test_activation :: "activation_receipt option"
  rcp_experiments :: "(string \<times> experiment_receipt) list"

definition empty_receipts :: ree_receipts where
  "empty_receipts = \<lparr>rcp_source = None, rcp_evaluation = None, rcp_hardware_observation = None,
     rcp_build = None, rcp_sbom = None, rcp_sbom_cross_check = None, rcp_test_activation = None,
     rcp_experiments = []\<rparr>"

definition experiment_keys_match :: "ree_receipts \<Rightarrow> ree_error + unit" where
  "experiment_keys_match r =
     require (\<forall>(name, receipt) \<in> set (rcp_experiments r). name = rer_experiment_name receipt)
       (Value_Error ''experiment receipt key must equal receipt experiment_name'')"

definition valid_receipts :: "ree_receipts \<Rightarrow> bool" where
  [validity]: "valid_receipts r \<longleftrightarrow>
     opt_ok valid_acquire_source (rcp_source r) \<and> opt_ok valid_evaluate (rcp_evaluation r) \<and>
     opt_ok valid_observe_hardware (rcp_hardware_observation r) \<and>
     opt_ok valid_build_receipt (rcp_build r) \<and> opt_ok valid_sbom_receipt (rcp_sbom r) \<and>
     opt_ok valid_cross_check (rcp_sbom_cross_check r) \<and>
     opt_ok valid_activation (rcp_test_activation r) \<and>
     dict_ok (rcp_experiments r) \<and>
     (\<forall>(name, receipt) \<in> set (rcp_experiments r). valid_experiment_receipt receipt) \<and>
     experiment_keys_match r = Inr ()"

record bundle_entry =
  be_path :: string
  be_digest :: string
  be_size :: int

definition valid_bundle_entry :: "bundle_entry \<Rightarrow> bool" where
  [validity]: "valid_bundle_entry e \<longleftrightarrow>
     valid_ree_path (be_path e) \<and> valid_digest (be_digest e) \<and> 0 \<le> be_size e"

type_synonym bundle_contents = "bundle_entry list"

definition canonical_entries :: "bundle_contents \<Rightarrow> ree_error + unit" where
  "canonical_entries es =
     (let paths = map be_path es
      in if paths \<noteq> sort paths then Inl (Value_Error ''bundle entries must be sorted by path'')
         else if \<not> distinct paths
           then Inl (Value_Error ''bundle entry paths must be unique'')
         else Inr ())"

definition valid_contents :: "bundle_contents \<Rightarrow> bool" where
  [validity]: "valid_contents es \<longleftrightarrow>
     (\<forall>e \<in> set es. valid_bundle_entry e) \<and> canonical_entries es = Inr ()"

record ree_subject =
  sub_schema_version :: int
  sub_definition :: ree_definition
  sub_receipts :: ree_receipts
  sub_contents :: bundle_contents

definition valid_subject :: "ree_subject \<Rightarrow> bool" where
  [validity]: "valid_subject s \<longleftrightarrow>
     sub_schema_version s = 1 \<and> valid_definition (sub_definition s) \<and>
     valid_receipts (sub_receipts s) \<and> valid_contents (sub_contents s)"

section \<open>Digests and the seal\<close>

definition digest_bytes :: "(string \<Rightarrow> string) \<Rightarrow> string \<Rightarrow> string" where
  "digest_bytes sha data = digest_prefix @ sha data"

definition digest_json :: "(string \<Rightarrow> string) \<Rightarrow> ('a \<Rightarrow> string) \<Rightarrow> 'a \<Rightarrow> string" where
  "digest_json sha dumps payload = digest_bytes sha (dumps payload)"

definition canonical_subject_digest ::
  "(string \<Rightarrow> string) \<Rightarrow> (string \<times> int \<times> ree_subject \<Rightarrow> string) \<Rightarrow> ree_subject \<Rightarrow> string" where
  "canonical_subject_digest sha dumps s =
     digest_json sha dumps (''org.repo2ree.ree-subject'', sub_schema_version s, s)"

record signature =
  sig_algorithm :: string
  sig_verification_material :: string
  sig_value :: string

record ree_seal =
  seal_sealed_at :: utc_instant
  seal_ree_digest :: string
  seal_signature :: "signature option"

definition valid_seal_fields :: "ree_seal \<Rightarrow> bool" where
  [validity]: "valid_seal_fields s \<longleftrightarrow> valid_digest (seal_ree_digest s) \<and>
     opt_ok (\<lambda>g. sig_algorithm g \<noteq> [] \<and> sig_verification_material g \<noteq> [] \<and> sig_value g \<noteq> [])
       (seal_signature s)"

record ree =
  ree_subject :: ree_subject
  ree_sealed :: "ree_seal option"

definition valid_seal :: "(ree_subject \<Rightarrow> string) \<Rightarrow> ree \<Rightarrow> ree_error + unit" where
  "valid_seal H r =
     (case ree_sealed r of
        None \<Rightarrow> Inr ()
      | Some s \<Rightarrow> require (seal_ree_digest s = H (ree_subject r))
          (Value_Error ''REE seal digest does not match its subject''))"

definition valid_ree :: "(ree_subject \<Rightarrow> string) \<Rightarrow> ree \<Rightarrow> bool" where
  [validity]: "valid_ree H r \<longleftrightarrow>
     valid_subject (ree_subject r) \<and> opt_ok valid_seal_fields (ree_sealed r) \<and>
     valid_seal H r = Inr ()"

datatype ree_status = Draft | Sealed

definition ree_status :: "ree \<Rightarrow> ree_status" where
  "ree_status r = (if ree_sealed r \<noteq> None then Sealed else Draft)"

section \<open>Facts about the validators\<close>

lemma valid_seal_Inr:
  "valid_seal H r = Inr u \<longleftrightarrow>
     (\<forall>s. ree_sealed r = Some s \<longrightarrow> seal_ree_digest s = H (ree_subject r))"
  by (cases "ree_sealed r") (auto simp: valid_seal_def)

lemma unique_experiments_Inr:
  "unique_experiments d = Inr u \<longleftrightarrow>
     distinct (map exp_name (def_experiments d)) \<and>
     distinct (map (\<lambda>e. experiment_slug (exp_name e)) (def_experiments d))"
  by (simp add: unique_experiments_def Let_def o_def)

lemma canonical_entries_Inr:
  "canonical_entries es = Inr u \<longleftrightarrow> sorted (map be_path es) \<and> distinct (map be_path es)"
  by (auto simp: canonical_entries_def Let_def sorted_sort_id) (metis sorted_sort)

lemma experiment_keys_match_Inr:
  "experiment_keys_match r = Inr u \<longleftrightarrow>
     (\<forall>(name, receipt) \<in> set (rcp_experiments r). name = rer_experiment_name receipt)"
  by (simp add: experiment_keys_match_def)

lemma valid_empty_receipts [simp]: "valid_receipts empty_receipts"
  by (simp add: valid_receipts_def empty_receipts_def experiment_keys_match_Inr)

lemma valid_empty_contents [simp]: "valid_contents []"
  by (simp add: valid_contents_def canonical_entries_Inr)

lemma canonical_subject_digest_valid:
  assumes "\<And>data. sha data \<noteq> []"
  shows "valid_digest (canonical_subject_digest sha dumps s)"
  using assms by (simp add: canonical_subject_digest_def digest_json_def digest_bytes_def
    valid_digest_def)

end
