(* ===== verification/Ree_Transitions.thy ===== *)
theory Ree_Transitions
  imports Ree_Model
begin

text \<open>
  The transitions of \<open>domain/ree/transitions.py\<close>. Each takes the aggregate and returns the
  new one or raises; \<open>model_copy(update=\<dots>)\<close> is a record update and, as in pydantic, runs no
  validator. What makes the persisted document readable again is therefore a theorem: the
  interface \<open>authoring_ops\<close> states the contract every authoring transition keeps, and its
  interpretation proves it for the model of the code.
\<close>

section \<open>The operations\<close>

definition subject_digest :: "(ree_subject \<Rightarrow> string) \<Rightarrow> ree_subject \<Rightarrow> string" where
  "subject_digest H s = H s"

definition revision_of :: "(ree_subject \<Rightarrow> string) \<Rightarrow> ree \<Rightarrow> string" where
  "revision_of H r = subject_digest H (ree_subject r)"

definition replace_definition :: "ree \<Rightarrow> ree_definition \<Rightarrow> ree_error + ree" where
  [step_defs]: "replace_definition r d =
     (if ree_sealed r \<noteq> None then Inl (Precondition_Error ''a sealed REE cannot be authored'')
      else
        let s = ree_subject r;
            old_names = set (map exp_name (def_experiments (sub_definition s)));
            new_names = set (map exp_name (def_experiments d));
            retained_experiments =
              filter (\<lambda>(name, receipt). name \<in> old_names \<inter> new_names)
                (rcp_experiments (sub_receipts s));
            receipts = (sub_receipts s)\<lparr>rcp_experiments := retained_experiments\<rparr>
        in Inr (r\<lparr>ree_subject := s\<lparr>sub_definition := d, sub_receipts := receipts\<rparr>\<rparr>))"

definition replace_contents :: "ree \<Rightarrow> bundle_contents \<Rightarrow> ree_error + ree" where
  [step_defs]: "replace_contents r c =
     (if ree_sealed r \<noteq> None
      then Inl (Precondition_Error ''a sealed REE's content inventory is frozen'')
      else Inr (r\<lparr>ree_subject := (ree_subject r)\<lparr>sub_contents := c\<rparr>\<rparr>))"

text \<open>The slot a receipt owns.\<close>

fun receipt_updates :: "run_receipt \<Rightarrow> ree_receipts \<Rightarrow> ree_receipts" where
  "receipt_updates (Acquire_Source r) rs = rs\<lparr>rcp_source := Some r\<rparr>"
| "receipt_updates (Evaluate_Reproducibility r) rs = rs\<lparr>rcp_evaluation := Some r\<rparr>"
| "receipt_updates (Observe_Hardware r) rs = rs\<lparr>rcp_hardware_observation := Some r\<rparr>"
| "receipt_updates (Build_Runtime r) rs = rs\<lparr>rcp_build := Some r\<rparr>"
| "receipt_updates (Generate_Sbom r) rs = rs\<lparr>rcp_sbom := Some r\<rparr>"
| "receipt_updates (Cross_Check_Sbom r) rs = rs\<lparr>rcp_sbom_cross_check := Some r\<rparr>"
| "receipt_updates (Test_Activation r) rs = rs\<lparr>rcp_test_activation := Some r\<rparr>"
| "receipt_updates (Run_Experiment r) rs =
     rs\<lparr>rcp_experiments := AList.update (rer_experiment_name r) r (rcp_experiments rs)\<rparr>"

definition commit_receipt :: "ree \<Rightarrow> run_receipt \<Rightarrow> ree_error + ree" where
  [step_defs]: "commit_receipt r receipt =
     (if ree_sealed r \<noteq> None
      then Inl (Precondition_Error ''a sealed REE cannot accept new receipts'')
      else
        let s = ree_subject r
        in Inr (r\<lparr>ree_subject := s\<lparr>sub_receipts := receipt_updates receipt (sub_receipts s)\<rparr>\<rparr>))"

definition clear_source :: "ree \<Rightarrow> ree_error + ree" where
  [step_defs]: "clear_source r =
     (if ree_sealed r \<noteq> None
      then Inl (Precondition_Error ''a sealed REE cannot remove its source'')
      else
        let s = ree_subject r;
            d = (sub_definition s)\<lparr>def_source := None\<rparr>;
            receipts = empty_receipts\<lparr>rcp_hardware_observation :=
              rcp_hardware_observation (sub_receipts s)\<rparr>
        in Inr (r\<lparr>ree_subject :=
             s\<lparr>sub_definition := d, sub_receipts := receipts, sub_contents := []\<rparr>\<rparr>))"

definition record_seal ::
  "(ree_subject \<Rightarrow> string) \<Rightarrow> ree \<Rightarrow> utc_instant \<Rightarrow> signature option \<Rightarrow> ree_error + ree" where
  [step_defs]: "record_seal H r sealed_at sig =
     (if ree_sealed r \<noteq> None then Inl (Precondition_Error ''REE is already sealed'')
      else Inr (r\<lparr>ree_sealed := Some
        \<lparr>seal_sealed_at = sealed_at, seal_ree_digest = subject_digest H (ree_subject r),
         seal_signature = sig\<rparr>\<rparr>))"

definition validate_seal :: "(ree_subject \<Rightarrow> string) \<Rightarrow> ree \<Rightarrow> ree_error + unit" where
  "validate_seal H r =
     (case ree_sealed r of
        None \<Rightarrow> Inr ()
      | Some s \<Rightarrow> require (seal_ree_digest s = subject_digest H (ree_subject r))
          (Value_Error ''REE seal digest does not match its subject''))"

lemma validate_seal_eq: "validate_seal H r = valid_seal H r"
  by (simp add: validate_seal_def valid_seal_def subject_digest_def split: option.splits)

section \<open>The contract of an authoring transition\<close>

text \<open>
  An authoring operation refuses a sealed REE, always succeeds on a draft, leaves it a draft,
  and keeps the document valid when its own argument is.
\<close>

locale authoring_ops =
  fixes apply_op :: "'op \<Rightarrow> ree \<Rightarrow> ree_error + ree"
    and op_ok :: "'op \<Rightarrow> bool"
    and subject_ok :: "ree_subject \<Rightarrow> bool"
  assumes sealed_refused: "ree_sealed r = Some s \<Longrightarrow> \<exists>m. apply_op x r = Inl (Precondition_Error m)"
    and draft_accepted: "ree_sealed r = None \<Longrightarrow> \<exists>r'. apply_op x r = Inr r' \<and> ree_sealed r' = None"
    and keeps_valid: "\<lbrakk>ree_sealed r = None; op_ok x; subject_ok (ree_subject r); apply_op x r = Inr r'\<rbrakk>
      \<Longrightarrow> subject_ok (ree_subject r')"
begin

text \<open>A sequence of operations, stopping at the first that raises.\<close>

fun run_ops :: "'op list \<Rightarrow> ree \<Rightarrow> ree_error + ree" where
  "run_ops [] r = Inr r"
| "run_ops (x # xs) r = bind_res (apply_op x r) (run_ops xs)"

lemma run_ops_draft:
  "ree_sealed r = None \<Longrightarrow> \<exists>r'. run_ops xs r = Inr r' \<and> ree_sealed r' = None"
proof (induction xs arbitrary: r)
  case Nil
  then show ?case by simp
next
  case (Cons x xs)
  from draft_accepted[OF Cons.prems, of x] obtain r1
    where "apply_op x r = Inr r1" "ree_sealed r1 = None" by blast
  with Cons.IH[of r1] show ?case by simp
qed

lemma run_ops_valid:
  "\<lbrakk>ree_sealed r = None; subject_ok (ree_subject r); \<forall>x \<in> set xs. op_ok x\<rbrakk>
   \<Longrightarrow> \<exists>r'. run_ops xs r = Inr r' \<and> ree_sealed r' = None \<and> subject_ok (ree_subject r')"
proof (induction xs arbitrary: r)
  case Nil
  then show ?case by simp
next
  case (Cons x xs)
  from draft_accepted[OF Cons.prems(1), of x] obtain r1
    where r1: "apply_op x r = Inr r1" "ree_sealed r1 = None" by blast
  with Cons.prems have "subject_ok (ree_subject r1)" by (auto intro: keeps_valid)
  with Cons.IH[OF r1(2)] Cons.prems r1 show ?case by simp
qed

lemma run_ops_sealed:
  "ree_sealed r = Some s \<Longrightarrow> xs \<noteq> [] \<Longrightarrow> \<exists>m. run_ops xs r = Inl (Precondition_Error m)"
proof (cases xs)
  case (Cons x ys)
  assume "ree_sealed r = Some s"
  with sealed_refused[of r s x] Cons show ?thesis by auto
qed simp

end

section \<open>The code keeps the contract\<close>

datatype authoring =
    Replace_Definition ree_definition
  | Replace_Contents bundle_contents
  | Commit_Receipt run_receipt
  | Clear_Source

fun author :: "authoring \<Rightarrow> ree \<Rightarrow> ree_error + ree" where
  "author (Replace_Definition d) r = replace_definition r d"
| "author (Replace_Contents c) r = replace_contents r c"
| "author (Commit_Receipt receipt) r = commit_receipt r receipt"
| "author Clear_Source r = clear_source r"

fun authoring_ok :: "authoring \<Rightarrow> bool" where
  "authoring_ok (Replace_Definition d) = valid_definition d"
| "authoring_ok (Replace_Contents c) = valid_contents c"
| "authoring_ok (Commit_Receipt receipt) = valid_receipt receipt"
| "authoring_ok Clear_Source = True"

lemma valid_definition_clear_source:
  "valid_definition d \<Longrightarrow> valid_definition (d\<lparr>def_source := None\<rparr>)"
  by (simp add: valid_definition_def unique_experiments_Inr)

lemma valid_receipts_retained:
  assumes "valid_receipts rs"
  shows "valid_receipts (rs\<lparr>rcp_experiments := filter P (rcp_experiments rs)\<rparr>)"
  using assms by (auto simp: valid_receipts_def experiment_keys_match_Inr)

lemma valid_receipts_update:
  assumes "valid_receipts rs" and "valid_receipt receipt"
  shows "valid_receipts (receipt_updates receipt rs)"
proof (cases receipt)
  case (Run_Experiment r)
  let ?es = "AList.update (rer_experiment_name r) r (rcp_experiments rs)"
  from assms(1) have "dict_ok (rcp_experiments rs)" by (simp add: valid_receipts_def)
  then have "(name, receipt') \<in> set ?es \<Longrightarrow>
      (name, receipt') \<in> set (rcp_experiments rs) \<or> name = rer_experiment_name r \<and> receipt' = r"
    for name receipt' by (simp add: dict_ok_values_update split: if_splits)
  with assms Run_Experiment show ?thesis
    by (fastforce simp: valid_receipts_def experiment_keys_match_Inr)
qed (use assms in \<open>simp_all add: valid_receipts_def experiment_keys_match_Inr\<close>)

lemma valid_receipts_hardware_only:
  "valid_receipts rs \<Longrightarrow>
     valid_receipts (empty_receipts\<lparr>rcp_hardware_observation := rcp_hardware_observation rs\<rparr>)"
  by (simp add: valid_receipts_def empty_receipts_def experiment_keys_match_Inr)

lemma author_sealed:
  "ree_sealed r = Some s \<Longrightarrow> \<exists>m. author x r = Inl (Precondition_Error m)"
  by (cases x) (simp_all add: step_defs)

lemma author_draft:
  "ree_sealed r = None \<Longrightarrow> \<exists>r'. author x r = Inr r' \<and> ree_sealed r' = None"
  by (cases x) (simp_all add: step_defs Let_def)

lemma author_valid:
  assumes "ree_sealed r = None" "authoring_ok x" "valid_subject (ree_subject r)"
    and "author x r = Inr r'"
  shows "valid_subject (ree_subject r')"
  using assms
  by (cases x) (auto simp: step_defs Let_def valid_subject_def
    intro: valid_receipts_retained valid_receipts_update valid_receipts_hardware_only
      valid_definition_clear_source)

interpretation authoring: authoring_ops author authoring_ok valid_subject
  by unfold_locales (simp_all add: author_sealed author_draft author_valid)

text \<open>The run of the interface, written over the code's transitions.\<close>

fun author_all :: "authoring list \<Rightarrow> ree \<Rightarrow> ree_error + ree" where
  "author_all [] r = Inr r"
| "author_all (x # xs) r = bind_res (author x r) (author_all xs)"

lemma author_all_run_ops: "author_all xs r = authoring.run_ops xs r"
proof (induction xs arbitrary: r)
  case (Cons x xs)
  then show ?case by (cases "author x r") simp_all
qed simp

section \<open>Facts about the transitions\<close>

lemma author_valid_ree:
  assumes "ree_sealed r = None" "valid_subject (ree_subject r)" "author x r = Inr r'"
    and "authoring_ok x"
  shows "valid_ree H r' \<and> ree_status r' = Draft"
proof -
  from author_draft[OF assms(1), of x] assms(3) have "ree_sealed r' = None" by auto
  moreover from assms have "valid_subject (ree_subject r')" by (auto intro: author_valid)
  ultimately show ?thesis by (simp add: valid_ree_def valid_seal_Inr ree_status_def)
qed

lemma replace_definition_receipts:
  assumes "replace_definition r d = Inr r'"
  defines "old \<equiv> sub_receipts (ree_subject r)" and "new \<equiv> sub_receipts (ree_subject r')"
  shows "new = old\<lparr>rcp_experiments := rcp_experiments new\<rparr>"
    and "map_of (rcp_experiments new) name =
      (if name \<in> set (map exp_name (def_experiments (sub_definition (ree_subject r)))) \<and>
          name \<in> set (map exp_name (def_experiments d))
       then map_of (rcp_experiments old) name else None)"
proof -
  let ?P = "\<lambda>name. name \<in> set (map exp_name (def_experiments (sub_definition (ree_subject r)))) \<inter>
    set (map exp_name (def_experiments d))"
  from assms have new: "new = old\<lparr>rcp_experiments := filter (\<lambda>(name, x). ?P name)
      (rcp_experiments old)\<rparr>"
    by (auto simp: replace_definition_def Let_def split: if_splits)
  then show "new = old\<lparr>rcp_experiments := rcp_experiments new\<rparr>" by simp
  from new have "rcp_experiments new = filter (\<lambda>(name, x). ?P name) (rcp_experiments old)" by simp
  then have "map_of (rcp_experiments new) name =
      (if ?P name then map_of (rcp_experiments old) name else None)"
    by (simp only: map_of_filter_key[where P = ?P])
  then show "map_of (rcp_experiments new) name =
      (if name \<in> set (map exp_name (def_experiments (sub_definition (ree_subject r)))) \<and>
          name \<in> set (map exp_name (def_experiments d))
       then map_of (rcp_experiments old) name else None)"
    by (simp only: Int_iff)
qed

lemma record_seal_Inr:
  "record_seal H r t0 sig = Inr r' \<longleftrightarrow> ree_sealed r = None \<and>
     r' = r\<lparr>ree_sealed := Some \<lparr>seal_sealed_at = t0, seal_ree_digest = H (ree_subject r),
       seal_signature = sig\<rparr>\<rparr>"
  by (auto simp: record_seal_def subject_digest_def)

section \<open>A draft for the examples\<close>

definition empty_catalog :: ree_catalog where
  "empty_catalog = \<lparr>cat_description = [], cat_version = [], cat_website = [],
     cat_keywords = [], cat_contributors = [], cat_corresponding_author = None\<rparr>"

definition new_definition :: "string \<Rightarrow> ree_definition" where
  "new_definition name = \<lparr>def_name = name, def_catalog = empty_catalog, def_source = None,
     def_build_runtime = None, def_test_activation = None, def_hardware = None,
     def_experiments = []\<rparr>"

definition new_ree :: "string \<Rightarrow> ree" where
  "new_ree name = \<lparr>ree_subject = \<lparr>sub_schema_version = 1, sub_definition = new_definition name,
     sub_receipts = empty_receipts, sub_contents = []\<rparr>, ree_sealed = None\<rparr>"

lemma new_definition_valid [simp]: "valid_definition (new_definition name)"
  by (simp add: new_definition_def valid_definition_def opt_ok_def unique_experiments_Inr)

lemma new_ree_simps [simp]:
  "ree_sealed (new_ree name) = None"
  "valid_subject (ree_subject (new_ree name))"
  by (simp_all add: new_ree_def valid_subject_def)

section \<open>Properties\<close>

text \<open>
  Property C5. Any sequence of authoring transitions whose arguments are valid, started on a
  valid draft, runs to its end: no step raises, the REE is a draft throughout, and the document
  it leaves satisfies every validator of the model, although \<open>model_copy\<close> runs none of them.
\<close>

theorem authoring_keeps_documents_valid:
  assumes "ree_sealed r = None" and "valid_subject (ree_subject r)"
    and "\<forall>x \<in> set xs. authoring_ok x"
  shows "\<exists>r'. author_all xs r = Inr r' \<and> ree_status r' = Draft \<and> valid_ree H r'"
proof -
  from authoring.run_ops_valid[OF assms] obtain r'
    where "author_all xs r = Inr r'" "ree_sealed r' = None" "valid_subject (ree_subject r')"
    by (auto simp: author_all_run_ops)
  then show ?thesis by (simp add: valid_ree_def valid_seal_Inr ree_status_def)
qed

theorem authoring_keeps_documents_valid_witness:
  "\<exists>r'. author_all [Replace_Definition (new_definition ''b''), Clear_Source]
     (new_ree ''a'') = Inr r' \<and> ree_status r' = Draft \<and> valid_ree (\<lambda>_. ''h'') r'"
  by (rule authoring_keeps_documents_valid) simp_all

text \<open>
  Property C6. Sealing freezes: the sealed REE carries the digest of the very subject that was
  sealed, \<open>validate_seal\<close> accepts it, every non-empty authoring sequence on it raises
  \<open>ReePreconditionError\<close>, so does sealing it again, and, where the digest is injective, the
  seal accepts no other subject.
\<close>

theorem seal_freezes:
  assumes "record_seal H r sealed_at sig = Inr r'"
  shows "ree_status r' = Sealed \<and> ree_subject r' = ree_subject r \<and>
    validate_seal H r' = Inr () \<and>
    (\<forall>x xs. \<exists>m. author_all (x # xs) r' = Inl (Precondition_Error m)) \<and>
    (\<forall>t g. \<exists>m. record_seal H r' t g = Inl (Precondition_Error m)) \<and>
    (inj H \<longrightarrow> (\<forall>s. validate_seal H (r'\<lparr>ree_subject := s\<rparr>) = Inr () \<longleftrightarrow> s = ree_subject r))"
proof -
  from assms have r': "ree_sealed r' = Some \<lparr>seal_sealed_at = sealed_at,
      seal_ree_digest = H (ree_subject r), seal_signature = sig\<rparr>"
    "ree_subject r' = ree_subject r" by (auto simp: record_seal_Inr)
  from authoring.run_ops_sealed[OF r'(1)]
  have "\<exists>m. author_all (x # xs) r' = Inl (Precondition_Error m)" for x xs
    by (simp only: author_all_run_ops) blast
  then show ?thesis
    by (auto simp: r' ree_status_def validate_seal_eq valid_seal_Inr record_seal_def inj_eq)
qed

theorem seal_freezes_witness:
  "\<exists>r'. record_seal (\<lambda>s. def_name (sub_definition s)) (new_ree ''a'') 7 None = Inr r' \<and>
     ree_status r' = Sealed"
proof -
  have *: "record_seal (\<lambda>s. def_name (sub_definition s)) (new_ree ''a'') 7 None =
      Inr ((new_ree ''a'')\<lparr>ree_sealed := Some \<lparr>seal_sealed_at = 7, seal_ree_digest = ''a'',
        seal_signature = None\<rparr>\<rparr>)"
    by (simp add: record_seal_Inr) (simp add: new_ree_def new_definition_def)
  from seal_freezes[OF *] * show ?thesis by blast
qed

text \<open>
  Replacing the definition keeps exactly the experiment receipts whose experiment
  is declared both before and after; every other receipt and the inventory stay as they were, so
  that an edit never deletes evidence of the source, the build, the SBOM or the activation.
\<close>

theorem replace_definition_keeps_evidence:
  assumes "replace_definition r d = Inr r'"
  shows "sub_definition (ree_subject r') = d \<and>
    sub_contents (ree_subject r') = sub_contents (ree_subject r) \<and>
    sub_receipts (ree_subject r') = (sub_receipts (ree_subject r))
      \<lparr>rcp_experiments := rcp_experiments (sub_receipts (ree_subject r'))\<rparr> \<and>
    (\<forall>name. map_of (rcp_experiments (sub_receipts (ree_subject r'))) name =
      (if name \<in> set (map exp_name (def_experiments (sub_definition (ree_subject r)))) \<and>
          name \<in> set (map exp_name (def_experiments d))
       then map_of (rcp_experiments (sub_receipts (ree_subject r))) name else None))"
  using replace_definition_receipts[OF assms] assms
  by (auto simp: replace_definition_def Let_def split: if_splits)

theorem replace_definition_keeps_evidence_witness:
  "\<exists>r'. replace_definition (new_ree ''a'') (new_definition ''b'') = Inr r' \<and>
     sub_definition (ree_subject r') = new_definition ''b''"
proof -
  obtain r' where *: "replace_definition (new_ree ''a'') (new_definition ''b'') = Inr r'"
    by (simp add: replace_definition_def Let_def)
  from replace_definition_keeps_evidence[OF *] * show ?thesis by blast
qed

end
