(* ===== verification/Ree_Audit.thy ===== *)
theory Ree_Audit
  imports Ree_Transitions
begin

text \<open>
  The audit of \<open>domain/ree/audit.py\<close>: for every step, whether the receipt the REE carries
  still speaks for what it now declares, and whether the bytes it attests to travel in the
  bundle. One function per \<open>_audit_*_step\<close>, composed by \<open>audit\<close>.

  The specification \<open>evidence_holds\<close> says, without reasons or verdicts, when every receipt
  agrees with the declaration and with the receipts it was derived from; the functional
  refinement is \<open>stale_steps_Nil_iff\<close>.
\<close>

section \<open>Vocabulary\<close>

datatype evidence_status = Ev_Missing | Ev_Current | Ev_Stale | Ev_Not_Applicable

datatype payload_status = Pl_Present | Pl_Omitted | Pl_Not_Applicable

record step_audit =
  sa_evidence :: evidence_status
  sa_payload :: payload_status
  sa_receipt_run_id :: "string option"
  sa_reasons :: "string list"

record experiment_audit =
  ea_name :: string
  ea_run :: step_audit

record ree_audit =
  ra_source :: step_audit
  ra_evaluation :: step_audit
  ra_hardware :: step_audit
  ra_runtime :: step_audit
  ra_sbom :: step_audit
  ra_sbom_cross_check :: step_audit
  ra_test_activation :: step_audit
  ra_experiments :: "experiment_audit list"

text \<open>\<open>_STEP_FIELDS\<close>: the fields of \<open>ReeAudit\<close> whose type is \<open>StepAudit\<close>, in order.\<close>

definition step_fields :: "ree_audit \<Rightarrow> (string \<times> step_audit) list" where
  "step_fields a =
     [(''source'', ra_source a), (''evaluation'', ra_evaluation a),
      (''hardware'', ra_hardware a), (''runtime'', ra_runtime a), (''sbom'', ra_sbom a),
      (''sbom_cross_check'', ra_sbom_cross_check a),
      (''test_activation'', ra_test_activation a)]"

definition stale_steps :: "ree_audit \<Rightarrow> (string \<times> step_audit) list" where
  "stale_steps a =
     filter (\<lambda>(name, step). sa_evidence step = Ev_Stale) (step_fields a) @
     map (\<lambda>e. (''experiment '' @ [CHR 0x27] @ ea_name e @ [CHR 0x27], ea_run e))
       (filter (\<lambda>e. sa_evidence (ea_run e) = Ev_Stale) (ra_experiments a))"

section \<open>What one step is audited against\<close>

record audit_subject =
  as_definition :: ree_definition
  as_receipts :: ree_receipts
  as_content_digests :: "string set"
  as_bundle_settled :: bool

definition subject_of :: "ree \<Rightarrow> audit_subject" where
  "subject_of r =
     \<lparr>as_definition = sub_definition (ree_subject r), as_receipts = sub_receipts (ree_subject r),
      as_content_digests = set (map be_digest (sub_contents (ree_subject r))),
      as_bundle_settled = (ree_sealed r \<noteq> None)\<rparr>"

definition payload :: "audit_subject \<Rightarrow> string option \<Rightarrow> bool \<Rightarrow> payload_status" where
  "payload s digest applicable =
     (if \<not> (applicable \<and> as_bundle_settled s) then Pl_Not_Applicable
      else if digest \<noteq> None \<and> the digest \<in> as_content_digests s then Pl_Present
      else Pl_Omitted)"

definition orphaned_receipt_reason :: string where
  "orphaned_receipt_reason = ''the REE no longer declares what this evidence is about''"

definition evidence_standing :: "bool \<Rightarrow> bool \<Rightarrow> bool \<Rightarrow> evidence_status" where
  "evidence_standing applicable has_receipt complaints =
     (if \<not> has_receipt then (if applicable then Ev_Missing else Ev_Not_Applicable)
      else if complaints \<or> \<not> applicable then Ev_Stale else Ev_Current)"

definition audit_step ::
  "string option \<Rightarrow> string list \<Rightarrow> bool \<Rightarrow> payload_status \<Rightarrow> step_audit" where
  "audit_step run_id reasons applicable pay =
     (if \<not> applicable \<and> run_id = None
      then \<lparr>sa_evidence = Ev_Not_Applicable, sa_payload = Pl_Not_Applicable,
            sa_receipt_run_id = None, sa_reasons = []\<rparr>
      else
        let complaints = (if reasons \<noteq> [] then reasons
              else if applicable then [] else [orphaned_receipt_reason])
        in \<lparr>sa_evidence = evidence_standing applicable (run_id \<noteq> None) (complaints \<noteq> []),
            sa_payload = pay, sa_receipt_run_id = run_id, sa_reasons = complaints\<rparr>)"

text \<open>\<open>reasons or (() if receipt else (message,))\<close>, and a conditional \<open>append\<close>.\<close>

definition reasons_or :: "string list \<Rightarrow> bool \<Rightarrow> string \<Rightarrow> string list" where
  "reasons_or reasons has_receipt message =
     (if reasons \<noteq> [] then reasons else if has_receipt then [] else [message])"

definition complain :: "bool \<Rightarrow> string \<Rightarrow> string list" where
  "complain c message = (if c then [message] else [])"

text \<open>\<open>if upstream and receipt.digest != upstream.digest\<close>.\<close>

definition moved :: "'b option \<Rightarrow> ('b \<Rightarrow> 'c) \<Rightarrow> 'c \<Rightarrow> bool" where
  "moved upstream field recorded =
     (case upstream of None \<Rightarrow> False | Some u \<Rightarrow> recorded \<noteq> field u)"

section \<open>The steps\<close>

definition audit_source_step :: "audit_subject \<Rightarrow> step_audit" where
  "audit_source_step s =
     (let declared = def_source (as_definition s);
          receipt = rcp_source (as_receipts s);
          reasons = (case (declared, receipt) of
              (Some d, Some r) \<Rightarrow>
                complain (asr_origin_url r \<noteq> src_origin_url d) ''source origin changed'' @
                complain (asr_source_type r \<noteq> src_source_type d) ''source type changed'' @
                complain (asr_requested_ref r \<noteq> src_requested_ref d)
                  ''requested source reference changed''
            | _ \<Rightarrow> [])
      in audit_step (map_option env_run_id receipt)
           (reasons_or reasons (receipt \<noteq> None) ''source has not been acquired'')
           (declared \<noteq> None) (payload s (map_option asr_snapshot_digest receipt) True))"

definition audit_evaluation_step :: "audit_subject \<Rightarrow> step_audit" where
  "audit_evaluation_step s =
     (let receipt = rcp_evaluation (as_receipts s);
          source = rcp_source (as_receipts s);
          reasons = (case receipt of None \<Rightarrow> []
            | Some r \<Rightarrow> complain (moved source asr_snapshot_digest (evr_snapshot_digest r))
                ''source snapshot changed'')
      in audit_step (map_option env_run_id receipt)
           (reasons_or reasons (receipt \<noteq> None) ''reproducibility has not been evaluated'')
           (def_source (as_definition s) \<noteq> None)
           (payload s (map_option evr_report_digest receipt) True))"

definition audit_hardware_step :: "audit_subject \<Rightarrow> step_audit" where
  "audit_hardware_step s =
     (let receipt = rcp_hardware_observation (as_receipts s)
      in audit_step (map_option env_run_id receipt)
           (reasons_or [] (receipt \<noteq> None) ''hardware has not been observed'')
           (def_hardware (as_definition s) \<noteq> None \<or> receipt \<noteq> None) Pl_Not_Applicable)"

definition runtime_is_declared :: "audit_subject \<Rightarrow> bool" where
  "runtime_is_declared s =
     (case def_build_runtime (as_definition s) of
        None \<Rightarrow> False | Some b \<Rightarrow> bld_runtime_path b \<noteq> None)"

definition audit_runtime_step :: "audit_subject \<Rightarrow> step_audit" where
  "audit_runtime_step s =
     (let receipt = rcp_build (as_receipts s);
          reasons = (case receipt of None \<Rightarrow> []
            | Some r \<Rightarrow>
                complain (moved (rcp_source (as_receipts s)) asr_snapshot_digest
                  (brr_snapshot_digest r)) ''source snapshot changed'' @
                (case def_build_runtime (as_definition s) of
                   None \<Rightarrow> [''runtime build definition was removed'']
                 | Some b \<Rightarrow>
                     complain (brr_build_runtime_script_digest r \<noteq> bld_script_digest b)
                       ''runtime build script changed'' @
                     complain (Some (brr_runtime_path r) \<noteq> bld_runtime_path b)
                       ''runtime path changed''))
      in audit_step (map_option env_run_id receipt)
           (reasons_or reasons (receipt \<noteq> None) ''runtime has not been built'')
           (runtime_is_declared s) (payload s (map_option brr_produced_runtime_digest receipt) True))"

definition audit_sbom_step :: "audit_subject \<Rightarrow> step_audit" where
  "audit_sbom_step s =
     (let receipt = rcp_sbom (as_receipts s);
          reasons = (case receipt of None \<Rightarrow> []
            | Some r \<Rightarrow> complain (moved (rcp_build (as_receipts s)) brr_produced_runtime_digest
                (gsr_runtime_digest r)) ''runtime changed'')
      in audit_step (map_option env_run_id receipt)
           (reasons_or reasons (receipt \<noteq> None) ''SBOM has not been generated'')
           (runtime_is_declared s) (payload s (map_option gsr_sbom_digest receipt) True))"

definition audit_sbom_cross_check_step :: "audit_subject \<Rightarrow> step_audit" where
  "audit_sbom_cross_check_step s =
     (let receipt = rcp_sbom_cross_check (as_receipts s);
          reasons = (case receipt of None \<Rightarrow> []
            | Some r \<Rightarrow>
                complain (moved (rcp_sbom (as_receipts s)) gsr_sbom_digest (ccr_sbom_digest r))
                  ''SBOM changed'' @
                complain (moved (rcp_evaluation (as_receipts s)) evr_report_digest
                  (ccr_report_digest r)) ''reproducibility report changed'')
      in audit_step (map_option env_run_id receipt)
           (reasons_or reasons (receipt \<noteq> None) ''SBOM has not been cross-checked'')
           (def_source (as_definition s) \<noteq> None \<and> runtime_is_declared s) Pl_Not_Applicable)"

definition audit_test_activation_step :: "audit_subject \<Rightarrow> step_audit" where
  "audit_test_activation_step s =
     (let declared = def_test_activation (as_definition s);
          receipt = rcp_test_activation (as_receipts s);
          reasons = (case receipt of None \<Rightarrow> []
            | Some r \<Rightarrow>
                complain (moved (rcp_source (as_receipts s)) asr_snapshot_digest
                  (tar_snapshot_digest r)) ''source snapshot changed'' @
                (case declared of
                   None \<Rightarrow> [''activation definition was removed'']
                 | Some d \<Rightarrow>
                     complain (tar_run_script_digest r \<noteq> act_run_script_digest d)
                       ''activation script changed'' @
                     complain (tar_verify_script_digest r \<noteq> act_verify_script_digest d)
                       ''activation verification script changed'') @
                complain (moved (rcp_build (as_receipts s))
                  (\<lambda>b. Some (brr_produced_runtime_digest b)) (tar_runtime_digest r))
                  ''runtime changed'')
      in audit_step (map_option env_run_id receipt)
           (reasons_or reasons (receipt \<noteq> None) ''activation has not been tested'')
           (declared \<noteq> None) Pl_Not_Applicable)"

definition audit_experiment :: "audit_subject \<Rightarrow> experiment_definition \<Rightarrow> experiment_audit" where
  "audit_experiment s e =
     (let receipt = map_of (rcp_experiments (as_receipts s)) (exp_name e);
          reasons = (case receipt of None \<Rightarrow> []
            | Some r \<Rightarrow>
                complain (moved (rcp_source (as_receipts s)) asr_snapshot_digest
                  (rer_snapshot_digest r)) ''source snapshot changed'' @
                complain (rer_run_script_digest r \<noteq> exp_run_script_digest e)
                  ''experiment run script changed'' @
                complain (rer_verify_script_digest r \<noteq> exp_verify_script_digest e)
                  ''experiment verification script changed'' @
                complain (moved (rcp_build (as_receipts s))
                  (\<lambda>b. Some (brr_produced_runtime_digest b)) (rer_runtime_digest r))
                  ''runtime changed'')
      in \<lparr>ea_name = exp_name e,
          ea_run = audit_step (map_option env_run_id receipt)
            (reasons_or reasons (receipt \<noteq> None) ''experiment has not been run'') True
            (payload s (Option.bind receipt rer_produced_output_digest)
              (exp_output_paths e \<noteq> []))\<rparr>)"

definition audit_experiments_step :: "audit_subject \<Rightarrow> experiment_audit list" where
  "audit_experiments_step s =
     map (audit_experiment s) (def_experiments (as_definition s))"

definition audit :: "ree \<Rightarrow> ree_audit" where
  "audit r =
     (let s = subject_of r
      in \<lparr>ra_source = audit_source_step s, ra_evaluation = audit_evaluation_step s,
          ra_hardware = audit_hardware_step s, ra_runtime = audit_runtime_step s,
          ra_sbom = audit_sbom_step s, ra_sbom_cross_check = audit_sbom_cross_check_step s,
          ra_test_activation = audit_test_activation_step s,
          ra_experiments = audit_experiments_step s\<rparr>)"

section \<open>The specification\<close>

text \<open>A recorded digest agrees with the upstream receipt, when there is one.\<close>

definition agrees :: "'b option \<Rightarrow> ('b \<Rightarrow> 'c) \<Rightarrow> 'c \<Rightarrow> bool" where
  "agrees upstream field recorded = opt_ok (\<lambda>u. recorded = field u) upstream"

definition source_holds :: "ree_definition \<Rightarrow> acquire_source_receipt \<Rightarrow> bool" where
  "source_holds d r \<longleftrightarrow> (\<exists>s. def_source d = Some s \<and> asr_origin_url r = src_origin_url s \<and>
     asr_source_type r = src_source_type s \<and> asr_requested_ref r = src_requested_ref s)"

definition evaluation_holds :: "ree_definition \<Rightarrow> ree_receipts \<Rightarrow> evaluate_receipt \<Rightarrow> bool" where
  "evaluation_holds d rs r \<longleftrightarrow> def_source d \<noteq> None \<and>
     agrees (rcp_source rs) asr_snapshot_digest (evr_snapshot_digest r)"

definition runtime_holds :: "ree_definition \<Rightarrow> ree_receipts \<Rightarrow> build_runtime_receipt \<Rightarrow> bool" where
  "runtime_holds d rs r \<longleftrightarrow>
     (\<exists>b. def_build_runtime d = Some b \<and> bld_runtime_path b = Some (brr_runtime_path r) \<and>
        brr_build_runtime_script_digest r = bld_script_digest b) \<and>
     agrees (rcp_source rs) asr_snapshot_digest (brr_snapshot_digest r)"

definition declares_runtime :: "ree_definition \<Rightarrow> bool" where
  "declares_runtime d \<longleftrightarrow> (\<exists>b. def_build_runtime d = Some b \<and> bld_runtime_path b \<noteq> None)"

definition sbom_holds :: "ree_definition \<Rightarrow> ree_receipts \<Rightarrow> generate_sbom_receipt \<Rightarrow> bool" where
  "sbom_holds d rs r \<longleftrightarrow> declares_runtime d \<and>
     agrees (rcp_build rs) brr_produced_runtime_digest (gsr_runtime_digest r)"

definition cross_check_holds :: "ree_definition \<Rightarrow> ree_receipts \<Rightarrow> cross_check_receipt \<Rightarrow> bool" where
  "cross_check_holds d rs r \<longleftrightarrow> def_source d \<noteq> None \<and> declares_runtime d \<and>
     agrees (rcp_sbom rs) gsr_sbom_digest (ccr_sbom_digest r) \<and>
     agrees (rcp_evaluation rs) evr_report_digest (ccr_report_digest r)"

definition activation_holds :: "ree_definition \<Rightarrow> ree_receipts \<Rightarrow> activation_receipt \<Rightarrow> bool" where
  "activation_holds d rs r \<longleftrightarrow>
     (\<exists>a. def_test_activation d = Some a \<and> tar_run_script_digest r = act_run_script_digest a \<and>
        tar_verify_script_digest r = act_verify_script_digest a) \<and>
     agrees (rcp_source rs) asr_snapshot_digest (tar_snapshot_digest r) \<and>
     agrees (rcp_build rs) (\<lambda>b. Some (brr_produced_runtime_digest b)) (tar_runtime_digest r)"

definition experiment_holds ::
  "ree_receipts \<Rightarrow> experiment_definition \<Rightarrow> experiment_receipt \<Rightarrow> bool" where
  "experiment_holds rs e r \<longleftrightarrow>
     rer_run_script_digest r = exp_run_script_digest e \<and>
     rer_verify_script_digest r = exp_verify_script_digest e \<and>
     agrees (rcp_source rs) asr_snapshot_digest (rer_snapshot_digest r) \<and>
     agrees (rcp_build rs) (\<lambda>b. Some (brr_produced_runtime_digest b)) (rer_runtime_digest r)"

text \<open>Every receipt about something declared agrees with it and with what it was derived from.\<close>

definition evidence_holds :: "ree_definition \<Rightarrow> ree_receipts \<Rightarrow> bool" where
  "evidence_holds d rs \<longleftrightarrow>
     opt_ok (source_holds d) (rcp_source rs) \<and>
     opt_ok (evaluation_holds d rs) (rcp_evaluation rs) \<and>
     opt_ok (runtime_holds d rs) (rcp_build rs) \<and>
     opt_ok (sbom_holds d rs) (rcp_sbom rs) \<and>
     opt_ok (cross_check_holds d rs) (rcp_sbom_cross_check rs) \<and>
     opt_ok (activation_holds d rs) (rcp_test_activation rs) \<and>
     (\<forall>e \<in> set (def_experiments d).
        opt_ok (experiment_holds rs e) (map_of (rcp_experiments rs) (exp_name e)))"

section \<open>What each step reports\<close>

lemma complain_Nil [simp]: "complain c m = [] \<longleftrightarrow> \<not> c"
  by (simp add: complain_def)

lemma moved_iff: "moved u f v \<longleftrightarrow> \<not> agrees u f v"
  by (cases u) (auto simp: moved_def agrees_def)

lemma audit_step_evidence:
  "sa_evidence (audit_step None reasons applicable pay) =
     (if applicable then Ev_Missing else Ev_Not_Applicable)"
  "sa_evidence (audit_step (Some run_id) (reasons_or complaints True m) applicable pay) =
     (if complaints = [] \<and> applicable then Ev_Current else Ev_Stale)"
  by (auto simp: audit_step_def evidence_standing_def reasons_or_def)

lemma audit_step_payload:
  "sa_payload (audit_step (map_option f receipt) reasons applicable pay) =
     (if receipt = None \<and> \<not> applicable then Pl_Not_Applicable else pay)"
  by (cases receipt) (auto simp: audit_step_def Let_def)

lemma audit_step_run_id: "sa_receipt_run_id (audit_step run_id reasons applicable pay) = run_id"
  by (simp add: audit_step_def Let_def)

text \<open>The verdict on an optional receipt, from whether it holds and whether it applies.\<close>

definition verdict :: "'r option \<Rightarrow> bool \<Rightarrow> ('r \<Rightarrow> bool) \<Rightarrow> evidence_status" where
  "verdict receipt applicable holds =
     (case receipt of
        None \<Rightarrow> if applicable then Ev_Missing else Ev_Not_Applicable
      | Some r \<Rightarrow> if holds r then Ev_Current else Ev_Stale)"

lemma verdict_Stale [simp]:
  "verdict receipt applicable holds = Ev_Stale \<longleftrightarrow> \<not> opt_ok holds receipt"
  by (cases receipt) (auto simp: verdict_def)

lemma verdict_Current:
  "verdict receipt applicable holds = Ev_Current \<longleftrightarrow> (\<exists>r. receipt = Some r \<and> holds r)"
  by (cases receipt) (auto simp: verdict_def)

lemmas audit_simps = audit_step_evidence verdict_def moved_iff Let_def

lemma source_evidence:
  "sa_evidence (audit_source_step s) =
     verdict (rcp_source (as_receipts s)) (def_source (as_definition s) \<noteq> None)
       (source_holds (as_definition s))"
  by (auto simp: audit_source_step_def audit_simps source_holds_def split: option.splits)

lemma evaluation_evidence:
  "sa_evidence (audit_evaluation_step s) =
     verdict (rcp_evaluation (as_receipts s)) (def_source (as_definition s) \<noteq> None)
       (evaluation_holds (as_definition s) (as_receipts s))"
  by (auto simp: audit_evaluation_step_def audit_simps evaluation_holds_def split: option.splits)

lemma hardware_evidence:
  "sa_evidence (audit_hardware_step s) =
     verdict (rcp_hardware_observation (as_receipts s)) (def_hardware (as_definition s) \<noteq> None)
       (\<lambda>_. True)"
  by (auto simp: audit_hardware_step_def audit_simps split: option.splits)

lemma runtime_is_declared_iff: "runtime_is_declared s \<longleftrightarrow> declares_runtime (as_definition s)"
  by (auto simp: runtime_is_declared_def declares_runtime_def split: option.splits)

lemma runtime_evidence:
  "sa_evidence (audit_runtime_step s) =
     verdict (rcp_build (as_receipts s)) (declares_runtime (as_definition s))
       (runtime_holds (as_definition s) (as_receipts s))"
  by (auto simp: audit_runtime_step_def audit_simps runtime_holds_def runtime_is_declared_iff
      declares_runtime_def split: option.splits)

lemma sbom_evidence:
  "sa_evidence (audit_sbom_step s) =
     verdict (rcp_sbom (as_receipts s)) (declares_runtime (as_definition s))
       (sbom_holds (as_definition s) (as_receipts s))"
  by (auto simp: audit_sbom_step_def audit_simps sbom_holds_def runtime_is_declared_iff
      split: option.splits)

lemma cross_check_evidence:
  "sa_evidence (audit_sbom_cross_check_step s) =
     verdict (rcp_sbom_cross_check (as_receipts s))
       (def_source (as_definition s) \<noteq> None \<and> declares_runtime (as_definition s))
       (cross_check_holds (as_definition s) (as_receipts s))"
  by (auto simp: audit_sbom_cross_check_step_def audit_simps cross_check_holds_def
      runtime_is_declared_iff split: option.splits)

lemma activation_evidence:
  "sa_evidence (audit_test_activation_step s) =
     verdict (rcp_test_activation (as_receipts s)) (def_test_activation (as_definition s) \<noteq> None)
       (activation_holds (as_definition s) (as_receipts s))"
  by (auto simp: audit_test_activation_step_def audit_simps activation_holds_def
      split: option.splits)

lemma experiment_evidence:
  "sa_evidence (ea_run (audit_experiment s e)) =
     verdict (map_of (rcp_experiments (as_receipts s)) (exp_name e)) True
       (experiment_holds (as_receipts s) e)"
  by (auto simp: audit_experiment_def audit_simps experiment_holds_def split: option.splits)

lemmas step_evidence = source_evidence evaluation_evidence hardware_evidence runtime_evidence
  sbom_evidence cross_check_evidence activation_evidence experiment_evidence

lemma audit_evidence:
  fixes r
  defines "d \<equiv> sub_definition (ree_subject r)" and "rs \<equiv> sub_receipts (ree_subject r)"
  shows "sa_evidence (ra_source (audit r)) =
      verdict (rcp_source rs) (def_source d \<noteq> None) (source_holds d)"
    and "sa_evidence (ra_evaluation (audit r)) =
      verdict (rcp_evaluation rs) (def_source d \<noteq> None) (evaluation_holds d rs)"
    and "sa_evidence (ra_hardware (audit r)) =
      verdict (rcp_hardware_observation rs) (def_hardware d \<noteq> None) (\<lambda>_. True)"
    and "sa_evidence (ra_runtime (audit r)) =
      verdict (rcp_build rs) (declares_runtime d) (runtime_holds d rs)"
    and "sa_evidence (ra_sbom (audit r)) =
      verdict (rcp_sbom rs) (declares_runtime d) (sbom_holds d rs)"
    and "sa_evidence (ra_sbom_cross_check (audit r)) =
      verdict (rcp_sbom_cross_check rs) (def_source d \<noteq> None \<and> declares_runtime d)
        (cross_check_holds d rs)"
    and "sa_evidence (ra_test_activation (audit r)) =
      verdict (rcp_test_activation rs) (def_test_activation d \<noteq> None) (activation_holds d rs)"
  unfolding d_def rs_def by (simp_all add: audit_def Let_def step_evidence subject_of_def)

lemma audit_experiments:
  "ra_experiments (audit r) =
     map (audit_experiment (subject_of r)) (def_experiments (sub_definition (ree_subject r)))"
  by (simp add: audit_def Let_def audit_experiments_step_def subject_of_def)

lemma stale_steps_Nil_iff:
  "stale_steps (audit r) = [] \<longleftrightarrow>
     evidence_holds (sub_definition (ree_subject r)) (sub_receipts (ree_subject r))"
  by (auto simp: stale_steps_def step_fields_def audit_evidence audit_experiments
      evidence_holds_def filter_empty_conv experiment_evidence subject_of_def)

text \<open>A stale step names the run its receipt came from.\<close>

definition stale_named :: "step_audit \<Rightarrow> bool" where
  "stale_named step \<longleftrightarrow> sa_evidence step = Ev_Stale \<longrightarrow> sa_receipt_run_id step \<noteq> None"

lemma stale_named_step: "stale_named (audit_step run_id reasons applicable pay)"
  by (auto simp: stale_named_def audit_step_def evidence_standing_def Let_def)

lemma stale_named_audit:
  "(name, step) \<in> set (step_fields (audit r)) \<Longrightarrow> stale_named step"
  "e \<in> set (ra_experiments (audit r)) \<Longrightarrow> stale_named (ea_run e)"
  by (auto simp: step_fields_def audit_def audit_experiments_step_def audit_source_step_def
      audit_evaluation_step_def audit_hardware_step_def audit_runtime_step_def
      audit_sbom_step_def audit_sbom_cross_check_step_def audit_test_activation_step_def
      audit_experiment_def Let_def stale_named_step simp del: not_None_eq)

lemma stale_steps_named:
  "(name, step) \<in> set (stale_steps (audit r)) \<Longrightarrow>
     sa_evidence step = Ev_Stale \<and> sa_receipt_run_id step \<noteq> None"
  by (auto simp: stale_steps_def stale_named_def dest: stale_named_audit)

text \<open>The SBOM's and the cross-check's verdicts do not read the source receipt.\<close>

lemma holds_ignores_source:
  "sbom_holds d (rs\<lparr>rcp_source := x\<rparr>) = sbom_holds d rs"
  "cross_check_holds d (rs\<lparr>rcp_source := x\<rparr>) = cross_check_holds d rs"
  by (auto simp: fun_eq_iff sbom_holds_def cross_check_holds_def)

lemma payload_present_iff:
  "payload s digest applicable = Pl_Present \<longleftrightarrow>
     applicable \<and> as_bundle_settled s \<and> (\<exists>d. digest = Some d \<and> d \<in> as_content_digests s)"
  by (cases digest) (auto simp: payload_def)

lemma payload_draft: "\<not> as_bundle_settled s \<Longrightarrow> payload s digest applicable = Pl_Not_Applicable"
  by (simp add: payload_def)

section \<open>Receipts for the examples\<close>

definition example_envelope :: receipt_envelope where
  "example_envelope = \<lparr>env_schema_version = 1, env_run_id = ''r1'', env_started_at = 0,
     env_finished_at = 0, env_duration_ms = 0, env_recorded_at = 0\<rparr>"

definition example_source_receipt :: "string \<Rightarrow> acquire_source_receipt" where
  "example_source_receipt snap = receipt_envelope.extend example_envelope
     (acquire_source_receipt.fields (Some ''u'') Git None None None snap)"

definition example_build_receipt :: "string \<Rightarrow> string \<Rightarrow> string \<Rightarrow> build_runtime_receipt" where
  "example_build_receipt snap script out = receipt_envelope.extend example_envelope
     (build_runtime_receipt.fields snap reserved_build_script script
       \<lparr>wd_status = Clean, wd_changed_paths = [], wd_changed_path_count = 0\<rparr> ''img.tar'' out)"

lemmas example_receipts = example_envelope_def example_source_receipt_def
  example_build_receipt_def receipt_envelope.defs acquire_source_receipt.defs
  build_runtime_receipt.defs

definition example_ree :: ree where
  "example_ree = \<lparr>ree_subject = \<lparr>sub_schema_version = 1,
     sub_definition = (new_definition ''a'')
       \<lparr>def_source := Some \<lparr>src_origin_url = Some ''u'', src_source_type = Git,
          src_requested_ref = None\<rparr>,
        def_build_runtime := Some \<lparr>bld_script_path = reserved_build_script,
          bld_script_digest = ''b'', bld_script_size = 3, bld_runtime_path = Some ''img.tar''\<rparr>\<rparr>,
     sub_receipts = empty_receipts
       \<lparr>rcp_source := Some (example_source_receipt ''s''),
        rcp_build := Some (example_build_receipt ''s'' ''b'' ''o'')\<rparr>,
     sub_contents = []\<rparr>, ree_sealed = None\<rparr>"

lemmas example_ree_simps = example_ree_def new_definition_def empty_receipts_def example_receipts

section \<open>Properties\<close>

text \<open>
  Property C1. \<open>stale_steps\<close> misses no case: it is empty exactly when every receipt the REE
  carries agrees with the declaration it is about and with the receipts it was derived from, a
  specification that mentions neither reasons nor verdicts; and every step it lists is stale and
  names the run whose receipt no longer holds.
\<close>

theorem stale_steps_complete:
  "(stale_steps (audit r) = [] \<longleftrightarrow>
      evidence_holds (sub_definition (ree_subject r)) (sub_receipts (ree_subject r))) \<and>
   (\<forall>(name, step) \<in> set (stale_steps (audit r)).
      sa_evidence step = Ev_Stale \<and> sa_receipt_run_id step \<noteq> None)"
  using stale_steps_Nil_iff[of r] stale_steps_named[of _ _ r] by blast

theorem stale_steps_complete_witness:
  "stale_steps (audit example_ree) = []"
proof -
  have "evidence_holds (sub_definition (ree_subject example_ree))
      (sub_receipts (ree_subject example_ree))"
    by (simp add: evidence_holds_def source_holds_def runtime_holds_def agrees_def
        example_ree_simps)
  with stale_steps_complete[of example_ree] show ?thesis by blast
qed

text \<open>
  A step's evidence is current exactly when its receipt exists and holds: the
  runtime is current if and only if a build is declared with a runtime path, the receipt's build
  script digest and runtime path are the declared ones, and the snapshot it was built from is the
  one last acquired (if any).
\<close>

theorem runtime_current_iff:
  "sa_evidence (ra_runtime (audit r)) = Ev_Current \<longleftrightarrow>
     (\<exists>receipt build. rcp_build (sub_receipts (ree_subject r)) = Some receipt \<and>
        def_build_runtime (sub_definition (ree_subject r)) = Some build \<and>
        bld_runtime_path build = Some (brr_runtime_path receipt) \<and>
        bld_script_digest build = brr_build_runtime_script_digest receipt \<and>
        (case rcp_source (sub_receipts (ree_subject r)) of
           None \<Rightarrow> True
         | Some source \<Rightarrow> brr_snapshot_digest receipt = asr_snapshot_digest source))"
  by (auto simp: audit_evidence verdict_Current runtime_holds_def agrees_def opt_ok_def)

text \<open>
  Acquiring the source again with a different snapshot makes the evaluation, the
  runtime and the activation that were recorded against the old one stale, and every declared
  experiment with a receipt from it; the hardware observation, the SBOM and the cross-check keep
  the verdict they had.
\<close>

theorem new_snapshot_invalidates:
  assumes "commit_receipt r (Acquire_Source s) = Inr r'"
    and "rcp_build (sub_receipts (ree_subject r)) = Some b"
    and "brr_snapshot_digest b \<noteq> asr_snapshot_digest s"
  shows "sa_evidence (ra_runtime (audit r')) = Ev_Stale \<and>
    (\<forall>e. rcp_evaluation (sub_receipts (ree_subject r)) = Some e \<and>
        evr_snapshot_digest e \<noteq> asr_snapshot_digest s \<longrightarrow>
        sa_evidence (ra_evaluation (audit r')) = Ev_Stale) \<and>
    (\<forall>a. rcp_test_activation (sub_receipts (ree_subject r)) = Some a \<and>
        tar_snapshot_digest a \<noteq> asr_snapshot_digest s \<longrightarrow>
        sa_evidence (ra_test_activation (audit r')) = Ev_Stale) \<and>
    (\<forall>d \<in> set (def_experiments (sub_definition (ree_subject r))). \<forall>x.
        map_of (rcp_experiments (sub_receipts (ree_subject r))) (exp_name d) = Some x \<and>
        rer_snapshot_digest x \<noteq> asr_snapshot_digest s \<longrightarrow>
        sa_evidence (ea_run (audit_experiment (subject_of r') d)) = Ev_Stale) \<and>
    sa_evidence (ra_hardware (audit r')) = sa_evidence (ra_hardware (audit r)) \<and>
    sa_evidence (ra_sbom (audit r')) = sa_evidence (ra_sbom (audit r)) \<and>
    sa_evidence (ra_sbom_cross_check (audit r')) = sa_evidence (ra_sbom_cross_check (audit r))"
proof -
  from assms(1) have "ree_subject r' = (ree_subject r)
      \<lparr>sub_receipts := (sub_receipts (ree_subject r))\<lparr>rcp_source := Some s\<rparr>\<rparr>"
    by (auto simp: commit_receipt_def Let_def split: if_splits)
  with assms(2,3) show ?thesis
    by (simp add: audit_evidence experiment_evidence subject_of_def runtime_holds_def
        evaluation_holds_def activation_holds_def experiment_holds_def agrees_def
        holds_ignores_source)
qed

theorem new_snapshot_invalidates_witness:
  "\<exists>r'. commit_receipt example_ree (Acquire_Source (example_source_receipt ''t'')) = Inr r' \<and>
     sa_evidence (ra_runtime (audit r')) = Ev_Stale"
proof -
  obtain r' where *: "commit_receipt example_ree (Acquire_Source (example_source_receipt ''t''))
      = Inr r'" by (simp add: commit_receipt_def example_ree_def Let_def)
  from new_snapshot_invalidates[OF *, of "example_build_receipt ''s'' ''b'' ''o''"]
  have "sa_evidence (ra_runtime (audit r')) = Ev_Stale"
    by (simp add: example_ree_simps)
  with * show ?thesis by blast
qed

text \<open>
  Removing the source leaves no stale evidence behind: whatever the REE held, the
  result carries no receipt but the hardware observation, its audit lists no stale step, and its
  inventory is empty.
\<close>

theorem clear_source_leaves_nothing_stale:
  assumes "clear_source r = Inr r'"
  shows "stale_steps (audit r') = [] \<and>
    sa_evidence (ra_source (audit r')) = Ev_Not_Applicable \<and>
    sa_evidence (ra_evaluation (audit r')) = Ev_Not_Applicable \<and>
    sa_evidence (ra_sbom_cross_check (audit r')) = Ev_Not_Applicable \<and>
    (\<forall>e \<in> set (ra_experiments (audit r')). sa_evidence (ea_run e) = Ev_Missing) \<and>
    sa_evidence (ra_hardware (audit r')) = sa_evidence (ra_hardware (audit r)) \<and>
    sub_contents (ree_subject r') = []"
proof -
  from assms have "ree_subject r' = (ree_subject r)
      \<lparr>sub_definition := (sub_definition (ree_subject r))\<lparr>def_source := None\<rparr>,
       sub_receipts := empty_receipts\<lparr>rcp_hardware_observation :=
         rcp_hardware_observation (sub_receipts (ree_subject r))\<rparr>, sub_contents := []\<rparr>"
    by (auto simp: clear_source_def Let_def split: if_splits)
  then show ?thesis
    by (auto simp: stale_steps_Nil_iff evidence_holds_def audit_evidence audit_experiments
        experiment_evidence subject_of_def empty_receipts_def verdict_def)
qed

theorem clear_source_leaves_nothing_stale_witness:
  "\<exists>r'. clear_source example_ree = Inr r' \<and> stale_steps (audit r') = []"
proof -
  obtain r' where *: "clear_source example_ree = Inr r'"
    by (simp add: clear_source_def example_ree_def Let_def)
  from clear_source_leaves_nothing_stale[OF *] * show ?thesis by blast
qed

end
