(* ===== verification/Ree_Result.thy ===== *)
theory Ree_Result
  imports Ree_Hbom
begin

text \<open>
  The outcome of an executed action: \<open>Failure\<close> and \<open>ActionResult\<close> of the protocol
  package with the invariant its validator enforces, and \<open>failures.py\<close>, which reads the
  category of a failure off the exception that caused it.
\<close>

section \<open>Results\<close>

datatype action_status = Succeeded | Failed | Canceled

datatype failure_category =
    Cat_Validation | Cat_Precondition | Cat_Conflict | Cat_Execution | Cat_Timeout
  | Cat_Unavailable | Cat_Internal

datatype failure_origin = Org_Api | Org_Supervisor | Org_Workbench | Org_Executor | Org_Core

record failure =
  fl_category :: failure_category
  fl_message :: string
  fl_retryable :: bool
  fl_origin :: failure_origin
  fl_details :: "json_object option"

record action_result =
  ar_status :: action_status
  ar_exit_code :: int
  ar_outputs :: json_object
  ar_failure :: "failure option"

definition enforce_status_invariants :: "action_result \<Rightarrow> ree_error + action_result" where
  "enforce_status_invariants a =
     (case ar_status a of
        Succeeded \<Rightarrow>
          if ar_exit_code a \<noteq> 0
            then Inl (Value_Error ''a succeeded ActionResult must have exit_code 0'')
          else if ar_failure a \<noteq> None
            then Inl (Value_Error ''a succeeded ActionResult must not carry a failure'')
          else Inr a
      | Failed \<Rightarrow>
          if ar_exit_code a = 0
            then Inl (Value_Error ''a failed ActionResult must have a nonzero exit_code'')
          else if ar_failure a = None
            then Inl (Value_Error ''a failed ActionResult must carry a failure'')
          else Inr a
      | Canceled \<Rightarrow>
          if ar_failure a \<noteq> None
            then Inl (Value_Error ''a canceled ActionResult must not carry a failure'')
          else Inr a)"

definition result_ok :: "action_result \<Rightarrow> bool" where
  "result_ok a \<longleftrightarrow> enforce_status_invariants a = Inr a"

text \<open>The four ways a handler builds a result.\<close>

definition failed_with ::
  "failure_category \<Rightarrow> string \<Rightarrow> failure_origin \<Rightarrow> int \<Rightarrow> bool \<Rightarrow> json_object option \<Rightarrow>
     json_object \<Rightarrow> action_result" where
  "failed_with category message origin exit_code retryable details outputs =
     \<lparr>ar_status = Failed, ar_exit_code = (if exit_code = 0 then 1 else exit_code),
      ar_outputs = outputs,
      ar_failure = Some \<lparr>fl_category = category, fl_message = message,
        fl_retryable = retryable, fl_origin = origin, fl_details = details\<rparr>\<rparr>"

definition action_failed :: "failure_category \<Rightarrow> string \<Rightarrow> action_result" where
  "action_failed category message = failed_with category message Org_Core 1 False None []"

definition action_succeeded :: "json_object \<Rightarrow> action_result" where
  "action_succeeded outputs =
     \<lparr>ar_status = Succeeded, ar_exit_code = 0, ar_outputs = outputs, ar_failure = None\<rparr>"

definition action_canceled :: action_result where
  "action_canceled =
     \<lparr>ar_status = Canceled, ar_exit_code = 0, ar_outputs = [], ar_failure = None\<rparr>"

section \<open>What an exception says\<close>

fun by_errno :: "errno \<Rightarrow> (failure_category \<times> bool) option" where
  "by_errno ENOSPC = Some (Cat_Unavailable, True)"
| "by_errno EDQUOT = Some (Cat_Unavailable, True)"
| "by_errno EMFILE = Some (Cat_Unavailable, True)"
| "by_errno ENFILE = Some (Cat_Unavailable, True)"
| "by_errno EAGAIN = Some (Cat_Unavailable, True)"
| "by_errno ECONNRESET = Some (Cat_Unavailable, True)"
| "by_errno ECONNREFUSED = Some (Cat_Unavailable, True)"
| "by_errno EHOSTUNREACH = Some (Cat_Unavailable, True)"
| "by_errno ENETUNREACH = Some (Cat_Unavailable, True)"
| "by_errno EPIPE = Some (Cat_Unavailable, True)"
| "by_errno EROFS = Some (Cat_Unavailable, False)"
| "by_errno EACCES = Some (Cat_Internal, False)"
| "by_errno EPERM = Some (Cat_Internal, False)"
| "by_errno ENOENT = Some (Cat_Precondition, False)"
| "by_errno ENOTDIR = Some (Cat_Precondition, False)"
| "by_errno EISDIR = Some (Cat_Precondition, False)"
| "by_errno (Other_Errno _ _) = None"

fun classify :: "ree_error \<Rightarrow> failure_category \<times> bool" where
  "classify Timeout_Error = (Cat_Timeout, True)"
| "classify (Os_Error e) =
     (case by_errno e of None \<Rightarrow> (Cat_Internal, False) | Some r \<Rightarrow> r)"
| "classify _ = (Cat_Internal, False)"

text \<open>The symbolic name of an errno; the number where the platform names none.\<close>

fun errno_name :: "errno \<Rightarrow> json" where
  "errno_name ENOSPC = JStr ''ENOSPC''" | "errno_name EDQUOT = JStr ''EDQUOT''"
| "errno_name EMFILE = JStr ''EMFILE''" | "errno_name ENFILE = JStr ''ENFILE''"
| "errno_name EAGAIN = JStr ''EAGAIN''" | "errno_name ECONNRESET = JStr ''ECONNRESET''"
| "errno_name ECONNREFUSED = JStr ''ECONNREFUSED''"
| "errno_name EHOSTUNREACH = JStr ''EHOSTUNREACH''"
| "errno_name ENETUNREACH = JStr ''ENETUNREACH''" | "errno_name EPIPE = JStr ''EPIPE''"
| "errno_name EROFS = JStr ''EROFS''" | "errno_name EACCES = JStr ''EACCES''"
| "errno_name EPERM = JStr ''EPERM''" | "errno_name ENOENT = JStr ''ENOENT''"
| "errno_name ENOTDIR = JStr ''ENOTDIR''" | "errno_name EISDIR = JStr ''EISDIR''"
| "errno_name (Other_Errno n None) = JInt n"
| "errno_name (Other_Errno _ (Some name)) = JStr name"

definition failed_from_exception :: "ree_error \<Rightarrow> string \<Rightarrow> action_result" where
  "failed_from_exception e message =
     (let (category, retryable) = classify e;
          details = (case e of Os_Error n \<Rightarrow> Some [(''errno'', errno_name n)] | _ \<Rightarrow> None)
      in failed_with category message Org_Core 1 retryable details [])"

section \<open>Facts\<close>

lemma result_ok_iff:
  "result_ok a \<longleftrightarrow>
     (ar_failure a \<noteq> None \<longleftrightarrow> ar_status a = Failed) \<and>
     (ar_status a = Succeeded \<longrightarrow> ar_exit_code a = 0) \<and>
     (ar_status a = Failed \<longrightarrow> ar_exit_code a \<noteq> 0)"
  by (cases "ar_status a") (auto simp: result_ok_def enforce_status_invariants_def)

lemma failed_simps [simp]:
  "ar_status (failed_with c m g x r d out) = Failed"
  "ar_status (action_failed c m) = Failed"
  "ar_status (action_succeeded out) = Succeeded"
  "ar_status action_canceled = Canceled"
  "ar_status (failed_from_exception e m) = Failed"
  by (simp_all add: failed_with_def action_failed_def action_succeeded_def action_canceled_def
      failed_from_exception_def Let_def split: prod.split)

text \<open>Whatever exit code and exception a handler starts from, what it builds is accepted.\<close>

lemma built_results_ok [simp]:
  "result_ok (failed_with c m g x r d out)"
  "result_ok (action_failed c m)"
  "result_ok (action_succeeded out)"
  "result_ok action_canceled"
  "result_ok (failed_from_exception e m)"
  by (simp_all add: result_ok_def enforce_status_invariants_def failed_with_def action_failed_def
      action_succeeded_def action_canceled_def failed_from_exception_def Let_def split: prod.split)

text \<open>A category other than \<open>internal\<close> needs a timeout or a listed errno.\<close>

lemma classify_internal_default:
  "fst (classify e) \<noteq> Cat_Internal \<Longrightarrow> e = Timeout_Error \<or> (\<exists>n. e = Os_Error n \<and> by_errno n \<noteq> None)"
  by (cases e) (auto split: option.splits)

lemma classify_retryable:
  "snd (classify e) \<Longrightarrow> fst (classify e) \<in> {Cat_Timeout, Cat_Unavailable}"
proof (cases e)
  case (Os_Error n)
  then show "snd (classify e) \<Longrightarrow> ?thesis" by (cases n) simp_all
qed simp_all

end
