(* ===== verification/Ree_Store.thy ===== *)
theory Ree_Store
  imports Ree_Audit Ree_Result
begin

text \<open>
  The persistence layer: a subtree of files (\<open>SubtreeStore\<close>), the directory of one REE
  (\<open>ReeDirectory\<close>), the digests taken over files and trees (\<open>digests.py\<close>), and
  \<open>persistence/repository.py\<close>, whose \<open>save_ree\<close> is a compare-and-replace on the
  revision of the persisted document.

  A tree is an association list from the parts of a path to the bytes of a file; directories are
  the proper prefixes of its keys, so an empty directory is not represented. Bytes are the type
  \<open>'b\<close>: nothing here looks inside them but the functions of a \<open>platform\<close>, which stand
  for \<open>hashlib\<close>, \<open>json\<close> and pydantic's serialization.
\<close>

section \<open>The platform\<close>

record 'b platform =
  pf_subject_digest :: "ree_subject \<Rightarrow> string"
  pf_dumps :: "ree \<Rightarrow> 'b"
  pf_loads :: "'b \<Rightarrow> ree_error + ree"
  pf_digest :: "'b \<Rightarrow> string"
  pf_size :: "'b \<Rightarrow> int"
  pf_encode :: "string \<Rightarrow> 'b"

text \<open>
  What the code relies on: a document reads back as it was written, digests are canonical, sizes
  are not negative.
\<close>

definition platform_ok :: "'b platform \<Rightarrow> bool" where
  "platform_ok p \<longleftrightarrow>
     (\<forall>r. pf_loads p (pf_dumps p r) = Inr r) \<and>
     (\<forall>s. valid_digest (pf_subject_digest p s)) \<and>
     (\<forall>b. valid_digest (pf_digest p b)) \<and> (\<forall>b. 0 \<le> pf_size p b)"

section \<open>Trees of files\<close>

type_synonym 'b tree = "(string list \<times> 'b) list"

definition is_file_at :: "'b tree \<Rightarrow> string list \<Rightarrow> bool" where
  "is_file_at t p \<longleftrightarrow> has_key t p"

definition is_dir_at :: "'b tree \<Rightarrow> string list \<Rightarrow> bool" where
  "is_dir_at t p \<longleftrightarrow> p = [] \<or> (\<exists>k \<in> set (map fst t). strict_prefix p k)"

definition exists_at :: "'b tree \<Rightarrow> string list \<Rightarrow> bool" where
  "exists_at t p \<longleftrightarrow> is_file_at t p \<or> is_dir_at t p"

definition tree_ok :: "'b tree \<Rightarrow> bool" where
  "tree_ok t \<longleftrightarrow> dict_ok t \<and>
     (\<forall>k \<in> set (map fst t). \<not> is_dir_at t k \<and>
        (\<forall>p \<in> set k. p \<noteq> [] \<and> p \<noteq> ''.'' \<and> p \<noteq> ''..'' \<and> CHR ''/'' \<notin> set p))"

text \<open>
  \<open>write_atomic\<close>: the parents are made, the bytes land beside the target, the rename
  refuses a directory. A file where a directory is needed stops \<open>mkdir\<close>.
\<close>

definition eexist :: errno where
  "eexist = Other_Errno 17 (Some ''EEXIST'')"

definition write_atomic :: "'b tree \<Rightarrow> string list \<Rightarrow> 'b \<Rightarrow> ree_error + 'b tree" where
  "write_atomic t p content =
     (if p \<noteq> [] \<and> is_file_at t (butlast p) then Inl (Os_Error eexist)
      else if \<exists>n < length p. is_file_at t (take n p) then Inl (Os_Error ENOTDIR)
      else if is_dir_at t p then Inl (Os_Error EISDIR)
      else Inr (AList.update p content t))"

text \<open>\<open>SubtreeStore.delete_if_exists\<close>: a directory goes with everything in it.\<close>

definition delete_if_exists :: "'b tree \<Rightarrow> string list \<Rightarrow> 'b tree" where
  "delete_if_exists t p =
     (if \<not> exists_at t p then t
      else if is_dir_at t p then filter (\<lambda>(k, _). \<not> prefix p k) t
      else AList.delete p t)"

text \<open>\<open>list_tree_relpaths\<close>: the POSIX spellings, in string order.\<close>

definition as_posix :: "string list \<Rightarrow> string" where
  "as_posix p = join_with ''/'' p"

definition list_tree_relpaths :: "'b tree \<Rightarrow> string list" where
  "list_tree_relpaths t = sort (map (\<lambda>(k, _). as_posix k) t)"

section \<open>The directory of one REE\<close>

record 'b ree_dir =
  rd_manifest :: "'b option"
  rd_snapshot :: "'b option"
  rd_upstream :: "'b tree"
  rd_overlay :: "'b tree"
  rd_artifacts :: "'b tree"
  rd_workspace :: "'b tree"
  rd_results :: "'b tree"
  rd_sealed_archive :: "(string \<times> 'b) list option"

definition manifest_exists :: "'b ree_dir \<Rightarrow> bool" where
  "manifest_exists d \<longleftrightarrow> rd_manifest d \<noteq> None"

text \<open>\<open>parse_ree_manifest\<close>: \<open>model_validate\<close>, then \<open>validate_seal\<close>.\<close>

definition parse_ree_manifest :: "'b platform \<Rightarrow> 'b \<Rightarrow> ree_error + ree" where
  "parse_ree_manifest P document =
     bind_res (pf_loads P document) (\<lambda>r.
     bind_res (require (valid_subject (ree_subject r) \<and> opt_ok valid_seal_fields (ree_sealed r))
       (Value_Error ''document does not fit the model'')) (\<lambda>_.
     bind_res (validate_seal (pf_subject_digest P) r) (\<lambda>_. Inr r)))"

definition ree_manifest_bytes :: "'b platform \<Rightarrow> ree \<Rightarrow> ree_error + 'b" where
  "ree_manifest_bytes P r =
     bind_res (validate_seal (pf_subject_digest P) r) (\<lambda>_. Inr (pf_dumps P r))"

definition read_ree :: "'b platform \<Rightarrow> 'b ree_dir \<Rightarrow> ree_error + ree" where
  "read_ree P d =
     (case rd_manifest d of
        None \<Rightarrow> Inl (Os_Error ENOENT)
      | Some document \<Rightarrow> parse_ree_manifest P document)"

definition write_ree :: "'b platform \<Rightarrow> 'b ree_dir \<Rightarrow> ree \<Rightarrow> ree_error + 'b ree_dir" where
  "write_ree P d r =
     bind_res (ree_manifest_bytes P r) (\<lambda>document. Inr (d\<lparr>rd_manifest := Some document\<rparr>))"

section \<open>The repository\<close>

definition load_ree :: "'b platform \<Rightarrow> 'b ree_dir \<Rightarrow> ree_error + ree" where
  "load_ree P d =
     bind_res (read_ree P d) (\<lambda>r.
     bind_res (validate_seal (pf_subject_digest P) r) (\<lambda>_. Inr r))"

definition ree_revision :: "'b platform \<Rightarrow> ree \<Rightarrow> string" where
  "ree_revision P r = revision_of (pf_subject_digest P) r"

definition save_ree ::
  "'b platform \<Rightarrow> 'b ree_dir \<Rightarrow> ree \<Rightarrow> string \<Rightarrow> ree_error + 'b ree_dir" where
  [step_defs]: "save_ree P d r expected =
     bind_res (load_ree P d) (\<lambda>persisted.
     let current = ree_revision P persisted
     in if current \<noteq> expected then Inl (Revision_Conflict expected current)
        else bind_res (validate_seal (pf_subject_digest P) r) (\<lambda>_. write_ree P d r))"

text \<open>A document the codec and the validators read back.\<close>

definition readable :: "'b platform \<Rightarrow> ree \<Rightarrow> bool" where
  "readable P r \<longleftrightarrow>
     pf_loads P (pf_dumps P r) = Inr r \<and> valid_ree (pf_subject_digest P) r"

lemma platform_readable: "platform_ok P \<Longrightarrow> valid_ree (pf_subject_digest P) r \<Longrightarrow> readable P r"
  by (simp add: platform_ok_def readable_def)

lemma load_ree_Inr:
  "load_ree P d = Inr r \<longleftrightarrow>
     (\<exists>document. rd_manifest d = Some document \<and> pf_loads P document = Inr r) \<and>
     valid_ree (pf_subject_digest P) r"
  by (cases "rd_manifest d")
    (auto simp: load_ree_def read_ree_def parse_ree_manifest_def valid_ree_def validate_seal_eq)

lemma read_ree_eq_load_ree: "read_ree P d = load_ree P d"
proof (cases "read_ree P d")
  case (Inr r)
  then have "validate_seal (pf_subject_digest P) r = Inr ()"
    by (auto simp: read_ree_def parse_ree_manifest_def split: option.splits)
  with Inr show ?thesis by (simp add: load_ree_def)
qed (simp add: load_ree_def)

lemma write_ree_Inr:
  "write_ree P d r = Inr d' \<longleftrightarrow>
     valid_seal (pf_subject_digest P) r = Inr () \<and> d' = d\<lparr>rd_manifest := Some (pf_dumps P r)\<rparr>"
  by (auto simp: write_ree_def ree_manifest_bytes_def validate_seal_eq)

lemma load_after_write:
  "write_ree P d r = Inr d' \<Longrightarrow> readable P r \<Longrightarrow> load_ree P d' = Inr r"
  by (auto simp: write_ree_Inr load_ree_Inr readable_def)

lemma save_ree_Inr:
  "save_ree P d r expected = Inr d' \<longleftrightarrow>
     (\<exists>persisted. load_ree P d = Inr persisted \<and> ree_revision P persisted = expected) \<and>
     valid_seal (pf_subject_digest P) r = Inr () \<and> d' = d\<lparr>rd_manifest := Some (pf_dumps P r)\<rparr>"
  by (auto simp: save_ree_def Let_def write_ree_Inr validate_seal_eq split: if_splits)

section \<open>Optimistic concurrency\<close>

text \<open>
  The contract the handlers rely on: a save planned on another version is refused and changes
  nothing; a save planned on the current version stores a readable document.
\<close>

locale versioned_store =
  fixes load :: "'s \<Rightarrow> ree_error + 'd"
    and save :: "'s \<Rightarrow> 'd \<Rightarrow> 'v \<Rightarrow> ree_error + 's"
    and version :: "'d \<Rightarrow> 'v"
    and storable :: "'d \<Rightarrow> bool"
  assumes save_stale: "load s = Inr d \<Longrightarrow> version d \<noteq> v \<Longrightarrow> \<exists>e. save s d' v = Inl e"
    and save_current: "load s = Inr d \<Longrightarrow> version d = v \<Longrightarrow> storable d' \<Longrightarrow>
      \<exists>s'. save s d' v = Inr s' \<and> load s' = Inr d'"
begin

text \<open>A transition: load, change, save against the version that was loaded.\<close>

definition transact :: "('d \<Rightarrow> ree_error + 'd) \<Rightarrow> 's \<Rightarrow> ree_error + 's" where
  "transact f s = bind_res (load s) (\<lambda>d. bind_res (f d) (\<lambda>d'. save s d' (version d)))"

text \<open>Writers that all planned on the same version, saving one after the other.\<close>

fun race :: "'v \<Rightarrow> 'd list \<Rightarrow> 's \<Rightarrow> 's" where
  "race v [] s = s"
| "race v (d # ds) s = race v ds (case save s d v of Inl _ \<Rightarrow> s | Inr s' \<Rightarrow> s')"

lemma transact_commits:
  assumes "load s = Inr d" "f d = Inr d'" "storable d'"
  shows "\<exists>s'. transact f s = Inr s' \<and> load s' = Inr d'"
  using save_current[OF assms(1) refl assms(3)] assms by (simp add: transact_def)

lemma race_stale: "load s = Inr d \<Longrightarrow> version d \<noteq> v \<Longrightarrow> race v ds s = s"
proof (induction ds)
  case (Cons x xs)
  with save_stale[of s d v x] show ?case by auto
qed simp

text \<open>The first writer that changes the version wins; no later one overwrites it.\<close>

lemma race_first_wins:
  assumes "load s = Inr d" "version d = v" "storable d'" "version d' \<noteq> v"
  shows "load (race v (d' # ds) s) = Inr d'"
proof -
  from save_current[OF assms(1-3)] obtain s' where "save s d' v = Inr s'" "load s' = Inr d'"
    by blast
  with race_stale[OF _ assms(4)] show ?thesis by simp
qed

end

lemma save_ree_stale:
  "load_ree P d = Inr r \<Longrightarrow> ree_revision P r \<noteq> v \<Longrightarrow>
     save_ree P d r' v = Inl (Revision_Conflict v (ree_revision P r))"
  by (simp add: save_ree_def Let_def)

lemma save_ree_current:
  assumes "load_ree P d = Inr r" "ree_revision P r = v" "readable P r'"
  shows "\<exists>d'. save_ree P d r' v = Inr d' \<and> load_ree P d' = Inr r'"
  using assms by (auto simp: save_ree_Inr load_ree_Inr readable_def valid_ree_def)

interpretation ree_store: versioned_store "load_ree P" "save_ree P" "ree_revision P" "readable P"
  for P
  by unfold_locales (auto simp: save_ree_stale save_ree_current)

section \<open>A platform for the examples\<close>

text \<open>Bytes that are a document or a text; the digest is the length in unary.\<close>

definition example_platform :: "(ree + string) platform" where
  "example_platform =
     \<lparr>pf_subject_digest = (\<lambda>s. digest_prefix @ def_name (sub_definition s) @ ''0''),
      pf_dumps = Inl, pf_loads = case_sum Inr (\<lambda>_. Inl (Value_Error ''not JSON'')),
      pf_digest = case_sum (\<lambda>_. digest_prefix @ ''d'') (\<lambda>s. digest_prefix @ ''t'' @ s),
      pf_size = case_sum (\<lambda>_. 1) (\<lambda>s. int (length s)), pf_encode = Inr\<rparr>"

lemma example_platform_ok [simp]: "platform_ok example_platform"
  by (auto simp: platform_ok_def example_platform_def valid_digest_def split: sum.split)

definition empty_dir :: "'b ree_dir" where
  "empty_dir = \<lparr>rd_manifest = None, rd_snapshot = None, rd_upstream = [], rd_overlay = [],
     rd_artifacts = [], rd_workspace = [], rd_results = [], rd_sealed_archive = None\<rparr>"

definition example_dir :: "ree \<Rightarrow> (ree + string) ree_dir" where
  "example_dir r = empty_dir\<lparr>rd_manifest := Some (Inl r)\<rparr>"

lemma load_example_dir:
  "load_ree example_platform (example_dir r) = Inr r \<longleftrightarrow>
     valid_ree (pf_subject_digest example_platform) r"
  by (simp add: load_ree_Inr example_dir_def empty_dir_def)
    (simp add: example_platform_def)

lemma draft_valid_ree:
  "ree_sealed r = None \<Longrightarrow> valid_ree H r \<longleftrightarrow> valid_subject (ree_subject r)"
  by (simp add: valid_ree_def valid_seal_Inr)

section \<open>Properties\<close>

text \<open>
  Property C2. \<open>save_ree\<close> is a compare-and-replace. It succeeds exactly when the persisted
  document is readable at the expected revision and the new one carries a true seal; it then
  changes nothing but the document, which \<open>load_ree\<close> reads back; on another revision it
  raises the conflict that names both revisions.
\<close>

theorem save_ree_compare_and_replace:
  assumes "platform_ok P" and "valid_ree (pf_subject_digest P) r'"
  shows "((\<exists>d'. save_ree P d r' v = Inr d') \<longleftrightarrow>
      (\<exists>r. load_ree P d = Inr r \<and> ree_revision P r = v)) \<and>
    (\<forall>d'. save_ree P d r' v = Inr d' \<longrightarrow>
      load_ree P d' = Inr r' \<and> d'\<lparr>rd_manifest := rd_manifest d\<rparr> = d) \<and>
    (\<forall>r. load_ree P d = Inr r \<and> ree_revision P r \<noteq> v \<longrightarrow>
      save_ree P d r' v = Inl (Revision_Conflict v (ree_revision P r)))"
proof -
  from assms have "readable P r'" by (rule platform_readable)
  with assms show ?thesis
    by (auto simp: save_ree_Inr valid_ree_def readable_def save_ree_stale)
      (auto simp: load_ree_Inr valid_ree_def)
qed

theorem save_ree_compare_and_replace_witness:
  "\<exists>d'. save_ree example_platform (example_dir (new_ree ''a'')) (new_ree ''b'')
      (ree_revision example_platform (new_ree ''a'')) = Inr d'"
proof -
  have valid: "valid_ree (pf_subject_digest example_platform) (new_ree n)" for n
    by (simp add: draft_valid_ree)
  then have "load_ree example_platform (example_dir (new_ree ''a'')) = Inr (new_ree ''a'')"
    by (simp only: load_example_dir)
  with save_ree_compare_and_replace[OF example_platform_ok valid,
      of "example_dir (new_ree ''a'')" "''b''" "ree_revision example_platform (new_ree ''a'')"]
  show ?thesis by blast
qed

text \<open>
  No lost update: of any number of transitions planned on the same loaded
  revision, the first that changes the subject is what stays persisted; every later one is
  refused and leaves the directory as it is.
\<close>

theorem first_writer_wins:
  assumes "platform_ok P" and "load_ree P d = Inr r"
    and "valid_ree (pf_subject_digest P) r'" and "ree_revision P r' \<noteq> ree_revision P r"
  shows "load_ree P (ree_store.race P (ree_revision P r) (r' # others) d) = Inr r'"
  using assms by (intro ree_store.race_first_wins platform_readable) auto

theorem first_writer_wins_witness:
  "load_ree example_platform (ree_store.race example_platform
      (ree_revision example_platform (new_ree ''a'')) [new_ree ''b'', new_ree ''c'']
      (example_dir (new_ree ''a''))) = Inr (new_ree ''b'')"
proof (rule first_writer_wins[OF example_platform_ok])
  show "load_ree example_platform (example_dir (new_ree ''a'')) = Inr (new_ree ''a'')"
    by (simp add: load_example_dir draft_valid_ree)
  show "valid_ree (pf_subject_digest example_platform) (new_ree ''b'')"
    by (simp add: draft_valid_ree)
  show "ree_revision example_platform (new_ree ''b'') \<noteq> ree_revision example_platform (new_ree ''a'')"
    by (simp add: ree_revision_def revision_of_def subject_digest_def example_platform_def
        new_ree_def new_definition_def)
qed

text \<open>
  Property C16. The revision is the subject's digest and leaves the seal out, so sealing without
  a change of the subject (a draft that already carries its inventory, as one restored from a
  draft bundle does) does not move it: an authoring transition planned on that draft before the
  seal is still accepted after it, and what it stores is an unsealed draft.
\<close>

theorem pending_transition_overwrites_seal:
  assumes "platform_ok P" and "valid_subject (ree_subject r)"
    and "record_seal (pf_subject_digest P) r t g = Inr sealed" and "load_ree P d = Inr sealed"
    and "author x r = Inr r'" and "authoring_ok x"
  shows "\<exists>d'. save_ree P d r' (ree_revision P r) = Inr d' \<and> load_ree P d' = Inr r' \<and>
    ree_status r' = Draft"
proof -
  from assms(3) have draft: "ree_sealed r = None" and "ree_subject sealed = ree_subject r"
    by (auto simp: record_seal_Inr)
  then have "ree_revision P sealed = ree_revision P r"
    by (simp add: ree_revision_def revision_of_def)
  moreover from author_valid_ree[OF draft assms(2,5,6)]
  have "valid_ree (pf_subject_digest P) r'" "ree_status r' = Draft" by blast+
  ultimately show ?thesis
    using save_ree_current[OF assms(4)] platform_readable[OF assms(1)] by blast
qed

theorem pending_transition_overwrites_seal_witness:
  "\<exists>sealed r' d'. record_seal (pf_subject_digest example_platform) (new_ree ''a'') 0 None = Inr sealed \<and>
     author Clear_Source (new_ree ''a'') = Inr r' \<and>
     save_ree example_platform (example_dir sealed) r'
       (ree_revision example_platform (new_ree ''a'')) = Inr d' \<and> load_ree example_platform d' = Inr r'"
proof -
  let ?H = "pf_subject_digest example_platform"
  obtain sealed where s: "record_seal ?H (new_ree ''a'') 0 None = Inr sealed"
    by (simp add: record_seal_def)
  obtain r' where r': "author Clear_Source (new_ree ''a'') = Inr r'"
    using author_draft[of "new_ree ''a''" Clear_Source] by auto
  from s have "valid_ree ?H sealed"
    by (auto simp: record_seal_Inr valid_ree_def valid_seal_Inr valid_seal_fields_def
        example_platform_def valid_digest_def)
  then have "load_ree example_platform (example_dir sealed) = Inr sealed"
    by (simp only: load_example_dir)
  from pending_transition_overwrites_seal[OF example_platform_ok _ s this r'] s r'
  show ?thesis by auto
qed

end
