(* ===== verification/Ree_Authoring.thy ===== *)
theory Ree_Authoring
  imports Ree_Store
begin

text \<open>
  The handlers that edit a draft: \<open>patch_ree_definition\<close>, \<open>write_file\<close> and
  \<open>delete_file\<close>, over the hydration of \<open>definition_authoring.py\<close> and the etag
  check of \<open>file_concurrency.py\<close>. A handler maps the directory to its result and the
  directory it leaves; \<open>canceled\<close> is what \<open>is_canceled()\<close> answers. Log lines are not
  modelled.
\<close>

section \<open>Hydrating a definition from the overlay\<close>

text \<open>
  The payload of \<open>hydrate_definition_payload\<close>: of a build only the declared runtime path
  is taken from the client, of an activation only its presence, of an experiment its name and
  output paths; script identities are read off the overlay.
\<close>

record definition_payload =
  pl_name :: string
  pl_catalog :: ree_catalog
  pl_source :: "source_definition option"
  pl_build_runtime :: "string option option"
  pl_test_activation :: bool
  pl_hardware :: "hbom option"
  pl_experiments :: "(string \<times> string list) list"

definition dump_definition :: "ree_definition \<Rightarrow> definition_payload" where
  "dump_definition d =
     \<lparr>pl_name = def_name d, pl_catalog = def_catalog d, pl_source = def_source d,
      pl_build_runtime = map_option bld_runtime_path (def_build_runtime d),
      pl_test_activation = (def_test_activation d \<noteq> None), pl_hardware = def_hardware d,
      pl_experiments = map (\<lambda>e. (exp_name e, exp_output_paths e)) (def_experiments d)\<rparr>"

definition overlay_file :: "'b ree_dir \<Rightarrow> string \<Rightarrow> 'b option" where
  "overlay_file d path = map_of (rd_overlay d) (posix_parts path)"

definition required_overlay_file :: "'b ree_dir \<Rightarrow> string \<Rightarrow> string \<Rightarrow> ree_error + 'b" where
  "required_overlay_file d path label =
     (case validate_relative_path path of
        Inl e \<Rightarrow> Inl e
      | Inr _ \<Rightarrow>
          (case overlay_file d path of
             None \<Rightarrow> Inl (Value_Error (label @ '' is not authored at '' @ path))
           | Some script \<Rightarrow> Inr script))"

definition hydrate_build ::
  "'b platform \<Rightarrow> 'b ree_dir \<Rightarrow> string option \<Rightarrow> ree_error + build_definition" where
  "hydrate_build P d runtime_path =
     bind_res (required_overlay_file d reserved_build_script ''runtime build script'') (\<lambda>script.
     Inr \<lparr>bld_script_path = reserved_build_script, bld_script_digest = pf_digest P script,
          bld_script_size = pf_size P script, bld_runtime_path = runtime_path\<rparr>)"

definition hydrate_activation ::
  "'b platform \<Rightarrow> 'b ree_dir \<Rightarrow> ree_error + activation_definition" where
  "hydrate_activation P d =
     bind_res (required_overlay_file d reserved_activation_script ''activation script'') (\<lambda>run.
     let verify = overlay_file d reserved_activation_verify_script
     in Inr \<lparr>act_run_script_path = reserved_activation_script,
             act_run_script_digest = pf_digest P run, act_run_script_size = pf_size P run,
             act_verify_script_path =
               map_option (\<lambda>_. reserved_activation_verify_script) verify,
             act_verify_script_digest = map_option (pf_digest P) verify,
             act_verify_script_size = map_option (pf_size P) verify\<rparr>)"

definition hydrate_experiment ::
  "'b platform \<Rightarrow> 'b ree_dir \<Rightarrow> string \<times> string list \<Rightarrow> ree_error + experiment_definition" where
  "hydrate_experiment P d raw =
     (let name = fst raw; run_path = experiment_run_script_path name;
          verify_path = experiment_verify_script_path name
      in bind_res (required_overlay_file d run_path (''experiment '' @ name @ '' run script'')) (\<lambda>run.
         bind_res (validate_relative_path verify_path) (\<lambda>_.
         let verify = overlay_file d verify_path
         in Inr \<lparr>exp_name = name, exp_run_script_path = run_path,
                 exp_run_script_digest = pf_digest P run, exp_run_script_size = pf_size P run,
                 exp_verify_script_path = map_option (\<lambda>_. verify_path) verify,
                 exp_verify_script_digest = map_option (pf_digest P) verify,
                 exp_verify_script_size = map_option (pf_size P) verify,
                 exp_output_paths = snd raw\<rparr>)))"

fun hydrate_experiments ::
  "'b platform \<Rightarrow> 'b ree_dir \<Rightarrow> (string \<times> string list) list \<Rightarrow>
     ree_error + experiment_definition list" where
  "hydrate_experiments P d [] = Inr []"
| "hydrate_experiments P d (raw # raws) =
     bind_res (hydrate_experiment P d raw) (\<lambda>e.
     bind_res (hydrate_experiments P d raws) (\<lambda>es. Inr (e # es)))"

definition hydrate_definition_payload ::
  "'b platform \<Rightarrow> 'b ree_dir \<Rightarrow> definition_payload \<Rightarrow> ree_error + ree_definition" where
  "hydrate_definition_payload P d pl =
     bind_res (case pl_build_runtime pl of None \<Rightarrow> Inr None
       | Some runtime_path \<Rightarrow> map_sum id Some (hydrate_build P d runtime_path)) (\<lambda>build.
     bind_res (if pl_test_activation pl then map_sum id Some (hydrate_activation P d)
       else Inr None) (\<lambda>activation.
     bind_res (hydrate_experiments P d (pl_experiments pl)) (\<lambda>experiments.
     let definition' = \<lparr>def_name = pl_name pl, def_catalog = pl_catalog pl,
           def_source = pl_source pl, def_build_runtime = build,
           def_test_activation = activation, def_hardware = pl_hardware pl,
           def_experiments = experiments\<rparr>
     in if valid_definition definition' then Inr definition'
        else Inl (Value_Error ''definition does not fit the model''))))"

text \<open>A patch: the top-level fields it sets, by name; an unknown name is refused.\<close>

datatype definition_field =
    F_Name string
  | F_Catalog ree_catalog
  | F_Source "source_definition option"
  | F_Build_Runtime "string option option"
  | F_Test_Activation bool
  | F_Hardware "hbom option"
  | F_Experiments "(string \<times> string list) list"
  | F_Unknown string

fun update_payload :: "definition_field \<Rightarrow> definition_payload \<Rightarrow> definition_payload" where
  "update_payload (F_Name v) p = p\<lparr>pl_name := v\<rparr>"
| "update_payload (F_Catalog v) p = p\<lparr>pl_catalog := v\<rparr>"
| "update_payload (F_Source v) p = p\<lparr>pl_source := v\<rparr>"
| "update_payload (F_Build_Runtime v) p = p\<lparr>pl_build_runtime := v\<rparr>"
| "update_payload (F_Test_Activation v) p = p\<lparr>pl_test_activation := v\<rparr>"
| "update_payload (F_Hardware v) p = p\<lparr>pl_hardware := v\<rparr>"
| "update_payload (F_Experiments v) p = p\<lparr>pl_experiments := v\<rparr>"
| "update_payload (F_Unknown _) p = p"

fun is_unknown :: "definition_field \<Rightarrow> bool" where
  "is_unknown (F_Unknown _) = True"
| "is_unknown _ = False"

definition patched_definition ::
  "'b platform \<Rightarrow> 'b ree_dir \<Rightarrow> ree_definition \<Rightarrow> definition_field list \<Rightarrow>
     ree_error + ree_definition" where
  "patched_definition P d current patch =
     (if \<exists>f \<in> set patch. is_unknown f
      then Inl (Value_Error ''definition patch contains unknown fields'')
      else hydrate_definition_payload P d (fold update_payload patch (dump_definition current)))"

definition rehydrate_after_file_mutation ::
  "'b platform \<Rightarrow> 'b ree_dir \<Rightarrow> ree_definition \<Rightarrow> string \<Rightarrow> ree_error + ree_definition" where
  "rehydrate_after_file_mutation P d definition' changed_path =
     (let pl = dump_definition definition';
          pl = (if changed_path = reserved_build_script \<and> overlay_file d changed_path = None
            then pl\<lparr>pl_build_runtime := None\<rparr> else pl);
          pl = (if changed_path = reserved_activation_script \<and>
              overlay_file d changed_path = None
            then pl\<lparr>pl_test_activation := False\<rparr> else pl);
          experiments = filter (\<lambda>(name, _).
              \<not> (changed_path = experiment_run_script_path name \<and>
                 overlay_file d (experiment_run_script_path name) = None))
            (pl_experiments pl)
      in hydrate_definition_payload P d (pl\<lparr>pl_experiments := experiments\<rparr>))"

section \<open>Optimistic concurrency on files\<close>

definition workspace_content_etag :: "'b platform \<Rightarrow> 'b ree_dir \<Rightarrow> string \<Rightarrow> string option" where
  "workspace_content_etag P d path =
     map_option (pf_digest P) (map_of (rd_workspace d) (posix_parts path))"

definition version_conflict :: "string option \<Rightarrow> string \<Rightarrow> string option \<Rightarrow> json_object" where
  "version_conflict path expected actual =
     (''error_code'', JStr ''version_conflict'') #
     (case path of None \<Rightarrow> [] | Some p \<Rightarrow> [(''path'', JStr p)]) @
     [(''expected_version'', JStr expected),
      (''actual_version'', case actual of None \<Rightarrow> JNull | Some a \<Rightarrow> JStr a)]"

definition check_expected_etag ::
  "'b platform \<Rightarrow> 'b ree_dir \<Rightarrow> string \<Rightarrow> string \<Rightarrow> action_result option" where
  "check_expected_etag P d path expected =
     (if expected = [] then None
      else
        let actual = workspace_content_etag P d path
        in if Some expected = actual then None
           else Some (failed_with Cat_Conflict (''etag mismatch for '' @ path) Org_Core 1 True None
             (version_conflict (Some path) expected actual)))"

section \<open>The handlers\<close>

type_synonym 'b handler = "'b ree_dir \<Rightarrow> action_result \<times> 'b ree_dir"

text \<open>The common entry of \<open>write_file\<close> and \<open>delete_file\<close>.\<close>

definition load_draft :: "'b platform \<Rightarrow> 'b ree_dir \<Rightarrow> action_result + ree" where
  "load_draft P d =
     (if \<not> manifest_exists d
      then Inl (action_failed Cat_Precondition ''metadata not found - was init-ree run?'')
      else case load_ree P d of
        Inl (Precondition_Error m) \<Rightarrow> Inl (action_failed Cat_Precondition m)
      | Inl e \<Rightarrow> Inl (failed_from_exception e ''failed to load REE'')
      | Inr r \<Rightarrow>
          if ree_sealed r \<noteq> None
          then Inl (action_failed Cat_Precondition ''a sealed REE cannot edit authored files'')
          else Inr r)"

definition patch_ree_definition ::
  "'b platform \<Rightarrow> definition_field list \<Rightarrow> string \<Rightarrow> bool \<Rightarrow> 'b handler" where
  "patch_ree_definition P patch expected_version canceled d =
     (if \<not> manifest_exists d
      then (action_failed Cat_Precondition ''metadata not found - was init-ree run?'', d)
      else case load_ree P d of
        Inl (Precondition_Error m) \<Rightarrow> (action_failed Cat_Precondition m, d)
      | Inl (Value_Error m) \<Rightarrow> (action_failed Cat_Validation m, d)
      | Inl e \<Rightarrow> (failed_from_exception e ''failed to prepare definition patch'', d)
      | Inr r \<Rightarrow>
          let before = ree_revision P r
          in if expected_version \<noteq> [] \<and> expected_version \<noteq> before
             then (failed_with Cat_Conflict ''REE definition changed since it was read'' Org_Core 1
               True None (version_conflict None expected_version (Some before)), d)
             else case bind_res (patched_definition P d (sub_definition (ree_subject r)) patch)
                  (replace_definition r) of
               Inl (Precondition_Error m) \<Rightarrow> (action_failed Cat_Precondition m, d)
             | Inl (Value_Error m) \<Rightarrow> (action_failed Cat_Validation m, d)
             | Inl e \<Rightarrow> (failed_from_exception e ''failed to prepare definition patch'', d)
             | Inr updated \<Rightarrow>
                 if canceled then (action_canceled, d)
                 else case save_ree P d updated before of
                   Inl (Revision_Conflict e f) \<Rightarrow>
                     (failed_with Cat_Conflict ''REE changed'' Org_Core 1 True None [], d)
                 | Inl e \<Rightarrow> (failed_from_exception e ''failed to persist definition patch'', d)
                 | Inr d' \<Rightarrow>
                     (action_succeeded [(''revision'', JStr (ree_revision P updated))], d'))"

text \<open>
  The body of the \<open>try\<close> block: what it raised, if anything, and the directory it stopped in.
\<close>

definition commit_definition ::
  "'b platform \<Rightarrow> ree \<Rightarrow> string \<Rightarrow> string \<Rightarrow> 'b ree_dir \<Rightarrow> ree_error option \<times> 'b ree_dir" where
  "commit_definition P r before path d =
     (case bind_res (rehydrate_after_file_mutation P d (sub_definition (ree_subject r)) path)
        (\<lambda>definition'. bind_res (replace_definition r definition') (\<lambda>updated.
          save_ree P d updated before)) of
        Inl e \<Rightarrow> (Some e, d) | Inr d' \<Rightarrow> (None, d'))"

definition write_attempt ::
  "'b platform \<Rightarrow> ree \<Rightarrow> string \<Rightarrow> 'b \<Rightarrow> 'b ree_dir \<Rightarrow> ree_error option \<times> 'b ree_dir" where
  "write_attempt P r path content d =
     (case write_atomic (rd_overlay d) (posix_parts path) content of
        Inl e \<Rightarrow> (Some e, d)
      | Inr overlay \<Rightarrow>
          let d = d\<lparr>rd_overlay := overlay\<rparr>
          in case write_atomic (rd_workspace d) (posix_parts path) content of
               Inl e \<Rightarrow> (Some e, d)
             | Inr workspace \<Rightarrow>
                 commit_definition P r (ree_revision P r) path (d\<lparr>rd_workspace := workspace\<rparr>))"

text \<open>
  \<open>_restore_file\<close>: what was a file is written back, anything else at the path is deleted.
\<close>

definition restore_tree :: "'b tree \<Rightarrow> string list \<Rightarrow> 'b option \<Rightarrow> 'b tree" where
  "restore_tree t p old =
     (case old of
        None \<Rightarrow> delete_if_exists t p
      | Some content \<Rightarrow> (case write_atomic t p content of Inl _ \<Rightarrow> t | Inr t' \<Rightarrow> t'))"

definition restore_file ::
  "string \<Rightarrow> 'b option \<Rightarrow> 'b option \<Rightarrow> 'b ree_dir \<Rightarrow> 'b ree_dir" where
  "restore_file path old_overlay old_workspace d =
     d\<lparr>rd_overlay := restore_tree (rd_overlay d) (posix_parts path) old_overlay,
       rd_workspace := restore_tree (rd_workspace d) (posix_parts path) old_workspace\<rparr>"

definition finish_mutation ::
  "string \<Rightarrow> ('b ree_dir \<Rightarrow> 'b ree_dir) \<Rightarrow> ree_error option \<times> 'b ree_dir \<Rightarrow>
     action_result \<times> 'b ree_dir" where
  "finish_mutation what restore attempt =
     (case attempt of
        (None, d) \<Rightarrow> (action_succeeded [], d)
      | (Some (Revision_Conflict e f), d) \<Rightarrow>
          (failed_with Cat_Conflict ''REE changed'' Org_Core 1 True None [], restore d)
      | (Some e, d) \<Rightarrow> (failed_from_exception e what, restore d))"

definition write_file ::
  "'b platform \<Rightarrow> string \<Rightarrow> string \<Rightarrow> string \<Rightarrow> bool \<Rightarrow> 'b handler" where
  "write_file P path content expected_etag canceled d =
     (case validate_relative_path path of
        Inl _ \<Rightarrow> (action_failed Cat_Validation ''invalid path'', d)
      | Inr _ \<Rightarrow>
          (case load_draft P d of
             Inl refusal \<Rightarrow> (refusal, d)
           | Inr r \<Rightarrow>
               (case check_expected_etag P d path expected_etag of
                  Some conflict \<Rightarrow> (conflict, d)
                | None \<Rightarrow>
                    if canceled then (action_canceled, d)
                    else
                      let p = posix_parts path;
                          old_overlay = map_of (rd_overlay d) p;
                          old_workspace = map_of (rd_workspace d) p
                      in finish_mutation ''write_file failed''
                           (restore_file path old_overlay old_workspace)
                           (write_attempt P r path (pf_encode P content) d))))"

definition delete_attempt ::
  "'b platform \<Rightarrow> ree \<Rightarrow> string \<Rightarrow> 'b ree_dir \<Rightarrow> ree_error option \<times> 'b ree_dir" where
  "delete_attempt P r path d =
     (let p = posix_parts path;
          d = d\<lparr>rd_overlay := delete_if_exists (rd_overlay d) p\<rparr>
      in case map_of (rd_upstream d) p of
           Some content \<Rightarrow>
             (case write_atomic (rd_workspace d) p content of
                Inl e \<Rightarrow> (Some e, d)
              | Inr workspace \<Rightarrow>
                  commit_definition P r (ree_revision P r) path (d\<lparr>rd_workspace := workspace\<rparr>))
         | None \<Rightarrow>
             commit_definition P r (ree_revision P r) path
               (d\<lparr>rd_workspace := delete_if_exists (rd_workspace d) p\<rparr>))"

definition delete_file :: "'b platform \<Rightarrow> string \<Rightarrow> string \<Rightarrow> bool \<Rightarrow> 'b handler" where
  "delete_file P path expected_etag canceled d =
     (case validate_relative_path path of
        Inl _ \<Rightarrow> (action_failed Cat_Validation ''invalid path'', d)
      | Inr _ \<Rightarrow>
          (case load_draft P d of
             Inl refusal \<Rightarrow> (refusal, d)
           | Inr r \<Rightarrow>
               (case map_of (rd_workspace d) (posix_parts path) of
                  None \<Rightarrow> (action_failed Cat_Precondition ''file not found in workspace'', d)
                | Some old_workspace \<Rightarrow>
                    (case check_expected_etag P d path expected_etag of
                       Some conflict \<Rightarrow> (conflict, d)
                     | None \<Rightarrow>
                         if canceled then (action_canceled, d)
                         else finish_mutation ''delete_file failed''
                           (restore_file path (map_of (rd_overlay d) (posix_parts path))
                             (Some old_workspace))
                           (delete_attempt P r path d)))))"

section \<open>Trees under writes and restores\<close>

lemma write_atomic_Inr:
  "write_atomic t p c = Inr t' \<longleftrightarrow> t' = AList.update p c t \<and> \<not> is_dir_at t p \<and>
     \<not> (p \<noteq> [] \<and> is_file_at t (butlast p)) \<and> (\<forall>n < length p. \<not> is_file_at t (take n p))"
  by (auto simp: write_atomic_def)

lemma write_atomic_dir: "is_dir_at t p \<Longrightarrow> \<exists>e. write_atomic t p c = Inl e"
  by (auto simp: write_atomic_def)

lemma has_key_iff: "has_key t k \<longleftrightarrow> k \<in> set (map fst t)"
  by (auto simp: has_key_def map_of_eq_None_iff simp del: not_None_eq)

lemma is_dir_at_update [simp]: "is_dir_at (AList.update p c t) p \<longleftrightarrow> is_dir_at t p"
  by (auto simp: is_dir_at_def dom_update)

lemma is_file_at_update [simp]: "is_file_at (AList.update p c t) q \<longleftrightarrow> q = p \<or> is_file_at t q"
  by (auto simp: is_file_at_def has_key_def)

lemma file_neq_ancestor: "n < length p \<Longrightarrow> take n p \<noteq> p" "p \<noteq> [] \<Longrightarrow> butlast p \<noteq> p"
proof -
  show "n < length p \<Longrightarrow> take n p \<noteq> p" by auto
  show "p \<noteq> [] \<Longrightarrow> butlast p \<noteq> p" by (cases p rule: rev_cases) auto
qed

lemma restore_unwritten:
  assumes "\<not> is_dir_at t p"
  shows "restore_tree t p (map_of t p) = t"
  using assms by (cases "map_of t p")
    (auto simp: restore_tree_def delete_if_exists_def exists_at_def is_file_at_def has_key_def
      write_atomic_def update_triv)

lemma restore_written:
  assumes "write_atomic t p c = Inr t'"
  shows "restore_tree t' p (map_of t p) = t"
proof -
  from assms have t': "t' = AList.update p c t" "\<not> is_dir_at t p"
    and free: "\<not> (p \<noteq> [] \<and> is_file_at t (butlast p))" "\<forall>n < length p. \<not> is_file_at t (take n p)"
    by (auto simp: write_atomic_Inr)
  show ?thesis
  proof (cases "map_of t p")
    case None
    then have "p \<notin> fst ` set t" by (simp add: map_of_eq_None_iff)
    then have "AList.delete p t = t" by (rule delete_id)
    with t' None show ?thesis
      by (simp add: restore_tree_def delete_if_exists_def exists_at_def delete_update_same)
  next
    case (Some old)
    with t' free have "write_atomic t' p old = Inr (AList.update p old t')"
      by (auto simp: write_atomic_Inr file_neq_ancestor)
    with t' Some show ?thesis by (simp add: restore_tree_def update_last update_triv)
  qed
qed

lemma delete_if_exists_map:
  "\<not> is_dir_at t p \<Longrightarrow> map_of (delete_if_exists t p) = (map_of t)(p := None)"
  by (auto simp: delete_if_exists_def exists_at_def is_file_at_def has_key_def fun_eq_iff)

lemma delete_dir: "is_dir_at t p \<Longrightarrow> delete_if_exists t p = filter (\<lambda>(k, _). \<not> prefix p k) t"
  by (simp add: delete_if_exists_def exists_at_def)

lemma tree_ok_file_not_dir: "tree_ok t \<Longrightarrow> map_of t p = Some c \<Longrightarrow> \<not> is_dir_at t p"
  by (force simp: tree_ok_def dest: map_of_SomeD)

section \<open>Hydrated definitions speak for the overlay\<close>

text \<open>Every script identity a definition records is that of the overlay's bytes.\<close>

definition script_matches :: "'b platform \<Rightarrow> 'b ree_dir \<Rightarrow> string \<Rightarrow> string \<Rightarrow> int \<Rightarrow> bool" where
  "script_matches P d path digest n \<longleftrightarrow>
     (\<exists>script. overlay_file d path = Some script \<and> digest = pf_digest P script \<and>
        n = pf_size P script)"

definition verify_matches ::
  "'b platform \<Rightarrow> 'b ree_dir \<Rightarrow> string \<Rightarrow> string option \<Rightarrow> string option \<Rightarrow> bool" where
  "verify_matches P d reserved path digest \<longleftrightarrow>
     path = map_option (\<lambda>_. reserved) (overlay_file d reserved) \<and>
     digest = map_option (pf_digest P) (overlay_file d reserved)"

definition matches_overlay :: "'b platform \<Rightarrow> 'b ree_dir \<Rightarrow> ree_definition \<Rightarrow> bool" where
  "matches_overlay P d def \<longleftrightarrow>
     opt_ok (\<lambda>b. script_matches P d reserved_build_script (bld_script_digest b) (bld_script_size b))
       (def_build_runtime def) \<and>
     opt_ok (\<lambda>a. script_matches P d reserved_activation_script (act_run_script_digest a)
         (act_run_script_size a) \<and>
       verify_matches P d reserved_activation_verify_script (act_verify_script_path a)
         (act_verify_script_digest a)) (def_test_activation def) \<and>
     (\<forall>e \<in> set (def_experiments def).
       script_matches P d (experiment_run_script_path (exp_name e)) (exp_run_script_digest e)
         (exp_run_script_size e) \<and>
       verify_matches P d (experiment_verify_script_path (exp_name e)) (exp_verify_script_path e)
         (exp_verify_script_digest e))"

lemma required_overlay_file_Inr:
  "required_overlay_file d path label = Inr script \<longleftrightarrow>
     validate_relative_path path = Inr () \<and> overlay_file d path = Some script"
  by (cases "validate_relative_path path")
    (auto simp: required_overlay_file_def split: option.split)

lemma hydrate_experiments_match:
  "hydrate_experiments P d raws = Inr es \<Longrightarrow>
     map (\<lambda>e. (exp_name e, exp_output_paths e)) es = raws \<and>
     (\<forall>e \<in> set es.
       script_matches P d (experiment_run_script_path (exp_name e)) (exp_run_script_digest e)
         (exp_run_script_size e) \<and>
       verify_matches P d (experiment_verify_script_path (exp_name e)) (exp_verify_script_path e)
         (exp_verify_script_digest e))"
  by (induction raws arbitrary: es)
    (auto simp: hydrate_experiment_def Let_def required_overlay_file_Inr script_matches_def
      verify_matches_def)

lemma map_sum_Inr [simp]: "map_sum id f x = Inr y \<longleftrightarrow> (\<exists>a. x = Inr a \<and> y = f a)"
  by (cases x) auto

lemma hydrate_definition_match:
  assumes "hydrate_definition_payload P d pl = Inr def"
  shows "matches_overlay P d def \<and> valid_definition def \<and> dump_definition def = pl"
proof -
  from assms obtain build activation experiments where
    build: "(case pl_build_runtime pl of None \<Rightarrow> Inr None
       | Some runtime_path \<Rightarrow> map_sum id Some (hydrate_build P d runtime_path)) = Inr build" and
    act: "(if pl_test_activation pl then map_sum id Some (hydrate_activation P d)
       else Inr None) = Inr activation" and
    exps: "hydrate_experiments P d (pl_experiments pl) = Inr experiments" and
    def: "def = \<lparr>def_name = pl_name pl, def_catalog = pl_catalog pl,
           def_source = pl_source pl, def_build_runtime = build,
           def_test_activation = activation, def_hardware = pl_hardware pl,
           def_experiments = experiments\<rparr>" and "valid_definition def"
    by (auto simp: hydrate_definition_payload_def Let_def split: if_splits)
  from build have "opt_ok (\<lambda>b. script_matches P d reserved_build_script (bld_script_digest b)
      (bld_script_size b)) build \<and> map_option bld_runtime_path build = pl_build_runtime pl"
    by (auto simp: hydrate_build_def required_overlay_file_Inr script_matches_def split: option.splits)
  moreover from act have "opt_ok (\<lambda>a. script_matches P d reserved_activation_script
        (act_run_script_digest a) (act_run_script_size a) \<and>
      verify_matches P d reserved_activation_verify_script (act_verify_script_path a)
        (act_verify_script_digest a)) activation \<and> (activation \<noteq> None \<longleftrightarrow> pl_test_activation pl)"
    by (auto simp: hydrate_activation_def required_overlay_file_Inr script_matches_def Let_def
        verify_matches_def split: if_splits)
  moreover note hydrate_experiments_match[OF exps] \<open>valid_definition def\<close>
  ultimately show ?thesis
    by (simp add: def matches_overlay_def dump_definition_def)
qed

lemma rehydrate_match:
  "rehydrate_after_file_mutation P d def path = Inr def' \<Longrightarrow>
     matches_overlay P d def' \<and> valid_definition def'"
  by (auto simp: rehydrate_after_file_mutation_def Let_def dest: hydrate_definition_match
      split: if_splits)

lemma matches_overlay_manifest [simp]:
  "matches_overlay P (d\<lparr>rd_manifest := m\<rparr>) def = matches_overlay P d def"
  by (simp add: matches_overlay_def script_matches_def verify_matches_def overlay_file_def)

section \<open>Facts about the handlers\<close>

lemma load_draft_Inr:
  "load_draft P d = Inr r \<longleftrightarrow> load_ree P d = Inr r \<and> ree_sealed r = None"
proof (cases "load_ree P d")
  case (Inl e)
  then show ?thesis by (cases e) (simp_all add: load_draft_def)
next
  case (Inr r')
  then have "manifest_exists d" by (auto simp: load_ree_Inr manifest_exists_def)
  with Inr show ?thesis by (auto simp: load_draft_def)
qed

lemma load_draft_Inl: "load_draft P d = Inl res \<Longrightarrow> ar_status res = Failed"
proof -
  assume refused: "load_draft P d = Inl res"
  show ?thesis
  proof (cases "load_ree P d")
    case (Inl e)
    with refused show ?thesis by (cases e) (auto simp: load_draft_def split: if_splits)
  qed (use refused in \<open>auto simp: load_draft_def split: if_splits\<close>)
qed

lemma commit_definition_raised: "commit_definition P r v path d = (Some e, d') \<Longrightarrow> d' = d"
  by (auto simp: commit_definition_def split: sum.splits)

lemma commit_definition_done:
  assumes "commit_definition P r v path d = (None, d')"
  shows "\<exists>def r'. matches_overlay P d def \<and> valid_definition def \<and>
    replace_definition r def = Inr r' \<and> d' = d\<lparr>rd_manifest := Some (pf_dumps P r')\<rparr>"
  using assms by (auto simp: commit_definition_def save_ree_Inr dest!: rehydrate_match
      split: sum.splits)

lemma finish_mutation_cases:
  "finish_mutation what restore (None, d) = (action_succeeded [], d)"
  "\<exists>res. finish_mutation what restore (Some e, d) = (res, restore d) \<and> ar_status res = Failed"
  by (simp_all add: finish_mutation_def split: ree_error.split)

lemma finish_mutation_raised:
  "finish_mutation what restore (Some e, d) = (res, d') \<Longrightarrow>
     ar_status res = Failed \<and> d' = restore d"
  using finish_mutation_cases(2)[of what restore e d] by auto

lemma replace_definition_subject:
  "replace_definition r def = Inr r' \<Longrightarrow> sub_definition (ree_subject r') = def"
  by (auto simp: replace_definition_def Let_def split: if_splits)

lemma write_attempt_raised:
  assumes "write_attempt P r path content d = (Some e, d')"
    and "\<not> is_dir_at (rd_overlay d) (posix_parts path)"
    and "\<not> is_dir_at (rd_workspace d) (posix_parts path)"
  shows "restore_file path (map_of (rd_overlay d) (posix_parts path))
    (map_of (rd_workspace d) (posix_parts path)) d' = d"
  using assms
  by (auto simp: write_attempt_def restore_file_def Let_def restore_unwritten restore_written
      dest!: commit_definition_raised split: sum.splits)

lemma write_attempt_done:
  assumes "write_attempt P r path content d = (None, d')"
  shows "\<exists>def r'. matches_overlay P d' def \<and> valid_definition def \<and>
    replace_definition r def = Inr r' \<and>
    d' = d\<lparr>rd_overlay := AList.update (posix_parts path) content (rd_overlay d),
      rd_workspace := AList.update (posix_parts path) content (rd_workspace d),
      rd_manifest := Some (pf_dumps P r')\<rparr>"
  using assms
  by (auto simp: write_attempt_def Let_def write_atomic_Inr
      dest!: commit_definition_done split: sum.splits)

section \<open>Properties\<close>

text \<open>
  Property C13. \<open>write_file\<close> is all or nothing on a path that is not a directory: either it
  reports success, the overlay and the workspace hold the new bytes at the path, no other file
  changed, and the stored definition records the identities of the overlay's scripts; or it does
  not, and the directory is exactly what it was.
\<close>

theorem write_file_all_or_nothing:
  assumes "\<not> is_dir_at (rd_overlay d) (posix_parts path)"
    and "\<not> is_dir_at (rd_workspace d) (posix_parts path)"
    and "write_file P path content etag canceled d = (res, d')"
  shows "(ar_status res = Succeeded \<and>
      map_of (rd_overlay d') = (map_of (rd_overlay d))(posix_parts path \<mapsto> pf_encode P content) \<and>
      map_of (rd_workspace d') = (map_of (rd_workspace d))(posix_parts path \<mapsto> pf_encode P content) \<and>
      (\<exists>r'. rd_manifest d' = Some (pf_dumps P r') \<and>
        matches_overlay P d' (sub_definition (ree_subject r')))) \<or>
    (ar_status res \<noteq> Succeeded \<and> d' = d)"
proof (cases "\<exists>r. load_draft P d = Inr r \<and> validate_relative_path path = Inr () \<and>
    check_expected_etag P d path etag = None \<and> \<not> canceled")
  case True
  then obtain r where "load_draft P d = Inr r" "validate_relative_path path = Inr ()"
    "check_expected_etag P d path etag = None" "\<not> canceled" by blast
  with assms(3) have run: "finish_mutation ''write_file failed''
      (restore_file path (map_of (rd_overlay d) (posix_parts path))
        (map_of (rd_workspace d) (posix_parts path)))
      (write_attempt P r path (pf_encode P content) d) = (res, d')"
    by (simp add: write_file_def Let_def)
  obtain e d1 where attempt: "write_attempt P r path (pf_encode P content) d = (e, d1)"
    by (cases "write_attempt P r path (pf_encode P content) d")
  show ?thesis
  proof (cases e)
    case None
    with run attempt have "res = action_succeeded []" "d' = d1"
      by (simp_all add: finish_mutation_cases)
    with write_attempt_done[of P r path "pf_encode P content" d d1] attempt None show ?thesis
      by (auto dest!: replace_definition_subject)
  next
    case (Some x)
    with run attempt write_attempt_raised[OF _ assms(1,2)] show ?thesis
      by (auto dest!: finish_mutation_raised)
  qed
next
  case False
  with assms(3) show ?thesis
    by (auto simp: write_file_def check_expected_etag_def Let_def dest!: load_draft_Inl split: sum.splits option.splits if_splits)
qed

lemma rehydrate_new_definition:
  "rehydrate_after_file_mutation P d (new_definition n) path = Inr (new_definition n)"
  using new_definition_valid[of n]
  by (simp add: rehydrate_after_file_mutation_def dump_definition_def new_definition_def Let_def
      hydrate_definition_payload_def)

theorem write_file_all_or_nothing_witness:
  "\<exists>res d'. write_file example_platform ''a.py'' ''x'' [] False (example_dir (new_ree ''a'')) = (res, d') \<and>
     ar_status res = Succeeded \<and> map_of (rd_overlay d') [''a.py''] = Some (Inr ''x'')"
proof -
  let ?d = "example_dir (new_ree ''a'')"
  let ?run = "write_file example_platform ''a.py'' ''x'' [] False ?d"
  obtain res d' where run: "?run = (res, d')" by (cases ?run)
  have load: "load_ree example_platform ?d = Inr (new_ree ''a'')"
    by (simp add: load_example_dir draft_valid_ree)
  have parts: "posix_parts ''a.py'' = [''a.py'']" "validate_relative_path ''a.py'' = Inr ()"
    by code_simp+
  have trees [simp]: "rd_overlay ?d = []" "rd_workspace ?d = []"
    "pf_encode example_platform ''x'' = Inr ''x''"
    by (simp_all add: example_dir_def empty_dir_def example_platform_def)
  let ?d2 = "?d\<lparr>rd_overlay := [([''a.py''], Inr ''x'')], rd_workspace := [([''a.py''], Inr ''x'')]\<rparr>"
  have written: "write_atomic [] [''a.py''] c = Inr [([''a.py''], c)]" for c :: "ree + string"
    by (simp add: write_atomic_def is_file_at_def has_key_def is_dir_at_def)
  obtain r' where r': "replace_definition (new_ree ''a'') (new_definition ''a'') = Inr r'"
    "ree_sealed r' = None"
    using author_draft[of "new_ree ''a''" "Replace_Definition (new_definition ''a'')"] by auto
  have "load_ree example_platform ?d2 = Inr (new_ree ''a'')"
    using load by (simp add: load_ree_Inr)
  then obtain d3 where "save_ree example_platform ?d2 r'
      (ree_revision example_platform (new_ree ''a'')) = Inr d3"
    using r'(2) by (auto simp: save_ree_Inr valid_seal_Inr)
  then have "commit_definition example_platform (new_ree ''a'')
      (ree_revision example_platform (new_ree ''a'')) ''a.py'' ?d2 = (None, d3)"
    using r'(1) by (simp add: commit_definition_def rehydrate_new_definition
        new_ree_def[of "''a''"])
  then have "?run = (action_succeeded [], d3)"
    using load
    by (simp add: write_file_def parts load_draft_Inr check_expected_etag_def Let_def
        write_attempt_def written finish_mutation_cases
        load_draft_Inr[THEN iffD2, OF conjI[OF load new_ree_simps(1)]])
  then have ok: "ar_status res = Succeeded" by (simp add: run)
  have "\<not> is_dir_at (rd_overlay ?d) (posix_parts ''a.py'')"
    "\<not> is_dir_at (rd_workspace ?d) (posix_parts ''a.py'')"
    by (simp_all add: parts is_dir_at_def example_dir_def empty_dir_def)
  from write_file_all_or_nothing[OF this run] run ok parts show ?thesis
    by (auto simp: example_platform_def)
qed

text \<open>
  On a path that is a directory of the overlay (\<open>src\<close>, or the root \<open>.\<close>) the
  restore step is destructive: \<open>write_file\<close> fails, and the authored files under that path are
  gone from the overlay, and from the workspace where the path is a directory there too.
\<close>

theorem write_file_on_directory_deletes:
  assumes "load_ree P d = Inr r" and "ree_sealed r = None"
    and "validate_relative_path path = Inr ()"
    and "tree_ok (rd_overlay d)" and "is_dir_at (rd_overlay d) (posix_parts path)"
    and "tree_ok (rd_workspace d)" and "is_dir_at (rd_workspace d) (posix_parts path)"
    and "write_file P path content [] False d = (res, d')"
  shows "ar_status res = Failed \<and>
    rd_overlay d' = filter (\<lambda>(k, _). \<not> prefix (posix_parts path) k) (rd_overlay d) \<and>
    rd_workspace d' = filter (\<lambda>(k, _). \<not> prefix (posix_parts path) k) (rd_workspace d)"
proof -
  let ?p = "posix_parts path"
  have "load_draft P d = Inr r" using assms by (simp add: load_draft_Inr)
  obtain e where "write_atomic (rd_overlay d) ?p (pf_encode P content) = Inl e"
    using write_atomic_dir[OF assms(5)] by blast
  then have attempt: "write_attempt P r path (pf_encode P content) d = (Some e, d)"
    by (simp add: write_attempt_def)
  have none: "map_of (rd_overlay d) ?p = None" "map_of (rd_workspace d) ?p = None"
    using assms(4-7) tree_ok_file_not_dir by (metis not_None_eq)+
  from assms \<open>load_draft P d = Inr r\<close> attempt none
  have "finish_mutation ''write_file failed'' (restore_file path None None) (Some e, d) = (res, d')"
    by (simp add: write_file_def Let_def check_expected_etag_def)
  then have "ar_status res = Failed" "d' = restore_file path None None d"
    by (auto dest: finish_mutation_raised)
  with assms(5,7) show ?thesis by (simp add: restore_file_def restore_tree_def delete_dir)
qed

theorem write_file_on_directory_deletes_witness:
  "\<exists>res d'. write_file example_platform ''.'' ''x'' [] False
       ((example_dir (new_ree ''a''))\<lparr>rd_overlay := [([''notes''], Inr ''n'')]\<rparr>) = (res, d') \<and>
     ar_status res = Failed \<and> rd_overlay d' = []"
proof -
  let ?d = "(example_dir (new_ree ''a''))\<lparr>rd_overlay := [([''notes''], Inr ''n'')]\<rparr>"
  let ?run = "write_file example_platform ''.'' ''x'' [] False ?d"
  obtain res d' where run: "?run = (res, d')" by (cases ?run)
  have "load_ree example_platform (example_dir (new_ree ''a'')) = Inr (new_ree ''a'')"
    by (simp add: load_example_dir draft_valid_ree)
  then have load: "load_ree example_platform ?d = Inr (new_ree ''a'')"
    by (simp add: load_ree_Inr)
  have root: "posix_parts ''.'' = []" "validate_relative_path ''.'' = Inr ()" by code_simp+
  have "tree_ok (rd_overlay ?d)" "tree_ok (rd_workspace ?d)"
    by (simp_all add: tree_ok_def dict_ok_def is_dir_at_def example_dir_def empty_dir_def)
  moreover have "is_dir_at t (posix_parts ''.'')" for t :: "(ree + string) tree"
    by (simp add: root is_dir_at_def)
  ultimately show ?thesis
    using write_file_on_directory_deletes[OF load _ root(2) _ _ _ _ run] run
    by (simp add: root)
qed

text \<open>
  A patch cannot forge a script's identity: whatever \<open>patch_ree_definition\<close>
  stores records, for the build, the activation and every experiment, the digest and size of the
  overlay's own bytes, satisfies the definition's validators, and was planned on the revision the
  client named. A patch that does not succeed changes nothing.
\<close>

theorem patch_identities_from_overlay:
  assumes "patch_ree_definition P patch expected canceled d = (res, d')"
  shows "(ar_status res = Succeeded \<and> (\<forall>f \<in> set patch. \<not> is_unknown f) \<and>
      (\<exists>r r'. load_ree P d = Inr r \<and> expected \<in> {[], ree_revision P r} \<and>
        d' = d\<lparr>rd_manifest := Some (pf_dumps P r')\<rparr> \<and>
        valid_definition (sub_definition (ree_subject r')) \<and>
        matches_overlay P d' (sub_definition (ree_subject r')))) \<or>
    (ar_status res \<noteq> Succeeded \<and> d' = d)"
proof (cases "ar_status res = Succeeded")
  case True
  with assms obtain r def r' where
    "load_ree P d = Inr r" "expected \<in> {[], ree_revision P r}"
    "patched_definition P d (sub_definition (ree_subject r)) patch = Inr def"
    "replace_definition r def = Inr r'"
    "save_ree P d r' (ree_revision P r) = Inr d'"
    by (auto simp: patch_ree_definition_def Let_def bind_res_Inl_iff
        split: sum.splits ree_error.splits if_splits)
  moreover from this(3) have "\<forall>f \<in> set patch. \<not> is_unknown f" "matches_overlay P d def"
    "valid_definition def"
    by (auto simp: patched_definition_def dest!: hydrate_definition_match split: if_splits)
  ultimately show ?thesis
    using True by (auto simp: save_ree_Inr dest!: replace_definition_subject)
next
  case False
  with assms show ?thesis
    by (auto simp: patch_ree_definition_def Let_def split: sum.splits ree_error.splits if_splits)
qed

theorem patch_identities_from_overlay_witness:
  "\<exists>res d'. patch_ree_definition example_platform [F_Unknown ''seal''] [] False empty_dir = (res, d') \<and>
     d' = empty_dir"
proof -
  obtain res d' where run:
    "patch_ree_definition example_platform [F_Unknown ''seal''] [] False empty_dir = (res, d')"
    by (cases "patch_ree_definition example_platform [F_Unknown ''seal''] [] False empty_dir")
  from patch_identities_from_overlay[OF run] run show ?thesis by auto
qed

lemma keys_map_of: "k \<in> set (map fst t) \<longleftrightarrow> map_of t k \<noteq> None"
  by (simp add: map_of_eq_None_iff)

lemma tree_ok_ancestor:
  assumes "tree_ok t" "map_of t p = Some c" "strict_prefix q p"
  shows "map_of t q = None"
proof (rule ccontr)
  assume "map_of t q \<noteq> None"
  with keys_map_of[of q t] have "q \<in> set (map fst t)" by blast
  moreover from assms(2,3) have "is_dir_at t q"
    using keys_map_of[of p t] by (metis is_dir_at_def option.distinct(1))
  ultimately show False using assms(1) by (auto simp: tree_ok_def)
qed

lemma restore_deleted:
  assumes "tree_ok t" "map_of t p = Some c" "map_of t' = (map_of t)(p := x)"
  shows "map_of (restore_tree t' p (Some c)) = map_of t"
proof -
  have keys: "k \<in> set (map fst t') \<Longrightarrow> k = p \<or> k \<in> set (map fst t)" for k
    using keys_map_of[of k t'] keys_map_of[of k t] assms(3) by (metis fun_upd_other)
  have not_dir: "\<not> is_dir_at t p" using assms(1,2) by (rule tree_ok_file_not_dir)
  then have "p \<noteq> []" by (auto simp: is_dir_at_def)
  with keys not_dir have "\<not> is_dir_at t' p"
    unfolding is_dir_at_def by (metis prefix_order.less_irrefl)
  moreover have "\<not> is_file_at t' (take n p)" if "n < length p" for n
  proof -
    have "strict_prefix (take n p) p"
      using that file_neq_ancestor(1) by (auto simp: strict_prefix_def take_is_prefix)
    with assms tree_ok_ancestor[OF assms(1,2)] show ?thesis
      by (auto simp: is_file_at_def has_key_def)
  qed
  moreover from this[of "length p - 1"] \<open>p \<noteq> []\<close> have "\<not> is_file_at t' (butlast p)"
    by (simp add: butlast_conv_take)
  ultimately have "write_atomic t' p c = Inr (AList.update p c t')"
    by (auto simp: write_atomic_Inr)
  with assms show ?thesis by (simp add: restore_tree_def fun_upd_idem)
qed

lemma delete_attempt_map:
  assumes "delete_attempt P r path d = (outcome, d')"
    and "tree_ok (rd_workspace d)" "tree_ok (rd_overlay d)"
    and "map_of (rd_workspace d) (posix_parts path) = Some old"
    and "\<not> is_dir_at (rd_overlay d) (posix_parts path)"
  shows "map_of (rd_overlay d') = (map_of (rd_overlay d))(posix_parts path := None)"
    and "\<exists>x. map_of (rd_workspace d') = (map_of (rd_workspace d))(posix_parts path := x) \<and>
      (outcome = None \<longrightarrow> x = map_of (rd_upstream d) (posix_parts path) \<and>
        (\<exists>def r'. matches_overlay P d' def \<and> replace_definition r def = Inr r' \<and>
          rd_manifest d' = Some (pf_dumps P r')))"
    and "outcome \<noteq> None \<Longrightarrow> rd_manifest d' = rd_manifest d"
proof -
  let ?p = "posix_parts path"
  have ws: "\<not> is_dir_at (rd_workspace d) ?p"
    using assms(2,4) by (rule tree_ok_file_not_dir)
  note facts = delete_if_exists_map[OF ws] delete_if_exists_map[OF assms(5)] fun_upd_idem[of _ _ "Some old"]
  show "map_of (rd_overlay d') = (map_of (rd_overlay d))(posix_parts path := None)"
    using assms(1) by (cases outcome) (auto simp: delete_attempt_def Let_def facts
      dest!: commit_definition_raised commit_definition_done split: option.splits sum.splits)
  show "\<exists>x. map_of (rd_workspace d') = (map_of (rd_workspace d))(posix_parts path := x) \<and>
      (outcome = None \<longrightarrow> x = map_of (rd_upstream d) (posix_parts path) \<and>
        (\<exists>def r'. matches_overlay P d' def \<and> replace_definition r def = Inr r' \<and>
          rd_manifest d' = Some (pf_dumps P r')))"
    using assms(1,4)
    by (cases outcome; cases "map_of (rd_upstream d) ?p")
      (fastforce simp: delete_attempt_def Let_def facts write_atomic_Inr
        dest!: commit_definition_raised commit_definition_done split: sum.splits)+
  show "rd_manifest d' = rd_manifest d" if "outcome \<noteq> None"
    using assms(1) that by (cases outcome) (auto simp: delete_attempt_def Let_def
      dest!: commit_definition_raised split: option.splits sum.splits)
qed

text \<open>
  \<open>delete_file\<close>, on well-formed trees and a path that is no directory of the
  overlay: on success the overlay no longer has the file, the workspace has upstream's bytes at
  the path or nothing, and the stored definition matches the remaining overlay (a deleted run
  script takes its declaration with it); otherwise every file of both trees and the document are
  what they were.
\<close>

theorem delete_file_restores_or_deletes:
  assumes "tree_ok (rd_workspace d)" and "tree_ok (rd_overlay d)"
    and "\<not> is_dir_at (rd_overlay d) (posix_parts path)"
    and "delete_file P path etag canceled d = (res, d')"
  shows "(ar_status res = Succeeded \<and>
      map_of (rd_overlay d') = (map_of (rd_overlay d))(posix_parts path := None) \<and>
      map_of (rd_workspace d') =
        (map_of (rd_workspace d))(posix_parts path := map_of (rd_upstream d) (posix_parts path)) \<and>
      (\<exists>r'. rd_manifest d' = Some (pf_dumps P r') \<and>
        matches_overlay P d' (sub_definition (ree_subject r')))) \<or>
    (ar_status res \<noteq> Succeeded \<and> map_of (rd_overlay d') = map_of (rd_overlay d) \<and>
      map_of (rd_workspace d') = map_of (rd_workspace d) \<and> rd_manifest d' = rd_manifest d)"
proof (cases "\<exists>r old. load_draft P d = Inr r \<and> validate_relative_path path = Inr () \<and>
    map_of (rd_workspace d) (posix_parts path) = Some old \<and>
    check_expected_etag P d path etag = None \<and> \<not> canceled")
  case True
  then obtain r old where old: "map_of (rd_workspace d) (posix_parts path) = Some old"
    and "load_draft P d = Inr r" "validate_relative_path path = Inr ()"
      "check_expected_etag P d path etag = None" "\<not> canceled" by blast
  with assms(4) have run: "finish_mutation ''delete_file failed''
      (restore_file path (map_of (rd_overlay d) (posix_parts path)) (Some old))
      (delete_attempt P r path d) = (res, d')"
    by (simp add: delete_file_def)
  obtain e d1 where attempt: "delete_attempt P r path d = (e, d1)"
    by (cases "delete_attempt P r path d")
  note facts = delete_attempt_map[OF attempt assms(1,2) old assms(3)]
  show ?thesis
  proof (cases e)
    case None
    with run attempt have "res = action_succeeded []" "d' = d1"
      by (simp_all add: finish_mutation_cases)
    with facts None show ?thesis by (auto dest: replace_definition_subject)
  next
    case (Some x)
    with run attempt have d': "ar_status res = Failed"
      "d' = restore_file path (map_of (rd_overlay d) (posix_parts path)) (Some old) d1"
      by (auto dest: finish_mutation_raised)
    have "map_of (restore_tree (rd_overlay d1) (posix_parts path)
        (map_of (rd_overlay d) (posix_parts path))) = map_of (rd_overlay d)"
    proof (cases "map_of (rd_overlay d) (posix_parts path)")
      case None
      then have same: "map_of (rd_overlay d1) = map_of (rd_overlay d)"
        using facts(1) by (simp add: fun_upd_idem)
      then have "\<not> is_dir_at (rd_overlay d1) (posix_parts path)"
        using assms(3) unfolding is_dir_at_def by (metis keys_map_of)
      with None same show ?thesis
        by (simp add: restore_tree_def delete_if_exists_map fun_upd_idem)
    next
      case (Some c)
      with restore_deleted[OF assms(2) Some facts(1)] show ?thesis by simp
    qed
    moreover obtain y where "map_of (rd_workspace d1) = (map_of (rd_workspace d))(posix_parts path := y)"
      using facts(2) by blast
    from restore_deleted[OF assms(1) old this]
    have "map_of (restore_tree (rd_workspace d1) (posix_parts path) (Some old)) =
        map_of (rd_workspace d)" .
    ultimately show ?thesis using d' facts(3) Some by (simp add: restore_file_def)
  qed
next
  case False
  with assms(4) show ?thesis
    by (auto simp: delete_file_def check_expected_etag_def Let_def
        dest!: load_draft_Inl split: sum.splits option.splits if_splits)
qed

theorem delete_file_restores_or_deletes_witness:
  "\<exists>res d'. delete_file example_platform ''a'' [] False (example_dir (new_ree ''x'')) = (res, d') \<and>
     ((ar_status res = Succeeded \<and> map_of (rd_overlay d') [''a''] = None) \<or>
      (ar_status res \<noteq> Succeeded \<and> rd_manifest d' = Some (Inl (new_ree ''x''))))"
proof -
  let ?d = "example_dir (new_ree ''x'')"
  obtain res d' where run: "delete_file example_platform ''a'' [] False ?d = (res, d')"
    by (cases "delete_file example_platform ''a'' [] False ?d")
  have parts: "posix_parts ''a'' = [''a'']" by code_simp
  have "tree_ok (rd_workspace ?d)" "tree_ok (rd_overlay ?d)"
    "\<not> is_dir_at (rd_overlay ?d) (posix_parts ''a'')"
    by (simp_all add: parts tree_ok_def is_dir_at_def example_dir_def empty_dir_def)
  from delete_file_restores_or_deletes[OF this run] run parts show ?thesis
    by (auto simp: example_dir_def)
qed

end
