(* ===== verification/Ree_Bundle.thy ===== *)
theory Ree_Bundle
  imports Ree_Authoring
begin

text \<open>
  The bundle: \<open>bundle/seal.py\<close> collects the entries, inventories them, seals the document
  and writes the archive; \<open>bundle/restore.py\<close> checks an extracted bundle against the
  inventory it carries and rebuilds the REE directory. A ZIP archive is its list of entries; the
  texts of the reproducer's four files come from \<open>repro\<close>, a function of the arguments
  \<open>_reproducer\<close> passes.
\<close>

section \<open>Bundle layout\<close>

definition bundle_root_prefix :: string where
  "bundle_root_prefix = ''ree/''"

definition bundle_manifest_path :: string where
  "bundle_manifest_path = bundle_root_prefix @ ''ree.json''"

definition bundle_snapshot_path :: string where
  "bundle_snapshot_path = bundle_root_prefix @ ''snapshot.tar.gz''"

definition bundle_overlay_prefix :: string where
  "bundle_overlay_prefix = bundle_root_prefix @ ''overlay/''"

definition bundle_artifacts_prefix :: string where
  "bundle_artifacts_prefix = bundle_root_prefix @ ''artifacts/''"

definition bundle_results_prefix :: string where
  "bundle_results_prefix = bundle_root_prefix @ ''results/''"

definition bundle_acquire_path :: string where
  "bundle_acquire_path = bundle_root_prefix @ ''acquire_source.sh''"

definition bundle_materialize_path :: string where
  "bundle_materialize_path = bundle_root_prefix @ ''materialize_workspace.sh''"

lemmas bundle_paths = bundle_root_prefix_def bundle_manifest_path_def bundle_snapshot_path_def
  bundle_overlay_prefix_def bundle_artifacts_prefix_def bundle_results_prefix_def
  bundle_acquire_path_def bundle_materialize_path_def

section \<open>The ZIP writer\<close>

type_synonym 'b entries = "(string \<times> 'b) list"

definition unix_mode_attr :: "string \<Rightarrow> nat" where
  "unix_mode_attr archive_path =
     (let mode = (if suffix ''/'' archive_path then 0x41ED
        else if suffix ''.sh'' archive_path then 0x81ED else 0x81A4)
      in push_bit 16 mode)"

record 'b zip_member =
  zm_name :: string
  zm_mode :: nat
  zm_content :: 'b

definition build_zip :: "'b entries \<Rightarrow> 'b zip_member list" where
  "build_zip entries =
     map (\<lambda>(path, content). \<lparr>zm_name = path, zm_mode = unix_mode_attr path, zm_content = content\<rparr>)
       entries"

definition zip_entries :: "'b zip_member list \<Rightarrow> 'b entries" where
  "zip_entries = map (\<lambda>m. (zm_name m, zm_content m))"

text \<open>
  \<open>safe_extract_zip\<close>: a member that resolves outside the destination is skipped; the library
  drops \<open>..\<close> components of the others.
\<close>

fun stays_inside :: "nat \<Rightarrow> string list \<Rightarrow> bool" where
  "stays_inside depth [] = True"
| "stays_inside depth (p # ps) =
     (if p = ''..'' then depth \<noteq> 0 \<and> stays_inside (depth - 1) ps else stays_inside (depth + 1) ps)"

definition safe_extract_zip :: "'b zip_member list \<Rightarrow> 'b tree" where
  "safe_extract_zip members =
     fold (\<lambda>m t. AList.update (filter (\<lambda>p. p \<noteq> ''..'') (posix_parts (zm_name m))) (zm_content m) t)
       (filter (\<lambda>m. \<not> is_rooted (zm_name m) \<and> stays_inside 0 (posix_parts (zm_name m))) members) []"

section \<open>Sealing\<close>

record reproducer_args =
  rp_activation_script :: string
  rp_activation_verify_script :: string
  rp_experiments :: "(string \<times> string \<times> string) list"
  rp_runtime_workspace_path :: string
  rp_runtime_artifact_basename :: string
  rp_origin_url :: string
  rp_source_type :: source_type
  rp_revision :: string
  rp_swhid :: string

definition or_empty :: "string option \<Rightarrow> string" where
  "or_empty s = (case s of None \<Rightarrow> [] | Some t \<Rightarrow> t)"

text \<open>\<open>PurePosixPath(p).name\<close>.\<close>

definition path_name :: "string \<Rightarrow> string" where
  "path_name p = (case posix_parts p of [] \<Rightarrow> [] | ps \<Rightarrow> last ps)"

definition reproducer_args_of :: "ree \<Rightarrow> reproducer_args" where
  "reproducer_args_of r =
     (let d = sub_definition (ree_subject r); source = def_source d;
          activation = def_test_activation d;
          runtime = or_empty (Option.bind (def_build_runtime d) bld_runtime_path)
      in \<lparr>rp_activation_script = or_empty (map_option act_run_script_path activation),
          rp_activation_verify_script = or_empty (Option.bind activation act_verify_script_path),
          rp_experiments = map (\<lambda>e. (exp_name e, exp_run_script_path e,
            or_empty (exp_verify_script_path e))) (def_experiments d),
          rp_runtime_workspace_path = runtime,
          rp_runtime_artifact_basename = path_name runtime,
          rp_origin_url = or_empty (Option.bind source src_origin_url),
          rp_source_type = (case source of None \<Rightarrow> No_Type | Some s \<Rightarrow> src_source_type s),
          rp_revision = or_empty (Option.bind source src_requested_ref),
          rp_swhid = or_empty (Option.bind (rcp_source (sub_receipts (ree_subject r)))
            asr_observed_swhid)\<rparr>)"

record 'b reproducer_files =
  rf_run_sh :: 'b
  rf_acquire_sh :: 'b
  rf_materialize_sh :: 'b
  rf_readme :: 'b

type_synonym 'b reproducer = "reproducer_args \<Rightarrow> 'b reproducer_files"

definition reproducer_entries :: "'b reproducer_files \<Rightarrow> 'b entries" where
  "reproducer_entries f =
     [(''run.sh'', rf_run_sh f), (bundle_acquire_path, rf_acquire_sh f),
      (bundle_materialize_path, rf_materialize_sh f), (''REPRODUCING.md'', rf_readme f)]"

text \<open>\<open>_tree_entries\<close>: the files in the order of \<open>list_tree_relpaths\<close>.\<close>

definition tree_entries :: "'b tree \<Rightarrow> string \<Rightarrow> 'b entries" where
  "tree_entries t bundle_prefix =
     map (\<lambda>(k, content). (bundle_prefix @ as_posix k, content))
       (sort_key (\<lambda>(k, _). as_posix k) t)"

record seal_options =
  source_included :: bool
  runtime_included :: bool
  results_included :: bool

definition snapshot_entries :: "seal_options \<Rightarrow> 'b ree_dir \<Rightarrow> 'b entries" where
  "snapshot_entries opts d =
     (case rd_snapshot d of
        Some content \<Rightarrow> if source_included opts then [(bundle_snapshot_path, content)] else []
      | None \<Rightarrow> [])"

text \<open>The runtime, lifted out of the workspace unless an artifact already has its name.\<close>

definition runtime_entries :: "seal_options \<Rightarrow> 'b ree_dir \<Rightarrow> ree \<Rightarrow> 'b entries \<Rightarrow> 'b entries" where
  "runtime_entries opts d r entries =
     (case Option.bind (def_build_runtime (sub_definition (ree_subject r))) bld_runtime_path of
        None \<Rightarrow> []
      | Some runtime_path \<Rightarrow>
          let target = bundle_artifacts_prefix @ path_name runtime_path
          in case map_of (rd_workspace d) (posix_parts runtime_path) of
               Some content \<Rightarrow>
                 if runtime_included opts \<and> (\<forall>(path, _) \<in> set entries. path \<noteq> target)
                 then [(target, content)] else []
             | None \<Rightarrow> [])"

definition collect_entries ::
  "'b reproducer \<Rightarrow> seal_options \<Rightarrow> 'b ree_dir \<Rightarrow> ree \<Rightarrow> 'b entries" where
  "collect_entries repro opts d r =
     (let entries = reproducer_entries (repro (reproducer_args_of r)) @
            tree_entries (rd_overlay d) bundle_overlay_prefix @
            tree_entries (rd_artifacts d) bundle_artifacts_prefix @ snapshot_entries opts d;
          entries = entries @ runtime_entries opts d r entries @
            (if results_included opts then tree_entries (rd_results d) bundle_results_prefix else [])
      in sort_key fst entries)"

definition bundle_entry_of :: "'b platform \<Rightarrow> string \<times> 'b \<Rightarrow> bundle_entry" where
  "bundle_entry_of P e =
     \<lparr>be_path = fst e, be_digest = pf_digest P (snd e), be_size = pf_size P (snd e)\<rparr>"

text \<open>\<open>_inventory\<close>: constructing \<open>BundleContents\<close> runs its validators.\<close>

definition inventory :: "'b platform \<Rightarrow> 'b entries \<Rightarrow> ree_error + bundle_contents" where
  "inventory P entries =
     (let es = map (bundle_entry_of P) entries
      in if valid_contents es then Inr es
         else Inl (Value_Error ''bundle contents do not fit the model''))"

definition refuse_stale_evidence :: "ree \<Rightarrow> ree_error + unit" where
  "refuse_stale_evidence r =
     require (stale_steps (audit r) = [])
       (Precondition_Error (''cannot seal an REE with stale evidence - re-run the affected steps or drop what they describe ('' @
         join_with ''; '' (map (\<lambda>(name, step). name @ '': '' @ join_with '', '' (sa_reasons step))
           (stale_steps (audit r))) @ '')''))"

text \<open>The sealed document, and the archive's entries with it in place.\<close>

definition seal_document ::
  "'b platform \<Rightarrow> utc_instant \<Rightarrow> ree \<Rightarrow> 'b entries \<Rightarrow> ree_error + ree" where
  "seal_document P sealed_at r entries =
     bind_res (inventory P entries) (\<lambda>contents.
     bind_res (replace_contents r contents) (\<lambda>draft.
     record_seal (pf_subject_digest P) draft sealed_at None))"

definition archive_of :: "'b platform \<Rightarrow> ree \<Rightarrow> 'b entries \<Rightarrow> ree_error + 'b entries" where
  "archive_of P r entries =
     bind_res (ree_manifest_bytes P r) (\<lambda>document.
       Inr (sort_key fst (entries @ [(bundle_manifest_path, document)])))"

definition seal_ree ::
  "'b platform \<Rightarrow> 'b reproducer \<Rightarrow> seal_options \<Rightarrow> utc_instant \<Rightarrow> 'b ree_dir \<Rightarrow>
     (ree_error + utc_instant \<times> string) \<times> 'b ree_dir" where
  "seal_ree P repro opts sealed_at d =
     (if \<not> manifest_exists d then (Inl (File_Not_Found ''REE not found''), d)
      else case bind_res (read_ree P d) (\<lambda>r.
          bind_res (refuse_stale_evidence r) (\<lambda>_.
          let entries = collect_entries repro opts d r
          in bind_res (seal_document P sealed_at r entries) (\<lambda>sealed.
             bind_res (archive_of P sealed entries) (\<lambda>archive. Inr (r, sealed, archive))))) of
        Inl e \<Rightarrow> (Inl e, d)
      | Inr (r, sealed, archive) \<Rightarrow>
          let d = d\<lparr>rd_sealed_archive := Some archive\<rparr>
          in case save_ree P d sealed (ree_revision P r) of
               Inl e \<Rightarrow> (Inl e, d)
             | Inr d' \<Rightarrow>
                 (case ree_sealed sealed of
                    None \<Rightarrow> (Inl (Runtime_Error ''seal transition did not produce a seal''), d')
                  | Some s \<Rightarrow> (Inr (seal_sealed_at s, seal_ree_digest s), d')))"

definition handle_seal_ree ::
  "'b platform \<Rightarrow> 'b reproducer \<Rightarrow> seal_options \<Rightarrow> utc_instant \<Rightarrow> 'b handler" where
  "handle_seal_ree P repro opts sealed_at d =
     (case seal_ree P repro opts sealed_at d of
        (Inl (Precondition_Error m), d') \<Rightarrow> (action_failed Cat_Precondition m, d')
      | (Inl e, d') \<Rightarrow> (failed_from_exception e ''seal_ree failed'', d')
      | (Inr (at_time, digest), d') \<Rightarrow> (action_succeeded [(''ree_digest'', JStr digest)], d'))"

definition build_ree_archive ::
  "'b platform \<Rightarrow> 'b reproducer \<Rightarrow> 'b ree_dir \<Rightarrow> ree_error + 'b zip_member list" where
  "build_ree_archive P repro d =
     (if \<not> manifest_exists d then Inl (File_Not_Found ''REE not found'')
      else bind_res (read_ree P d) (\<lambda>r.
        if ree_sealed r \<noteq> None
        then case rd_sealed_archive d of
            None \<Rightarrow> Inl (Runtime_Error ''sealed archive file is missing'')
          | Some archive \<Rightarrow> Inr (build_zip archive)
        else
          let entries = collect_entries repro
                \<lparr>source_included = True, runtime_included = True, results_included = True\<rparr> d r
          in bind_res (inventory P entries) (\<lambda>contents.
             bind_res (replace_contents r contents) (\<lambda>draft.
             bind_res (archive_of P draft entries) (\<lambda>archive. Inr (build_zip archive))))))"

section \<open>Restoring\<close>

definition actual_inventory :: "'b platform \<Rightarrow> 'b tree \<Rightarrow> ree_error + bundle_contents" where
  "actual_inventory P bundle =
     inventory P (filter (\<lambda>(path, _). path \<noteq> bundle_manifest_path) (tree_entries bundle []))"

text \<open>The files of a bundle under one of its directories.\<close>

definition subtree :: "'b tree \<Rightarrow> string list \<Rightarrow> 'b tree" where
  "subtree t base =
     map (\<lambda>(k, content). (drop (length base) k, content)) (filter (\<lambda>(k, _). strict_prefix base k) t)"

record bundle_load_outputs =
  bo_name :: string
  bo_sealed :: bool
  bo_ree_digest :: "string option"
  bo_source_restored :: bool
  bo_overlay_files :: nat
  bo_artifact_files :: nat

definition restore_ree_bundle ::
  "'b platform \<Rightarrow> 'b tree \<Rightarrow> 'b entries \<Rightarrow> 'b ree_dir \<Rightarrow>
     ree_error + bundle_load_outputs \<times> 'b ree_dir" where
  "restore_ree_bundle P bundle archive d =
     (if \<not> manifest_exists d then Inl (File_Not_Found ''REE not found'')
      else case map_of bundle (posix_parts bundle_manifest_path) of
        None \<Rightarrow> Inl (Value_Error (''not an REE bundle: missing '' @ bundle_manifest_path))
      | Some document \<Rightarrow>
          bind_res (parse_ree_manifest P document) (\<lambda>r.
          bind_res (actual_inventory P bundle) (\<lambda>actual.
          if actual \<noteq> sub_contents (ree_subject r)
          then Inl (Value_Error ''bundle contents do not match the REE subject inventory'')
          else
            let snapshot = map_of bundle (posix_parts bundle_snapshot_path);
                overlay = subtree bundle (posix_parts bundle_overlay_prefix);
                artifacts = subtree bundle (posix_parts bundle_artifacts_prefix);
                results = subtree bundle (posix_parts bundle_results_prefix);
                d = d\<lparr>rd_upstream := [], rd_overlay := overlay, rd_artifacts := artifacts,
                  rd_workspace := [], rd_results := results, rd_snapshot := snapshot\<rparr>
            in bind_res (write_ree P d r) (\<lambda>d.
               Inr (\<lparr>bo_name = def_name (sub_definition (ree_subject r)),
                  bo_sealed = (ree_sealed r \<noteq> None),
                  bo_ree_digest = map_option seal_ree_digest (ree_sealed r),
                  bo_source_restored = (snapshot \<noteq> None), bo_overlay_files = length overlay,
                  bo_artifact_files = length artifacts\<rparr>,
                d\<lparr>rd_sealed_archive := (if ree_sealed r \<noteq> None then Some archive else None)\<rparr>)))))"

section \<open>Finding a declared artifact\<close>

text \<open>\<open>layout.ree_file(rel)\<close>, as a file below the REE root (the sealed archive apart).\<close>

definition root_file :: "'b ree_dir \<Rightarrow> string list \<Rightarrow> 'b option" where
  "root_file d p =
     (case p of
        [] \<Rightarrow> None
      | x # rest \<Rightarrow>
          if x = ''upstream'' then map_of (rd_upstream d) rest
          else if x = ''overlay'' then map_of (rd_overlay d) rest
          else if x = ''artifacts'' then map_of (rd_artifacts d) rest
          else if x = ''workspace'' then map_of (rd_workspace d) rest
          else if x = ''results'' then map_of (rd_results d) rest
          else if p = [''ree.json''] then rd_manifest d
          else if p = [''snapshot.tar.gz''] then rd_snapshot d
          else None)"

definition author_artifact :: "'b ree_dir \<Rightarrow> string option \<Rightarrow> ree_error + 'b option" where
  "author_artifact d declared =
     (case declared of
        None \<Rightarrow> Inr None
      | Some rel \<Rightarrow>
          if rel = [] then Inr None
          else bind_res (validate_relative_path rel) (\<lambda>_.
            case map_of (rd_workspace d) (posix_parts rel) of
              Some content \<Rightarrow> Inr (Some content)
            | None \<Rightarrow> Inr (root_file d (posix_parts rel))))"

end
