(* ===== verification/Ree_Digests.thy ===== *)
theory Ree_Digests
  imports Ree_Store
begin

text \<open>
  The tree digests of \<open>digests.py\<close>. \<open>fdig\<close> is the canonical digest of a file's
  bytes and \<open>sha\<close> the hexadecimal SHA-256 of a byte string; what is proved is about the
  string fed to the hash: that it determines the tree, as the documentation promises.
\<close>

section \<open>Definitions\<close>

definition nul :: char where
  "nul = CHR 0x00"

text \<open>\<open>sorted(root.rglob("*"))\<close> orders paths by their parts.\<close>

definition files_in_order :: "'b tree \<Rightarrow> (string list \<times> 'b) list" where
  "files_in_order t = sort_key fst t"

definition fold_file :: "('b \<Rightarrow> string) \<Rightarrow> string \<Rightarrow> 'b \<Rightarrow> string" where
  "fold_file fdig rel content = rel @ [nul] @ fdig content @ [nul]"

definition tree_preimage :: "('b \<Rightarrow> string) \<Rightarrow> 'b tree \<Rightarrow> string" where
  "tree_preimage fdig t =
     concat (map (\<lambda>(k, content). fold_file fdig (as_posix k) content) (files_in_order t))"

definition digest_tree :: "(string \<Rightarrow> string) \<Rightarrow> ('b \<Rightarrow> string) \<Rightarrow> 'b tree \<Rightarrow> string" where
  "digest_tree sha fdig t = digest_bytes sha (tree_preimage fdig t)"

definition fold_output :: "('b \<Rightarrow> string) \<Rightarrow> 'b tree \<Rightarrow> string \<Rightarrow> string" where
  "fold_output fdig base rel =
     (let target = posix_parts rel
      in case map_of base target of
           Some content \<Rightarrow> fold_file fdig rel content
         | None \<Rightarrow>
             if is_dir_at base target then
               concat (map (\<lambda>(k, content).
                   fold_file fdig (rel @ ''/'' @ as_posix (drop (length target) k)) content)
                 (files_in_order (filter (\<lambda>(k, _). strict_prefix target k) base)))
             else [])"

definition digest_output_paths ::
  "(string \<Rightarrow> string) \<Rightarrow> ('b \<Rightarrow> string) \<Rightarrow> 'b tree \<Rightarrow> string list \<Rightarrow> string option" where
  "digest_output_paths sha fdig base output_paths =
     (if output_paths = [] then None
      else Some (digest_bytes sha
        (concat (map (fold_output fdig base) (sort (remdups output_paths))))))"

definition digest_file_if_exists :: "('b \<Rightarrow> string) \<Rightarrow> 'b tree \<Rightarrow> string list \<Rightarrow> string option" where
  "digest_file_if_exists fdig t p = map_option fdig (map_of t p)"

section \<open>The pre-image determines the tree\<close>

lemma split_where_terminated:
  assumes "\<forall>w \<in> set ws. \<forall>x \<in> set w. \<not> p x" and "p c"
  shows "split_where p (concat (map (\<lambda>w. w @ [c]) ws)) = ws @ [[]]"
  using assms by (induction ws) (simp_all add: split_where_append_sep)

lemma concat_terminated_inject:
  assumes "\<forall>w \<in> set ws \<union> set vs. c \<notin> set w"
    and "concat (map (\<lambda>w. w @ [c]) ws) = concat (map (\<lambda>w. w @ [c]) vs)"
  shows "ws = vs"
proof -
  let ?split = "split_where (\<lambda>x. x = c)" and ?join = "\<lambda>us. concat (map (\<lambda>w. w @ [c]) us)"
  have "ws @ [[]] = ?split (?join ws)"
    by (rule split_where_terminated[symmetric]) (use assms(1) in auto)
  also have "\<dots> = ?split (?join vs)" by (simp only: assms(2))
  also have "\<dots> = vs @ [[]]"
    by (rule split_where_terminated) (use assms(1) in auto)
  finally show ?thesis by (simp only: append_same_eq)
qed

definition preimage_words :: "('b \<Rightarrow> string) \<Rightarrow> (string list \<times> 'b) list \<Rightarrow> string list" where
  "preimage_words fdig es = concat (map (\<lambda>(k, content). [as_posix k, fdig content]) es)"

lemma preimage_words_simps [simp]:
  "preimage_words fdig [] = []"
  "preimage_words fdig ((k, content) # es) = as_posix k # fdig content # preimage_words fdig es"
  by (simp_all add: preimage_words_def)

lemma tree_preimage_words:
  "tree_preimage fdig t =
     concat (map (\<lambda>w. w @ [nul]) (preimage_words fdig (files_in_order t)))"
proof -
  have "concat (map (\<lambda>(k, content). fold_file fdig (as_posix k) content) es) =
      concat (map (\<lambda>w. w @ [nul]) (preimage_words fdig es))" for es
    by (induction es) (auto simp: fold_file_def)
  then show ?thesis by (simp add: tree_preimage_def)
qed

lemma preimage_words_inject:
  "preimage_words fdig es = preimage_words fdig fs \<longleftrightarrow>
     map (\<lambda>(k, content). (as_posix k, fdig content)) es =
     map (\<lambda>(k, content). (as_posix k, fdig content)) fs"
proof (induction es arbitrary: fs)
  case Nil
  show ?case by (cases fs) auto
next
  case (Cons e es)
  obtain k c where e: "e = (k, c)" by (cases e)
  show ?case
  proof (cases fs)
    case (Cons f gs)
    obtain l d where "f = (l, d)" by (cases f)
    with Cons e show ?thesis by (simp add: Cons.IH)
  qed (simp add: e)
qed

lemma as_posix_inject:
  assumes "\<forall>p \<in> set ps. CHR ''/'' \<notin> set p" "\<forall>p \<in> set qs. CHR ''/'' \<notin> set p"
    and "ps \<noteq> []" "qs \<noteq> []" and "as_posix ps = as_posix qs"
  shows "ps = qs"
proof -
  have "split_where (\<lambda>x. x = CHR ''/'') (as_posix us) = us"
    if "\<forall>p \<in> set us. CHR ''/'' \<notin> set p" "us \<noteq> []" for us
    unfolding as_posix_def using that by (intro split_where_join) auto
  with assms show ?thesis by metis
qed

lemma tree_ok_keys:
  "tree_ok t \<Longrightarrow> k \<in> set (map fst t) \<Longrightarrow> k \<noteq> [] \<and> (\<forall>p \<in> set k. CHR ''/'' \<notin> set p)"
  unfolding tree_ok_def is_dir_at_def by blast

lemma set_files_in_order [simp]: "set (files_in_order t) = set t"
  by (simp add: files_in_order_def)

lemma map_of_files_in_order:
  assumes "dict_ok t"
  shows "map_of (files_in_order t) = map_of t"
proof
  fix k
  have "dict_ok (files_in_order t)"
    using assms by (simp add: dict_ok_def files_in_order_def)
  then have "map_of (files_in_order t) k = Some v \<longleftrightarrow> map_of t k = Some v" for v
    using assms by (simp add: dict_ok_map_of_iff)
  then show "map_of (files_in_order t) k = map_of t k" by (metis option.exhaust)
qed

lemma files_in_order_cong:
  assumes "dict_ok t" "dict_ok u" "map_of t = map_of u"
  shows "files_in_order t = files_in_order u"
proof -
  have "distinct t" "distinct u"
    using assms(1,2) by (simp_all add: dict_ok_def distinct_map)
  moreover have "set t = set u"
    using assms by (auto simp flip: dict_ok_map_of_iff)
  ultimately have "mset t = mset u" by (simp add: set_eq_iff_mset_eq_distinct)
  moreover have "inj_on fst (set t)"
    using assms(1) by (simp add: dict_ok_def distinct_map)
  ultimately show ?thesis
    unfolding files_in_order_def
    by (metis properties_for_sort_key mset_sort sorted_sort_key sort_key_inj_key_eq)
qed

text \<open>A path free of NUL, and a digest free of NUL: what the delimiters need.\<close>

definition nul_free :: "('b \<Rightarrow> string) \<Rightarrow> 'b tree \<Rightarrow> bool" where
  "nul_free fdig t \<longleftrightarrow>
     (\<forall>(k, content) \<in> set t. nul \<notin> set (as_posix k) \<and> nul \<notin> set (fdig content))"

lemma tree_preimage_inject:
  assumes "nul_free fdig t" "nul_free fdig u" "tree_ok t" "tree_ok u" "inj fdig"
    and "tree_preimage fdig t = tree_preimage fdig u"
  shows "map_of t = map_of u"
proof -
  let ?f = "\<lambda>(k, content). (as_posix k, fdig content)"
  have "\<forall>w \<in> set (preimage_words fdig (files_in_order v)). nul \<notin> set w"
    if "nul_free fdig v" for v
    using that by (auto simp: nul_free_def preimage_words_def)
  with assms have "preimage_words fdig (files_in_order t) = preimage_words fdig (files_in_order u)"
    by (intro concat_terminated_inject[where c = nul]) (auto simp: tree_preimage_words)
  then have eq: "map ?f (files_in_order t) = map ?f (files_in_order u)"
    by (simp only: preimage_words_inject)
  have "inj_on ?f (set (files_in_order t) \<union> set (files_in_order u))"
  proof (rule inj_onI, clarsimp)
    fix a x b y
    assume "(a, x) \<in> set t \<or> (a, x) \<in> set u" "(b, y) \<in> set t \<or> (b, y) \<in> set u"
      and same: "as_posix a = as_posix b" "fdig x = fdig y"
    then have "a \<in> set (map fst t) \<union> set (map fst u)" "b \<in> set (map fst t) \<union> set (map fst u)"
      by force+
    with assms(3,4) have "a \<noteq> []" "\<forall>p \<in> set a. CHR ''/'' \<notin> set p"
        "b \<noteq> []" "\<forall>p \<in> set b. CHR ''/'' \<notin> set p"
      using tree_ok_keys by blast+
    with same assms(5) show "a = b \<and> x = y" by (auto intro: as_posix_inject dest: injD)
  qed
  with eq have "files_in_order t = files_in_order u" by (rule map_inj_on)
  with assms(3,4) show ?thesis by (metis map_of_files_in_order tree_ok_def)
qed

section \<open>Properties\<close>



text \<open>
  The digest of declared outputs is absent exactly when none is declared, and
  depends only on the set of declared paths: neither their order nor a repetition moves it, and
  a declared path that is absent contributes nothing.
\<close>

theorem digest_output_paths_stable:
  "(digest_output_paths sha fdig base paths = None \<longleftrightarrow> paths = []) \<and>
   (set paths = set paths' \<longrightarrow>
      digest_output_paths sha fdig base paths = digest_output_paths sha fdig base paths') \<and>
   (\<not> exists_at base (posix_parts rel) \<and> paths \<noteq> [] \<longrightarrow>
      digest_output_paths sha fdig base (rel # paths) = digest_output_paths sha fdig base paths)"
proof -
  have concat_insort: "concat (map f (insort x xs)) = concat (map f xs)" if "f x = []"
    for f :: "string \<Rightarrow> string" and x xs using that by (induction xs) auto
  have "sort (remdups paths) = sort (remdups paths')" if "set paths = set paths'"
    using that by (metis sorted_list_of_set_sort_remdups)
  moreover have "fold_output fdig base rel = []" if "\<not> exists_at base (posix_parts rel)"
    using that by (auto simp: fold_output_def Let_def exists_at_def is_file_at_def has_key_def
        split: option.split)
  ultimately show ?thesis
    by (auto simp: digest_output_paths_def concat_insort)
qed

theorem digest_output_paths_stable_witness:
  "digest_output_paths id id [([''out''], ''x'')] [''out'', ''log''] =
     digest_output_paths id id [([''out''], ''x'')] [''log'', ''out'', ''out'']"
  by (rule conjunct1[OF conjunct2[OF digest_output_paths_stable], THEN mp]) auto

end
