(* ===== verification/Ree_Runnables.thy ===== *)
theory Ree_Runnables
  imports Ree_Authoring Ree_Digests
begin

text \<open>
  The author's operations that run something and file a receipt: \<open>build_runtime\<close> and, through
  \<open>runnable.py\<close>, \<open>test_activation\<close> and \<open>run_experiment\<close>, over
  \<open>execution/experiment/run.py\<close> and \<open>workspace/drift.py\<close>.

  Running \<open>sh\<close> on a script is the argument \<open>exec\<close>: from the script's path and the
  workspace, the exit code, whether the run was canceled, and the workspace it leaves. A handler
  returns \<open>Inl\<close> where Python lets an exception escape it.
\<close>

section \<open>Running scripts\<close>

type_synonym 'b executor = "string \<Rightarrow> 'b tree \<Rightarrow> int \<times> bool \<times> 'b tree"

record step_outcome =
  so_status :: action_status
  so_exit_code :: "int option"

definition run_workspace_script ::
  "'b executor \<Rightarrow> 'b tree \<Rightarrow> string \<Rightarrow> step_outcome \<times> 'b tree" where
  "run_workspace_script exec workspace script_rel =
     (if validate_relative_path script_rel \<noteq> Inr ()
      then (\<lparr>so_status = Failed, so_exit_code = Some 1\<rparr>, workspace)
      else if \<not> is_file_at workspace (posix_parts script_rel)
      then (\<lparr>so_status = Failed, so_exit_code = Some 1\<rparr>, workspace)
      else let (returncode, canceled, workspace') = exec script_rel workspace;
               status = (if canceled then Canceled else if returncode = 0 then Succeeded else Failed)
           in (\<lparr>so_status = status, so_exit_code = Some returncode\<rparr>, workspace'))"

record runnable_spec =
  rs_run_script :: string
  rs_verify_script :: string
  rs_output_paths :: "string list"

datatype verdict_word = Pass | Fail

record runnable_run_outputs =
  ro_subject_name :: string
  ro_exit_code :: "int option"
  ro_verify_exit_code :: "int option"
  ro_verdict :: "verdict_word option"

record experiment_run_outcome =
  eo_status :: action_status
  eo_run_outputs :: runnable_run_outputs

text \<open>\<open>run_runnable\<close>; the path checks of \<open>_run_script\<close> are those of \<open>RunnableSpec\<close>.\<close>

definition run_runnable ::
  "'b executor \<Rightarrow> 'b tree \<Rightarrow> runnable_spec \<Rightarrow> string \<Rightarrow> experiment_run_outcome \<times> 'b tree" where
  "run_runnable exec workspace runnable label =
     (let outputs = \<lparr>ro_subject_name = label, ro_exit_code = None, ro_verify_exit_code = None,
            ro_verdict = None\<rparr>
      in if validate_relative_path (rs_run_script runnable) \<noteq> Inr ()
         then (\<lparr>eo_status = Failed, eo_run_outputs = outputs\<rparr>, workspace)
         else
           let (run_outcome, workspace) =
                 run_workspace_script exec workspace (rs_run_script runnable);
               outputs = outputs\<lparr>ro_exit_code := so_exit_code run_outcome\<rparr>
           in if so_status run_outcome = Canceled
              then (\<lparr>eo_status = Canceled, eo_run_outputs = outputs\<rparr>, workspace)
              else if rs_verify_script runnable = []
              then (\<lparr>eo_status = so_status run_outcome,
                     eo_run_outputs = outputs\<lparr>ro_verdict :=
                       Some (if so_status run_outcome = Succeeded then Pass else Fail)\<rparr>\<rparr>, workspace)
              else if validate_relative_path (rs_verify_script runnable) \<noteq> Inr ()
              then (\<lparr>eo_status = Failed,
                     eo_run_outputs = outputs\<lparr>ro_verdict := Some Fail\<rparr>\<rparr>, workspace)
              else
                let (verify_outcome, workspace) =
                      run_workspace_script exec workspace (rs_verify_script runnable);
                    outputs = outputs\<lparr>ro_verify_exit_code := so_exit_code verify_outcome\<rparr>
                in if so_status verify_outcome = Canceled
                   then (\<lparr>eo_status = Canceled, eo_run_outputs = outputs\<rparr>, workspace)
                   else
                     let passed = (so_status run_outcome = Succeeded \<and>
                           so_exit_code verify_outcome = Some 0)
                     in (\<lparr>eo_status = (if passed then Succeeded else Failed),
                          eo_run_outputs = outputs\<lparr>ro_verdict :=
                            Some (if passed then Pass else Fail)\<rparr>\<rparr>, workspace))"

section \<open>Workspace drift\<close>

type_synonym stat_table = "(string \<times> int list) list"

definition drift_paths_cap :: nat where
  "drift_paths_cap = 20"

definition is_control_name :: "string \<Rightarrow> bool" where
  "is_control_name relative =
     (case posix_parts relative of
        [] \<Rightarrow> False
      | ps \<Rightarrow> prefix ''.workspace'' (last ps) \<or> prefix ''.upload.'' (last ps))"

definition expected_file :: "'b ree_dir \<Rightarrow> string \<Rightarrow> 'b option" where
  "expected_file d relative =
     (case map_of (rd_overlay d) (posix_parts relative) of
        Some content \<Rightarrow> Some content
      | None \<Rightarrow> map_of (rd_upstream d) (posix_parts relative))"

definition path_drifted :: "'b platform \<Rightarrow> 'b ree_dir \<Rightarrow> string \<Rightarrow> bool" where
  "path_drifted P d relative =
     (case map_of (rd_workspace d) (posix_parts relative) of
        None \<Rightarrow> expected_file d relative \<noteq> None
      | Some actual \<Rightarrow>
          (case expected_file d relative of
             None \<Rightarrow> True
           | Some expected \<Rightarrow> pf_digest P actual \<noteq> pf_digest P expected))"

text \<open>
  \<open>marker\<close> is the recorded table, absent when the marker file is missing or unreadable;
  \<open>current\<close> is \<open>stat_table\<close> of the workspace.
\<close>

definition check_workspace_drift ::
  "'b platform \<Rightarrow> stat_table option \<Rightarrow> stat_table \<Rightarrow> 'b ree_dir \<Rightarrow> string list \<Rightarrow> workspace_drift" where
  "check_workspace_drift P marker current d excluded =
     (case marker of
        None \<Rightarrow> \<lparr>wd_status = Unknown, wd_changed_paths = [], wd_changed_path_count = 0\<rparr>
      | Some recorded \<Rightarrow>
          let candidates = sort (remdups (map fst recorded @ map fst current));
              drifted = filter (\<lambda>relative.
                  \<not> (relative \<in> set excluded \<or> is_control_name relative \<or>
                     map_of recorded relative = map_of current relative) \<and>
                  path_drifted P d relative) candidates
          in if drifted = []
             then \<lparr>wd_status = Clean, wd_changed_paths = [], wd_changed_path_count = 0\<rparr>
             else \<lparr>wd_status = Modified, wd_changed_paths = take drift_paths_cap drifted,
                   wd_changed_path_count = int (length drifted)\<rparr>)"

section \<open>Building the runtime\<close>

definition join_reasons :: "string list \<Rightarrow> string \<Rightarrow> string" where
  "join_reasons reasons fallback =
     (let s = join_with ''; '' reasons in if s = [] then fallback else s)"

definition build_preconditions ::
  "'b platform \<Rightarrow> ree \<Rightarrow> 'b ree_dir \<Rightarrow> ree_error + build_definition \<times> string" where
  "build_preconditions P r d =
     (if ree_sealed r \<noteq> None
      then Inl (Precondition_Error ''a sealed REE cannot build a runtime'')
      else
        let source_audit = ra_source (audit r)
        in if sa_evidence source_audit \<noteq> Ev_Current
           then Inl (Precondition_Error
             (join_reasons (sa_reasons source_audit) ''source has not been acquired''))
           else case def_build_runtime (sub_definition (ree_subject r)) of
             None \<Rightarrow> Inl (Precondition_Error ''no runtime build definition is present'')
           | Some build \<Rightarrow>
               (case bld_runtime_path build of
                  None \<Rightarrow> Inl (Precondition_Error ''no runtime artifact path is declared'')
                | Some runtime_path \<Rightarrow>
                    (case map_of (rd_workspace d) (posix_parts (bld_script_path build)) of
                       None \<Rightarrow> Inl (Precondition_Error ''the runtime build script is missing'')
                     | Some script \<Rightarrow>
                         if pf_digest P script \<noteq> bld_script_digest build \<or>
                            pf_size P script \<noteq> bld_script_size build
                         then Inl (Precondition_Error
                           ''the runtime build script does not match its definition'')
                         else Inr (build, runtime_path))))"

definition build_receipt ::
  "string \<Rightarrow> operation_timing \<Rightarrow> string \<Rightarrow> build_definition \<Rightarrow> workspace_drift \<Rightarrow> string \<Rightarrow> string \<Rightarrow>
     build_runtime_receipt" where
  "build_receipt run_id timing snapshot build drift runtime_path produced =
     receipt_envelope.extend (mk_envelope run_id timing)
       (build_runtime_receipt.fields snapshot (bld_script_path build) (bld_script_digest build)
         drift runtime_path produced)"

text \<open>Storing a receipt: \<open>commit_receipt\<close>, then \<open>save_ree\<close>, and what each failure becomes.\<close>

definition store_receipt ::
  "'b platform \<Rightarrow> ree \<Rightarrow> run_receipt \<Rightarrow> string \<Rightarrow> json_object \<Rightarrow> 'b handler" where
  "store_receipt P r receipt what outputs d =
     (case bind_res (commit_receipt r receipt) (\<lambda>updated. save_ree P d updated (ree_revision P r)) of
        Inl (Revision_Conflict e f) \<Rightarrow>
          (failed_with Cat_Conflict ''REE changed'' Org_Core 1 True None [], d)
      | Inl e \<Rightarrow> (failed_from_exception e what, d)
      | Inr d' \<Rightarrow> (action_succeeded outputs, d'))"

definition handle_build_runtime ::
  "'b platform \<Rightarrow> 'b executor \<Rightarrow> (stat_table option \<times> stat_table) \<Rightarrow> string \<Rightarrow>
     (utc_instant \<times> int) \<Rightarrow> (utc_instant \<times> int) \<Rightarrow> 'b ree_dir \<Rightarrow>
     ree_error + action_result \<times> 'b ree_dir" where
  "handle_build_runtime P exec tables run_id start finish d =
     (if \<not> manifest_exists d
      then Inr (action_failed Cat_Precondition ''metadata not found - was init-ree run?'', d)
      else case bind_res (load_ree P d) (\<lambda>r.
          bind_res (build_preconditions P r d) (\<lambda>pre. Inr (r, pre))) of
        Inl (Precondition_Error m) \<Rightarrow>
          Inr (action_failed Cat_Precondition (''cannot build runtime: '' @ m), d)
      | Inl e \<Rightarrow> Inr (failed_from_exception e ''failed to load build inputs'', d)
      | Inr (r, build, runtime_path) \<Rightarrow>
          let excluded = runtime_path # concat (map exp_output_paths
                (def_experiments (sub_definition (ree_subject r))));
              drift = check_workspace_drift P (fst tables) (snd tables) d excluded;
              timer = timer_start (fst start) (snd start);
              (outcome, workspace) =
                run_workspace_script exec (rd_workspace d) (bld_script_path build);
              d = d\<lparr>rd_workspace := workspace\<rparr>
          in if so_status outcome = Canceled then Inr (action_canceled, d)
             else if so_status outcome \<noteq> Succeeded
             then Inr (failed_with Cat_Execution ''build_runtime failed'' Org_Core
               (case so_exit_code outcome of None \<Rightarrow> 1 | Some c \<Rightarrow> if c = 0 then 1 else c)
               False None [], d)
             else case digest_file_if_exists (pf_digest P) (rd_workspace d)
                  (posix_parts runtime_path) of
               None \<Rightarrow> Inr (action_failed Cat_Execution
                 (''build script succeeded but did not produce '' @ runtime_path), d)
             | Some produced \<Rightarrow>
                 (case rcp_source (sub_receipts (ree_subject r)) of
                    None \<Rightarrow> Inl (Runtime_Error ''AssertionError'')
                  | Some source \<Rightarrow>
                      let receipt = build_receipt run_id
                            (timer_finish timer (fst finish) (snd finish))
                            (asr_snapshot_digest source) build drift runtime_path produced
                      in if \<not> valid_build_receipt receipt
                         then Inl (Value_Error ''receipt does not fit the model'')
                         else Inr (store_receipt P r (Build_Runtime receipt)
                           ''failed to commit build receipt'' [] d)))"

section \<open>Activation and experiments\<close>

datatype runnable_definition =
    Activation_Runnable activation_definition
  | Experiment_Runnable experiment_definition

datatype runnable_kind = Test_Activation_Kind | Run_Experiment_Kind string

fun runnable_scripts :: "runnable_definition \<Rightarrow>
    (string \<times> string \<times> int) \<times> string option \<times> string option \<times> int option" where
  "runnable_scripts (Activation_Runnable a) =
     ((act_run_script_path a, act_run_script_digest a, act_run_script_size a),
      act_verify_script_path a, act_verify_script_digest a, act_verify_script_size a)"
| "runnable_scripts (Experiment_Runnable e) =
     ((exp_run_script_path e, exp_run_script_digest e, exp_run_script_size e),
      exp_verify_script_path e, exp_verify_script_digest e, exp_verify_script_size e)"

definition select_definition :: "ree \<Rightarrow> runnable_kind \<Rightarrow> ree_error + runnable_definition" where
  "select_definition r kind =
     (if ree_sealed r \<noteq> None
      then Inl (Precondition_Error ''a sealed REE cannot run author operations'')
      else case kind of
        Test_Activation_Kind \<Rightarrow>
          (case def_test_activation (sub_definition (ree_subject r)) of
             None \<Rightarrow> Inl (Precondition_Error ''no activation test is defined'')
           | Some a \<Rightarrow> Inr (Activation_Runnable a))
      | Run_Experiment_Kind name \<Rightarrow>
          (case List.find (\<lambda>e. exp_name e = name)
             (def_experiments (sub_definition (ree_subject r))) of
             None \<Rightarrow> Inl (Precondition_Error (''experiment '' @ name @ '' is not defined''))
           | Some e \<Rightarrow> Inr (Experiment_Runnable e)))"

definition check_script ::
  "'b platform \<Rightarrow> 'b ree_dir \<Rightarrow> string \<Rightarrow> string \<Rightarrow> int \<Rightarrow> string \<Rightarrow> ree_error + unit" where
  "check_script P d path expected_digest expected_size label =
     (case map_of (rd_workspace d) (posix_parts path) of
        None \<Rightarrow> Inl (Precondition_Error (''the '' @ label @ '' is missing''))
      | Some script \<Rightarrow>
          require (pf_digest P script = expected_digest \<and> pf_size P script = expected_size)
            (Precondition_Error (''the '' @ label @ '' does not match its definition'')))"

definition check_runtime ::
  "'b platform \<Rightarrow> ree \<Rightarrow> 'b ree_dir \<Rightarrow> ree_error + (string \<times> string) option" where
  "check_runtime P r d =
     (case Option.bind (def_build_runtime (sub_definition (ree_subject r))) bld_runtime_path of
        None \<Rightarrow> Inr None
      | Some runtime_path \<Rightarrow>
          (case rcp_build (sub_receipts (ree_subject r)) of
             None \<Rightarrow> Inl (Precondition_Error ''runtime has not been built'')
           | Some build \<Rightarrow>
               let runtime_audit = ra_runtime (audit r)
               in if sa_evidence runtime_audit \<noteq> Ev_Current
                  then Inl (Precondition_Error
                    (join_reasons (sa_reasons runtime_audit) ''build evidence is not current''))
                  else case digest_file_if_exists (pf_digest P) (rd_workspace d)
                         (posix_parts runtime_path) of
                    None \<Rightarrow> Inl (Precondition_Error (''runtime artifact is missing: '' @ runtime_path))
                  | Some runtime_digest \<Rightarrow>
                      if runtime_digest \<noteq> brr_produced_runtime_digest build
                      then Inl (Precondition_Error
                        ''runtime artifact does not match the selected build receipt'')
                      else Inr (Some (runtime_path, runtime_digest))))"

text \<open>The result is the runtime's path and digest, or nothing when none is declared.\<close>

definition check_preconditions ::
  "'b platform \<Rightarrow> ree \<Rightarrow> runnable_definition \<Rightarrow> 'b ree_dir \<Rightarrow>
     ree_error + (string \<times> string) option" where
  "check_preconditions P r runnable d =
     (let ((path, digest, n), verify_path, verify_digest, verify_size) = runnable_scripts runnable
      in bind_res (require (rcp_source (sub_receipts (ree_subject r)) \<noteq> None)
           (Precondition_Error ''source has not been acquired'')) (\<lambda>_.
         bind_res (check_script P d path digest n ''run script'') (\<lambda>_.
         bind_res (case verify_path of
             None \<Rightarrow> Inr ()
           | Some vp \<Rightarrow>
               (case (verify_digest, verify_size) of
                  (Some vd, Some vn) \<Rightarrow> check_script P d vp vd vn ''verification script''
                | _ \<Rightarrow> Inl (Runtime_Error ''AssertionError''))) (\<lambda>_.
         check_runtime P r d))))"

fun as_runnable :: "runnable_definition \<Rightarrow> runnable_spec" where
  "as_runnable (Activation_Runnable a) =
     \<lparr>rs_run_script = act_run_script_path a,
      rs_verify_script = (case act_verify_script_path a of None \<Rightarrow> [] | Some p \<Rightarrow> p),
      rs_output_paths = []\<rparr>"
| "as_runnable (Experiment_Runnable e) =
     \<lparr>rs_run_script = exp_run_script_path e,
      rs_verify_script = (case exp_verify_script_path e of None \<Rightarrow> [] | Some p \<Rightarrow> p),
      rs_output_paths = exp_output_paths e\<rparr>"

text \<open>
  \<open>_capture_experiment_outputs\<close>: the store of the experiment's name is emptied, then each
  declared output that exists is copied under its declared path.
\<close>

definition copied_output :: "'b tree \<Rightarrow> string list \<Rightarrow> string \<Rightarrow> 'b tree" where
  "copied_output workspace target relative =
     (let source = posix_parts relative
      in if is_dir_at workspace source
         then map (\<lambda>(k, content). (target @ k, content))
                (filter (\<lambda>(k, _). prefix source k) workspace)
         else case map_of workspace source of
                Some content \<Rightarrow> [(target @ source, content)]
              | None \<Rightarrow> [])"

definition capture_experiment_outputs ::
  "'b platform \<Rightarrow> (string \<Rightarrow> string) \<Rightarrow> 'b ree_dir \<Rightarrow> experiment_definition \<Rightarrow>
     ree_error + string \<times> 'b ree_dir" where
  "capture_experiment_outputs P sha d e =
     bind_res (resolve_under [] (exp_name e)) (\<lambda>store.
     if is_file_at (rd_results d) store then Inl (Os_Error ENOTDIR) else
     let cleared = delete_if_exists (rd_results d) store;
         results = fold (\<lambda>relative t. fold (\<lambda>(k, content). AList.update k content)
             (copied_output (rd_workspace d) store relative) t) (exp_output_paths e) cleared
     in case digest_output_paths sha (pf_digest P) (rd_workspace d) (exp_output_paths e) of
          None \<Rightarrow> Inl (Runtime_Error ''AssertionError'')
        | Some digest \<Rightarrow> Inr (digest, d\<lparr>rd_results := results\<rparr>))"

fun successful_receipt ::
  "runnable_definition \<Rightarrow> string \<Rightarrow> operation_timing \<Rightarrow> string \<Rightarrow> (string \<times> string) option \<Rightarrow>
     string option \<Rightarrow> run_receipt" where
  "successful_receipt (Activation_Runnable a) run_id timing snapshot runtime produced =
     Test_Activation (receipt_envelope.extend (mk_envelope run_id timing)
       (activation_receipt.fields snapshot (map_option fst runtime) (map_option snd runtime)
         (act_run_script_digest a) (act_verify_script_digest a) 0
         (map_option (\<lambda>_. 0) (act_verify_script_path a))))"
| "successful_receipt (Experiment_Runnable e) run_id timing snapshot runtime produced =
     Run_Experiment (receipt_envelope.extend (mk_envelope run_id timing)
       (experiment_receipt.fields (exp_name e) snapshot (map_option snd runtime)
         (exp_run_script_digest e) (exp_verify_script_digest e) 0
         (map_option (\<lambda>_. 0) (exp_verify_script_path e)) produced))"

fun runnable_label :: "runnable_definition \<Rightarrow> string" where
  "runnable_label (Activation_Runnable a) = ''activation''"
| "runnable_label (Experiment_Runnable e) = exp_name e"

text \<open>\<open>a or b or 1\<close> over optional exit codes.\<close>

definition first_exit :: "int option \<Rightarrow> int option \<Rightarrow> int" where
  "first_exit a b =
     (if a \<notin> {None, Some 0} then the a else if b \<notin> {None, Some 0} then the b else 1)"

definition capture_outputs ::
  "'b platform \<Rightarrow> (string \<Rightarrow> string) \<Rightarrow> 'b ree_dir \<Rightarrow> runnable_definition \<Rightarrow>
     ree_error + string option \<times> 'b ree_dir" where
  "capture_outputs P sha d runnable =
     (case runnable of
        Experiment_Runnable e \<Rightarrow>
          if exp_output_paths e = [] then Inr (None, d)
          else map_sum id (map_prod Some id) (capture_experiment_outputs P sha d e)
      | Activation_Runnable _ \<Rightarrow> Inr (None, d))"

text \<open>What follows a run that was neither canceled nor failed.\<close>

definition settle_runnable ::
  "'b platform \<Rightarrow> (string \<Rightarrow> string) \<Rightarrow> ree \<Rightarrow> runnable_definition \<Rightarrow> (string \<times> string) option \<Rightarrow>
     string \<Rightarrow> operation_timing \<Rightarrow> runnable_run_outputs \<Rightarrow> 'b ree_dir \<Rightarrow>
     ree_error + action_result \<times> 'b ree_dir" where
  "settle_runnable P sha r runnable runtime run_id timing outputs d =
     (let expected_verify = (fst (snd (runnable_scripts runnable)) \<noteq> None)
      in if ro_exit_code outputs \<noteq> Some 0 \<or>
            (ro_verify_exit_code outputs = Some 0) \<noteq> expected_verify
         then Inr (action_failed Cat_Internal
           ''reported success without complete successful script outcomes'', d)
         else case capture_outputs P sha d runnable of
           Inl e \<Rightarrow> Inr (failed_from_exception e ''failed to capture experiment outputs'', d)
         | Inr (produced, d) \<Rightarrow>
             (case rcp_source (sub_receipts (ree_subject r)) of
                None \<Rightarrow> Inl (Runtime_Error ''AssertionError'')
              | Some source \<Rightarrow>
                  let receipt = successful_receipt runnable run_id timing
                        (asr_snapshot_digest source) runtime produced
                  in if \<not> valid_receipt receipt
                     then Inl (Value_Error ''receipt does not fit the model'')
                     else Inr (store_receipt P r receipt ''failed to commit receipt'' [] d)))"

definition handle_runnable_operation ::
  "'b platform \<Rightarrow> (string \<Rightarrow> string) \<Rightarrow> 'b executor \<Rightarrow> runnable_kind \<Rightarrow> string \<Rightarrow>
     (utc_instant \<times> int) \<Rightarrow> (utc_instant \<times> int) \<Rightarrow> 'b ree_dir \<Rightarrow>
     ree_error + action_result \<times> 'b ree_dir" where
  "handle_runnable_operation P sha exec kind run_id start finish d =
     (if \<not> manifest_exists d
      then Inr (action_failed Cat_Precondition ''metadata not found - was init-ree run?'', d)
      else case bind_res (load_ree P d) (\<lambda>r.
          bind_res (select_definition r kind) (\<lambda>runnable.
          bind_res (check_preconditions P r runnable d) (\<lambda>runtime.
          Inr (r, runnable, runtime)))) of
        Inl (Precondition_Error m) \<Rightarrow> Inr (action_failed Cat_Precondition m, d)
      | Inl e \<Rightarrow> Inr (failed_from_exception e ''failed to load inputs'', d)
      | Inr (r, runnable, runtime) \<Rightarrow>
          let timer = timer_start (fst start) (snd start);
              (outcome, workspace) = run_runnable exec (rd_workspace d) (as_runnable runnable)
                (runnable_label runnable);
              d = d\<lparr>rd_workspace := workspace\<rparr>;
              outputs = eo_run_outputs outcome
          in if eo_status outcome = Canceled then Inr (action_canceled, d)
             else if eo_status outcome \<noteq> Succeeded
             then Inr (failed_with Cat_Execution ''failed'' Org_Core
               (first_exit (ro_verify_exit_code outputs) (ro_exit_code outputs)) False None [], d)
             else settle_runnable P sha r runnable runtime run_id
               (timer_finish timer (fst finish) (snd finish)) outputs d)"

section \<open>Facts\<close>

lemma script_succeeded:
  "run_workspace_script exec ws script = (outcome, ws') \<Longrightarrow>
     so_status outcome = Succeeded \<Longrightarrow> so_exit_code outcome = Some 0"
  by (auto simp: run_workspace_script_def Let_def split: if_splits prod.splits)

lemma run_runnable_succeeded:
  assumes "run_runnable exec ws runnable label = (outcome, ws')"
    and "eo_status outcome = Succeeded"
  shows "ro_exit_code (eo_run_outputs outcome) = Some 0 \<and>
    (ro_verify_exit_code (eo_run_outputs outcome) = Some 0 \<longleftrightarrow> rs_verify_script runnable \<noteq> []) \<and>
    ro_verdict (eo_run_outputs outcome) = Some Pass"
  using assms
  by (auto simp: run_runnable_def Let_def dest: script_succeeded split: if_splits prod.splits)

lemma save_after_workspace [simp]:
  "load_ree P (d\<lparr>rd_workspace := ws\<rparr>) = load_ree P d"
  "load_ree P (d\<lparr>rd_results := t\<rparr>) = load_ree P d"
  by (simp_all add: load_ree_def read_ree_def)

lemma store_receipt_cases:
  assumes "store_receipt P r receipt what outputs d = (res, d')"
  shows "(ar_status res = Succeeded \<and> (\<exists>r'. commit_receipt r receipt = Inr r' \<and>
      save_ree P d r' (ree_revision P r) = Inr d')) \<or> (ar_status res = Failed \<and> d' = d)"
  using assms by (auto simp: store_receipt_def split: sum.splits ree_error.splits)

text \<open>A stored receipt reads back, and so does the REE that carries it.\<close>

lemma store_receipt_loads:
  assumes "platform_ok P" "load_ree P d = Inr r" "valid_receipt receipt"
    and "store_receipt P r receipt what outputs d = (res, d')" "ar_status res = Succeeded"
  shows "\<exists>r'. commit_receipt r receipt = Inr r' \<and> load_ree P d' = Inr r' \<and>
    d' = d\<lparr>rd_manifest := rd_manifest d'\<rparr>"
proof -
  from store_receipt_cases[OF assms(4)] assms(5) obtain r' where r':
    "commit_receipt r receipt = Inr r'" "save_ree P d r' (ree_revision P r) = Inr d'"
    by auto
  from r'(1) have "ree_sealed r = None" by (auto simp: commit_receipt_def split: if_splits)
  moreover from assms(2) have "valid_subject (ree_subject r)"
    by (simp add: load_ree_Inr valid_ree_def)
  ultimately have "valid_ree (pf_subject_digest P) r'"
    using author_valid_ree[of r "Commit_Receipt receipt" r'] r'(1) assms(3) by simp
  with assms(1) have "readable P r'" by (rule platform_readable)
  with r' show ?thesis by (auto simp: save_ree_Inr load_ree_Inr readable_def)
qed

lemma commit_receipt_subject:
  "commit_receipt r receipt = Inr r' \<Longrightarrow> ree_subject r' =
     (ree_subject r)\<lparr>sub_receipts := receipt_updates receipt (sub_receipts (ree_subject r))\<rparr>"
  by (auto simp: commit_receipt_def Let_def split: if_splits)

lemma build_preconditions_Inr:
  "build_preconditions P r d = Inr (build, path) \<longleftrightarrow>
     ree_sealed r = None \<and> sa_evidence (ra_source (audit r)) = Ev_Current \<and>
     def_build_runtime (sub_definition (ree_subject r)) = Some build \<and>
     bld_runtime_path build = Some path \<and>
     (\<exists>script. map_of (rd_workspace d) (posix_parts (bld_script_path build)) = Some script \<and>
        pf_digest P script = bld_script_digest build \<and> pf_size P script = bld_script_size build)"
  by (auto simp: build_preconditions_def Let_def split: option.splits if_splits)

lemmas receipt_extend = receipt_envelope.defs build_runtime_receipt.defs activation_receipt.defs
  experiment_receipt.defs

lemma build_receipt_sel [simp]:
  "brr_snapshot_digest (build_receipt i t s b w p x) = s"
  "brr_build_runtime_script_digest (build_receipt i t s b w p x) = bld_script_digest b"
  "brr_runtime_path (build_receipt i t s b w p x) = p"
  "brr_produced_runtime_digest (build_receipt i t s b w p x) = x"
  by (simp_all add: build_receipt_def receipt_extend)

lemma bind3_Inr_case:
  "(case x of Inl e \<Rightarrow> f e | Inr y \<Rightarrow> g y) = Inr z \<Longrightarrow>
     (\<And>e. x = Inl e \<Longrightarrow> f e = Inr z \<Longrightarrow> thesis) \<Longrightarrow>
     (\<And>y. x = Inr y \<Longrightarrow> g y = Inr z \<Longrightarrow> thesis) \<Longrightarrow> thesis"
  by (cases x) auto

section \<open>Examples\<close>

definition example_activation :: activation_definition where
  "example_activation = \<lparr>act_run_script_path = reserved_activation_script,
     act_run_script_digest = ''sha256:tok'', act_run_script_size = 2,
     act_verify_script_path = None, act_verify_script_digest = None,
     act_verify_script_size = None\<rparr>"

definition example_runs_ree :: ree where
  "example_runs_ree = \<lparr>ree_subject = \<lparr>sub_schema_version = 1,
     sub_definition = (new_definition ''a'')
       \<lparr>def_source := Some \<lparr>src_origin_url = Some ''u'', src_source_type = Git,
          src_requested_ref = None\<rparr>,
        def_test_activation := Some example_activation\<rparr>,
     sub_receipts = empty_receipts\<lparr>rcp_source := Some (example_source_receipt ''sha256:s'')\<rparr>,
     sub_contents = []\<rparr>, ree_sealed = None\<rparr>"

definition example_runs_dir :: "(ree + string) ree_dir" where
  "example_runs_dir = (example_dir example_runs_ree)
     \<lparr>rd_workspace := [([''ree-scripts'', ''activation.sh''], Inr ''ok'')]\<rparr>"

definition example_build_dir :: "(ree + string) ree_dir" where
  "example_build_dir = (example_dir (example_runs_ree\<lparr>ree_subject := (ree_subject example_runs_ree)
       \<lparr>sub_definition := (sub_definition (ree_subject example_runs_ree))
         \<lparr>def_build_runtime := Some \<lparr>bld_script_path = reserved_build_script,
            bld_script_digest = ''sha256:tmk'', bld_script_size = 2,
            bld_runtime_path = Some ''img.tar''\<rparr>\<rparr>\<rparr>\<rparr>))
     \<lparr>rd_workspace := [([''ree-scripts'', ''build_script.sh''], Inr ''mk'')]\<rparr>"

section \<open>Properties\<close>

text \<open>
  A runnable that reports success ran to the end: the run script exited with 0, the
  verify script was run and exited with 0 exactly when one is declared, and the verdict is a pass,
  so the handler's check for an incomplete success can never fire.
\<close>

theorem run_runnable_success_complete:
  assumes "run_runnable exec ws (as_runnable runnable) label = (outcome, ws')"
    and "eo_status outcome = Succeeded"
    and "\<forall>p. fst (snd (runnable_scripts runnable)) = Some p \<longrightarrow> p \<noteq> []"
  shows "ro_exit_code (eo_run_outputs outcome) = Some 0 \<and>
    ro_verdict (eo_run_outputs outcome) = Some Pass \<and>
    (ro_verify_exit_code (eo_run_outputs outcome) = Some 0 \<longleftrightarrow>
      fst (snd (runnable_scripts runnable)) \<noteq> None)"
  using run_runnable_succeeded[OF assms(1,2)] assms(3)
  by (cases runnable) (auto split: option.splits)

theorem run_runnable_success_complete_witness:
  "\<exists>outcome ws'. run_runnable (\<lambda>_ ws. (0, False, ws)) [([''ree-scripts'', ''activation.sh''], ''x'')]
      (as_runnable (Activation_Runnable example_activation)) ''activation'' = (outcome, ws') \<and>
     ro_verdict (eo_run_outputs outcome) = Some Pass"
proof -
  let ?run = "run_runnable (\<lambda>_ ws. (0, False, ws)) [([''ree-scripts'', ''activation.sh''], ''x'')]
      (as_runnable (Activation_Runnable example_activation)) ''activation''"
  obtain outcome ws' where run: "?run = (outcome, ws')" by (cases ?run)
  have "eo_status (fst ?run) = Succeeded" by code_simp
  then have "eo_status outcome = Succeeded" by (simp only: run fst_conv)
  from run_runnable_success_complete[OF run this] run show ?thesis
    by (simp add: example_activation_def)
qed

text \<open>
  When \<open>build_runtime\<close> succeeds, the source evidence was current when it started,
  the stored document reads back, its runtime evidence is current, and the digest its receipt
  records is that of the runtime file in the workspace the build left. Any other outcome leaves
  the document as it was.
\<close>

theorem build_runtime_evidence_current:
  assumes "platform_ok P"
    and "handle_build_runtime P exec tables run_id start finish d = Inr (res, d')"
  shows "(ar_status res = Succeeded \<and> (\<exists>r r' b. load_ree P d = Inr r \<and>
      sa_evidence (ra_source (audit r)) = Ev_Current \<and> load_ree P d' = Inr r' \<and>
      rcp_build (sub_receipts (ree_subject r')) = Some b \<and>
      sa_evidence (ra_runtime (audit r')) = Ev_Current \<and>
      digest_file_if_exists (pf_digest P) (rd_workspace d') (posix_parts (brr_runtime_path b)) =
        Some (brr_produced_runtime_digest b))) \<or>
    (ar_status res \<noteq> Succeeded \<and> rd_manifest d' = rd_manifest d)"
proof (cases "\<exists>r pre. load_ree P d = Inr r \<and> build_preconditions P r d = Inr pre")
  case False
  with assms(2) show ?thesis
    by (auto simp: handle_build_runtime_def bind_res_Inl_iff split: if_splits sum.splits ree_error.splits)
next
  case True
  then obtain r build path where r: "load_ree P d = Inr r"
    and pre: "build_preconditions P r d = Inr (build, path)" by auto
  then have "manifest_exists d" by (auto simp: load_ree_Inr manifest_exists_def)
  obtain outcome ws where run: "run_workspace_script exec (rd_workspace d) (bld_script_path build) = (outcome, ws)"
    by (cases "run_workspace_script exec (rd_workspace d) (bld_script_path build)")
  note step = assms(2)[unfolded handle_build_runtime_def Let_def]
  show ?thesis
  proof (cases "so_status outcome = Succeeded")
    case False
    with step \<open>manifest_exists d\<close> r pre run show ?thesis by (auto split: if_splits)
  next
    case True
    note ran = step \<open>manifest_exists d\<close> r pre run True
    show ?thesis
    proof (cases "digest_file_if_exists (pf_digest P) ws (posix_parts path)")
      case None
      with ran show ?thesis by (auto split: if_splits)
    next
      case (Some produced)
      with ran obtain source where source: "rcp_source (sub_receipts (ree_subject r)) = Some source"
        by (auto split: if_splits option.splits)
      define b where "b = build_receipt run_id
        (timer_finish (timer_start (fst start) (snd start)) (fst finish) (snd finish))
        (asr_snapshot_digest source) build (check_workspace_drift P (fst tables) (snd tables) d
          (path # concat (map exp_output_paths (def_experiments (sub_definition (ree_subject r))))))
        path produced"
      have b: "brr_snapshot_digest b = asr_snapshot_digest source"
        "brr_build_runtime_script_digest b = bld_script_digest build"
        "brr_runtime_path b = path" "brr_produced_runtime_digest b = produced"
        by (simp_all add: b_def)
      from ran Some source have "valid_build_receipt b"
        and store: "store_receipt P r (Build_Runtime b) ''failed to commit build receipt'' []
          (d\<lparr>rd_workspace := ws\<rparr>) = (res, d')"
        by (auto simp: b_def split: if_splits)
      show ?thesis
      proof (cases "ar_status res = Succeeded")
        case False
        with store_receipt_cases[OF store] show ?thesis by auto
      next
        case True
        with store_receipt_loads[OF assms(1) _ _ store] r \<open>valid_build_receipt b\<close>
        obtain r' where r': "commit_receipt r (Build_Runtime b) = Inr r'" "load_ree P d' = Inr r'"
          and d': "d' = d\<lparr>rd_workspace := ws, rd_manifest := rd_manifest d'\<rparr>" by auto
        from pre have "sa_evidence (ra_source (audit r)) = Ev_Current"
          and defs: "def_build_runtime (sub_definition (ree_subject r)) = Some build"
            "bld_runtime_path build = Some path" by (auto simp: build_preconditions_Inr)
        moreover have "sa_evidence (ra_runtime (audit r')) = Ev_Current"
          using commit_receipt_subject[OF r'(1)] defs b source
          by (simp add: audit_evidence verdict_Current runtime_holds_def agrees_def)
        moreover have "rd_workspace d' = ws" by (subst d') simp
        moreover have "rcp_build (sub_receipts (ree_subject r')) = Some b"
          using commit_receipt_subject[OF r'(1)] by simp
        ultimately show ?thesis using True r r'(2) Some b by auto
      qed
    qed
  qed
qed

theorem build_runtime_evidence_current_witness:
  "\<exists>res d' r'. handle_build_runtime example_platform
      (\<lambda>_ ws. (0, False, ([''img.tar''], Inr ''i'') # ws)) (None, []) ''r'' (0, 0) (1, 1)
      example_build_dir = Inr (res, d') \<and>
     load_ree example_platform d' = Inr r' \<and> sa_evidence (ra_runtime (audit r')) = Ev_Current"
proof -
  let ?run = "handle_build_runtime example_platform
      (\<lambda>_ ws. (0, False, ([''img.tar''], Inr ''i'') # ws)) (None, []) ''r'' (0, 0) (1, 1)
      example_build_dir"
  have "map_sum id (\<lambda>(res, d'). ar_status res) ?run = Inr Succeeded" by code_simp
  then obtain res d' where run: "?run = Inr (res, d')" "ar_status res = Succeeded"
    by (cases ?run) auto
  from build_runtime_evidence_current[OF example_platform_ok run(1)] run show ?thesis by auto
qed

lemma check_runtime_Inr:
  assumes "check_runtime P r d = Inr runtime"
  shows "runtime = None \<and> \<not> declares_runtime (sub_definition (ree_subject r)) \<or>
    declares_runtime (sub_definition (ree_subject r)) \<and>
    (\<exists>build path. rcp_build (sub_receipts (ree_subject r)) = Some build \<and>
      runtime = Some (path, brr_produced_runtime_digest build))"
  using assms
  by (auto simp: check_runtime_def declares_runtime_def Let_def bind_eq_Some_conv
      split: option.splits if_splits)

lemma check_preconditions_Inr:
  assumes "check_preconditions P r runnable d = Inr runtime"
  shows "check_runtime P r d = Inr runtime \<and> rcp_source (sub_receipts (ree_subject r)) \<noteq> None"
  using assms by (auto simp: check_preconditions_def Let_def split: prod.splits)

text \<open>The runtime a run was bound to agrees with the build receipt, unless none is declared
  while one is still recorded.\<close>

lemma check_runtime_agrees:
  assumes "check_runtime P r d = Inr runtime"
  shows "agrees (rcp_build (sub_receipts (ree_subject r)))
      (\<lambda>b. Some (brr_produced_runtime_digest b)) (map_option snd runtime) \<longleftrightarrow>
    declares_runtime (sub_definition (ree_subject r)) \<or>
    rcp_build (sub_receipts (ree_subject r)) = None"
  using check_runtime_Inr[OF assms]
  by (cases "rcp_build (sub_receipts (ree_subject r))") (auto simp: agrees_def)

lemma select_definition_activation:
  "select_definition r Test_Activation_Kind = Inr runnable \<Longrightarrow>
     \<exists>a. runnable = Activation_Runnable a \<and>
       def_test_activation (sub_definition (ree_subject r)) = Some a"
  by (auto simp: select_definition_def split: if_splits option.splits)

lemma select_definition_experiment:
  "select_definition r (Run_Experiment_Kind name) = Inr runnable \<Longrightarrow>
     \<exists>e. runnable = Experiment_Runnable e \<and>
       List.find (\<lambda>e. exp_name e = name) (def_experiments (sub_definition (ree_subject r))) = Some e \<and>
       exp_name e = name"
  by (auto simp: select_definition_def find_Some_iff split: if_splits option.splits)

text \<open>Whether a runnable's fresh evidence reads current.\<close>

definition runnable_evidence :: "ree \<Rightarrow> runnable_kind \<Rightarrow> evidence_status" where
  "runnable_evidence r kind =
     (case kind of
        Test_Activation_Kind \<Rightarrow> sa_evidence (ra_test_activation (audit r))
      | Run_Experiment_Kind name \<Rightarrow>
          (case List.find (\<lambda>e. exp_name e = name)
             (def_experiments (sub_definition (ree_subject r))) of
             None \<Rightarrow> Ev_Not_Applicable
           | Some e \<Rightarrow> sa_evidence (ea_run (audit_experiment (subject_of r) e))))"

lemma runnable_evidence_after:
  assumes "select_definition r kind = Inr runnable"
    and "check_runtime P r d = Inr runtime"
    and "rcp_source (sub_receipts (ree_subject r)) = Some source"
    and "commit_receipt r (successful_receipt runnable run_id timing
      (asr_snapshot_digest source) runtime produced) = Inr r'"
  shows "runnable_evidence r' kind =
    (if declares_runtime (sub_definition (ree_subject r)) \<or>
        rcp_build (sub_receipts (ree_subject r)) = None then Ev_Current else Ev_Stale)"
proof (cases kind)
  case Test_Activation_Kind
  with select_definition_activation assms(1) obtain a where
    a: "runnable = Activation_Runnable a" "def_test_activation (sub_definition (ree_subject r)) = Some a"
    by blast
  with Test_Activation_Kind commit_receipt_subject[OF assms(4)] assms(3) check_runtime_agrees[OF assms(2)]
  show ?thesis
    by (auto simp: runnable_evidence_def audit_evidence verdict_def activation_holds_def receipt_extend)
      (simp_all add: agrees_def)
next
  case (Run_Experiment_Kind name)
  with select_definition_experiment assms(1) obtain e where e: "runnable = Experiment_Runnable e"
    "List.find (\<lambda>e. exp_name e = name) (def_experiments (sub_definition (ree_subject r))) = Some e"
    "exp_name e = name"
    by blast
  with Run_Experiment_Kind commit_receipt_subject[OF assms(4)] assms(3) check_runtime_agrees[OF assms(2)]
  show ?thesis
    by (auto simp: runnable_evidence_def experiment_evidence subject_of_def verdict_def
        experiment_holds_def receipt_extend) (simp_all add: agrees_def)
qed

text \<open>
  Property C14. When an activation or an experiment succeeds, its receipt reads current in the
  audit of the stored document exactly when the REE declares a runtime or carries no build
  receipt: where the build was dropped from the declaration but its receipt stayed, the evidence
  is stale the moment it is recorded. Any other outcome leaves the document as it was.
\<close>

theorem runnable_evidence_current_iff:
  assumes "platform_ok P"
    and "handle_runnable_operation P sha exec kind run_id start finish d = Inr (res, d')"
  shows "(ar_status res = Succeeded \<and> (\<exists>r r'. load_ree P d = Inr r \<and> load_ree P d' = Inr r' \<and>
      runnable_evidence r' kind =
        (if declares_runtime (sub_definition (ree_subject r)) \<or>
            rcp_build (sub_receipts (ree_subject r)) = None then Ev_Current else Ev_Stale))) \<or>
    (ar_status res \<noteq> Succeeded \<and> rd_manifest d' = rd_manifest d)"
proof (cases "\<exists>r runnable runtime. load_ree P d = Inr r \<and> select_definition r kind = Inr runnable \<and>
    check_preconditions P r runnable d = Inr runtime")
  case False
  with assms(2) show ?thesis
    by (auto simp: handle_runnable_operation_def bind_res_Inl_iff
        split: if_splits sum.splits ree_error.splits)
next
  case True
  then obtain r runnable runtime where r: "load_ree P d = Inr r"
    and runnable: "select_definition r kind = Inr runnable"
    and pre: "check_preconditions P r runnable d = Inr runtime" by auto
  then have "manifest_exists d" by (auto simp: load_ree_Inr manifest_exists_def)
  obtain outcome ws where run: "run_runnable exec (rd_workspace d) (as_runnable runnable)
      (runnable_label runnable) = (outcome, ws)"
    by (cases "run_runnable exec (rd_workspace d) (as_runnable runnable) (runnable_label runnable)")
  let ?d = "d\<lparr>rd_workspace := ws\<rparr>"
    and ?t = "timer_finish (timer_start (fst start) (snd start)) (fst finish) (snd finish)"
  note ran = assms(2)[unfolded handle_runnable_operation_def Let_def] \<open>manifest_exists d\<close> r
    runnable pre run
  show ?thesis
  proof (cases "eo_status outcome = Succeeded")
    case False
    with ran show ?thesis by (auto split: if_splits)
  next
    case True
    with ran have settle: "settle_runnable P sha r runnable runtime run_id ?t
        (eo_run_outputs outcome) ?d = Inr (res, d')" by simp
    from check_preconditions_Inr[OF pre] obtain source where
      rt: "check_runtime P r d = Inr runtime"
      and source: "rcp_source (sub_receipts (ree_subject r)) = Some source" by auto
    show ?thesis
    proof (cases "capture_outputs P sha ?d runnable")
      case (Inl e)
      with settle show ?thesis by (auto simp: settle_runnable_def Let_def split: if_splits)
    next
      case (Inr captured)
      obtain produced d1 where c: "captured = (produced, d1)" by (cases captured)
      have d1: "load_ree P d1 = load_ree P d" "rd_manifest d1 = rd_manifest d"
        using Inr c
        by (auto simp: capture_outputs_def capture_experiment_outputs_def Let_def map_prod_def
            split: runnable_definition.splits if_splits option.splits)
      let ?receipt = "successful_receipt runnable run_id ?t (asr_snapshot_digest source) runtime produced"
      show ?thesis
      proof (cases "store_receipt P r ?receipt ''failed to commit receipt'' [] d1 = (res, d')")
        case True
        from settle Inr c source have "valid_receipt ?receipt \<or> ar_status res \<noteq> Succeeded"
          by (auto simp: settle_runnable_def Let_def split: if_splits)
        with store_receipt_cases[OF True] store_receipt_loads[OF assms(1) _ _ True] r d1
          runnable_evidence_after[OF runnable rt source]
        show ?thesis by auto
      next
        case False
        with settle Inr c source d1 show ?thesis
          by (auto simp: settle_runnable_def Let_def split: if_splits)
      qed
    qed
  qed
qed

theorem runnable_evidence_current_iff_witness:
  "\<exists>res d' r'. handle_runnable_operation example_platform id (\<lambda>_ ws. (0, False, ws))
      Test_Activation_Kind ''r'' (0, 0) (1, 1) example_runs_dir = Inr (res, d') \<and>
     load_ree example_platform d' = Inr r' \<and> runnable_evidence r' Test_Activation_Kind = Ev_Current"
proof -
  let ?run = "handle_runnable_operation example_platform id (\<lambda>_ ws. (0, False, ws))
      Test_Activation_Kind ''r'' (0, 0) (1, 1) example_runs_dir"
  have "map_sum id (\<lambda>(res, d'). ar_status res) ?run = Inr Succeeded" by code_simp
  then obtain res d' where run: "?run = Inr (res, d')" "ar_status res = Succeeded"
    by (cases ?run) auto
  from runnable_evidence_current_iff[OF example_platform_ok run(1)] run(2) obtain r r' where
    r: "load_ree example_platform example_runs_dir = Inr r" and
    r': "load_ree example_platform d' = Inr r'" "runnable_evidence r' Test_Activation_Kind =
      (if declares_runtime (sub_definition (ree_subject r)) \<or>
          rcp_build (sub_receipts (ree_subject r)) = None then Ev_Current else Ev_Stale)"
    by auto
  from r have "r = example_runs_ree"
    by (simp add: load_ree_Inr example_runs_dir_def example_dir_def) (simp add: example_platform_def)
  with r' run(1) show ?thesis by (simp add: example_runs_ree_def empty_receipts_def)
qed

section \<open>Captured outputs\<close>

lemma map_of_fold_update:
  "map_of (fold (\<lambda>(k, v). AList.update k v) es t) = map_of t ++ map_of (rev es)"
  by (induction es arbitrary: t) (auto simp: fun_eq_iff map_add_def split: option.split)

lemma map_of_functional:
  assumes "\<And>k v. (k, v) \<in> set es \<Longrightarrow> f k = Some v"
  shows "map_of es k = (if k \<in> fst ` set es then f k else None)"
proof (cases "map_of es k")
  case None
  then show ?thesis by (simp add: map_of_eq_None_iff)
next
  case (Some v)
  then have "(k, v) \<in> set es" by (rule map_of_SomeD)
  with assms Some show ?thesis by force
qed

text \<open>A workspace file an experiment's declared outputs reach.\<close>

definition declared_output :: "experiment_definition \<Rightarrow> 'b tree \<Rightarrow> string list \<Rightarrow> bool" where
  "declared_output e ws k \<longleftrightarrow> map_of ws k \<noteq> None \<and>
     (\<exists>rel \<in> set (exp_output_paths e). prefix (posix_parts rel) k)"

lemma copied_output_iff:
  assumes "tree_ok ws"
  shows "(q, c) \<in> set (copied_output ws store rel) \<longleftrightarrow>
    (\<exists>k. q = store @ k \<and> map_of ws k = Some c \<and> prefix (posix_parts rel) k)"
proof (cases "is_dir_at ws (posix_parts rel)")
  case True
  with assms show ?thesis
    by (auto simp: copied_output_def Let_def tree_ok_def dict_ok_map_of_iff image_iff)
next
  case False
  then have "k = posix_parts rel" if "map_of ws k = Some c" "prefix (posix_parts rel) k" for k c
    using that unfolding is_dir_at_def
    by (metis keys_map_of option.distinct(1) prefix_order.less_le)
  with False show ?thesis
    by (cases "map_of ws (posix_parts rel)") (auto simp: copied_output_def Let_def, fastforce+)
qed

lemma fold_concat_updates:
  "fold (\<lambda>rel t. fold (\<lambda>(k, c). AList.update k c) (f rel) t) rels t =
     fold (\<lambda>(k, c). AList.update k c) (concat (map f rels)) t"
  by (induction rels arbitrary: t) auto

lemma map_of_delete_subtree:
  "is_file_at t p \<or> map_of (delete_if_exists t p) =
     (\<lambda>k. if prefix p k then None else map_of t k)"
proof (cases "is_dir_at t p")
  case True
  then show ?thesis
    by (auto simp: delete_dir fun_eq_iff map_of_filter_key[where P = "\<lambda>k. \<not> prefix p k"])
next
  case False
  have "map_of t k = None" if "prefix p k" "\<not> is_file_at t p" for k
    using that False unfolding is_dir_at_def is_file_at_def
    by (metis has_key_def keys_map_of prefix_order.less_le)
  with False show ?thesis
    by (auto simp: delete_if_exists_def exists_at_def fun_eq_iff)
qed

text \<open>
  Property C15. Capturing an experiment's outputs replaces exactly the subtree of the results
  store its name spells: under it, the store holds the workspace files its declared outputs reach
  and nothing else, at the paths they were declared under; outside it, nothing changes. (A name
  is not confined to one path segment: for the experiment named \<open>.\<close> the subtree is the whole
  store, so the other experiments' baselines go.)
\<close>

theorem capture_replaces_subtree:
  assumes "capture_experiment_outputs P sha d e = Inr (digest, d')"
    and "tree_ok (rd_workspace d)"
  shows "map_of (rd_results d') =
    (\<lambda>q. if prefix (posix_parts (exp_name e)) q then
           (let k = drop (length (posix_parts (exp_name e))) q in
            if declared_output e (rd_workspace d) k then map_of (rd_workspace d) k else None)
         else map_of (rd_results d) q)"
proof -
  let ?store = "posix_parts (exp_name e)" and ?ws = "rd_workspace d"
  define es where "es = concat (map (copied_output ?ws ?store) (exp_output_paths e))"
  let ?f = "\<lambda>q. map_of ?ws (drop (length ?store) q)"
  from assms(1) have free: "\<not> is_file_at (rd_results d) ?store"
    and d': "rd_results d' = fold (\<lambda>(k, c). AList.update k c) es
      (delete_if_exists (rd_results d) ?store)"
    by (auto simp: capture_experiment_outputs_def resolve_under_def Let_def es_def
        fold_concat_updates[symmetric] split: if_splits option.splits)
  have entries: "(q, c) \<in> set es \<longleftrightarrow> (\<exists>k. q = ?store @ k \<and> map_of ?ws k = Some c \<and>
      declared_output e ?ws k)" for q c
    using assms(2) by (auto simp: copied_output_iff declared_output_def es_def)
  have stored: "map_of (rev es) q = (if q \<in> fst ` set es then ?f q else None)" for q
  proof -
    have "?f k = Some v" if "(k, v) \<in> set (rev es)" for k v
      using that entries by auto
    from map_of_functional[of "rev es" ?f, OF this] show ?thesis by simp
  qed
  have key: "q \<in> fst ` set es \<longleftrightarrow>
      prefix ?store q \<and> declared_output e ?ws (drop (length ?store) q)" for q
  proof -
    have "q \<in> fst ` set es \<longleftrightarrow> (\<exists>c. (q, c) \<in> set es)" by force
    also have "\<dots> \<longleftrightarrow> (\<exists>k. q = ?store @ k \<and> declared_output e ?ws k)"
      by (auto simp: entries declared_output_def)
    also have "\<dots> \<longleftrightarrow> prefix ?store q \<and> declared_output e ?ws (drop (length ?store) q)"
      by (auto elim: prefixE)
    finally show ?thesis .
  qed
  from map_of_delete_subtree[of "rd_results d" ?store] free
  have rest: "map_of (delete_if_exists (rd_results d) ?store) =
      (\<lambda>q. if prefix ?store q then None else map_of (rd_results d) q)" by blast
  show ?thesis
  proof
    fix q
    show "map_of (rd_results d') q = (if prefix ?store q then
        (let k = drop (length ?store) q in if declared_output e ?ws k then map_of ?ws k else None)
        else map_of (rd_results d) q)"
    proof (cases "prefix ?store q \<and> declared_output e ?ws (drop (length ?store) q)")
      case True
      then obtain c where "?f q = Some c" by (auto simp: declared_output_def)
      with True show ?thesis
        by (simp add: d' map_of_fold_update map_add_def stored key Let_def)
    next
      case False
      then show ?thesis
        by (auto simp: d' map_of_fold_update map_add_def stored key rest Let_def)
    qed
  qed
qed

theorem capture_replaces_subtree_witness:
  "\<exists>digest d'. capture_experiment_outputs example_platform id
       (empty_dir\<lparr>rd_workspace := [([''out''], Inr ''x'')],
         rd_results := [([''other'', ''out''], Inr ''y'')]\<rparr>)
       \<lparr>exp_name = ''.'', exp_run_script_path = [], exp_run_script_digest = [],
        exp_run_script_size = 0, exp_verify_script_path = None, exp_verify_script_digest = None,
        exp_verify_script_size = None, exp_output_paths = [''out'']\<rparr> = Inr (digest, d') \<and>
     map_of (rd_results d') [''other'', ''out''] = None \<and> map_of (rd_results d') [''out''] = Some (Inr ''x'')"
proof -
  let ?d = "empty_dir\<lparr>rd_workspace := [([''out''], Inr ''x'')],
      rd_results := [([''other'', ''out''], Inr ''y'')]\<rparr>"
    and ?e = "\<lparr>exp_name = ''.'', exp_run_script_path = [], exp_run_script_digest = [],
      exp_run_script_size = 0, exp_verify_script_path = None, exp_verify_script_digest = None,
      exp_verify_script_size = None, exp_output_paths = [''out'']\<rparr>"
  let ?run = "capture_experiment_outputs example_platform id ?d ?e"
  have parts: "posix_parts ''.'' = []" "posix_parts ''out'' = [''out'']" by code_simp+
  have "validate_relative_path ''.'' = Inr ()" by code_simp
  then obtain digest d' where run: "?run = Inr (digest, d')"
    by (simp add: capture_experiment_outputs_def resolve_under_def parts Let_def
        digest_output_paths_def is_file_at_def has_key_def)
  have "tree_ok (rd_workspace ?d)" by (simp add: tree_ok_def dict_ok_def is_dir_at_def)
  from capture_replaces_subtree[OF run this] run show ?thesis
    by (simp add: parts declared_output_def)
qed

section \<open>Drift\<close>

text \<open>
  A path that moved since materialization, is neither a declared output nor a control file, and
  is not what overlay and upstream give.
\<close>

definition drifts ::
  "'b platform \<Rightarrow> 'b ree_dir \<Rightarrow> stat_table \<Rightarrow> stat_table \<Rightarrow> string list \<Rightarrow> string \<Rightarrow> bool" where
  "drifts P d recorded current excluded rel \<longleftrightarrow>
     rel \<in> fst ` set recorded \<union> fst ` set current \<and> rel \<notin> set excluded \<and>
     \<not> is_control_name rel \<and> map_of recorded rel \<noteq> map_of current rel \<and> path_drifted P d rel"

text \<open>
  The drift verdict is clean exactly when no listed path drifted; a modified verdict
  counts every drifted path exactly and names at most twenty of them, in order, none twice.
\<close>

theorem drift_verdict:
  "let w = check_workspace_drift P (Some recorded) current d excluded;
       D = {rel. drifts P d recorded current excluded rel}
   in wd_status w = (if D = {} then Clean else Modified) \<and>
      wd_changed_path_count w = int (card D) \<and>
      length (wd_changed_paths w) = min 20 (card D) \<and> set (wd_changed_paths w) \<subseteq> D \<and>
      sorted (wd_changed_paths w) \<and> distinct (wd_changed_paths w)"
proof -
  define drifted where "drifted = filter (\<lambda>relative.
      \<not> (relative \<in> set excluded \<or> is_control_name relative \<or>
         map_of recorded relative = map_of current relative) \<and> path_drifted P d relative)
      (sort (remdups (map fst recorded @ map fst current)))"
  have D: "{rel. drifts P d recorded current excluded rel} = set drifted"
    by (auto simp: drifts_def drifted_def)
  have d: "distinct drifted" "sorted drifted"
    by (simp_all add: drifted_def sorted_wrt_filter)
  then have card: "card (set drifted) = length drifted" by (simp only: distinct_card)
  have run: "check_workspace_drift P (Some recorded) current d excluded =
      (if drifted = [] then \<lparr>wd_status = Clean, wd_changed_paths = [], wd_changed_path_count = 0\<rparr>
       else \<lparr>wd_status = Modified, wd_changed_paths = take 20 drifted,
             wd_changed_path_count = int (length drifted)\<rparr>)"
    by (simp add: check_workspace_drift_def drifted_def Let_def drift_paths_cap_def)
  show ?thesis
    unfolding Let_def D card run using d
    by (auto simp: sorted_wrt_take dest: in_set_takeD)
qed

end
