(* ===== verification/Ree_Bundle_Facts.thy ===== *)
theory Ree_Bundle_Facts
  imports Ree_Bundle Ree_Runnables
begin

text \<open>
  What sealing and restoring guarantee: the entries of a bundle spell good paths, each once, so the
  inventory of a valid draft is always accepted; extracting the archive gives back exactly those
  entries; and restoring a sealed bundle reproduces the document and the trees.
\<close>

section \<open>Paths and their parts\<close>

definition good_part :: "string \<Rightarrow> bool" where
  "good_part p \<longleftrightarrow> p \<noteq> [] \<and> p \<noteq> ''.'' \<and> p \<noteq> ''..'' \<and> CHR ''/'' \<notin> set p"

definition good_key :: "string list \<Rightarrow> bool" where
  "good_key k \<longleftrightarrow> k \<noteq> [] \<and> (\<forall>p \<in> set k. good_part p)"

lemma split_where_append:
  "p c \<Longrightarrow> split_where p (xs @ c # ys) = split_where p xs @ split_where p ys"
  by (induction xs) (auto split: list.splits)

lemma posix_parts_append: "posix_parts (a @ ''/'' @ b) = posix_parts a @ posix_parts b"
  by (simp add: posix_parts_def split_on_def split_where_append)

lemma posix_parts_as_posix:
  assumes "good_key k"
  shows "posix_parts (as_posix k) = k"
proof -
  have "split_on (CHR ''/'') (as_posix k) = k"
    unfolding split_on_def as_posix_def using assms
    by (intro split_where_join) (auto simp: good_key_def good_part_def)
  with assms show ?thesis
    by (simp add: posix_parts_def good_key_def good_part_def filter_id_conv)
qed

lemma as_posix_Cons: "k \<noteq> [] \<Longrightarrow> as_posix (x # k) = x @ ''/'' @ as_posix k"
  by (cases k) (simp_all add: as_posix_def)

lemma as_posix_single [simp]: "as_posix [x] = x"
  by (simp add: as_posix_def)

lemma tree_ok_good_key: "tree_ok t \<Longrightarrow> (k, c) \<in> set t \<Longrightarrow> good_key k"
proof -
  assume "tree_ok t" "(k, c) \<in> set t"
  then have "\<not> is_dir_at t k" "\<forall>p \<in> set k. good_part p"
    by (force simp: tree_ok_def good_part_def)+
  then show ?thesis by (auto simp: good_key_def is_dir_at_def)
qed

lemma tree_ok_no_root:
  assumes "tree_ok t"
  shows "map_of t [] = None"
proof (cases "map_of t []")
  case (Some c)
  with tree_ok_good_key[OF assms map_of_SomeD[OF Some]] show ?thesis by (simp add: good_key_def)
qed

lemma good_key_parts [simp]:
  "good_key (x # k) \<longleftrightarrow> good_part x \<and> (k = [] \<or> good_key k)"
  by (cases k) (auto simp: good_key_def)

lemma bundle_parts_good [simp]:
  "good_part ''ree''" "good_part ''overlay''" "good_part ''artifacts''" "good_part ''results''"
  "good_part ''run.sh''" "good_part ''REPRODUCING.md''" "good_part ''acquire_source.sh''"
  "good_part ''materialize_workspace.sh''" "good_part ''snapshot.tar.gz''" "good_part ''ree.json''"
  by (simp_all add: good_part_def)

section \<open>Entries by their keys\<close>

text \<open>An entry whose path spells a good key.\<close>

definition spells :: "string \<times> 'b \<Rightarrow> string list \<Rightarrow> bool" where
  "spells e k \<longleftrightarrow> good_key k \<and> fst e = as_posix k"

definition keyed :: "(string list \<times> 'b) list \<Rightarrow> 'b entries" where
  "keyed t = map (\<lambda>(k, c). (as_posix k, c)) t"

definition reproducer_keyed :: "'b reproducer_files \<Rightarrow> (string list \<times> 'b) list" where
  "reproducer_keyed f =
     [([''run.sh''], rf_run_sh f), ([''ree'', ''acquire_source.sh''], rf_acquire_sh f),
      ([''ree'', ''materialize_workspace.sh''], rf_materialize_sh f),
      ([''REPRODUCING.md''], rf_readme f)]"

definition under :: "string list \<Rightarrow> 'b tree \<Rightarrow> (string list \<times> 'b) list" where
  "under base t = map (\<lambda>(k, c). (base @ k, c)) (sort_key (\<lambda>(k, _). as_posix k) t)"

lemma reproducer_entries_keyed: "reproducer_entries f = keyed (reproducer_keyed f)"
  by (simp add: reproducer_entries_def keyed_def reproducer_keyed_def bundle_paths as_posix_def)

lemma tree_entries_keyed:
  assumes "tree_ok t" and "\<And>k. k \<noteq> [] \<Longrightarrow> as_posix (base @ k) = bundle_prefix @ as_posix k"
  shows "tree_entries t bundle_prefix = keyed (under base t)"
  using assms tree_ok_good_key[OF assms(1)]
  by (auto simp: tree_entries_def keyed_def under_def good_key_def)

lemma bundle_prefix_as_posix:
  "k \<noteq> [] \<Longrightarrow> as_posix ([''ree'', ''overlay''] @ k) = bundle_overlay_prefix @ as_posix k"
  "k \<noteq> [] \<Longrightarrow> as_posix ([''ree'', ''artifacts''] @ k) = bundle_artifacts_prefix @ as_posix k"
  "k \<noteq> [] \<Longrightarrow> as_posix ([''ree'', ''results''] @ k) = bundle_results_prefix @ as_posix k"
  by (simp_all add: as_posix_Cons bundle_paths)

text \<open>The entries before sorting, by key.\<close>

definition runtime_keyed :: "seal_options \<Rightarrow> 'b ree_dir \<Rightarrow> ree \<Rightarrow> (string list \<times> 'b) list" where
  "runtime_keyed opts d r =
     (case Option.bind (def_build_runtime (sub_definition (ree_subject r))) bld_runtime_path of
        None \<Rightarrow> []
      | Some runtime_path \<Rightarrow>
          (case map_of (rd_workspace d) (posix_parts runtime_path) of
             Some content \<Rightarrow>
               if runtime_included opts \<and> [path_name runtime_path] \<notin> fst ` set (rd_artifacts d)
               then [([''ree'', ''artifacts'', path_name runtime_path], content)] else []
           | None \<Rightarrow> []))"

definition snapshot_keyed :: "seal_options \<Rightarrow> 'b ree_dir \<Rightarrow> (string list \<times> 'b) list" where
  "snapshot_keyed opts d =
     (case rd_snapshot d of
        Some c \<Rightarrow> if source_included opts then [([''ree'', ''snapshot.tar.gz''], c)] else []
      | None \<Rightarrow> [])"

definition front_keyed ::
  "'b reproducer_files \<Rightarrow> seal_options \<Rightarrow> 'b ree_dir \<Rightarrow> (string list \<times> 'b) list" where
  "front_keyed f opts d =
     reproducer_keyed f @ under [''ree'', ''overlay''] (rd_overlay d) @
     under [''ree'', ''artifacts''] (rd_artifacts d) @ snapshot_keyed opts d"

definition bundle_keyed ::
  "'b reproducer \<Rightarrow> seal_options \<Rightarrow> 'b ree_dir \<Rightarrow> ree \<Rightarrow> (string list \<times> 'b) list" where
  "bundle_keyed repro opts d r =
     front_keyed (repro (reproducer_args_of r)) opts d @ runtime_keyed opts d r @
     (if results_included opts then under [''ree'', ''results''] (rd_results d) else [])"

definition dir_ok :: "'b ree_dir \<Rightarrow> bool" where
  "dir_ok d \<longleftrightarrow> tree_ok (rd_overlay d) \<and> tree_ok (rd_artifacts d) \<and> tree_ok (rd_workspace d) \<and>
     tree_ok (rd_results d) \<and> tree_ok (rd_upstream d)"

lemma set_under: "(q, c) \<in> set (under base t) \<longleftrightarrow> (\<exists>k. q = base @ k \<and> (k, c) \<in> set t)"
  by (auto simp: under_def)

lemma keys_under: "fst ` set (under base t) = (\<lambda>k. base @ k) ` fst ` set t"
  by (force simp: under_def)

lemma path_name_good:
  assumes "tree_ok t" "map_of t (posix_parts p) = Some c"
  shows "good_part (path_name p)"
proof -
  have good: "good_key (posix_parts p)"
    using tree_ok_good_key[OF assms(1) map_of_SomeD[OF assms(2)]] .
  then have "path_name p = last (posix_parts p)"
    by (simp add: path_name_def good_key_def split: list.split)
  with good last_in_set show ?thesis by (auto simp: good_key_def)
qed

lemma front_keyed_iff:
  "(k, c) \<in> set (front_keyed f opts d) \<longleftrightarrow>
     (k, c) \<in> set (reproducer_keyed f) \<or>
     (\<exists>l. k = [''ree'', ''overlay''] @ l \<and> (l, c) \<in> set (rd_overlay d)) \<or>
     (\<exists>l. k = [''ree'', ''artifacts''] @ l \<and> (l, c) \<in> set (rd_artifacts d)) \<or>
     k = [''ree'', ''snapshot.tar.gz''] \<and> rd_snapshot d = Some c \<and> source_included opts"
  by (auto simp: front_keyed_def set_under snapshot_keyed_def split: option.split)

lemma runtime_keyed_iff:
  "(k, c) \<in> set (runtime_keyed opts d r) \<longleftrightarrow>
     (\<exists>p. Option.bind (def_build_runtime (sub_definition (ree_subject r))) bld_runtime_path = Some p \<and>
        map_of (rd_workspace d) (posix_parts p) = Some c \<and> runtime_included opts \<and>
        [path_name p] \<notin> fst ` set (rd_artifacts d) \<and> k = [''ree'', ''artifacts'', path_name p])"
  unfolding runtime_keyed_def
  by (cases "Option.bind (def_build_runtime (sub_definition (ree_subject r))) bld_runtime_path")
    (auto split: option.split)

lemma bundle_keyed_iff:
  "(k, c) \<in> set (bundle_keyed repro opts d r) \<longleftrightarrow>
     (k, c) \<in> set (front_keyed (repro (reproducer_args_of r)) opts d) \<or>
     (k, c) \<in> set (runtime_keyed opts d r) \<or>
     results_included opts \<and> (\<exists>l. k = [''ree'', ''results''] @ l \<and> (l, c) \<in> set (rd_results d))"
  by (auto simp: bundle_keyed_def set_under)

lemma dir_ok_trees:
  assumes "dir_ok d"
  shows "tree_ok (rd_overlay d)" "tree_ok (rd_artifacts d)" "tree_ok (rd_workspace d)"
    "tree_ok (rd_results d)" "tree_ok (rd_upstream d)"
  using assms by (simp_all add: dir_ok_def)

lemma front_keyed_good:
  "dir_ok d \<Longrightarrow> (k, c) \<in> set (front_keyed f opts d) \<Longrightarrow> good_key k"
  unfolding front_keyed_iff
  by (auto simp: reproducer_keyed_def dest: tree_ok_good_key[OF dir_ok_trees(1)]
      tree_ok_good_key[OF dir_ok_trees(2)])

lemma bundle_keyed_good:
  "dir_ok d \<Longrightarrow> (k, c) \<in> set (bundle_keyed repro opts d r) \<Longrightarrow> good_key k"
  unfolding bundle_keyed_iff runtime_keyed_iff
  by (auto dest: front_keyed_good tree_ok_good_key[OF dir_ok_trees(4)]
      path_name_good[OF dir_ok_trees(3)])

lemma as_posix_eq_iff: "good_key k \<Longrightarrow> good_key l \<Longrightarrow> as_posix k = as_posix l \<longleftrightarrow> k = l"
  by (metis posix_parts_as_posix)

lemma keyed_append [simp]: "keyed (s @ t) = keyed s @ keyed t"
  by (simp add: keyed_def)

lemma set_keyed: "(p, c) \<in> set (keyed t) \<longleftrightarrow> (\<exists>k. p = as_posix k \<and> (k, c) \<in> set t)"
  by (auto simp: keyed_def)

lemma snapshot_entries_keyed: "snapshot_entries opts d = keyed (snapshot_keyed opts d)"
  by (auto simp: snapshot_entries_def snapshot_keyed_def keyed_def as_posix_def bundle_paths
      split: option.split)

lemma front_entries_keyed:
  assumes "dir_ok d"
  shows "reproducer_entries f @ tree_entries (rd_overlay d) bundle_overlay_prefix @
      tree_entries (rd_artifacts d) bundle_artifacts_prefix @ snapshot_entries opts d =
    keyed (front_keyed f opts d)"
  using assms
  by (simp add: front_keyed_def reproducer_entries_keyed snapshot_entries_keyed dir_ok_def
      tree_entries_keyed[OF _ bundle_prefix_as_posix(1)]
      tree_entries_keyed[OF _ bundle_prefix_as_posix(2)])

lemma target_as_posix: "bundle_artifacts_prefix @ n = as_posix [''ree'', ''artifacts'', n]"
  by (simp add: bundle_paths as_posix_def)

lemma target_taken:
  assumes "dir_ok d" "good_part n"
  shows "(\<forall>(path, _) \<in> set (keyed (front_keyed f opts d)). path \<noteq> bundle_artifacts_prefix @ n) \<longleftrightarrow>
    [n] \<notin> fst ` set (rd_artifacts d)"
proof -
  have good: "good_key [''ree'', ''artifacts'', n]" using assms(2) by simp
  have "(\<forall>(path, _) \<in> set (keyed (front_keyed f opts d)). path \<noteq> bundle_artifacts_prefix @ n) \<longleftrightarrow>
      (\<forall>k c. (k, c) \<in> set (front_keyed f opts d) \<longrightarrow>
        as_posix k \<noteq> as_posix [''ree'', ''artifacts'', n])"
    unfolding target_as_posix keyed_def by auto
  also have "\<dots> \<longleftrightarrow> (\<forall>k c. (k, c) \<in> set (front_keyed f opts d) \<longrightarrow> k \<noteq> [''ree'', ''artifacts'', n])"
    using as_posix_eq_iff[OF front_keyed_good[OF assms(1)] good] by blast
  also have "\<dots> \<longleftrightarrow> (\<forall>c. ([''ree'', ''artifacts'', n], c) \<notin> set (front_keyed f opts d))" by blast
  also have "\<dots> \<longleftrightarrow> (\<forall>c. ([n], c) \<notin> set (rd_artifacts d))"
    by (simp add: front_keyed_iff reproducer_keyed_def)
  also have "\<dots> \<longleftrightarrow> [n] \<notin> fst ` set (rd_artifacts d)" by force
  finally show ?thesis .
qed

lemma runtime_entries_keyed:
  assumes "dir_ok d"
  shows "runtime_entries opts d r (keyed (front_keyed f opts d)) = keyed (runtime_keyed opts d r)"
proof -
  have name: "good_part (path_name p)" if "map_of (rd_workspace d) (posix_parts p) = Some c" for p c
    using assms(1) that path_name_good by (auto simp: dir_ok_def)
  show ?thesis
    using target_taken[OF assms name]
    by (auto simp: runtime_entries_def runtime_keyed_def Let_def keyed_def target_as_posix[symmetric]
        simp del: not_None_eq split: option.splits)
qed

lemma collect_entries_keyed:
  assumes "dir_ok d"
  shows "collect_entries repro opts d r = sort_key fst (keyed (bundle_keyed repro opts d r))"
proof -
  let ?front = "keyed (front_keyed (repro (reproducer_args_of r)) opts d)"
  have "collect_entries repro opts d r = sort_key fst (?front @ runtime_entries opts d r ?front @
      (if results_included opts then tree_entries (rd_results d) bundle_results_prefix else []))"
    unfolding collect_entries_def Let_def
    by (simp only: append_assoc flip: front_entries_keyed[OF assms])
  then show ?thesis
    using dir_ok_trees(4)[OF assms]
    by (simp add: bundle_keyed_def runtime_entries_keyed[OF assms] keyed_def[of "[]"]
        tree_entries_keyed[OF _ bundle_prefix_as_posix(3)])
qed

lemma distinct_under:
  assumes "tree_ok t"
  shows "distinct (map fst (under base t))"
proof -
  have "distinct (map fst (sort_key (\<lambda>(k, _). as_posix k) t))"
    using assms by (simp add: tree_ok_def dict_ok_def)
  moreover have "map fst (under base t) = map (append base) (map fst (sort_key (\<lambda>(k, _). as_posix k) t))"
    by (auto simp: under_def)
  ultimately show ?thesis by (simp only: distinct_map) (simp add: inj_on_def)
qed

lemma distinct_front:
  assumes "dir_ok d"
  shows "distinct (map fst (front_keyed f opts d))"
  using distinct_under[OF dir_ok_trees(1)[OF assms]] distinct_under[OF dir_ok_trees(2)[OF assms]]
  by (auto simp: front_keyed_def reproducer_keyed_def snapshot_keyed_def keys_under
      dest: tree_ok_good_key[OF dir_ok_trees(1)[OF assms]] split: option.split)

lemma distinct_bundle:
  assumes "dir_ok d"
  shows "distinct (map fst (bundle_keyed repro opts d r))"
proof -
  let ?f = "front_keyed (repro (reproducer_args_of r)) opts d" and ?r = "runtime_keyed opts d r"
    and ?s = "under [''ree'', ''results''] (rd_results d)"
  have runtime: "\<exists>n. k = [''ree'', ''artifacts'', n] \<and> [n] \<notin> fst ` set (rd_artifacts d)"
    if "(k, c) \<in> set ?r" for k c
    using that by (auto simp: runtime_keyed_iff)
  have front: "k \<noteq> [''ree'', ''artifacts'', n]"
    if "(k, c) \<in> set ?f" "[n] \<notin> fst ` set (rd_artifacts d)" for k c n
    using that by (force simp: front_keyed_iff reproducer_keyed_def)
  have results: "(''ree'' # ''results'' # l, c) \<notin> set ?f" "(''ree'' # ''results'' # l, c) \<notin> set ?r" for l c
    by (simp_all add: front_keyed_iff runtime_keyed_iff reproducer_keyed_def)
  have 1: "fst ` set ?f \<inter> fst ` set ?r = {}"
    by (rule equals0I) (auto dest!: runtime dest: front)
  have 2: "(fst ` set ?f \<union> fst ` set ?r) \<inter> fst ` set ?s = {}"
    by (rule equals0I) (auto simp: keys_under results)
  have "distinct (map fst ?r)"
    by (auto simp: runtime_keyed_def split: option.split)
  with 1 2 distinct_front[OF assms] distinct_under[OF dir_ok_trees(4)[OF assms]]
  show ?thesis
    by (cases "results_included opts")
      (simp_all add: bundle_keyed_def image_Un Int_Un_distrib Int_Un_distrib2)
qed

lemma keyed_inject:
  assumes "\<And>k c. (k, c) \<in> set t \<Longrightarrow> good_key k" and "distinct (map fst t)"
  shows "distinct (map fst (keyed t))"
proof -
  have "map fst (keyed t) = map as_posix (map fst t)" by (auto simp: keyed_def)
  moreover have "inj_on as_posix (fst ` set t)"
    using assms(1) as_posix_eq_iff by (auto intro!: inj_onI)
  ultimately show ?thesis
    using assms(2) distinct_map[of as_posix "map fst t"] by (simp only: list.set_map)
qed

section \<open>The inventory is accepted\<close>

lemma first_char_valid:
  assumes "good_key k" "\<not> is_rooted (as_posix k)"
  shows "valid_ree_path (as_posix k)"
proof -
  have "as_posix k \<noteq> []"
  proof
    assume "as_posix k = []"
    with posix_parts_as_posix[OF assms(1)] have "k = []"
      by (simp add: posix_parts_def split_on_def)
    with assms(1) show False by (simp add: good_key_def)
  qed
  moreover have "''..'' \<notin> set k" using assms(1) by (auto simp: good_key_def good_part_def)
  ultimately show ?thesis
    using assms by (simp add: valid_ree_path_def validate_relative_path_Inr posix_parts_as_posix)
qed

lemma bundle_key_unrooted:
  assumes "dir_ok d" "(k, c) \<in> set (bundle_keyed repro opts d r)"
  shows "\<not> is_rooted (as_posix k)"
proof -
  have "\<exists>l. k = ''ree'' # l \<or> k = [''run.sh''] \<or> k = [''REPRODUCING.md'']"
    using assms(2)
    by (auto simp: bundle_keyed_iff front_keyed_iff runtime_keyed_iff reproducer_keyed_def)
  then show ?thesis
    by (auto simp: is_rooted_def as_posix_def) (case_tac l; simp)+
qed

lemma inventory_total:
  assumes "platform_ok P" "dir_ok d"
  shows "\<exists>contents. inventory P (collect_entries repro opts d r) = Inr contents \<and>
    contents = map (bundle_entry_of P) (collect_entries repro opts d r) \<and> valid_contents contents"
proof -
  let ?es = "collect_entries repro opts d r" and ?k = "bundle_keyed repro opts d r"
  have paths: "map be_path (map (bundle_entry_of P) ?es) = map fst ?es"
    by (simp add: bundle_entry_of_def o_def)
  have "distinct (map fst ?es)"
    using keyed_inject[of ?k] bundle_keyed_good[OF assms(2)] distinct_bundle[OF assms(2)]
    by (simp add: collect_entries_keyed[OF assms(2)])
  moreover have "sorted (map fst ?es)" by (simp add: collect_entries_def Let_def)
  moreover have "valid_bundle_entry (bundle_entry_of P e)" if "e \<in> set ?es" for e
  proof -
    from that obtain k c where "e = (as_posix k, c)" "(k, c) \<in> set ?k"
      by (auto simp: collect_entries_keyed[OF assms(2)] keyed_def)
    with first_char_valid bundle_keyed_good[OF assms(2)] bundle_key_unrooted[OF assms(2)] assms(1)
    show ?thesis
      by (fastforce simp: valid_bundle_entry_def bundle_entry_of_def platform_ok_def)
  qed
  ultimately have "valid_contents (map (bundle_entry_of P) ?es)"
    by (simp add: valid_contents_def canonical_entries_Inr paths del: map_map)
  then show ?thesis by (simp add: inventory_def Let_def)
qed

section \<open>Extraction\<close>

text \<open>A list of entries that spells good, unrooted keys, each once.\<close>

definition well_spelled :: "'b entries \<Rightarrow> bool" where
  "well_spelled es \<longleftrightarrow> distinct (map fst es) \<and>
     (\<forall>(p, c) \<in> set es. \<exists>k. good_key k \<and> p = as_posix k \<and> \<not> is_rooted p)"

definition extracted :: "'b entries \<Rightarrow> 'b tree" where
  "extracted es = map (\<lambda>(p, c). (posix_parts p, c)) es"

lemma update_new: "k \<notin> fst ` set t \<Longrightarrow> AList.update k v t = t @ [(k, v)]"
  by (induction t) auto

lemma fold_update_new:
  "distinct (map fst ys) \<Longrightarrow> fst ` set ys \<inter> fst ` set t = {} \<Longrightarrow>
     fold (\<lambda>(k, v). AList.update k v) ys t = t @ ys"
proof (induction ys arbitrary: t)
  case (Cons y ys)
  obtain k v where y: "y = (k, v)" by (cases y)
  with Cons.prems have "AList.update k v t = t @ [(k, v)]" by (auto intro: update_new)
  with Cons y show ?case by auto
qed simp

lemma stays_inside_good: "\<forall>p \<in> set ps. p \<noteq> ''..'' \<Longrightarrow> stays_inside n ps"
  by (induction ps arbitrary: n) auto

lemma well_spelled_entry:
  assumes "well_spelled es" "(p, c) \<in> set es"
  shows "as_posix (posix_parts p) = p" "good_key (posix_parts p)" "\<not> is_rooted p"
    "stays_inside 0 (posix_parts p)" "filter (\<lambda>p. p \<noteq> ''..'') (posix_parts p) = posix_parts p"
proof -
  from assms obtain k where k: "good_key k" "p = as_posix k" "\<not> is_rooted p"
    by (force simp: well_spelled_def)
  then have parts: "posix_parts p = k" by (simp add: posix_parts_as_posix)
  with k show "as_posix (posix_parts p) = p" "good_key (posix_parts p)" "\<not> is_rooted p"
    by simp_all
  have "\<forall>q \<in> set k. q \<noteq> ''..''" using k(1) by (auto simp: good_key_def good_part_def)
  with parts show "stays_inside 0 (posix_parts p)"
    "filter (\<lambda>p. p \<noteq> ''..'') (posix_parts p) = posix_parts p"
    by (simp_all add: stays_inside_good filter_id_conv)
qed

lemma distinct_extracted:
  assumes "well_spelled es"
  shows "distinct (map fst (extracted es))"
proof -
  have "map fst (extracted es) = map posix_parts (map fst es)"
    by (auto simp: extracted_def)
  moreover have "inj_on posix_parts (fst ` set es)"
    using well_spelled_entry(1)[OF assms] by (force intro: inj_on_inverseI[where g = as_posix])
  ultimately show ?thesis
    using assms distinct_map[of posix_parts "map fst es"] by (simp add: well_spelled_def)
qed

lemma safe_extract_build:
  assumes "well_spelled es"
  shows "safe_extract_zip (build_zip es) = extracted es"
proof -
  have all: "filter (\<lambda>m. \<not> is_rooted (zm_name m) \<and> stays_inside 0 (posix_parts (zm_name m)))
      (build_zip es) = build_zip es"
    using well_spelled_entry[OF assms] by (fastforce simp: build_zip_def filter_id_conv)
  have "fold (\<lambda>m t. AList.update (filter (\<lambda>p. p \<noteq> ''..'') (posix_parts (zm_name m)))
        (zm_content m) t) (build_zip es') t =
      fold (\<lambda>(k, v). AList.update k v) (extracted es') t"
    if "set es' \<subseteq> set es" for es' t
    using that well_spelled_entry(5)[OF assms]
    by (induction es' arbitrary: t) (auto simp: build_zip_def extracted_def)
  with fold_update_new[OF distinct_extracted[OF assms], of "[]"] show ?thesis
    unfolding safe_extract_zip_def all by simp
qed

lemma tree_entries_extracted:
  assumes "well_spelled es" "sorted (map fst es)"
  shows "tree_entries (extracted es) [] = es"
proof -
  have spell: "map (\<lambda>(k, c). (as_posix k, c)) (extracted es) = es"
    using well_spelled_entry(1)[OF assms(1)]
    by (auto simp: extracted_def o_def split_def intro!: map_idI)
  have "map (\<lambda>(k, _). as_posix k) (extracted es) = map fst es"
    using well_spelled_entry(1)[OF assms(1)] by (auto simp: extracted_def)
  with assms(2) have "sort_key (\<lambda>(k, _). as_posix k) (extracted es) = extracted es"
    by (intro sort_key_id_if_sorted) simp
  with spell show ?thesis by (simp add: tree_entries_def)
qed

lemma well_spelled_keyed:
  assumes "\<And>k c. (k, c) \<in> set t \<Longrightarrow> good_key k \<and> \<not> is_rooted (as_posix k)"
    and "distinct (map fst t)"
  shows "well_spelled (sort_key fst (keyed t))"
proof -
  have "distinct (map fst (keyed t))" by (rule keyed_inject) (use assms in auto)
  moreover have "\<forall>(p, c) \<in> set (keyed t). \<exists>k. good_key k \<and> p = as_posix k \<and> \<not> is_rooted p"
    using assms(1) by (auto simp: keyed_def)
  ultimately show ?thesis by (simp add: well_spelled_def)
qed

lemma extracted_keyed_map:
  assumes "\<And>k c. (k, c) \<in> set t \<Longrightarrow> good_key k \<and> \<not> is_rooted (as_posix k)"
    and "distinct (map fst t)"
  shows "map_of (extracted (sort_key fst (keyed t))) = map_of t"
proof
  fix k
  have "set (extracted (sort_key fst (keyed t))) = set t"
    using assms(1) posix_parts_as_posix by (force simp: extracted_def keyed_def image_iff)
  moreover have "distinct (map fst (extracted (sort_key fst (keyed t))))"
    using well_spelled_keyed[OF assms] by (rule distinct_extracted)
  ultimately show "map_of (extracted (sort_key fst (keyed t))) k = map_of t k"
    using assms(2) by (metis map_of_eq_Some_iff not_Some_eq)
qed

section \<open>Sealing\<close>

definition sealed_document :: "'b platform \<Rightarrow> utc_instant \<Rightarrow> bundle_contents \<Rightarrow> ree \<Rightarrow> ree" where
  "sealed_document P sealed_at contents r =
     (let s = (ree_subject r)\<lparr>sub_contents := contents\<rparr>
      in r\<lparr>ree_subject := s, ree_sealed := Some \<lparr>seal_sealed_at = sealed_at,
           seal_ree_digest = pf_subject_digest P s, seal_signature = None\<rparr>\<rparr>)"

definition sealed_archive ::
  "'b platform \<Rightarrow> 'b reproducer \<Rightarrow> seal_options \<Rightarrow> 'b ree_dir \<Rightarrow> ree \<Rightarrow> ree \<Rightarrow> 'b entries" where
  "sealed_archive P repro opts d r sealed =
     sort_key fst (keyed (bundle_keyed repro opts d r @ [([''ree'', ''ree.json''], pf_dumps P sealed)]))"

lemma sealed_document_valid:
  assumes "platform_ok P" "valid_subject (ree_subject r)" "valid_contents contents"
  shows "valid_ree (pf_subject_digest P) (sealed_document P t contents r)"
  using assms by (simp add: sealed_document_def Let_def valid_ree_def valid_seal_Inr
      valid_seal_fields_def platform_ok_def valid_subject_def)

lemma sort_key_append_sorted: "sort_key f (sort_key f xs @ ys) = sort_key f (xs @ ys)"
proof (rule properties_for_sort_key)
  fix k
  have flip: "(\<lambda>x. f k = f x) = (\<lambda>x. f x = f k)" by auto
  show "filter (\<lambda>x. f k = f x) (sort_key f (xs @ ys)) =
      filter (\<lambda>x. f k = f x) (sort_key f xs @ ys)"
    by (simp add: flip sort_key_stable)
qed simp_all

lemma archive_of_keyed:
  assumes "dir_ok d" "valid_seal (pf_subject_digest P) sealed = Inr ()"
  shows "archive_of P sealed (collect_entries repro opts d r) =
    Inr (sealed_archive P repro opts d r sealed)"
proof -
  have "archive_of P sealed (collect_entries repro opts d r) =
      Inr (sort_key fst (collect_entries repro opts d r @ [(bundle_manifest_path, pf_dumps P sealed)]))"
    using assms(2) by (simp add: archive_of_def ree_manifest_bytes_def validate_seal_eq)
  moreover have "keyed [([''ree'', ''ree.json''], pf_dumps P sealed)] =
      [(bundle_manifest_path, pf_dumps P sealed)]"
    by (simp add: keyed_def as_posix_def bundle_paths)
  ultimately show ?thesis
    by (simp add: sealed_archive_def collect_entries_keyed[OF assms(1)] sort_key_append_sorted)
qed

lemma seal_document_Inr:
  assumes "platform_ok P" "dir_ok d" "ree_sealed r = None"
  shows "seal_document P t r (collect_entries repro opts d r) = Inr (sealed_document P t
    (map (bundle_entry_of P) (collect_entries repro opts d r)) r)"
  using inventory_total[OF assms(1,2), of repro opts r] assms(3)
  by (auto simp: seal_document_def replace_contents_def record_seal_Inr sealed_document_def Let_def)

lemma seal_ree_draft:
  fixes P :: "'b platform" and repro :: "'b reproducer" and opts :: seal_options and t :: utc_instant
  assumes "platform_ok P" "dir_ok d" "load_ree P d = Inr r" "ree_sealed r = None"
    and "evidence_holds (sub_definition (ree_subject r)) (sub_receipts (ree_subject r))"
  defines "contents \<equiv> map (bundle_entry_of P) (collect_entries repro opts d r)"
  defines "sealed \<equiv> sealed_document P t contents r"
  shows "seal_ree P repro opts t d = (Inr (t, pf_subject_digest P (ree_subject sealed)),
    d\<lparr>rd_sealed_archive := Some (sealed_archive P repro opts d r sealed),
      rd_manifest := Some (pf_dumps P sealed)\<rparr>)"
proof -
  have manifest: "manifest_exists d" using assms(3) by (auto simp: load_ree_Inr manifest_exists_def)
  have valid: "valid_subject (ree_subject r)"
    using assms(3) by (simp add: load_ree_Inr valid_ree_def)
  have sealed: "valid_ree (pf_subject_digest P) sealed"
    unfolding sealed_def contents_def
    using sealed_document_valid[OF assms(1) valid] inventory_total[OF assms(1,2)] by blast
  then have seal: "valid_seal (pf_subject_digest P) sealed = Inr ()" by (simp add: valid_ree_def)
  have fresh: "refuse_stale_evidence r = Inr ()"
    using assms(5) by (simp add: refuse_stale_evidence_def stale_steps_Nil_iff)
  have load: "load_ree P (d\<lparr>rd_sealed_archive := a\<rparr>) = Inr r" for a
    using assms(3) by (simp add: load_ree_Inr)
  have "ree_sealed sealed = Some \<lparr>seal_sealed_at = t,
      seal_ree_digest = pf_subject_digest P (ree_subject sealed), seal_signature = None\<rparr>"
    by (simp add: sealed_def sealed_document_def Let_def)
  then show ?thesis
    using manifest assms(3) fresh seal_document_Inr[OF assms(1,2,4), of t repro opts]
      archive_of_keyed[OF assms(2) seal] load seal
    by (simp add: seal_ree_def read_ree_eq_load_ree Let_def sealed_def contents_def
        save_ree_def validate_seal_eq write_ree_def ree_manifest_bytes_def)
qed

lemma seal_ree_refused:
  assumes "load_ree P d = Inr r" "ree_sealed r \<noteq> None \<or>
      \<not> evidence_holds (sub_definition (ree_subject r)) (sub_receipts (ree_subject r))"
    and "platform_ok P" "dir_ok d"
  shows "\<exists>m. seal_ree P repro opts t d = (Inl (Precondition_Error m), d)"
proof -
  have manifest: "manifest_exists d" using assms(1) by (auto simp: load_ree_Inr manifest_exists_def)
  show ?thesis
  proof (cases "stale_steps (audit r) = []")
    case False
    then obtain m where "refuse_stale_evidence r = Inl (Precondition_Error m)"
      by (simp add: refuse_stale_evidence_def)
    with manifest assms(1) show ?thesis by (simp add: seal_ree_def read_ree_eq_load_ree)
  next
    case True
    with assms(2) obtain s where "ree_sealed r = Some s" by (auto simp: stale_steps_Nil_iff)
    then obtain m where "seal_document P t r (collect_entries repro opts d r) = Inl (Precondition_Error m)"
      using inventory_total[OF assms(3,4), of repro opts r]
      by (auto simp: seal_document_def replace_contents_def)
    with manifest assms(1) True show ?thesis
      by (simp add: seal_ree_def read_ree_eq_load_ree refuse_stale_evidence_def Let_def
          require_def)
  qed
qed

section \<open>Restoring what was sealed\<close>

definition archive_keyed ::
  "'b platform \<Rightarrow> 'b reproducer \<Rightarrow> seal_options \<Rightarrow> 'b ree_dir \<Rightarrow> ree \<Rightarrow> ree \<Rightarrow> (string list \<times> 'b) list" where
  "archive_keyed P repro opts d r sealed =
     bundle_keyed repro opts d r @ [([''ree'', ''ree.json''], pf_dumps P sealed)]"

lemma manifest_not_bundled: "([''ree'', ''ree.json''], c) \<notin> set (bundle_keyed repro opts d r)"
  by (auto simp: bundle_keyed_iff front_keyed_iff runtime_keyed_iff reproducer_keyed_def)

lemma archive_keyed_good:
  assumes "dir_ok d" "(k, c) \<in> set (archive_keyed P repro opts d r sealed)"
  shows "good_key k \<and> \<not> is_rooted (as_posix k)"
proof (cases "(k, c) \<in> set (bundle_keyed repro opts d r)")
  case True
  with bundle_keyed_good[OF assms(1)] bundle_key_unrooted[OF assms(1)] show ?thesis by simp
next
  case False
  with assms(2) have "k = [''ree'', ''ree.json'']" by (simp add: archive_keyed_def)
  then show ?thesis by (simp add: as_posix_def is_rooted_def)
qed

lemma archive_keyed_distinct:
  assumes "dir_ok d"
  shows "distinct (map fst (archive_keyed P repro opts d r sealed))"
  using distinct_bundle[OF assms, of repro opts r] manifest_not_bundled[of _ repro opts d r]
  by (auto simp: archive_keyed_def)

lemma archive_map:
  assumes "dir_ok d"
  shows "map_of (safe_extract_zip (build_zip (sealed_archive P repro opts d r sealed))) =
    map_of (archive_keyed P repro opts d r sealed)"
  using well_spelled_keyed[OF archive_keyed_good[OF assms] archive_keyed_distinct[OF assms]]
    extracted_keyed_map[OF archive_keyed_good[OF assms] archive_keyed_distinct[OF assms]]
  by (simp add: sealed_archive_def safe_extract_build flip: archive_keyed_def)

lemma archive_inventory:
  assumes "dir_ok d"
  shows "actual_inventory P (safe_extract_zip (build_zip (sealed_archive P repro opts d r sealed))) =
    inventory P (collect_entries repro opts d r)"
proof -
  let ?A = "sealed_archive P repro opts d r sealed"
  have A: "?A = sort_key fst (keyed (archive_keyed P repro opts d r sealed))"
    by (simp add: sealed_archive_def archive_keyed_def)
  have spelled: "well_spelled ?A"
    unfolding A by (rule well_spelled_keyed[OF archive_keyed_good[OF assms] archive_keyed_distinct[OF assms]])
  have entries: "tree_entries (safe_extract_zip (build_zip ?A)) [] = ?A"
    unfolding safe_extract_build[OF spelled]
    by (rule tree_entries_extracted[OF spelled]) (simp add: A)
  have manifest: "bundle_manifest_path = as_posix [''ree'', ''ree.json'']"
    by (simp add: bundle_paths as_posix_def)
  have "path \<noteq> bundle_manifest_path" if "(path, c) \<in> set (keyed (bundle_keyed repro opts d r))" for path c
  proof -
    from that obtain k where k: "path = as_posix k" "(k, c) \<in> set (bundle_keyed repro opts d r)"
      by (auto simp: set_keyed)
    with manifest_not_bundled[of c repro opts d r] have "k \<noteq> [''ree'', ''ree.json'']" by auto
    with k bundle_keyed_good[OF assms k(2)] show ?thesis by (simp add: manifest as_posix_eq_iff)
  qed
  then have "filter (\<lambda>(path, _). path \<noteq> bundle_manifest_path) (keyed (bundle_keyed repro opts d r)) =
      keyed (bundle_keyed repro opts d r)" by (auto simp: filter_id_conv)
  moreover have "filter (\<lambda>(path, _). path \<noteq> bundle_manifest_path)
      (keyed [([''ree'', ''ree.json''], pf_dumps P sealed)]) = []"
    by (simp add: keyed_def manifest)
  ultimately have "filter (\<lambda>(path, _). path \<noteq> bundle_manifest_path) ?A = collect_entries repro opts d r"
    by (simp add: A archive_keyed_def filter_sort collect_entries_keyed[OF assms])
  then show ?thesis by (simp only: actual_inventory_def entries)
qed

lemma map_of_shift: "map_of (map (\<lambda>(k, c). (base @ k, c)) es) (base @ k) = map_of es k"
  by (induction es) auto

lemma map_of_under:
  assumes "dict_ok t"
  shows "map_of (under base t) (base @ k) = map_of t k"
proof -
  have d: "dict_ok (sort_key (\<lambda>(k, _). as_posix k) t)" using assms by (simp add: dict_ok_def)
  have "map_of (sort_key (\<lambda>(k, _). as_posix k) t) k = Some v \<longleftrightarrow> map_of t k = Some v" for v
    using assms d by (simp add: dict_ok_map_of_iff)
  then have "map_of (sort_key (\<lambda>(k, _). as_posix k) t) k = map_of t k" by (metis option.exhaust)
  then show ?thesis by (simp add: under_def map_of_shift)
qed

lemma map_of_subtree:
  "k \<noteq> [] \<Longrightarrow> map_of (subtree t base) k = map_of t (base @ k)"
proof (induction t)
  case (Cons e t)
  obtain q c where e: "e = (q, c)" by (cases e)
  show ?case
  proof (cases "strict_prefix base q")
    case True
    then obtain l where "q = base @ l" "l \<noteq> []" by (auto simp: strict_prefix_def elim: prefixE)
    with True Cons e show ?thesis by (auto simp: subtree_def)
  next
    case False
    with Cons.prems have "q \<noteq> base @ k" by (auto simp: strict_prefix_def)
    with Cons e False show ?thesis by (simp add: subtree_def)
  qed
qed (simp add: subtree_def)

lemma subtree_no_root: "map_of (subtree t base) [] = None"
  by (auto simp: subtree_def map_of_eq_None_iff strict_prefix_def prefix_def)

lemma bundle_path_parts [simp]:
  "posix_parts bundle_manifest_path = [''ree'', ''ree.json'']"
  "posix_parts bundle_snapshot_path = [''ree'', ''snapshot.tar.gz'']"
  "posix_parts bundle_overlay_prefix = [''ree'', ''overlay'']"
  "posix_parts bundle_artifacts_prefix = [''ree'', ''artifacts'']"
  "posix_parts bundle_results_prefix = [''ree'', ''results'']"
  by code_simp+

lemma archive_keyed_lookup:
  fixes P :: "'a platform" and repro :: "'a reproducer" and opts :: seal_options and r sealed :: ree
  assumes "dir_ok d"
  defines "m \<equiv> map_of (archive_keyed P repro opts d r sealed)"
  shows "m [''ree'', ''ree.json''] = Some (pf_dumps P sealed)"
    and "m [''ree'', ''snapshot.tar.gz''] = (if source_included opts then rd_snapshot d else None)"
    and "k \<noteq> [] \<Longrightarrow> m (''ree'' # ''overlay'' # k) = map_of (rd_overlay d) k"
    and "k \<noteq> [] \<Longrightarrow> m (''ree'' # ''results'' # k) =
      (if results_included opts then map_of (rd_results d) k else None)"
    and "map_of (rd_artifacts d) k = Some c \<Longrightarrow> m (''ree'' # ''artifacts'' # k) = Some c"
    and "(k, c) \<in> set (runtime_keyed opts d r) \<Longrightarrow> m k = Some c"
proof -
  have iff: "m k = Some c \<longleftrightarrow> (k, c) \<in> set (archive_keyed P repro opts d r sealed)" for k c
    using archive_keyed_distinct[OF assms(1)] by (simp add: m_def map_of_eq_Some_iff)
  note lookup = iff archive_keyed_def bundle_keyed_iff front_keyed_iff runtime_keyed_iff
    reproducer_keyed_def
  have tree: "map_of t k = Some c \<longleftrightarrow> (k, c) \<in> set t" if "tree_ok t" for t :: "'a tree" and k c
    using that by (simp add: tree_ok_def dict_ok_map_of_iff)
  show "m [''ree'', ''ree.json''] = Some (pf_dumps P sealed)" by (simp add: lookup)
  have "m [''ree'', ''snapshot.tar.gz''] = Some c \<longleftrightarrow>
      (if source_included opts then rd_snapshot d else None) = Some c" for c
    by (simp add: lookup)
  then show "m [''ree'', ''snapshot.tar.gz''] = (if source_included opts then rd_snapshot d else None)"
    by (metis option.exhaust)
  have "m (''ree'' # ''overlay'' # k) = Some c \<longleftrightarrow> map_of (rd_overlay d) k = Some c" for c
    using dir_ok_trees(1)[OF assms(1)] by (simp add: lookup tree)
  then show "m (''ree'' # ''overlay'' # k) = map_of (rd_overlay d) k" by (metis option.exhaust)
  have "m (''ree'' # ''results'' # k) = Some c \<longleftrightarrow>
      (if results_included opts then map_of (rd_results d) k else None) = Some c" for c
    using dir_ok_trees(4)[OF assms(1)] by (simp add: lookup tree)
  then show "m (''ree'' # ''results'' # k) =
      (if results_included opts then map_of (rd_results d) k else None)"
    by (metis option.exhaust)
  show "map_of (rd_artifacts d) k = Some c \<Longrightarrow> m (''ree'' # ''artifacts'' # k) = Some c"
    using dir_ok_trees(2)[OF assms(1)] by (simp add: lookup tree)
  show "(k, c) \<in> set (runtime_keyed opts d r) \<Longrightarrow> m k = Some c"
    by (simp add: iff archive_keyed_def bundle_keyed_iff)
qed

text \<open>What a restore of a sealed archive leaves in the directory.\<close>

lemma restore_sealed:
  fixes P :: "'b platform" and repro :: "'b reproducer" and opts :: seal_options and t :: utc_instant
  assumes "platform_ok P" "dir_ok d" "valid_subject (ree_subject r)" "manifest_exists d0"
  defines "sealed \<equiv> sealed_document P t (map (bundle_entry_of P) (collect_entries repro opts d r)) r"
  defines "archive \<equiv> sealed_archive P repro opts d r sealed"
  shows "\<exists>out d2. restore_ree_bundle P (safe_extract_zip (build_zip archive)) archive d0 = Inr (out, d2) \<and>
    bo_sealed out \<and> load_ree P d2 = Inr sealed \<and> rd_sealed_archive d2 = Some archive \<and>
    map_of (rd_overlay d2) = map_of (rd_overlay d) \<and>
    map_of (rd_results d2) = (if results_included opts then map_of (rd_results d) else Map.empty) \<and>
    rd_snapshot d2 = (if source_included opts then rd_snapshot d else None) \<and>
    (\<forall>k c. map_of (rd_artifacts d) k = Some c \<longrightarrow> map_of (rd_artifacts d2) k = Some c) \<and>
    (\<forall>k c. (''ree'' # ''artifacts'' # k, c) \<in> set (runtime_keyed opts d r) \<longrightarrow>
      map_of (rd_artifacts d2) k = Some c) \<and>
    rd_upstream d2 = [] \<and> rd_workspace d2 = []"
proof -
  let ?B = "safe_extract_zip (build_zip archive)"
  have B: "map_of ?B = map_of (archive_keyed P repro opts d r sealed)"
    by (simp add: archive_def archive_map[OF assms(2)])
  note look = archive_keyed_lookup[OF assms(2), where P = P and repro = repro and opts = opts and r = r
      and sealed = sealed]
  obtain contents where inv: "inventory P (collect_entries repro opts d r) = Inr contents"
    "contents = sub_contents (ree_subject sealed)" "valid_contents contents"
    using inventory_total[OF assms(1,2), of repro opts r]
    by (auto simp: sealed_def sealed_document_def Let_def)
  have valid: "valid_ree (pf_subject_digest P) sealed"
    unfolding sealed_def using inventory_total[OF assms(1,2)]
    by (intro sealed_document_valid[OF assms(1,3)]) blast
  have readable: "readable P sealed" using assms(1) valid by (rule platform_readable)
  then have parse: "parse_ree_manifest P (pf_dumps P sealed) = Inr sealed"
    by (simp add: parse_ree_manifest_def readable_def valid_ree_def validate_seal_eq)
  have actual: "actual_inventory P ?B = Inr (sub_contents (ree_subject sealed))"
    using inv by (simp add: archive_def archive_inventory[OF assms(2)])
  have is_sealed: "ree_sealed sealed \<noteq> None" by (simp add: sealed_def sealed_document_def Let_def)
  define d2 where "d2 = d0\<lparr>rd_upstream := [],
      rd_overlay := subtree ?B [''ree'', ''overlay''], rd_artifacts := subtree ?B [''ree'', ''artifacts''],
      rd_workspace := [], rd_results := subtree ?B [''ree'', ''results''],
      rd_snapshot := map_of ?B [''ree'', ''snapshot.tar.gz''],
      rd_manifest := Some (pf_dumps P sealed), rd_sealed_archive := Some archive\<rparr>"
  have "\<exists>out. restore_ree_bundle P ?B archive d0 = Inr (out, d2) \<and> bo_sealed out"
    using assms(4) parse actual look(1) is_sealed valid
    by (simp add: restore_ree_bundle_def Let_def B write_ree_def ree_manifest_bytes_def
        validate_seal_eq valid_ree_def d2_def)
  moreover have "load_ree P d2 = Inr sealed"
    using readable by (simp add: load_ree_Inr d2_def readable_def)
  moreover have "map_of (subtree ?B [''ree'', ''overlay'']) = map_of (rd_overlay d)"
  proof
    fix k
    have "map_of (rd_overlay d) [] = None"
      by (rule tree_ok_no_root[OF dir_ok_trees(1)[OF assms(2)]])
    then show "map_of (subtree ?B [''ree'', ''overlay'']) k = map_of (rd_overlay d) k"
      by (cases "k = []") (simp_all add: subtree_no_root map_of_subtree B look(3))
  qed
  moreover have "map_of (subtree ?B [''ree'', ''results'']) =
      (if results_included opts then map_of (rd_results d) else Map.empty)"
  proof
    fix k
    have "map_of (rd_results d) [] = None"
      by (rule tree_ok_no_root[OF dir_ok_trees(4)[OF assms(2)]])
    then show "map_of (subtree ?B [''ree'', ''results'']) k =
        (if results_included opts then map_of (rd_results d) else Map.empty) k"
      by (cases "k = []") (simp_all add: subtree_no_root map_of_subtree B look(4))
  qed
  moreover have "map_of (subtree ?B [''ree'', ''artifacts'']) k = Some c"
    if "map_of (rd_artifacts d) k = Some c" for k c
  proof -
    have "k \<noteq> []" using that tree_ok_no_root[OF dir_ok_trees(2)[OF assms(2)]] by auto
    with that look(5) show ?thesis by (simp add: map_of_subtree B)
  qed
  moreover have "map_of (subtree ?B [''ree'', ''artifacts'']) k = Some c"
    if "(''ree'' # ''artifacts'' # k, c) \<in> set (runtime_keyed opts d r)" for k c
    using that look(6)[OF that] by (auto simp: map_of_subtree B runtime_keyed_iff)
  ultimately show ?thesis
    by (auto simp: d2_def B look(2))
qed

lemma seal_ree_cases:
  assumes "platform_ok P" "dir_ok d" "load_ree P d = Inr r"
  shows "(ree_sealed r = None \<and>
      evidence_holds (sub_definition (ree_subject r)) (sub_receipts (ree_subject r)) \<and>
      (let sealed = sealed_document P t
           (map (bundle_entry_of P) (collect_entries repro opts d r)) r
       in seal_ree P repro opts t d = (Inr (t, pf_subject_digest P (ree_subject sealed)),
         d\<lparr>rd_sealed_archive := Some (sealed_archive P repro opts d r sealed),
           rd_manifest := Some (pf_dumps P sealed)\<rparr>))) \<or>
    (\<not> (ree_sealed r = None \<and>
        evidence_holds (sub_definition (ree_subject r)) (sub_receipts (ree_subject r))) \<and>
      (\<exists>m. seal_ree P repro opts t d = (Inl (Precondition_Error m), d)))"
proof (cases "ree_sealed r = None \<and>
    evidence_holds (sub_definition (ree_subject r)) (sub_receipts (ree_subject r))")
  case True
  then show ?thesis using seal_ree_draft[OF assms] by (simp add: Let_def)
next
  case False
  then show ?thesis using seal_ree_refused[OF assms(3) _ assms(1,2)] by blast
qed

lemma sealed_document_loads:
  fixes P :: "'b platform" and repro :: "'b reproducer" and opts :: seal_options and t :: utc_instant
  assumes "platform_ok P" "dir_ok d" "load_ree P d = Inr r"
  defines "sealed \<equiv> sealed_document P t (map (bundle_entry_of P) (collect_entries repro opts d r)) r"
  shows "load_ree P (d'\<lparr>rd_manifest := Some (pf_dumps P sealed)\<rparr>) = Inr sealed"
proof -
  from assms(3) have "valid_subject (ree_subject r)" by (simp add: load_ree_Inr valid_ree_def)
  with inventory_total[OF assms(1,2), of repro opts r]
  have "valid_ree (pf_subject_digest P) sealed"
    unfolding sealed_def by (auto intro: sealed_document_valid[OF assms(1)])
  with platform_readable[OF assms(1) this] show ?thesis
    by (simp add: load_ree_Inr readable_def)
qed

lemma seal_restores:
  assumes "platform_ok P" "dir_ok d" "load_ree P d = Inr r"
    and "seal_ree P repro opts t d = (Inr out, d')" "rd_sealed_archive d' = Some archive"
    and "manifest_exists d0"
  shows "\<exists>out2 d2. restore_ree_bundle P (safe_extract_zip (build_zip archive)) archive d0 =
      Inr (out2, d2)"
proof -
  let ?sealed = "sealed_document P t (map (bundle_entry_of P) (collect_entries repro opts d r)) r"
  from assms(3) have valid: "valid_subject (ree_subject r)"
    by (simp add: load_ree_Inr valid_ree_def)
  from seal_ree_cases[OF assms(1-3), where t = t and repro = repro and opts = opts] assms(4,5)
  have "archive = sealed_archive P repro opts d r ?sealed" by (auto simp: Let_def)
  with restore_sealed[OF assms(1,2) valid assms(6), where t = t and repro = repro and opts = opts]
  show ?thesis by blast
qed

section \<open>Examples\<close>

definition example_repro :: "(ree + string) reproducer" where
  "example_repro _ = \<lparr>rf_run_sh = Inr ''run'', rf_acquire_sh = Inr ''acq'',
     rf_materialize_sh = Inr ''mat'', rf_readme = Inr ''doc''\<rparr>"

definition seal_all :: seal_options where
  "seal_all = \<lparr>source_included = True, runtime_included = True, results_included = True\<rparr>"

text \<open>A draft with a declared, built runtime, and its directory.\<close>

definition built_ree :: ree where
  "built_ree = example_runs_ree\<lparr>ree_subject := (ree_subject example_runs_ree)
     \<lparr>sub_definition := (sub_definition (ree_subject example_runs_ree))
       \<lparr>def_build_runtime := Some \<lparr>bld_script_path = reserved_build_script,
          bld_script_digest = ''sha256:tmk'', bld_script_size = 2,
          bld_runtime_path = Some ''img.tar''\<rparr>\<rparr>,
      sub_receipts := (sub_receipts (ree_subject example_runs_ree))
       \<lparr>rcp_build := Some (example_build_receipt ''sha256:s'' ''sha256:tmk'' ''sha256:ti'')\<rparr>\<rparr>\<rparr>"

definition built_dir :: "(ree + string) ree_dir" where
  "built_dir = (example_dir built_ree)\<lparr>rd_workspace := [([''img.tar''], Inr ''i'')]\<rparr>"

lemma built_dir_facts [simp]:
  "dir_ok built_dir" "load_ree example_platform built_dir = Inr built_ree" "ree_sealed built_ree = None"
  "evidence_holds (sub_definition (ree_subject built_ree)) (sub_receipts (ree_subject built_ree))"
  "manifest_exists built_dir"
proof -
  show "dir_ok built_dir"
    by (simp add: dir_ok_def built_dir_def example_dir_def empty_dir_def tree_ok_def dict_ok_def
        is_dir_at_def)
  have "valid_subject (ree_subject built_ree)" by code_simp
  moreover have "ree_sealed built_ree = None" by (simp add: built_ree_def example_runs_ree_def)
  ultimately have "valid_ree (pf_subject_digest example_platform) built_ree"
    by (simp add: draft_valid_ree)
  then show "load_ree example_platform built_dir = Inr built_ree"
    by (simp add: load_ree_Inr built_dir_def example_dir_def) (simp add: example_platform_def)
  show "ree_sealed built_ree = None" by (simp add: built_ree_def example_runs_ree_def)
  show "evidence_holds (sub_definition (ree_subject built_ree)) (sub_receipts (ree_subject built_ree))"
    by (simp add: built_ree_def example_runs_ree_def evidence_holds_def source_holds_def
        runtime_holds_def agrees_def example_ree_simps)
  show "manifest_exists built_dir"
    by (simp add: manifest_exists_def built_dir_def example_dir_def)
qed

section \<open>Properties\<close>

text \<open>
  Property C4. Sealing a readable REE succeeds exactly when it is a draft whose receipts all
  agree with its declaration and with each other: the inventory of a well-formed directory is never
  refused. On success the stored document is the draft with the inventory of exactly the collected
  entries, sealed with its own digest; a refusal is a precondition failure that changes nothing.
\<close>

theorem seal_succeeds_iff:
  assumes "platform_ok P" and "dir_ok d" and "load_ree P d = Inr r"
  shows "((\<exists>out d'. seal_ree P repro opts t d = (Inr out, d')) \<longleftrightarrow> ree_sealed r = None \<and>
      evidence_holds (sub_definition (ree_subject r)) (sub_receipts (ree_subject r))) \<and>
    (\<forall>out d'. seal_ree P repro opts t d = (Inr out, d') \<longrightarrow>
      (\<exists>sealed. load_ree P d' = Inr sealed \<and> ree_status sealed = Sealed \<and>
        ree_subject sealed = (ree_subject r)
          \<lparr>sub_contents := map (bundle_entry_of P) (collect_entries repro opts d r)\<rparr> \<and>
        out = (t, ree_revision P sealed))) \<and>
    (\<forall>e d'. seal_ree P repro opts t d = (Inl e, d') \<longrightarrow>
      d' = d \<and> (\<exists>m. e = Precondition_Error m))"
  using seal_ree_cases[OF assms, where t = t and repro = repro and opts = opts]
    sealed_document_loads[OF assms, where t = t and repro = repro and opts = opts]
  by (auto simp: Let_def sealed_document_def ree_status_def ree_revision_def revision_of_def
      subject_digest_def)

theorem seal_succeeds_iff_witness:
  "\<exists>out d'. seal_ree example_platform example_repro seal_all 0 built_dir = (Inr out, d')"
  using seal_succeeds_iff[OF example_platform_ok built_dir_facts(1,2), of example_repro seal_all 0]
  by simp

text \<open>
  Property C3. A sealed bundle restores what was sealed. Extracting the archive \<open>seal_ree\<close>
  wrote and restoring it into any REE directory succeeds, the inventory check included; the
  document read back is the sealed one, the overlay is the sealed overlay, every artifact is back,
  and snapshot and results are back exactly when they were included.
\<close>

theorem seal_restore_roundtrip:
  assumes "platform_ok P" and "dir_ok d" and "load_ree P d = Inr r"
    and "seal_ree P repro opts t d = (Inr out, d')" and "rd_sealed_archive d' = Some archive"
    and "manifest_exists d0"
  shows "\<exists>out2 d2. restore_ree_bundle P (safe_extract_zip (build_zip archive)) archive d0 =
      Inr (out2, d2) \<and> bo_sealed out2 \<and> load_ree P d2 = load_ree P d' \<and>
    rd_sealed_archive d2 = rd_sealed_archive d' \<and>
    map_of (rd_overlay d2) = map_of (rd_overlay d) \<and>
    map_of (rd_artifacts d) \<subseteq>\<^sub>m map_of (rd_artifacts d2) \<and>
    rd_snapshot d2 = (if source_included opts then rd_snapshot d else None) \<and>
    map_of (rd_results d2) = (if results_included opts then map_of (rd_results d) else Map.empty)"
proof -
  let ?sealed = "sealed_document P t (map (bundle_entry_of P) (collect_entries repro opts d r)) r"
  from assms(3) have valid: "valid_subject (ree_subject r)"
    by (simp add: load_ree_Inr valid_ree_def)
  from seal_ree_cases[OF assms(1-3), where t = t and repro = repro and opts = opts] assms(4)
  have d': "d' = d\<lparr>rd_sealed_archive := Some (sealed_archive P repro opts d r ?sealed),
      rd_manifest := Some (pf_dumps P ?sealed)\<rparr>" by (auto simp: Let_def)
  with assms(5) have archive: "archive = sealed_archive P repro opts d r ?sealed" by simp
  have "load_ree P d' = Inr ?sealed"
    unfolding d' using sealed_document_loads[OF assms(1-3), where t = t and repro = repro and opts = opts]
    by simp
  with restore_sealed[OF assms(1,2) valid assms(6), where t = t and repro = repro and opts = opts] show ?thesis
    unfolding archive by (auto simp: d' map_le_def)
qed

lemma built_dir_sealed:
  "\<exists>out d' archive. seal_ree example_platform example_repro seal_all 0 built_dir = (Inr out, d') \<and>
     rd_sealed_archive d' = Some archive"
  using seal_ree_draft[OF example_platform_ok built_dir_facts(1-4), of example_repro seal_all 0]
  by simp

theorem seal_restore_roundtrip_witness:
  "\<exists>archive out d2. restore_ree_bundle example_platform (safe_extract_zip (build_zip archive)) archive
     built_dir = Inr (out, d2) \<and> bo_sealed out"
proof -
  from built_dir_sealed obtain out d' archive where
    s: "seal_ree example_platform example_repro seal_all 0 built_dir = (Inr out, d')"
      "rd_sealed_archive d' = Some archive" by blast
  from seal_restore_roundtrip[OF example_platform_ok built_dir_facts(1,2) s built_dir_facts(5)]
  show ?thesis by blast
qed

text \<open>
  Dropping what a receipt describes does not unblock sealing. Once a runtime was
  built, replacing the definition by one without a build leaves the receipt behind, orphaned:
  whatever else is current, sealing the result is refused.
\<close>

theorem dropped_declaration_blocks_seal:
  assumes "platform_ok P" and "dir_ok d" and "load_ree P d = Inr r'"
    and "replace_definition r def = Inr r'"
    and "rcp_build (sub_receipts (ree_subject r)) \<noteq> None" and "def_build_runtime def = None"
  shows "\<exists>m. seal_ree P repro opts t d = (Inl (Precondition_Error m), d)"
proof -
  from assms(4-6) have "\<not> evidence_holds (sub_definition (ree_subject r')) (sub_receipts (ree_subject r'))"
    by (auto simp: replace_definition_def Let_def evidence_holds_def runtime_holds_def
        split: if_splits)
  with seal_ree_refused[OF assms(3) _ assms(1,2)] show ?thesis by blast
qed

theorem dropped_declaration_blocks_seal_witness:
  "\<exists>d m. seal_ree example_platform example_repro seal_all 0 d = (Inl (Precondition_Error m), d)"
proof -
  obtain r' where r': "replace_definition built_ree (new_definition ''a'') = Inr r'"
    "ree_sealed r' = None"
    using author_draft[of built_ree "Replace_Definition (new_definition ''a'')"] by auto
  have "valid_ree (pf_subject_digest example_platform) built_ree"
    using built_dir_facts(2) unfolding load_ree_Inr by blast
  with r'(1) author_valid_ree[of built_ree "Replace_Definition (new_definition ''a'')" r']
  have "valid_ree (pf_subject_digest example_platform) r'" by (simp add: valid_ree_def)
  then have load: "load_ree example_platform (example_dir r') = Inr r'"
    by (simp only: load_example_dir)
  have dir: "dir_ok (example_dir r')"
    by (simp add: dir_ok_def example_dir_def empty_dir_def tree_ok_def dict_ok_def)
  have "rcp_build (sub_receipts (ree_subject built_ree)) \<noteq> None" "def_build_runtime (new_definition n) = None" for n
    by (simp_all add: built_ree_def new_definition_def)
  from dropped_declaration_blocks_seal[OF example_platform_ok dir load r'(1) this]
  show ?thesis by blast
qed



end
