(* ===== verification/Ree_Sbom.thy ===== *)
theory Ree_Sbom
  imports Ree_Hbom "HOL-Library.Product_Lexorder"
begin

text \<open>
  The software bill of materials: \<open>analysis/sbom/versions.py\<close>, the CycloneDX adapter
  \<open>cyclonedx.py\<close>, the closure comparison \<open>equivalence.py\<close>, the declared-against-observed
  \<open>crosscheck.py\<close>, and what they use of \<open>domain/dependency.py\<close> and
  \<open>reproducibility_report.py\<close>. What \<open>json.loads\<close> makes of a document is an argument,
  \<^const>\<open>None\<close> where it raises; text is its bytes, so \<open>unquote\<close> is percent-decoding.
\<close>

section \<open>Ecosystems and package names\<close>

datatype ecosystem = Pypi | Conda | Npm | Apt | Oci | Other_Ecosystem

fun ecosystem_name :: "ecosystem \<Rightarrow> string" where
  "ecosystem_name Pypi = ''pypi''"
| "ecosystem_name Conda = ''conda''"
| "ecosystem_name Npm = ''npm''"
| "ecosystem_name Apt = ''apt''"
| "ecosystem_name Oci = ''oci''"
| "ecosystem_name Other_Ecosystem = ''other''"

lemma ecosystem_name_inject [simp]: "ecosystem_name a = ecosystem_name b \<longleftrightarrow> a = b"
  by (cases a; cases b) simp_all

text \<open>Ecosystems are compared as the strings they are in Python.\<close>

instantiation ecosystem :: linorder
begin

definition less_eq_ecosystem :: "ecosystem \<Rightarrow> ecosystem \<Rightarrow> bool" where
  "less_eq_ecosystem a b \<longleftrightarrow> ecosystem_name a \<le> ecosystem_name b"

definition less_ecosystem :: "ecosystem \<Rightarrow> ecosystem \<Rightarrow> bool" where
  "less_ecosystem a b \<longleftrightarrow> ecosystem_name a < ecosystem_name b"

instance
  by standard (auto simp: less_eq_ecosystem_def less_ecosystem_def less_le_not_le
      intro: order_antisym)

end

text \<open>\<open>re.sub(r"[-_.]+", "-", name)\<close>.\<close>

definition is_separator :: "char \<Rightarrow> bool" where
  "is_separator c \<longleftrightarrow> c \<in> {CHR ''-'', CHR ''_'', CHR ''.''}"

function collapse_separators :: "string \<Rightarrow> string" where
  "collapse_separators [] = []"
| "collapse_separators (c # s) =
     (if is_separator c then CHR ''-'' # collapse_separators (dropWhile is_separator s)
      else c # collapse_separators s)"
  by pat_completeness auto
termination
  by (relation "measure length") (auto simp: length_dropWhile_le le_imp_less_Suc)

definition normalize_package_name :: "ecosystem \<Rightarrow> string \<Rightarrow> string" where
  "normalize_package_name e name =
     (if e \<in> {Pypi, Conda} then lower (collapse_separators name) else name)"

section \<open>Versions\<close>

definition is_digit :: "char \<Rightarrow> bool" where
  "is_digit c \<longleftrightarrow> 48 \<le> (of_char c :: nat) \<and> (of_char c :: nat) \<le> 57"

text \<open>\<open>re.sub(r"^\d+[!:]", "", s)\<close>, and \<open>s.removeprefix("v")\<close>.\<close>

definition strip_epoch :: "string \<Rightarrow> string" where
  "strip_epoch s =
     (case dropWhile is_digit s of
        c # rest \<Rightarrow> if takeWhile is_digit s \<noteq> [] \<and> c \<in> {CHR ''!'', CHR '':''} then rest else s
      | [] \<Rightarrow> s)"

definition remove_v :: "string \<Rightarrow> string" where
  "remove_v s = (case s of c # rest \<Rightarrow> if c = CHR ''v'' then rest else s | [] \<Rightarrow> [])"

definition normalize_version :: "string \<Rightarrow> string" where
  "normalize_version version = strip_epoch (remove_v (lower (strip version)))"

definition versions_match :: "string \<Rightarrow> string \<Rightarrow> bool" where
  "versions_match expected observed \<longleftrightarrow> normalize_version expected = normalize_version observed"

section \<open>Observed packages\<close>

record observed_package =
  op_ecosystem :: ecosystem
  op_name :: string
  op_version :: "string option"

fun hex_digit :: "char \<Rightarrow> nat option" where
  "hex_digit c = (let n = of_char c in
     if 48 \<le> n \<and> n \<le> 57 then Some (n - 48)
     else if 65 \<le> n \<and> n \<le> 70 then Some (n - 55)
     else if 97 \<le> n \<and> n \<le> 102 then Some (n - 87) else None)"

text \<open>\<open>urllib.parse.unquote\<close>: a percent sign without two hexadecimal digits stays.\<close>

fun unquote :: "string \<Rightarrow> string" where
  "unquote [] = []"
| "unquote (c # s) =
     (if c \<noteq> CHR ''%'' then c # unquote s
      else case s of
        a # b # rest \<Rightarrow>
          (case hex_digit a of
             None \<Rightarrow> c # unquote s
           | Some x \<Rightarrow>
               (case hex_digit b of
                  None \<Rightarrow> c # unquote s
                | Some y \<Rightarrow> char_of (16 * x + y) # unquote rest))
      | _ \<Rightarrow> c # unquote s)"

definition purl_ecosystem :: "string \<Rightarrow> ecosystem" where
  "purl_ecosystem t =
     (if t = ''pypi'' then Pypi else if t = ''conda'' then Conda else if t = ''npm'' then Npm
      else if t = ''deb'' then Apt else Other_Ecosystem)"

text \<open>\<open>x or None\<close> on strings.\<close>

definition nonempty :: "string \<Rightarrow> string option" where
  "nonempty s = (if s = [] then None else Some s)"

definition package_of_purl :: "string \<Rightarrow> observed_package option" where
  "package_of_purl purl =
     (if \<not> prefix ''pkg:'' purl then None
      else
        let body = takeWhile (\<lambda>c. c \<noteq> CHR ''?'') (takeWhile (\<lambda>c. c \<noteq> CHR ''#'') (drop 4 purl));
            path = takeWhile (\<lambda>c. c \<noteq> CHR ''@'') body;
            version = drop 1 (dropWhile (\<lambda>c. c \<noteq> CHR ''@'') body);
            segments = map unquote (filter (\<lambda>s. s \<noteq> []) (split_on (CHR ''/'') path))
        in if length segments < 2 then None
           else
             let e = purl_ecosystem (lower (hd segments));
                 name = (if e = Npm then join_with ''/'' (tl segments) else last segments)
             in if name = [] then None
                else Some \<lparr>op_ecosystem = e, op_name = normalize_package_name e name,
                  op_version = nonempty version\<rparr>)"

definition package_of_name :: "json_object \<Rightarrow> observed_package option" where
  "package_of_name component =
     (case map_of component ''name'' of
        Some (JStr name) \<Rightarrow>
          if name = [] then None
          else Some \<lparr>op_ecosystem = Other_Ecosystem, op_name = name,
            op_version = (case map_of component ''version'' of
                Some (JStr v) \<Rightarrow> nonempty v | _ \<Rightarrow> None)\<rparr>
      | _ \<Rightarrow> None)"

fun package_of_component :: "json \<Rightarrow> observed_package option" where
  "package_of_component (JObj component) =
     (case map_of component ''purl'' of
        Some (JStr purl) \<Rightarrow>
          (case package_of_purl purl of
             Some p \<Rightarrow> Some p
           | None \<Rightarrow> package_of_name component)
      | _ \<Rightarrow> package_of_name component)"
| "package_of_component _ = None"

definition parse_cyclonedx :: "json option \<Rightarrow> observed_package list" where
  "parse_cyclonedx document =
     (case document of
        Some (JObj data) \<Rightarrow>
          (case map_of data ''components'' of
             Some (JList components) \<Rightarrow> List.map_filter package_of_component components
           | _ \<Rightarrow> [])
      | _ \<Rightarrow> [])"

section \<open>Closures\<close>

text \<open>The join key, and the first occurrence of each.\<close>

definition package_key :: "observed_package \<Rightarrow> ecosystem \<times> string" where
  "package_key p = (op_ecosystem p, op_name p)"

definition by_key :: "observed_package list \<Rightarrow> ((ecosystem \<times> string) \<times> observed_package) list" where
  "by_key packages = fold (\<lambda>p table. setdefault (package_key p) p table) packages []"

record package_delta =
  pd_ecosystem :: ecosystem
  pd_name :: string
  pd_expected_version :: "string option"
  pd_observed_version :: "string option"

definition same_version :: "string option \<Rightarrow> string option \<Rightarrow> bool" where
  "same_version expected observed =
     (case (expected, observed) of
        (Some e, Some v) \<Rightarrow> e = [] \<or> v = [] \<or> versions_match e v
      | _ \<Rightarrow> True)"

definition delta_list_cap :: nat where
  "delta_list_cap = 50"

definition capped :: "package_delta list \<Rightarrow> package_delta list" where
  "capped deltas = take delta_list_cap (sort_key (\<lambda>d. (pd_ecosystem d, pd_name d)) deltas)"

record closure_delta =
  cd_expected_total :: nat
  cd_observed_total :: nat
  cd_matched :: nat
  cd_missing_count :: nat
  cd_extra_count :: nat
  cd_version_mismatch_count :: nat
  cd_advisory_count :: nat
  cd_missing :: "package_delta list"
  cd_extra :: "package_delta list"
  cd_version_mismatches :: "package_delta list"
  cd_advisory :: "package_delta list"

definition decisive_count :: "closure_delta \<Rightarrow> nat" where
  "decisive_count d = cd_missing_count d + cd_extra_count d + cd_version_mismatch_count d"

text \<open>The variables of the two loops; \<open>route_*\<close> is \<open>_route\<close> on each decisive list.\<close>

record closure_scan =
  cs_matched :: nat
  cs_missing :: "package_delta list"
  cs_extra :: "package_delta list"
  cs_mismatched :: "package_delta list"
  cs_advisory :: "package_delta list"

definition route ::
  "((package_delta list \<Rightarrow> package_delta list) \<Rightarrow> closure_scan \<Rightarrow> closure_scan) \<Rightarrow>
     package_delta \<Rightarrow> closure_scan \<Rightarrow> closure_scan" where
  "route decisive_update delta s =
     (if pd_ecosystem delta = Other_Ecosystem
      then s\<lparr>cs_advisory := cs_advisory s @ [delta]\<rparr>
      else decisive_update (\<lambda>ds. ds @ [delta]) s)"

definition scan_expected ::
  "((ecosystem \<times> string) \<times> observed_package) list \<Rightarrow> (ecosystem \<times> string) \<times> observed_package \<Rightarrow>
     closure_scan \<Rightarrow> closure_scan" where
  "scan_expected observed_by_key entry s =
     (let (key, package) = entry
      in case map_of observed_by_key key of
        None \<Rightarrow> route cs_missing_update
          \<lparr>pd_ecosystem = op_ecosystem package, pd_name = op_name package,
           pd_expected_version = op_version package, pd_observed_version = None\<rparr> s
      | Some counterpart \<Rightarrow>
          if same_version (op_version package) (op_version counterpart)
          then s\<lparr>cs_matched := cs_matched s + 1\<rparr>
          else route cs_mismatched_update
            \<lparr>pd_ecosystem = op_ecosystem package, pd_name = op_name package,
             pd_expected_version = op_version package,
             pd_observed_version = op_version counterpart\<rparr> s)"

definition scan_observed ::
  "((ecosystem \<times> string) \<times> observed_package) list \<Rightarrow> (ecosystem \<times> string) \<times> observed_package \<Rightarrow>
     closure_scan \<Rightarrow> closure_scan" where
  "scan_observed expected_by_key entry s =
     (let (key, package) = entry
      in if has_key expected_by_key key then s
         else route cs_extra_update
           \<lparr>pd_ecosystem = op_ecosystem package, pd_name = op_name package,
            pd_expected_version = None, pd_observed_version = op_version package\<rparr> s)"

definition empty_scan :: closure_scan where
  "empty_scan = \<lparr>cs_matched = 0, cs_missing = [], cs_extra = [], cs_mismatched = [], cs_advisory = []\<rparr>"

definition scan_closures ::
  "observed_package list \<Rightarrow> observed_package list \<Rightarrow> closure_scan" where
  "scan_closures expected observed =
     fold (scan_observed (by_key expected)) (by_key observed)
       (fold (scan_expected (by_key observed)) (by_key expected) empty_scan)"

definition compare_sbom_closures ::
  "observed_package list \<Rightarrow> observed_package list \<Rightarrow> closure_delta" where
  "compare_sbom_closures expected observed =
     (let s = scan_closures expected observed
      in \<lparr>cd_expected_total = length (by_key expected),
          cd_observed_total = length (by_key observed),
          cd_matched = cs_matched s,
          cd_missing_count = length (cs_missing s),
          cd_extra_count = length (cs_extra s),
          cd_version_mismatch_count = length (cs_mismatched s),
          cd_advisory_count = length (cs_advisory s),
          cd_missing = capped (cs_missing s),
          cd_extra = capped (cs_extra s),
          cd_version_mismatches = capped (cs_mismatched s),
          cd_advisory = capped (cs_advisory s)\<rparr>)"

datatype closure_verdict = Cv_Equivalent | Cv_Different | Cv_Inconclusive

definition verdict_of_closure :: "closure_delta \<Rightarrow> closure_verdict" where
  "verdict_of_closure d =
     (if cd_expected_total d = 0 \<or> cd_observed_total d = 0 then Cv_Inconclusive
      else if decisive_count d = 0 then Cv_Equivalent else Cv_Different)"

section \<open>The cross-check\<close>

datatype dependency_status = Locked | Pinned | Ranged | Unpinned | Undeclared

datatype runtime_presence = Observed | Version_Mismatch | Not_Observed

record dependency =
  dep_ecosystem :: ecosystem
  dep_name :: string
  dep_name_as_written :: "string option"
  dep_scope :: "string option"
  dep_direct :: bool
  dep_declared_constraint :: "string option"
  dep_declared_in :: "string option"
  dep_locked_version :: "string option"
  dep_locked_hashes :: "string list"
  dep_locked_in :: "string option"
  dep_archived_path :: "string option"
  dep_archived_digest :: "string option"
  dep_observed_version :: "string option"

record evaluated_dependency = dependency +
  dep_status :: dependency_status
  dep_runtime_presence :: "runtime_presence option"

text \<open>\<open>_expected_version\<close>: a locked version, else an exact pin.\<close>

definition expected_version :: "'a dependency_scheme \<Rightarrow> string option" where
  "expected_version dep =
     (case dep_locked_version dep of
        Some (c # v) \<Rightarrow> Some (c # v)
      | _ \<Rightarrow>
          let constraint = strip (case dep_declared_constraint dep of None \<Rightarrow> [] | Some c \<Rightarrow> c);
              body = (if prefix ''=='' constraint then Some (strip (drop 2 constraint))
                else if prefix ''='' constraint \<and> \<not> prefix ''=<'' constraint \<and> \<not> prefix ''=>'' constraint
                then Some (strip (drop 1 constraint)) else None)
          in case body of
               None \<Rightarrow> None
             | Some b \<Rightarrow>
                 if b = [] \<or> CHR ''*'' \<in> set b \<or> CHR '','' \<in> set b \<or> CHR '' '' \<in> set b
                 then None else Some b)"

definition presence :: "'a dependency_scheme \<Rightarrow> observed_package option \<Rightarrow> runtime_presence" where
  "presence dep package =
     (case package of
        None \<Rightarrow> Not_Observed
      | Some p \<Rightarrow>
          (case (expected_version dep, op_version p) of
             (Some (c # e), Some (c' # v)) \<Rightarrow>
               if \<not> versions_match (c # e) (c' # v) then Version_Mismatch else Observed
           | _ \<Rightarrow> Observed))"

record undeclared_package =
  up_ecosystem :: ecosystem
  up_name :: string
  up_version :: "string option"

record cross_check_summary =
  cc_declared_direct_total :: nat
  cc_observed_matched :: nat
  cc_version_mismatches :: nat
  cc_undeclared_same_ecosystem :: nat
  cc_observed_total :: nat
  cc_undeclared :: "undeclared_package list"

definition undeclared_list_cap :: nat where
  "undeclared_list_cap = 50"

definition dependency_key :: "'a dependency_scheme \<Rightarrow> ecosystem \<times> string" where
  "dependency_key dep = (dep_ecosystem dep, dep_name dep)"

text \<open>The loop over the declared rows: the merged rows and the three counters.\<close>

record merge_state =
  ms_merged :: "evaluated_dependency list"
  ms_direct_total :: nat
  ms_matched :: nat
  ms_mismatched :: nat

definition merge_row ::
  "((ecosystem \<times> string) \<times> observed_package) list \<Rightarrow> evaluated_dependency \<Rightarrow> merge_state \<Rightarrow> merge_state" where
  "merge_row table dep s =
     (if dep_ecosystem dep = Oci then s\<lparr>ms_merged := ms_merged s @ [dep]\<rparr>
      else
        let found = map_of table (dependency_key dep);
            p = presence dep found;
            s = s\<lparr>ms_merged := ms_merged s @ [dep\<lparr>
                  dep_observed_version := Option.bind found op_version,
                  dep_runtime_presence := Some p\<rparr>]\<rparr>
        in if \<not> dep_direct dep then s
           else
             let s = s\<lparr>ms_direct_total := ms_direct_total s + 1\<rparr>
             in case p of
                  Observed \<Rightarrow> s\<lparr>ms_matched := ms_matched s + 1\<rparr>
                | Version_Mismatch \<Rightarrow> s\<lparr>ms_mismatched := ms_mismatched s + 1\<rparr>
                | Not_Observed \<Rightarrow> s)"

definition undeclared_row :: "observed_package \<Rightarrow> evaluated_dependency" where
  "undeclared_row p =
     dependency.extend
       \<lparr>dep_ecosystem = op_ecosystem p, dep_name = op_name p, dep_name_as_written = None,
        dep_scope = None, dep_direct = False, dep_declared_constraint = None,
        dep_declared_in = None, dep_locked_version = None, dep_locked_hashes = [],
        dep_locked_in = None, dep_archived_path = None, dep_archived_digest = None,
        dep_observed_version = op_version p\<rparr>
       (evaluated_dependency.fields Undeclared None)"

definition undeclared_packages ::
  "evaluated_dependency list \<Rightarrow> observed_package list \<Rightarrow> observed_package list" where
  "undeclared_packages dependencies observed =
     (let inventory_keys = set (map dependency_key dependencies);
          declared_ecosystems = set (map dep_ecosystem dependencies) - {Oci, Other_Ecosystem}
      in sort_key package_key
           (map snd (filter (\<lambda>(key, p). op_ecosystem p \<in> declared_ecosystems \<and> key \<notin> inventory_keys)
              (by_key observed))))"

definition cross_check ::
  "evaluated_dependency list \<Rightarrow> observed_package list \<Rightarrow>
     evaluated_dependency list \<times> cross_check_summary" where
  "cross_check dependencies observed =
     (let s = fold (merge_row (by_key observed)) dependencies
            \<lparr>ms_merged = [], ms_direct_total = 0, ms_matched = 0, ms_mismatched = 0\<rparr>;
          undeclared = undeclared_packages dependencies observed
      in (ms_merged s @ map undeclared_row undeclared,
          \<lparr>cc_declared_direct_total = ms_direct_total s, cc_observed_matched = ms_matched s,
           cc_version_mismatches = ms_mismatched s,
           cc_undeclared_same_ecosystem = length undeclared,
           cc_observed_total = length observed,
           cc_undeclared = map (\<lambda>p. \<lparr>up_ecosystem = op_ecosystem p, up_name = op_name p,
               up_version = op_version p\<rparr>) (take undeclared_list_cap undeclared)\<rparr>))"

section \<open>The first package of each identity\<close>

definition first_package ::
  "observed_package list \<Rightarrow> ecosystem \<times> string \<Rightarrow> observed_package option" where
  "first_package packages key = List.find (\<lambda>p. package_key p = key) packages"

lemma fold_setdefault_map_of:
  "map_of (fold (\<lambda>p table. setdefault (package_key p) p table) ps t) k =
     (case map_of t k of Some p \<Rightarrow> Some p | None \<Rightarrow> first_package ps k)"
  by (induction ps arbitrary: t)
    (auto simp: first_package_def map_of_setdefault split: option.splits)

lemma map_of_by_key [simp]: "map_of (by_key ps) k = first_package ps k"
  by (simp add: by_key_def fold_setdefault_map_of)

lemma dict_ok_by_key [simp]: "dict_ok (by_key ps)"
proof -
  have "dict_ok t \<Longrightarrow> dict_ok (fold (\<lambda>p table. setdefault (package_key p) p table) ps t)" for t
    by (induction ps arbitrary: t) auto
  then show ?thesis by (simp add: by_key_def)
qed

lemma first_package_Some: "first_package ps k = Some p \<Longrightarrow> package_key p = k \<and> p \<in> set ps"
  by (auto simp: first_package_def find_Some_iff)

lemma first_package_None: "first_package ps k = None \<longleftrightarrow> k \<notin> package_key ` set ps"
  by (auto simp: first_package_def find_None_iff)

lemma by_key_entry: "(k, p) \<in> set (by_key ps) \<longleftrightarrow> first_package ps k = Some p"
  using dict_ok_map_of_iff[OF dict_ok_by_key, of ps k p] by simp

lemma by_key_keys: "fst ` set (by_key ps) = package_key ` set ps"
proof (rule set_eqI)
  fix k
  have "map_of (by_key ps) k = None \<longleftrightarrow> k \<notin> fst ` set (by_key ps)"
    by (rule map_of_eq_None_iff)
  then show "k \<in> fst ` set (by_key ps) \<longleftrightarrow> k \<in> package_key ` set ps"
    unfolding map_of_by_key first_package_None by blast
qed

lemma length_by_key: "length (by_key ps) = card (package_key ` set ps)"
proof -
  have "distinct (map fst (by_key ps))" using dict_ok_by_key[of ps] by (simp add: dict_ok_def)
  then have "length (map fst (by_key ps)) = card (set (map fst (by_key ps)))"
    by (rule distinct_card[symmetric])
  then show ?thesis by (simp add: by_key_keys)
qed

section \<open>What the loops count\<close>

definition one_sided :: "((ecosystem \<times> string) \<times> observed_package) list \<Rightarrow>
    (ecosystem \<times> string) \<times> observed_package \<Rightarrow> bool" where
  "one_sided other_side entry \<longleftrightarrow> map_of other_side (fst entry) = None"

definition same_sided :: "((ecosystem \<times> string) \<times> observed_package) list \<Rightarrow>
    (ecosystem \<times> string) \<times> observed_package \<Rightarrow> bool" where
  "same_sided other_side entry \<longleftrightarrow>
     (case map_of other_side (fst entry) of None \<Rightarrow> False
      | Some q \<Rightarrow> same_version (op_version (snd entry)) (op_version q))"

definition clashing :: "((ecosystem \<times> string) \<times> observed_package) list \<Rightarrow>
    (ecosystem \<times> string) \<times> observed_package \<Rightarrow> bool" where
  "clashing other_side entry \<longleftrightarrow>
     (case map_of other_side (fst entry) of None \<Rightarrow> False
      | Some q \<Rightarrow> \<not> same_version (op_version (snd entry)) (op_version q))"

abbreviation decisive :: "(ecosystem \<times> string) \<times> observed_package \<Rightarrow> bool" where
  "decisive entry \<equiv> op_ecosystem (snd entry) \<noteq> Other_Ecosystem"

abbreviation count :: "('a \<Rightarrow> bool) \<Rightarrow> 'a list \<Rightarrow> nat" where
  "count p xs \<equiv> length (filter p xs)"

lemma fold_scan_expected:
  "cs_matched (fold (scan_expected t) xs s) = cs_matched s + count (same_sided t) xs \<and>
   length (cs_missing (fold (scan_expected t) xs s)) =
     length (cs_missing s) + count (\<lambda>e. one_sided t e \<and> decisive e) xs \<and>
   cs_extra (fold (scan_expected t) xs s) = cs_extra s \<and>
   length (cs_mismatched (fold (scan_expected t) xs s)) =
     length (cs_mismatched s) + count (\<lambda>e. clashing t e \<and> decisive e) xs \<and>
   length (cs_advisory (fold (scan_expected t) xs s)) = length (cs_advisory s) +
     count (\<lambda>e. \<not> same_sided t e \<and> \<not> decisive e) xs"
  by (induction xs arbitrary: s)
    (auto simp: scan_expected_def route_def one_sided_def same_sided_def clashing_def
      split: option.splits prod.splits)

lemma fold_scan_observed:
  "cs_matched (fold (scan_observed t) xs s) = cs_matched s \<and>
   cs_missing (fold (scan_observed t) xs s) = cs_missing s \<and>
   length (cs_extra (fold (scan_observed t) xs s)) =
     length (cs_extra s) + count (\<lambda>e. one_sided t e \<and> decisive e) xs \<and>
   cs_mismatched (fold (scan_observed t) xs s) = cs_mismatched s \<and>
   length (cs_advisory (fold (scan_observed t) xs s)) = length (cs_advisory s) +
     count (\<lambda>e. one_sided t e \<and> \<not> decisive e) xs"
  by (induction xs arbitrary: s)
    (auto simp: scan_observed_def route_def one_sided_def has_key_def split: prod.splits)

lemma compare_counts:
  fixes a b
  defines "d \<equiv> compare_sbom_closures a b"
  shows "cd_matched d = count (same_sided (by_key b)) (by_key a)"
    and "cd_missing_count d = count (\<lambda>e. one_sided (by_key b) e \<and> decisive e) (by_key a)"
    and "cd_extra_count d = count (\<lambda>e. one_sided (by_key a) e \<and> decisive e) (by_key b)"
    and "cd_version_mismatch_count d = count (\<lambda>e. clashing (by_key b) e \<and> decisive e) (by_key a)"
    and "cd_advisory_count d =
      count (\<lambda>e. \<not> same_sided (by_key b) e \<and> \<not> decisive e) (by_key a) +
      count (\<lambda>e. one_sided (by_key a) e \<and> \<not> decisive e) (by_key b)"
    and "cd_expected_total d = length (by_key a)" and "cd_observed_total d = length (by_key b)"
  by (simp_all add: d_def compare_sbom_closures_def scan_closures_def Let_def empty_scan_def
      fold_scan_expected fold_scan_observed)

definition closures_agree :: "observed_package list \<Rightarrow> observed_package list \<Rightarrow> bool" where
  "closures_agree a b \<longleftrightarrow>
     (\<forall>k \<in> package_key ` (set a \<union> set b). fst k \<noteq> Other_Ecosystem \<longrightarrow>
        (case (first_package a k, first_package b k) of
           (Some p, Some q) \<Rightarrow> same_version (op_version p) (op_version q)
         | _ \<Rightarrow> False))"

lemma by_key_decisive: "e \<in> set (by_key ps) \<Longrightarrow> decisive e \<longleftrightarrow> fst (fst e) \<noteq> Other_Ecosystem"
  by (cases e) (auto simp: by_key_entry package_key_def dest: first_package_Some)

lemma decisive_count_0:
  "decisive_count (compare_sbom_closures a b) = 0 \<longleftrightarrow>
     (\<forall>e \<in> set (by_key a). fst (fst e) \<noteq> Other_Ecosystem \<longrightarrow> same_sided (by_key b) e) \<and>
     (\<forall>e \<in> set (by_key b). fst (fst e) \<noteq> Other_Ecosystem \<longrightarrow> \<not> one_sided (by_key a) e)"
proof -
  have "same_sided t e \<longleftrightarrow> \<not> one_sided t e \<and> \<not> clashing t e" for t e
    by (auto simp: same_sided_def one_sided_def clashing_def split: option.splits)
  then show ?thesis
    by (auto simp: decisive_count_def compare_counts filter_empty_conv by_key_decisive)
qed

lemma decisive_count_agree:
  "decisive_count (compare_sbom_closures a b) = 0 \<longleftrightarrow> closures_agree a b"
proof -
  have entries: "(\<forall>e \<in> set (by_key ps). Q e) \<longleftrightarrow>
      (\<forall>k \<in> package_key ` set ps. \<forall>p. first_package ps k = Some p \<longrightarrow> Q (k, p))" for ps Q
    using first_package_Some by (fastforce simp: by_key_entry)
  show ?thesis
    unfolding decisive_count_0 entries closures_agree_def same_sided_def one_sided_def
    by (auto simp: first_package_None split: option.splits; metis first_package_None option.exhaust image_eqI)
qed

lemma same_version_sym: "same_version v w = same_version w v"
  by (auto simp: same_version_def versions_match_def split: option.splits)

lemma closures_agree_sym: "closures_agree a b = closures_agree b a"
proof -
  have "(case (first_package a k, first_package b k) of
          (Some p, Some q) \<Rightarrow> same_version (op_version p) (op_version q) | _ \<Rightarrow> False) =
        (case (first_package b k, first_package a k) of
          (Some p, Some q) \<Rightarrow> same_version (op_version p) (op_version q) | _ \<Rightarrow> False)" for k
    by (auto simp: same_version_sym split: option.splits)
  then show ?thesis by (simp only: closures_agree_def Un_commute[of "set a"])
qed

lemma by_key_Nil [simp]: "length (by_key ps) = 0 \<longleftrightarrow> ps = []"
  by (simp add: length_by_key del: length_0_conv)

lemma closure_verdict_cases:
  "verdict_of_closure (compare_sbom_closures a b) =
     (if a = [] \<or> b = [] then Cv_Inconclusive
      else if closures_agree a b then Cv_Equivalent else Cv_Different)"
  unfolding verdict_of_closure_def decisive_count_agree compare_counts(6,7) by_key_Nil ..

lemma count_expected_parts:
  "count (same_sided t) xs + count (\<lambda>e. one_sided t e \<and> decisive e) xs +
   count (\<lambda>e. clashing t e \<and> decisive e) xs +
   count (\<lambda>e. \<not> same_sided t e \<and> \<not> decisive e) xs = length xs"
  by (induction xs)
    (auto simp: same_sided_def one_sided_def clashing_def split: option.splits)

lemma count_observed_parts:
  "count (\<lambda>e. one_sided t e \<and> decisive e) xs + count (\<lambda>e. one_sided t e \<and> \<not> decisive e) xs =
     count (one_sided t) xs"
  by (induction xs) auto

lemma count_one_sided:
  "count (one_sided (by_key a)) (by_key b) =
     card (package_key ` set b - package_key ` set a)"
proof -
  let ?xs = "filter (one_sided (by_key a)) (by_key b)"
  have "distinct (map fst ?xs)"
    using dict_ok_by_key[of b] by (simp add: dict_ok_def distinct_map_filter)
  then have "length ?xs = card (fst ` set ?xs)"
    using distinct_card[of "map fst ?xs"] by simp
  moreover have "fst ` set ?xs = fst ` set (by_key b) - package_key ` set a"
    unfolding one_sided_def map_of_by_key first_package_None set_filter by (auto simp: image_iff)
  ultimately show ?thesis by (simp add: by_key_keys)
qed

section \<open>The cross-check's loop\<close>

definition merged_row ::
  "((ecosystem \<times> string) \<times> observed_package) list \<Rightarrow> evaluated_dependency \<Rightarrow> evaluated_dependency" where
  "merged_row table dep =
     (if dep_ecosystem dep = Oci then dep
      else dep\<lparr>dep_observed_version := Option.bind (map_of table (dependency_key dep)) op_version,
        dep_runtime_presence := Some (presence dep (map_of table (dependency_key dep)))\<rparr>)"

definition checked :: "evaluated_dependency \<Rightarrow> bool" where
  "checked dep \<longleftrightarrow> dep_ecosystem dep \<noteq> Oci \<and> dep_direct dep"

definition found_as ::
  "((ecosystem \<times> string) \<times> observed_package) list \<Rightarrow> runtime_presence \<Rightarrow> evaluated_dependency \<Rightarrow> bool" where
  "found_as table p dep \<longleftrightarrow> checked dep \<and> presence dep (map_of table (dependency_key dep)) = p"

lemma fold_merge_row:
  "fold (merge_row t) deps s =
     s\<lparr>ms_merged := ms_merged s @ map (merged_row t) deps,
       ms_direct_total := ms_direct_total s + count checked deps,
       ms_matched := ms_matched s + count (found_as t Observed) deps,
       ms_mismatched := ms_mismatched s + count (found_as t Version_Mismatch) deps\<rparr>"
  by (induction deps arbitrary: s)
    (auto simp: merge_row_def merged_row_def checked_def found_as_def Let_def
      split: runtime_presence.splits)

lemma expected_version_cong:
  "dep_locked_version a = dep_locked_version b \<Longrightarrow>
     dep_declared_constraint a = dep_declared_constraint b \<Longrightarrow>
     expected_version a = expected_version b"
  unfolding expected_version_def by (erule ssubst, erule ssubst, rule refl)

lemma merged_row_keeps [simp]:
  "dep_ecosystem (merged_row t dep) = dep_ecosystem dep"
  "dep_name (merged_row t dep) = dep_name dep"
  "dep_direct (merged_row t dep) = dep_direct dep"
  "dep_status (merged_row t dep) = dep_status dep"
  "dep_locked_version (merged_row t dep) = dep_locked_version dep"
  "dep_declared_constraint (merged_row t dep) = dep_declared_constraint dep"
  by (simp_all add: merged_row_def)

lemma merged_row_key [simp]: "dependency_key (merged_row t dep) = dependency_key dep"
  by (simp add: dependency_key_def)

lemma presence_merged_row [simp]: "presence (merged_row t dep) q = presence dep q"
proof -
  have "expected_version (merged_row t dep) = expected_version dep"
    by (rule expected_version_cong) simp_all
  then show ?thesis by (simp only: presence_def)
qed

lemma merged_row_twice [simp]: "merged_row t (merged_row t dep) = merged_row t dep"
  unfolding merged_row_def[of t "merged_row t dep"] merged_row_keeps merged_row_key
    presence_merged_row
  by (simp add: merged_row_def)

lemma merged_row_counts [simp]:
  "checked (merged_row t dep) = checked dep" "found_as t p (merged_row t dep) = found_as t p dep"
  by (simp_all add: checked_def found_as_def)

lemma undeclared_row_status [simp]: "dep_status (undeclared_row p) = Undeclared"
  by (simp add: undeclared_row_def dependency.defs evaluated_dependency.defs)

lemma filter_map_count [simp]:
  "count checked (map (merged_row t) deps) = count checked deps"
  "count (found_as t p) (map (merged_row t) deps) = count (found_as t p) deps"
  by (induction deps) auto

lemma undeclared_packages_merged [simp]:
  "undeclared_packages (map (merged_row t) deps) observed = undeclared_packages deps observed"
  by (simp add: undeclared_packages_def comp_def)

lemma cross_check_unfold:
  "cross_check deps observed =
     (map (merged_row (by_key observed)) deps @ map undeclared_row (undeclared_packages deps observed),
      \<lparr>cc_declared_direct_total = count checked deps,
       cc_observed_matched = count (found_as (by_key observed) Observed) deps,
       cc_version_mismatches = count (found_as (by_key observed) Version_Mismatch) deps,
       cc_undeclared_same_ecosystem = length (undeclared_packages deps observed),
       cc_observed_total = length observed,
       cc_undeclared = map (\<lambda>p. \<lparr>up_ecosystem = op_ecosystem p, up_name = op_name p,
           up_version = op_version p\<rparr>) (take undeclared_list_cap (undeclared_packages deps observed))\<rparr>)"
  by (simp add: cross_check_def fold_merge_row Let_def)

lemma undeclared_packages_iff:
  "p \<in> set (undeclared_packages deps observed) \<longleftrightarrow>
     first_package observed (package_key p) = Some p \<and>
     op_ecosystem p \<notin> {Oci, Other_Ecosystem} \<and> op_ecosystem p \<in> dep_ecosystem ` set deps \<and>
     package_key p \<notin> dependency_key ` set deps"
proof -
  have "p \<in> set (undeclared_packages deps observed) \<longleftrightarrow>
      (\<exists>k. first_package observed k = Some p \<and>
         op_ecosystem p \<in> dep_ecosystem ` set deps - {Oci, Other_Ecosystem} \<and>
         k \<notin> dependency_key ` set deps)"
    by (force simp: undeclared_packages_def by_key_entry)
  then show ?thesis using first_package_Some[of observed _ p] by blast
qed

lemma found_as_disjoint:
  "count (found_as t Observed) deps + count (found_as t Version_Mismatch) deps \<le> count checked deps"
  by (induction deps) (auto simp: found_as_def)

section \<open>Properties\<close>

text \<open>
  Property C23. A rebuilt runtime is certified equivalent exactly when both closures name packages
  and, outside the ecosystem that cannot tell its members apart, they hold the same identities at
  versions that match or are unrecorded; and it does not matter which side is the author's.
\<close>

theorem closure_equivalent_iff:
  "(verdict_of_closure (compare_sbom_closures a b) = Cv_Equivalent \<longleftrightarrow>
      a \<noteq> [] \<and> b \<noteq> [] \<and> closures_agree a b) \<and>
   verdict_of_closure (compare_sbom_closures b a) = verdict_of_closure (compare_sbom_closures a b)"
  unfolding closure_verdict_cases by (simp add: closures_agree_sym disj_commute)

text \<open>
  The counts of a comparison are the whole truth: every identity of either closure is
  counted exactly once, as matched, missing, extra, mismatched or advisory.
\<close>

theorem closure_counts_partition:
  "cd_matched (compare_sbom_closures a b) + cd_missing_count (compare_sbom_closures a b) +
   cd_extra_count (compare_sbom_closures a b) +
   cd_version_mismatch_count (compare_sbom_closures a b) +
   cd_advisory_count (compare_sbom_closures a b) =
     card (package_key ` set a \<union> package_key ` set b)"
proof -
  have "card (package_key ` set a \<union> package_key ` set b) =
      card (package_key ` set a) + card (package_key ` set b - package_key ` set a)"
    by (subst Un_Diff_cancel[symmetric], rule card_Un_disjoint) auto
  then show ?thesis
    unfolding compare_counts count_one_sided[symmetric] length_by_key[symmetric]
    using count_expected_parts[of "by_key b" "by_key a"] count_observed_parts[of "by_key a" "by_key b"]
    by linarith
qed

text \<open>
  A closure of packages the adapter files under \<open>other\<close> (Alpine's, a
  distribution's RPMs) is certified equivalent to every other such closure, whatever the packages
  and versions: no delta is decisive, and the advisory ones settle nothing.
\<close>

theorem unlisted_closures_always_equivalent:
  assumes "a \<noteq> []" and "b \<noteq> []"
    and "\<forall>p \<in> set a \<union> set b. op_ecosystem p = Other_Ecosystem"
  shows "verdict_of_closure (compare_sbom_closures a b) = Cv_Equivalent"
  using assms by (auto simp: closure_verdict_cases closures_agree_def package_key_def)

definition apk :: "string \<Rightarrow> json" where
  "apk purl = JObj [(''purl'', JStr purl)]"

definition apk_document :: "string \<Rightarrow> json option" where
  "apk_document purl = Some (JObj [(''components'', JList [apk purl])])"

theorem unlisted_closures_always_equivalent_witness:
  "verdict_of_closure (compare_sbom_closures
     (parse_cyclonedx (apk_document ''pkg:apk/alpine/openssl@3.3.1''))
     (parse_cyclonedx (apk_document ''pkg:apk/alpine/netcat@0.1''))) = Cv_Equivalent"
  by (rule unlisted_closures_always_equivalent) code_simp+

text \<open>
  Cross-checking twice is cross-checking once: the handler drops the undeclared rows of
  an earlier check and gets the same rows and the same counts again. The counts stay in bounds, the
  undeclared packages are the first occurrences in an ecosystem the inventory uses whose identity it
  does not have, and no row of the inventory is dropped or renamed.
\<close>

theorem cross_check_idempotent:
  assumes "\<forall>dep \<in> set deps. dep_status dep \<noteq> Undeclared"
    and "cross_check deps observed = (rows, summary)"
  shows "cross_check (filter (\<lambda>dep. dep_status dep \<noteq> Undeclared) rows) observed = (rows, summary) \<and>
    map dependency_key (take (length deps) rows) = map dependency_key deps \<and>
    cc_observed_matched summary + cc_version_mismatches summary \<le> cc_declared_direct_total summary \<and>
    (\<forall>p. undeclared_row p \<in> set (drop (length deps) rows) \<longrightarrow>
       op_ecosystem p \<in> dep_ecosystem ` set deps \<and> package_key p \<notin> dependency_key ` set deps)"
proof -
  from assms(2) have rows: "rows = map (merged_row (by_key observed)) deps @
      map undeclared_row (undeclared_packages deps observed)"
    and summary: "summary = snd (cross_check deps observed)"
    by (simp_all add: cross_check_unfold)
  from assms(1) have kept: "filter (\<lambda>dep. dep_status dep \<noteq> Undeclared) rows =
      map (merged_row (by_key observed)) deps"
    by (auto simp: rows filter_empty_conv filter_map comp_def intro: filter_True)
  have again: "cross_check (map (merged_row (by_key observed)) deps) observed = (rows, summary)"
    by (simp add: cross_check_unfold comp_def rows summary)
  have keys: "map dependency_key (take (length deps) rows) = map dependency_key deps"
    by (simp add: rows)
  have bounds: "cc_observed_matched summary + cc_version_mismatches summary \<le>
      cc_declared_direct_total summary"
    using found_as_disjoint[of "by_key observed" deps] by (simp add: summary cross_check_unfold)
  have inj: "undeclared_row p = undeclared_row q \<longleftrightarrow> p = q" for p q
    by (auto simp: undeclared_row_def dependency.defs evaluated_dependency.defs)
  then have "undeclared_row p \<in> set (drop (length deps) rows) \<longleftrightarrow>
      p \<in> set (undeclared_packages deps observed)" for p
    by (auto simp: rows)
  with again keys bounds show ?thesis unfolding kept by (simp add: undeclared_packages_iff)
qed

definition pip_row :: "string \<Rightarrow> string \<Rightarrow> evaluated_dependency" where
  "pip_row name version =
     (undeclared_row \<lparr>op_ecosystem = Pypi, op_name = name, op_version = None\<rparr>)
       \<lparr>dep_direct := True, dep_locked_version := Some version, dep_status := Locked\<rparr>"

theorem cross_check_idempotent_witness:
  "cross_check (filter (\<lambda>dep. dep_status dep \<noteq> Undeclared)
     (fst (cross_check [pip_row ''numpy'' ''1.26'']
       [\<lparr>op_ecosystem = Pypi, op_name = ''six'', op_version = None\<rparr>])))
     [\<lparr>op_ecosystem = Pypi, op_name = ''six'', op_version = None\<rparr>] =
   cross_check [pip_row ''numpy'' ''1.26'']
     [\<lparr>op_ecosystem = Pypi, op_name = ''six'', op_version = None\<rparr>]"
  using cross_check_idempotent[of "[pip_row ''numpy'' ''1.26'']", OF _ surjective_pairing]
  by (simp add: pip_row_def)

end
