(* ===== verification/Ree_Review.thy ===== *)
theory Ree_Review
  imports Ree_Sbom Ree_Receipts
begin

text \<open>
  The reviewer's evidence: the records of \<open>evidence/review/models.py\<close> with the transitions
  over them, and how \<open>evidence/review/comparison.py\<close> reaches a verdict. Times of the record
  are the ISO strings the code stores, compared as strings.
\<close>

section \<open>Vocabularies\<close>

datatype review_status = Rs_Running | Rs_Completed | Rs_Failed | Rs_Canceled

datatype review_step_key = Source_Step | Build_Step | Activation_Step | Experiments_Step

datatype comparison_verdict = Sv_Identical | Sv_Different | Sv_Inconclusive

datatype build_verdict = Bv_Identical | Bv_Equivalent | Bv_Different | Bv_Inconclusive

datatype activation_verdict = Av_Passed | Av_Failed

datatype experiment_verdict = Xv_Identical | Xv_Reproduced | Xv_Different | Xv_Inconclusive

datatype evidence_basis = Independent | Bundled

text \<open>\<open>ReviewBasis\<close>: no preference, or one of the two.\<close>

datatype review_basis = Auto_Basis | Requested_Basis evidence_basis

text \<open>Steps are ordered as the lifecycle has them, \<open>_step_order\<close>.\<close>

fun step_index :: "review_step_key \<Rightarrow> nat" where
  "step_index Source_Step = 0"
| "step_index Build_Step = 1"
| "step_index Activation_Step = 2"
| "step_index Experiments_Step = 3"

lemma step_index_inject [simp]: "step_index a = step_index b \<longleftrightarrow> a = b"
  by (cases a; cases b) simp_all

instantiation review_step_key :: linorder
begin

definition less_eq_review_step_key :: "review_step_key \<Rightarrow> review_step_key \<Rightarrow> bool" where
  "less_eq_review_step_key a b \<longleftrightarrow> step_index a \<le> step_index b"

definition less_review_step_key :: "review_step_key \<Rightarrow> review_step_key \<Rightarrow> bool" where
  "less_review_step_key a b \<longleftrightarrow> step_index a < step_index b"

instance
  by standard (auto simp: less_eq_review_step_key_def less_review_step_key_def
      intro: antisym[THEN step_index_inject[THEN iffD1]])

end

definition status_precedence :: "review_status list" where
  "status_precedence = [Rs_Running, Rs_Failed, Rs_Canceled, Rs_Completed]"

section \<open>Receipts\<close>

record review_envelope =
  rve_schema_version :: int
  rve_run_id :: string
  rve_started_at :: utc_instant
  rve_finished_at :: utc_instant
  rve_duration_ms :: int
  rve_recorded_at :: utc_instant
  rve_succeeded :: bool

definition valid_review_envelope :: "'a review_envelope_scheme \<Rightarrow> bool" where
  [validity]: "valid_review_envelope e \<longleftrightarrow>
     rve_schema_version e = 1 \<and> valid_run_id (rve_run_id e) \<and> 0 \<le> rve_duration_ms e"

text \<open>\<open>review_receipt_envelope(run_id, timing, status)\<close>.\<close>

definition review_receipt_envelope :: "string \<Rightarrow> operation_timing \<Rightarrow> bool \<Rightarrow> review_envelope" where
  "review_receipt_envelope run_id timing succeeded =
     \<lparr>rve_schema_version = 1, rve_run_id = run_id, rve_started_at = tim_started_at timing,
      rve_finished_at = tim_finished_at timing, rve_duration_ms = tim_duration_ms timing,
      rve_recorded_at = tim_finished_at timing, rve_succeeded = succeeded\<rparr>"

record review_source_receipt = review_envelope +
  vsr_origin_url :: "string option"
  vsr_source_type :: source_type
  vsr_requested_ref :: "string option"
  vsr_expected_swhid :: "string option"
  vsr_observed_swhid :: "string option"

definition valid_review_source :: "review_source_receipt \<Rightarrow> bool" where
  [validity]: "valid_review_source r \<longleftrightarrow>
     valid_review_envelope r \<and> opt_ok valid_swhid (vsr_expected_swhid r) \<and>
     opt_ok valid_swhid (vsr_observed_swhid r)"

record review_build_receipt = review_envelope +
  vbr_script_path :: "string option"
  vbr_script_digest :: "string option"
  vbr_runtime_path :: string
  vbr_produced_runtime_digest :: string

definition valid_review_build :: "review_build_receipt \<Rightarrow> bool" where
  [validity]: "valid_review_build r \<longleftrightarrow>
     valid_review_envelope r \<and> opt_ok valid_ree_path (vbr_script_path r) \<and>
     opt_ok valid_digest (vbr_script_digest r) \<and> valid_ree_path (vbr_runtime_path r) \<and>
     valid_digest (vbr_produced_runtime_digest r)"

record review_activation_receipt = review_envelope +
  var_run_script_path :: string
  var_run_script_digest :: string
  var_verify_script_path :: "string option"
  var_verify_script_digest :: "string option"
  var_run_exit_code :: "int option"
  var_verify_exit_code :: "int option"
  var_runtime_path :: string
  var_runtime_digest :: string

definition valid_review_activation :: "review_activation_receipt \<Rightarrow> bool" where
  [validity]: "valid_review_activation r \<longleftrightarrow>
     valid_review_envelope r \<and> valid_ree_path (var_run_script_path r) \<and>
     valid_digest (var_run_script_digest r) \<and> opt_ok valid_ree_path (var_verify_script_path r) \<and>
     opt_ok valid_digest (var_verify_script_digest r) \<and> valid_ree_path (var_runtime_path r) \<and>
     valid_digest (var_runtime_digest r)"

record review_experiment_receipt = review_envelope +
  vxr_experiment_name :: string
  vxr_run_script_path :: string
  vxr_run_script_digest :: string
  vxr_verify_script_path :: "string option"
  vxr_verify_script_digest :: "string option"
  vxr_run_exit_code :: "int option"
  vxr_verify_exit_code :: "int option"
  vxr_runtime_path :: "string option"
  vxr_runtime_digest :: "string option"
  vxr_produced_output_digest :: "string option"

definition valid_review_experiment :: "review_experiment_receipt \<Rightarrow> bool" where
  [validity]: "valid_review_experiment r \<longleftrightarrow>
     valid_review_envelope r \<and> vxr_experiment_name r \<noteq> [] \<and>
     valid_ree_path (vxr_run_script_path r) \<and> valid_digest (vxr_run_script_digest r) \<and>
     opt_ok valid_ree_path (vxr_verify_script_path r) \<and>
     opt_ok valid_digest (vxr_verify_script_digest r) \<and> opt_ok valid_ree_path (vxr_runtime_path r) \<and>
     opt_ok valid_digest (vxr_runtime_digest r) \<and> opt_ok valid_digest (vxr_produced_output_digest r)"

section \<open>Comparisons\<close>

record source_comparison =
  sc_basis :: evidence_basis
  sc_expected_swhid :: "string option"
  sc_observed_swhid :: "string option"
  sc_verdict :: comparison_verdict

record build_comparison =
  bc_basis :: evidence_basis
  bc_verdict :: build_verdict
  bc_expected_runtime_digest :: "string option"
  bc_observed_runtime_digest :: "string option"
  bc_expected_sbom_digest :: "string option"
  bc_observed_sbom_digest :: "string option"
  bc_sbom_tool_version :: "string option"
  bc_expected_package_total :: nat
  bc_observed_package_total :: nat
  bc_matched :: nat
  bc_missing_count :: nat
  bc_extra_count :: nat
  bc_version_mismatch_count :: nat
  bc_advisory_count :: nat
  bc_missing :: "package_delta list"
  bc_extra :: "package_delta list"
  bc_version_mismatches :: "package_delta list"
  bc_advisory :: "package_delta list"

record activation_outcome =
  ao_basis :: evidence_basis
  ao_verdict :: activation_verdict
  ao_runtime_digest :: "string option"
  ao_run_exit_code :: "int option"
  ao_verify_exit_code :: "int option"

record experiment_comparison =
  xc_basis :: evidence_basis
  xc_verdict :: experiment_verdict
  xc_experiment_name :: string
  xc_verify_script_path :: string
  xc_expected_verify_script_digest :: "string option"
  xc_verify_script_digest :: "string option"
  xc_expected_verify_exit_code :: "int option"
  xc_observed_verify_exit_code :: "int option"
  xc_run_exit_code :: "int option"
  xc_expected_output_digest :: "string option"
  xc_observed_output_digest :: "string option"
  xc_runtime_digest :: "string option"

section \<open>The record of an attempt\<close>

record review_step_state =
  st_step :: review_step_key
  st_status :: review_status
  st_started_at :: string
  st_updated_at :: string
  st_failure :: "string option"

record review_record =
  rr_review_id :: string
  rr_created_at :: string
  rr_updated_at :: string
  rr_status :: review_status
  rr_steps :: "review_step_state list"
  rr_source_receipt :: "review_source_receipt option"
  rr_source_comparison :: "source_comparison option"
  rr_build_receipt :: "review_build_receipt option"
  rr_build_comparison :: "build_comparison option"
  rr_activation_receipt :: "review_activation_receipt option"
  rr_activation_outcome :: "activation_outcome option"
  rr_experiment_receipts :: "review_experiment_receipt list"
  rr_experiment_comparisons :: "experiment_comparison list"
  rr_failure :: "string option"

definition new_review_record :: "string \<Rightarrow> string \<Rightarrow> review_record" where
  "new_review_record review_id now =
     \<lparr>rr_review_id = review_id, rr_created_at = now, rr_updated_at = now, rr_status = Rs_Running,
      rr_steps = [], rr_source_receipt = None, rr_source_comparison = None,
      rr_build_receipt = None, rr_build_comparison = None, rr_activation_receipt = None,
      rr_activation_outcome = None, rr_experiment_receipts = [], rr_experiment_comparisons = [],
      rr_failure = None\<rparr>"

definition step_state :: "review_record \<Rightarrow> review_step_key \<Rightarrow> review_step_state option" where
  "step_state r step = List.find (\<lambda>state. st_step state = step) (rr_steps r)"

definition derive_attempt_status :: "review_step_state list \<Rightarrow> review_status" where
  "derive_attempt_status steps =
     (case List.find (\<lambda>status. status \<in> st_status ` set steps) status_precedence of
        Some status \<Rightarrow> status
      | None \<Rightarrow> Rs_Running)"

definition latest_failure :: "review_step_state list \<Rightarrow> string option" where
  "latest_failure steps =
     (case max_by st_updated_at (filter (\<lambda>state. st_failure state \<notin> {None, Some []}) steps) of
        None \<Rightarrow> None
      | Some state \<Rightarrow> st_failure state)"

definition with_step ::
  "review_record \<Rightarrow> review_step_key \<Rightarrow> review_status \<Rightarrow> string \<Rightarrow> string option \<Rightarrow> review_record" where
  [step_defs]: "with_step r step status now failure =
     (let existing = step_state r step;
          started = (case existing of
              None \<Rightarrow> now
            | Some e \<Rightarrow> if status = Rs_Running then now else st_started_at e);
          state = \<lparr>st_step = step, st_status = status, st_started_at = started,
            st_updated_at = now, st_failure = failure\<rparr>;
          steps = sort_key st_step (filter (\<lambda>other. st_step other \<noteq> step) (rr_steps r) @ [state])
      in r\<lparr>rr_steps := steps, rr_updated_at := now, rr_status := derive_attempt_status steps,
           rr_failure := latest_failure steps\<rparr>)"

definition with_experiment ::
  "review_record \<Rightarrow> review_experiment_receipt \<Rightarrow> experiment_comparison \<Rightarrow> review_record" where
  [step_defs]: "with_experiment r receipt comparison =
     (let name = xc_experiment_name comparison;
          receipts = filter (\<lambda>other. vxr_experiment_name other \<noteq> name) (rr_experiment_receipts r) @ [receipt];
          comparisons = filter (\<lambda>other. xc_experiment_name other \<noteq> name) (rr_experiment_comparisons r)
            @ [comparison]
      in r\<lparr>rr_experiment_receipts := sort_key vxr_experiment_name receipts,
           rr_experiment_comparisons := sort_key xc_experiment_name comparisons\<rparr>)"

definition experiment_comparison_of :: "review_record \<Rightarrow> string \<Rightarrow> experiment_comparison option" where
  "experiment_comparison_of r name =
     List.find (\<lambda>c. xc_experiment_name c = name) (rr_experiment_comparisons r)"

definition resolve_basis :: "review_basis \<Rightarrow> evidence_basis set \<Rightarrow> evidence_basis option" where
  "resolve_basis requested available =
     (case requested of
        Requested_Basis b \<Rightarrow> if b \<in> available then Some b else None
      | Auto_Basis \<Rightarrow>
          if Independent \<in> available then Some Independent
          else if Bundled \<in> available then Some Bundled else None)"

definition attempt_basis :: "review_record \<Rightarrow> evidence_basis option" where
  "attempt_basis r =
     (let settled = (case rr_source_comparison r of None \<Rightarrow> [] | Some c \<Rightarrow> [sc_basis c]) @
            (case rr_build_comparison r of None \<Rightarrow> [] | Some c \<Rightarrow> [bc_basis c])
      in if settled = [] then None
         else Some (if Bundled \<in> set settled then Bundled else Independent))"

section \<open>Verdicts\<close>

definition compare_source_swhids :: "string \<Rightarrow> string \<Rightarrow> evidence_basis \<Rightarrow> source_comparison" where
  "compare_source_swhids expected observed basis =
     (let e = nonempty (strip expected);
          v = nonempty (strip observed);
          verdict = (if e = None \<or> v = None then Sv_Inconclusive
            else if e = v then Sv_Identical else Sv_Different)
      in \<lparr>sc_basis = basis, sc_expected_swhid = e, sc_observed_swhid = v, sc_verdict = verdict\<rparr>)"

fun build_verdict_of :: "closure_verdict \<Rightarrow> build_verdict" where
  "build_verdict_of Cv_Equivalent = Bv_Equivalent"
| "build_verdict_of Cv_Different = Bv_Different"
| "build_verdict_of Cv_Inconclusive = Bv_Inconclusive"

definition compare_build_runtimes ::
  "string option \<Rightarrow> string option \<Rightarrow> observed_package list \<Rightarrow> observed_package list \<Rightarrow>
     string option \<Rightarrow> string option \<Rightarrow> string option \<Rightarrow> evidence_basis \<Rightarrow> build_comparison" where
  "compare_build_runtimes expected_runtime observed_runtime expected_packages observed_packages
      expected_sbom observed_sbom tool_version basis =
     (let delta = compare_sbom_closures expected_packages observed_packages;
          verdict = (if expected_runtime \<notin> {None, Some []} \<and> expected_runtime = observed_runtime
            then Bv_Identical else build_verdict_of (verdict_of_closure delta))
      in \<lparr>bc_basis = basis, bc_verdict = verdict,
          bc_expected_runtime_digest = expected_runtime,
          bc_observed_runtime_digest = observed_runtime,
          bc_expected_sbom_digest = expected_sbom, bc_observed_sbom_digest = observed_sbom,
          bc_sbom_tool_version = tool_version,
          bc_expected_package_total = cd_expected_total delta,
          bc_observed_package_total = cd_observed_total delta,
          bc_matched = cd_matched delta, bc_missing_count = cd_missing_count delta,
          bc_extra_count = cd_extra_count delta,
          bc_version_mismatch_count = cd_version_mismatch_count delta,
          bc_advisory_count = cd_advisory_count delta,
          bc_missing = cd_missing delta, bc_extra = cd_extra delta,
          bc_version_mismatches = cd_version_mismatches delta, bc_advisory = cd_advisory delta\<rparr>)"

text \<open>The two sides of an experiment: what the author recorded, what the reviewer observed.\<close>

record experiment_claim =
  cl_verify_script_digest :: "string option"
  cl_verify_exit_code :: "int option"
  cl_output_digest :: "string option"

definition compare_experiment_results ::
  "string \<Rightarrow> evidence_basis \<Rightarrow> string \<Rightarrow> experiment_claim \<Rightarrow> experiment_claim \<Rightarrow> int option \<Rightarrow>
     string option \<Rightarrow> experiment_comparison" where
  "compare_experiment_results name basis verify_script_path expected observed run_exit runtime =
     (let verdict =
        (if strip verify_script_path = [] \<or> cl_verify_exit_code expected = None \<or>
            cl_verify_script_digest expected = None \<or> cl_verify_script_digest observed = None \<or>
            cl_verify_script_digest expected \<noteq> cl_verify_script_digest observed \<or>
            cl_verify_exit_code expected \<noteq> Some 0
         then Xv_Inconclusive
         else if cl_verify_exit_code observed \<noteq> Some 0 then Xv_Different
         else if cl_output_digest expected \<noteq> None \<and>
            cl_output_digest expected = cl_output_digest observed then Xv_Identical
         else Xv_Reproduced)
      in \<lparr>xc_basis = basis, xc_verdict = verdict, xc_experiment_name = name,
          xc_verify_script_path = verify_script_path,
          xc_expected_verify_script_digest = cl_verify_script_digest expected,
          xc_verify_script_digest = cl_verify_script_digest observed,
          xc_expected_verify_exit_code = cl_verify_exit_code expected,
          xc_observed_verify_exit_code = cl_verify_exit_code observed,
          xc_run_exit_code = run_exit,
          xc_expected_output_digest = cl_output_digest expected,
          xc_observed_output_digest = cl_output_digest observed, xc_runtime_digest = runtime\<rparr>)"

section \<open>Keyed replacement\<close>

text \<open>What \<open>with_step\<close> and \<open>with_experiment\<close> do to their lists.\<close>

definition replace_by :: "('e \<Rightarrow> 'k::linorder) \<Rightarrow> 'e \<Rightarrow> 'e list \<Rightarrow> 'e list" where
  "replace_by key x xs = sort_key key (filter (\<lambda>y. key y \<noteq> key x) xs @ [x])"

lemma filter_replace_by:
  "filter (\<lambda>y. key y = k) (replace_by key x xs) =
     (if k = key x then [x] else filter (\<lambda>y. key y = k) xs)"
  unfolding replace_by_def sort_key_stable by (auto simp: filter_empty_conv intro: filter_cong)

lemma find_replace_by [simp]:
  "List.find (\<lambda>y. key y = k) (replace_by key x xs) =
     (if k = key x then Some x else List.find (\<lambda>y. key y = k) xs)"
  by (simp add: find_filter filter_replace_by)

lemma set_replace_by [simp]:
  "set (replace_by key x xs) = insert x {y \<in> set xs. key y \<noteq> key x}"
  by (auto simp: replace_by_def)

lemma sorted_replace_by [simp]: "sorted (map key (replace_by key x xs))"
  by (simp add: replace_by_def)

lemma distinct_replace_by [simp]:
  "distinct (map key xs) \<Longrightarrow> distinct (map key (replace_by key x xs))"
  by (auto simp: replace_by_def distinct_map_filter)

section \<open>The record's invariant\<close>

definition record_ok :: "review_record \<Rightarrow> bool" where
  "record_ok r \<longleftrightarrow>
     sorted (map st_step (rr_steps r)) \<and> distinct (map st_step (rr_steps r)) \<and>
     rr_status r = derive_attempt_status (rr_steps r) \<and>
     rr_failure r = latest_failure (rr_steps r) \<and>
     sorted (map vxr_experiment_name (rr_experiment_receipts r)) \<and>
     distinct (map vxr_experiment_name (rr_experiment_receipts r)) \<and>
     sorted (map xc_experiment_name (rr_experiment_comparisons r)) \<and>
     distinct (map xc_experiment_name (rr_experiment_comparisons r)) \<and>
     vxr_experiment_name ` set (rr_experiment_receipts r) =
       xc_experiment_name ` set (rr_experiment_comparisons r)"

definition written_state ::
  "review_record \<Rightarrow> review_step_key \<Rightarrow> review_status \<Rightarrow> string \<Rightarrow> string option \<Rightarrow> review_step_state" where
  "written_state r step status now failure =
     \<lparr>st_step = step, st_status = status,
      st_started_at = (case step_state r step of None \<Rightarrow> now
        | Some e \<Rightarrow> if status = Rs_Running then now else st_started_at e),
      st_updated_at = now, st_failure = failure\<rparr>"

lemma written_state_sel [simp]:
  "st_step (written_state r step status now failure) = step"
  "st_status (written_state r step status now failure) = status"
  "st_failure (written_state r step status now failure) = failure"
  by (simp_all add: written_state_def)

lemma with_step_alt:
  "with_step r step status now failure =
     (let steps = replace_by st_step (written_state r step status now failure) (rr_steps r)
      in r\<lparr>rr_steps := steps, rr_updated_at := now, rr_status := derive_attempt_status steps,
           rr_failure := latest_failure steps\<rparr>)"
  by (simp add: with_step_def replace_by_def written_state_def Let_def)

lemma with_experiment_alt:
  "vxr_experiment_name receipt = xc_experiment_name comparison \<Longrightarrow>
   with_experiment r receipt comparison =
     r\<lparr>rr_experiment_receipts :=
         replace_by vxr_experiment_name receipt (rr_experiment_receipts r),
       rr_experiment_comparisons :=
         replace_by xc_experiment_name comparison (rr_experiment_comparisons r)\<rparr>"
  by (simp add: with_experiment_def replace_by_def Let_def)

lemma step_state_with_step [simp]:
  "step_state (with_step r step status now failure) other =
     (if other = step then Some (written_state r step status now failure) else step_state r other)"
  by (simp add: step_state_def with_step_alt Let_def)

lemma step_state_evidence [simp]:
  "step_state (r\<lparr>rr_source_receipt := a, rr_source_comparison := b\<rparr>) k = step_state r k"
  "step_state (r\<lparr>rr_build_receipt := c, rr_build_comparison := d\<rparr>) k = step_state r k"
  "step_state (r\<lparr>rr_activation_receipt := e, rr_activation_outcome := f\<rparr>) k = step_state r k"
  "step_state (with_experiment r g h) k = step_state r k"
  by (simp_all add: step_state_def with_experiment_def Let_def)

lemma with_step_evidence [simp]:
  "rr_source_comparison (with_step r step status now failure) = rr_source_comparison r"
  "rr_build_receipt (with_step r step status now failure) = rr_build_receipt r"
  "rr_build_comparison (with_step r step status now failure) = rr_build_comparison r"
  "rr_activation_receipt (with_step r step status now failure) = rr_activation_receipt r"
  "rr_activation_outcome (with_step r step status now failure) = rr_activation_outcome r"
  "rr_experiment_receipts (with_step r step status now failure) = rr_experiment_receipts r"
  "rr_experiment_comparisons (with_step r step status now failure) = rr_experiment_comparisons r"
  by (simp_all add: with_step_alt Let_def)

lemma new_record_ok [simp]: "record_ok (new_review_record i now)"
  by (simp add: record_ok_def new_review_record_def derive_attempt_status_def latest_failure_def
      find_None_iff[THEN iffD2] status_precedence_def)

lemma with_step_ok [simp]: "record_ok r \<Longrightarrow> record_ok (with_step r step status now failure)"
  by (simp add: record_ok_def with_step_alt Let_def)

lemma with_evidence_ok [simp]:
  "record_ok (r\<lparr>rr_source_receipt := a, rr_source_comparison := b\<rparr>) = record_ok r"
  "record_ok (r\<lparr>rr_build_receipt := c, rr_build_comparison := d\<rparr>) = record_ok r"
  "record_ok (r\<lparr>rr_activation_receipt := e, rr_activation_outcome := f\<rparr>) = record_ok r"
  by (simp_all add: record_ok_def)

lemma replace_names:
  assumes "f ` set xs = g ` set ys" and "f x = g y"
  shows "f ` set (replace_by f x xs) = g ` set (replace_by g y ys)"
proof -
  have "f ` {z \<in> set xs. f z \<noteq> f x} = f ` set xs - {f x}" by auto
  moreover have "g ` {z \<in> set ys. g z \<noteq> g y} = g ` set ys - {g y}" by auto
  ultimately show ?thesis using assms by simp
qed

lemma with_experiment_ok:
  assumes "record_ok r" and "vxr_experiment_name receipt = xc_experiment_name comparison"
  shows "record_ok (with_experiment r receipt comparison)"
  using assms replace_names[of vxr_experiment_name "rr_experiment_receipts r" xc_experiment_name
      "rr_experiment_comparisons r" receipt comparison]
  by (simp add: record_ok_def with_experiment_alt del: set_replace_by)

lemma experiment_of_with_experiment:
  "vxr_experiment_name receipt = xc_experiment_name comparison \<Longrightarrow>
   experiment_comparison_of (with_experiment r receipt comparison) name =
     (if name = xc_experiment_name comparison then Some comparison
      else experiment_comparison_of r name)"
  by (simp add: experiment_comparison_of_def with_experiment_alt)

lemma first_status:
  "(case List.find (\<lambda>status. status \<in> S) status_precedence of
      Some status \<Rightarrow> status | None \<Rightarrow> Rs_Running) =
   (if Rs_Running \<in> S \<or> S = {} then Rs_Running else if Rs_Failed \<in> S then Rs_Failed
    else if Rs_Canceled \<in> S then Rs_Canceled else Rs_Completed)"
proof (cases "S = {}")
  case True
  then show ?thesis by (simp add: status_precedence_def)
next
  case False
  then obtain s where "s \<in> S" by blast
  with False show ?thesis unfolding status_precedence_def by (cases s) simp_all
qed

lemma derive_attempt_status_cases:
  "derive_attempt_status steps =
     (let present = st_status ` set steps
      in if Rs_Running \<in> present \<or> present = {} then Rs_Running
         else if Rs_Failed \<in> present then Rs_Failed
         else if Rs_Canceled \<in> present then Rs_Canceled else Rs_Completed)"
  unfolding derive_attempt_status_def first_status Let_def ..

end
