(* ===== verification/Ree_Review_Steps.thy ===== *)
theory Ree_Review_Steps
  imports Ree_Review Ree_Bundle Ree_Runnables
begin

text \<open>
  The reviewer's handlers: \<open>operations/steps/review.py\<close>, the four handlers under
  \<open>operations/handlers/review/\<close>, the evidence store \<open>evidence/review/store.py\<close> and the
  scanner's caller \<open>analysis/sbom/scan.py\<close>.

  A step returns its result, or \<open>Inl\<close> the exception it lets escape, with the directory it leaves.
  External programs are functions of the environment \<open>review_env\<close>: what the acquire and the
  materialize script make of their inputs, \<open>sh\<close> on a script of the workspace, the scanner, the
  JSON parser, the SWHID of a tree; so are the readings of the clock at the start, when the step
  settles and when it halts, and the successive answers of the cancellation check. The record and
  the evidence documents are kept as the values their JSON encodes.
\<close>

section \<open>The directory of an attempt\<close>

datatype review_document =
    Source_Receipt_Doc review_source_receipt
  | Build_Receipt_Doc review_build_receipt
  | Activation_Receipt_Doc review_activation_receipt
  | Experiment_Receipt_Doc review_experiment_receipt
  | Source_Comparison_Doc source_comparison
  | Build_Comparison_Doc build_comparison
  | Activation_Outcome_Doc activation_outcome
  | Experiment_Comparison_Doc experiment_comparison

record 'b review_dir =
  vd_record :: "review_record option"
  vd_snapshot :: "'b option"
  vd_upstream :: "'b tree option"
  vd_overlay :: "'b tree"
  vd_workspace :: "'b tree option"
  vd_sbom :: "'b option"
  vd_evidence :: "(string list \<times> review_document) list"

text \<open>The arguments baked into \<open>acquire_source.sh\<close>.\<close>

record acquire_request =
  aq_origin_url :: string
  aq_source_type :: source_type
  aq_revision :: string
  aq_swhid :: string

datatype 'b scan_run = Scan_Unstartable | Scan_Canceled "'b option" | Scan_Failed "'b option" | Scan_Done 'b

record 'b review_env =
  ve_platform :: "'b platform"
  ve_sha :: "string \<Rightarrow> string"
  ve_format :: "utc_instant \<Rightarrow> string"
  ve_exec :: "'b executor"
  ve_acquire :: "acquire_request \<Rightarrow> 'b option \<Rightarrow> int \<times> bool \<times> 'b tree option"
  ve_materialize :: "'b tree option \<Rightarrow> 'b tree \<Rightarrow> 'b tree option \<Rightarrow> int \<times> bool \<times> 'b tree option"
  ve_scan :: "'b \<Rightarrow> 'b scan_run"
  ve_json :: "'b \<Rightarrow> json option"
  ve_swhid :: "'b tree \<Rightarrow> string"
  ve_start :: "utc_instant \<times> int"
  ve_settle :: "utc_instant \<times> int"
  ve_halt :: "utc_instant \<times> int"
  ve_canceled :: "nat \<Rightarrow> bool"

definition review_timing :: "'b review_env \<Rightarrow> operation_timing" where
  "review_timing env =
     timer_finish (timer_start (fst (ve_start env)) (snd (ve_start env)))
       (fst (ve_settle env)) (snd (ve_settle env))"

type_synonym 'b ended = "(ree_error + action_result) \<times> 'b review_dir"

section \<open>The evidence store\<close>

definition put_document :: "string list \<Rightarrow> review_document \<Rightarrow> 'b review_dir \<Rightarrow> 'b review_dir" where
  "put_document path doc v = v\<lparr>vd_evidence := AList.update path doc (vd_evidence v)\<rparr>"

definition write_review_evidence ::
  "string \<Rightarrow> string \<Rightarrow> string \<Rightarrow> review_document \<Rightarrow> review_document \<Rightarrow> 'b review_dir \<Rightarrow> 'b review_dir" where
  "write_review_evidence run_id operation step receipt comparison v =
     put_document [''comparisons'', step @ ''.json''] comparison
       (put_document [''receipts'', operation @ ''.json''] receipt
         (put_document [''runs'', run_id @ ''.receipt.json''] receipt v))"

text \<open>\<open>PurePosixPath("experiments") / name\<close>: a rooted name replaces what it is joined to.\<close>

definition experiment_document :: "string \<Rightarrow> string \<Rightarrow> ree_error + string list" where
  "experiment_document directory slug =
     (let name = slug @ ''.json''
      in resolve_under [directory] (if hd name = CHR ''/'' then name else ''experiments/'' @ name))"

definition write_experiment_evidence ::
  "review_experiment_receipt \<Rightarrow> experiment_comparison \<Rightarrow> 'b review_dir \<Rightarrow> ree_error + 'b review_dir" where
  "write_experiment_evidence receipt comparison v =
     (let slug = experiment_slug (vxr_experiment_name receipt);
          doc = Experiment_Receipt_Doc receipt
      in bind_res (experiment_document ''receipts'' slug) (\<lambda>receipt_path.
         bind_res (experiment_document ''comparisons'' slug) (\<lambda>comparison_path.
         Inr (put_document comparison_path (Experiment_Comparison_Doc comparison)
           (put_document receipt_path doc
             (put_document [''runs'', rve_run_id receipt @ ''.receipt.json''] doc v))))))"

text \<open>\<open>load_reviews\<close>: the newest attempt first.\<close>

definition load_reviews :: "review_record list \<Rightarrow> review_record list" where
  "load_reviews records = sort_desc (\<lambda>r. (rr_created_at r, rr_review_id r)) records"

section \<open>Beginning and ending a step\<close>

text \<open>What \<open>UNREADABLE_DOCUMENT\<close> names: \<open>OSError\<close>, \<open>ValueError\<close> and their subclasses.\<close>

fun unreadable_document :: "ree_error \<Rightarrow> bool" where
  "unreadable_document (Value_Error _) = True"
| "unreadable_document (Precondition_Error _) = True"
| "unreadable_document (File_Not_Found _) = True"
| "unreadable_document (File_Exists _) = True"
| "unreadable_document (Os_Error _) = True"
| "unreadable_document Timeout_Error = True"
| "unreadable_document _ = False"

text \<open>\<open>Inl\<close> is what the handler ends with, before the step touched its directory.\<close>

definition require_ree_baseline ::
  "'b platform \<Rightarrow> 'b ree_dir \<Rightarrow> (ree_error + action_result) + ree" where
  "require_ree_baseline P d =
     (if \<not> manifest_exists d
      then Inl (Inr (action_failed Cat_Precondition ''This workbench holds no REE to review''))
      else case read_ree P d of
        Inr r \<Rightarrow> Inr r
      | Inl e \<Rightarrow>
          if unreadable_document e
          then Inl (Inr (action_failed Cat_Precondition ''The REE under review has unreadable metadata''))
          else Inl (Inl e))"

definition require_review_record ::
  "'b review_dir \<Rightarrow> string \<Rightarrow> (ree_error + action_result) + review_record" where
  "require_review_record v review_id =
     (case vd_record v of
        Some r \<Rightarrow> Inr r
      | None \<Rightarrow>
          Inl (Inr (action_failed Cat_Precondition (''No review attempt named '' @ review_id))))"

definition begin_review_step ::
  "'b review_env \<Rightarrow> 'b review_dir \<Rightarrow> review_record \<Rightarrow> review_step_key \<Rightarrow> review_record \<times> 'b review_dir" where
  "begin_review_step env v record step =
     (let started = with_step record step Rs_Running (ve_format env (fst (ve_start env))) None
      in (started, v\<lparr>vd_record := Some started\<rparr>))"

text \<open>The step that began, as its two exits see it.\<close>

record review_step =
  vs_review_id :: string
  vs_step :: review_step_key
  vs_record :: review_record

definition stop ::
  "'b review_env \<Rightarrow> review_step \<Rightarrow> 'b review_dir \<Rightarrow> review_status \<Rightarrow> string \<Rightarrow> 'b ended" where
  "stop env s v status message =
     (Inr (if status = Rs_Canceled
           then action_canceled\<lparr>ar_outputs := [(''review_id'', JStr (vs_review_id s))]\<rparr>
           else action_failed Cat_Precondition message),
      v\<lparr>vd_record := Some (with_step (vs_record s) (vs_step s) status
           (ve_format env (fst (ve_halt env))) (Some message))\<rparr>)"

definition settle :: "'b review_env \<Rightarrow> review_step \<Rightarrow> review_record \<Rightarrow> 'b review_dir \<Rightarrow> 'b review_dir" where
  "settle env s record v =
     v\<lparr>vd_record := Some (with_step record (vs_step s) Rs_Completed
         (ve_format env (fst (ve_settle env))) None)\<rparr>"

definition require_completed_step ::
  "'b review_env \<Rightarrow> review_step \<Rightarrow> 'b review_dir \<Rightarrow> review_step_key \<Rightarrow> string \<Rightarrow> 'b ended + unit" where
  "require_completed_step env s v needed message =
     (case step_state (vs_record s) needed of
        Some state \<Rightarrow>
          if st_status state \<noteq> Rs_Completed then Inl (stop env s v Rs_Failed message) else Inr ()
      | None \<Rightarrow> Inl (stop env s v Rs_Failed message))"

section \<open>The runtime an attempt certified\<close>

definition workspace_runtime_candidates :: "string \<Rightarrow> string list list" where
  "workspace_runtime_candidates runtime_path =
     (let parts = posix_parts runtime_path
      in if length parts = 2 \<and> hd parts = ''artifacts'' then [parts, tl parts] else [parts])"

definition workspace_runtime :: "'b tree \<Rightarrow> string \<Rightarrow> string list" where
  "workspace_runtime ws runtime_path =
     (let candidates = workspace_runtime_candidates runtime_path
      in case List.find (is_file_at ws) candidates of Some p \<Rightarrow> p | None \<Rightarrow> hd candidates)"

record certified_runtime =
  cf_basis :: evidence_basis
  cf_build_receipt :: review_build_receipt
  cf_runtime_path :: string
  cf_runtime_digest :: "string option"

definition require_certified_runtime ::
  "'b review_env \<Rightarrow> review_step \<Rightarrow> 'b review_dir \<Rightarrow> string \<Rightarrow> string \<Rightarrow> 'b ended + certified_runtime" where
  "require_certified_runtime env s v purpose retry_purpose =
     (case (attempt_basis (vs_record s), rr_build_receipt (vs_record s)) of
        (Some basis, Some build) \<Rightarrow>
          (case vd_workspace v of
             None \<Rightarrow> Inl (stop env s v Rs_Failed (''This attempt's workspace was reclaimed after the build; ''
               @ ''re-run the build review '' @ retry_purpose))
           | Some ws \<Rightarrow>
               let runtime_path = strip (vbr_runtime_path build);
                   runtime_digest = (if runtime_path = [] then None
                     else digest_file_if_exists (pf_digest (ve_platform env)) ws
                       (workspace_runtime ws runtime_path))
               in if runtime_path \<noteq> [] \<and> runtime_digest = None
                  then Inl (stop env s v Rs_Failed (''the certified runtime is no longer in this ''
                    @ ''attempt's workspace at '' @ runtime_path))
                  else if runtime_path \<noteq> [] \<and> runtime_digest \<noteq> Some (vbr_produced_runtime_digest build)
                  then Inl (stop env s v Rs_Failed (''the runtime at '' @ runtime_path @
                    '' is not the one this attempt certified; re-run the build review''))
                  else Inr \<lparr>cf_basis = basis, cf_build_receipt = build,
                    cf_runtime_path = runtime_path, cf_runtime_digest = runtime_digest\<rparr>)
      | _ \<Rightarrow> Inl (stop env s v Rs_Failed (''This attempt has recorded no runtime '' @ purpose)))"

section \<open>Running one of the author's runnables\<close>

record review_runnable_step =
  rn_step :: review_step_key
  rn_subject :: string
  rn_requires :: review_step_key
  rn_requires_message :: string
  rn_runtime_purpose :: string
  rn_runtime_retry_purpose :: string
  rn_admit :: "review_record \<Rightarrow> certified_runtime \<Rightarrow> string option"
  rn_select :: "ree_definition \<Rightarrow> ree_error + runnable_spec \<times> string"
  rn_unresolvable :: string
  rn_script_noun :: string

record 'b review_run =
  vr_ree :: ree
  vr_step :: review_step
  vr_dir :: "'b review_dir"
  vr_workspace :: "'b tree"
  vr_certified :: certified_runtime
  vr_runnable :: runnable_spec
  vr_label :: string
  vr_outcome :: experiment_run_outcome

text \<open>\<open>RunnableSpec(...)\<close>, whose paths are validated.\<close>

definition runnable_spec_of :: "string \<Rightarrow> string \<Rightarrow> string list \<Rightarrow> ree_error + runnable_spec" where
  "runnable_spec_of run verify outputs =
     bind_res (validate_relative_path run) (\<lambda>_.
     bind_res (if verify = [] then Inr () else validate_relative_path verify) (\<lambda>_.
     if \<exists>p \<in> set outputs. validate_relative_path p \<noteq> Inr ()
     then Inl (Value_Error ''invalid output path'')
     else Inr \<lparr>rs_run_script = run, rs_verify_script = verify, rs_output_paths = outputs\<rparr>))"

definition run_selected ::
  "'b review_env \<Rightarrow> review_runnable_step \<Rightarrow> ree \<Rightarrow> review_step \<Rightarrow> 'b review_dir \<Rightarrow>
     certified_runtime \<Rightarrow> runnable_spec \<Rightarrow> string \<Rightarrow> 'b ended + 'b review_run" where
  "run_selected env step r s v certified runnable label =
     (case vd_workspace v of
        None \<Rightarrow> Inl (stop env s v Rs_Failed (''the author baseline declares '' @ rn_script_noun step @
          '' that is not there: '' @ rs_run_script runnable))
      | Some ws \<Rightarrow>
          if \<not> is_file_at ws (posix_parts (rs_run_script runnable))
          then Inl (stop env s v Rs_Failed (''the author baseline declares '' @ rn_script_noun step @
            '' that is not there: '' @ rs_run_script runnable))
          else
            let (outcome, ws') = run_runnable (ve_exec env) ws runnable label;
                v = v\<lparr>vd_workspace := Some ws'\<rparr>
            in if eo_status outcome = Canceled \<or> ve_canceled env 1
               then Inl (stop env s v Rs_Canceled (rn_subject step @ '' was canceled''))
               else Inr \<lparr>vr_ree = r, vr_step = s, vr_dir = v, vr_workspace = ws',
                 vr_certified = certified, vr_runnable = runnable, vr_label = label,
                 vr_outcome = outcome\<rparr>)"

text \<open>What follows the certification: admission, selection and the run.\<close>

definition select_and_run ::
  "'b review_env \<Rightarrow> review_runnable_step \<Rightarrow> ree \<Rightarrow> review_step \<Rightarrow> 'b review_dir \<Rightarrow>
     certified_runtime \<Rightarrow> 'b ended + 'b review_run" where
  "select_and_run env step r s v certified =
     (case rn_admit step (vs_record s) certified of
        Some refusal \<Rightarrow> Inl (stop env s v Rs_Failed refusal)
      | None \<Rightarrow>
          (case rn_select step (sub_definition (ree_subject r)) of
             Inl (Value_Error m) \<Rightarrow> Inl (stop env s v Rs_Failed (rn_unresolvable step @ '': '' @ m))
           | Inl e \<Rightarrow> Inl (Inl e, v)
           | Inr (runnable, label) \<Rightarrow> run_selected env step r s v certified runnable label))"

definition run_begun_step ::
  "'b review_env \<Rightarrow> review_runnable_step \<Rightarrow> ree \<Rightarrow> review_step \<Rightarrow> 'b review_dir \<Rightarrow>
     'b ended + 'b review_run" where
  "run_begun_step env step r s v =
     (if ve_canceled env 0
      then Inl (stop env s v Rs_Canceled (''canceled before '' @ rn_subject step))
      else
        bind_res (require_completed_step env s v (rn_requires step) (rn_requires_message step)) (\<lambda>_.
        bind_res (require_certified_runtime env s v (rn_runtime_purpose step)
            (rn_runtime_retry_purpose step)) (select_and_run env step r s v)))"

text \<open>The preamble of the steps that join an attempt: its layout, the baseline, its record.\<close>

definition join_attempt ::
  "'b platform \<Rightarrow> string \<Rightarrow> 'b ree_dir \<Rightarrow> 'b review_dir \<Rightarrow> 'b ended + ree \<times> review_record" where
  "join_attempt P review_id d v =
     (case bind_res (map_sum Inl id (validate_path_segment ''review_id'' review_id)) (\<lambda>_.
        bind_res (require_ree_baseline P d) (\<lambda>r.
        bind_res (require_review_record v review_id) (\<lambda>record. Inr (r, record)))) of
        Inl res \<Rightarrow> Inl (res, v)
      | Inr joined \<Rightarrow> Inr joined)"

definition open_review_run ::
  "'b review_env \<Rightarrow> review_runnable_step \<Rightarrow> string \<Rightarrow> 'b ree_dir \<Rightarrow> 'b review_dir \<Rightarrow>
     'b ended + 'b review_run" where
  "open_review_run env step review_id d v =
     bind_res (join_attempt (ve_platform env) review_id d v) (\<lambda>(r, record).
       let (started, v) = begin_review_step env v record (rn_step step)
       in run_begun_step env step r
            \<lparr>vs_review_id = review_id, vs_step = rn_step step, vs_record = started\<rparr> v)"

section \<open>Activation\<close>

definition text_of :: "string option \<Rightarrow> string" where
  "text_of s = (case s of None \<Rightarrow> [] | Some t \<Rightarrow> t)"

definition select_activation :: "ree_definition \<Rightarrow> ree_error + runnable_spec \<times> string" where
  "select_activation definition =
     (case def_test_activation definition of
        None \<Rightarrow> Inl (Value_Error ''no activation test is declared'')
      | Some a \<Rightarrow>
          bind_res (runnable_spec_of (act_run_script_path a) (text_of (act_verify_script_path a)) [])
            (\<lambda>spec. Inr (spec, ''activation'')))"

definition admit_activation :: "review_record \<Rightarrow> certified_runtime \<Rightarrow> string option" where
  "admit_activation record certified =
     (if cf_runtime_path certified = []
      then Some ''The certified build recorded no runtime artifact to activate'' else None)"

definition activation_step :: review_runnable_step where
  "activation_step =
     \<lparr>rn_step = Activation_Step, rn_subject = ''activation'', rn_requires = Build_Step,
      rn_requires_message = ''Certify the runtime before probing whether it is inhabitable'',
      rn_runtime_purpose = ''to activate'', rn_runtime_retry_purpose = ''to activate'',
      rn_admit = admit_activation, rn_select = select_activation,
      rn_unresolvable = ''the author baseline cannot be activated'',
      rn_script_noun = ''an activation script''\<rparr>"

text \<open>The digest and the path of a script the runnable may not have.\<close>

definition script_digest :: "'b review_env \<Rightarrow> 'b tree \<Rightarrow> string \<Rightarrow> string option" where
  "script_digest env ws script =
     digest_file_if_exists (pf_digest (ve_platform env)) ws (posix_parts script)"

definition review_activation_receipt_of ::
  "'b review_env \<Rightarrow> string \<Rightarrow> 'b review_run \<Rightarrow> string \<Rightarrow> string \<Rightarrow> review_activation_receipt" where
  "review_activation_receipt_of env run_id run run_digest runtime_digest =
     (let spec = vr_runnable run; out = eo_run_outputs (vr_outcome run);
          verify = rs_verify_script spec
      in review_envelope.extend
           (review_receipt_envelope run_id (review_timing env) (eo_status (vr_outcome run) = Succeeded))
           (review_activation_receipt.fields (rs_run_script spec) run_digest (nonempty verify)
             (if verify = [] then None else script_digest env (vr_workspace run) verify)
             (ro_exit_code out) (ro_verify_exit_code out)
             (cf_runtime_path (vr_certified run)) runtime_digest))"

definition handle_review_activation_test ::
  "'b review_env \<Rightarrow> string \<Rightarrow> string \<Rightarrow> 'b ree_dir \<Rightarrow> 'b review_dir \<Rightarrow> 'b ended" where
  "handle_review_activation_test env review_id run_id d v =
     (case open_review_run env activation_step review_id d v of
        Inl ended \<Rightarrow> ended
      | Inr run \<Rightarrow>
          let s = vr_step run; v = vr_dir run; certified = vr_certified run;
              out = eo_run_outputs (vr_outcome run);
              verdict = (if eo_status (vr_outcome run) = Succeeded then Av_Passed else Av_Failed)
          in case script_digest env (vr_workspace run) (rs_run_script (vr_runnable run)) of
               None \<Rightarrow> stop env s v Rs_Failed ''the activation script disappeared after it ran''
             | Some run_digest \<Rightarrow>
                 (case cf_runtime_digest certified of
                    None \<Rightarrow> stop env s v Rs_Failed ''the certified runtime disappeared after activation''
                  | Some runtime_digest \<Rightarrow>
                      let receipt = review_activation_receipt_of env run_id run run_digest runtime_digest;
                          outcome = \<lparr>ao_basis = cf_basis certified, ao_verdict = verdict,
                            ao_runtime_digest = Some runtime_digest,
                            ao_run_exit_code = ro_exit_code out,
                            ao_verify_exit_code = ro_verify_exit_code out\<rparr>
                      in if \<not> valid_review_activation receipt
                         then (Inl (Value_Error ''receipt does not fit the model''), v)
                         else (Inr (action_succeeded []),
                           settle env s ((vs_record s)\<lparr>rr_activation_receipt := Some receipt,
                               rr_activation_outcome := Some outcome\<rparr>)
                             (write_review_evidence run_id ''test_activation'' ''activation''
                               (Activation_Receipt_Doc receipt) (Activation_Outcome_Doc outcome) v))))"

section \<open>Experiments\<close>

definition admit_experiment :: "review_record \<Rightarrow> certified_runtime \<Rightarrow> string option" where
  "admit_experiment record certified =
     (case rr_activation_outcome record of
        Some outcome \<Rightarrow>
          if ao_verdict outcome \<noteq> Av_Passed
          then Some ''This attempt's runtime would not come up; its results cannot be reproduced in it''
          else None
      | None \<Rightarrow> Some ''This attempt's runtime would not come up; its results cannot be reproduced in it'')"

definition select_experiment :: "string \<Rightarrow> ree_definition \<Rightarrow> ree_error + runnable_spec \<times> string" where
  "select_experiment name definition =
     (case List.find (\<lambda>e. exp_name e = name) (def_experiments definition) of
        None \<Rightarrow> Inl (Value_Error (''no experiment named '' @ name @ '' is declared''))
      | Some e \<Rightarrow>
          bind_res (runnable_spec_of (exp_run_script_path e) (text_of (exp_verify_script_path e))
              (exp_output_paths e))
            (\<lambda>spec. Inr (spec, exp_name e)))"

definition experiment_step :: "string \<Rightarrow> review_runnable_step" where
  "experiment_step name =
     \<lparr>rn_step = Experiments_Step, rn_subject = ''the experiment'', rn_requires = Activation_Step,
      rn_requires_message = ''Probe the runtime before reproducing results in it'',
      rn_runtime_purpose = ''to run experiments in'',
      rn_runtime_retry_purpose = ''to reproduce results'',
      rn_admit = admit_experiment, rn_select = select_experiment name,
      rn_unresolvable = ''the author baseline cannot run this experiment'',
      rn_script_noun = ''a run script''\<rparr>"

text \<open>\<open>_certify\<close>: the author's receipt of the same name is the baseline.\<close>

definition author_claim :: "ree \<Rightarrow> string \<Rightarrow> experiment_claim" where
  "author_claim r name =
     (case map_of (rcp_experiments (sub_receipts (ree_subject r))) name of
        None \<Rightarrow> \<lparr>cl_verify_script_digest = None, cl_verify_exit_code = None, cl_output_digest = None\<rparr>
      | Some a \<Rightarrow> \<lparr>cl_verify_script_digest = rer_verify_script_digest a,
          cl_verify_exit_code = rer_verify_exit_code a,
          cl_output_digest = rer_produced_output_digest a\<rparr>)"

definition certify_experiment ::
  "'b review_env \<Rightarrow> 'b ree_dir \<Rightarrow> 'b review_run \<Rightarrow> ree_error + experiment_comparison" where
  "certify_experiment env d run =
     (let spec = vr_runnable run; out = eo_run_outputs (vr_outcome run);
          verify = rs_verify_script spec
      in bind_res (read_ree (ve_platform env) d) (\<lambda>r.
         Inr (compare_experiment_results (vr_label run) (cf_basis (vr_certified run)) verify
           (author_claim r (vr_label run))
           \<lparr>cl_verify_script_digest =
              (if verify = [] then None else script_digest env (vr_workspace run) verify),
            cl_verify_exit_code = ro_verify_exit_code out,
            cl_output_digest = digest_output_paths (ve_sha env) (pf_digest (ve_platform env))
              (vr_workspace run) (rs_output_paths spec)\<rparr>
           (ro_exit_code out) (cf_runtime_digest (vr_certified run)))))"

definition review_experiment_receipt_of ::
  "'b review_env \<Rightarrow> string \<Rightarrow> 'b review_run \<Rightarrow> string \<Rightarrow> experiment_comparison \<Rightarrow>
     review_experiment_receipt" where
  "review_experiment_receipt_of env run_id run run_digest comparison =
     (let spec = vr_runnable run; out = eo_run_outputs (vr_outcome run);
          verify = rs_verify_script spec; certified = vr_certified run
      in review_envelope.extend
           (review_receipt_envelope run_id (review_timing env) (eo_status (vr_outcome run) = Succeeded))
           (review_experiment_receipt.fields (vr_label run) (rs_run_script spec) run_digest
             (nonempty verify)
             (if verify = [] then None else script_digest env (vr_workspace run) verify)
             (ro_exit_code out) (ro_verify_exit_code out)
             (nonempty (cf_runtime_path certified)) (cf_runtime_digest certified)
             (xc_observed_output_digest comparison)))"

definition handle_review_run_experiment ::
  "'b review_env \<Rightarrow> string \<Rightarrow> string \<Rightarrow> string \<Rightarrow> 'b ree_dir \<Rightarrow> 'b review_dir \<Rightarrow> 'b ended" where
  "handle_review_run_experiment env review_id name run_id d v =
     (case open_review_run env (experiment_step name) review_id d v of
        Inl ended \<Rightarrow> ended
      | Inr run \<Rightarrow>
          let s = vr_step run; v = vr_dir run
          in case certify_experiment env d run of
               Inl e \<Rightarrow> (Inl e, v)
             | Inr comparison \<Rightarrow>
                 (case script_digest env (vr_workspace run) (rs_run_script (vr_runnable run)) of
                    None \<Rightarrow> stop env s v Rs_Failed ''the experiment run script disappeared after it ran''
                  | Some run_digest \<Rightarrow>
                      let receipt = review_experiment_receipt_of env run_id run run_digest comparison
                      in if \<not> valid_review_experiment receipt
                         then (Inl (Value_Error ''receipt does not fit the model''), v)
                         else case write_experiment_evidence receipt comparison v of
                           Inl e \<Rightarrow> (Inl e,
                             put_document [''runs'', run_id @ ''.receipt.json'']
                               (Experiment_Receipt_Doc receipt) v)
                         | Inr v \<Rightarrow> (Inr (action_succeeded []),
                             settle env s (with_experiment (vs_record s) receipt comparison) v)))"

section \<open>Source\<close>

definition has_acquirable_origin :: "source_definition option \<Rightarrow> bool" where
  "has_acquirable_origin source =
     (case source of
        None \<Rightarrow> False
      | Some s \<Rightarrow> src_origin_url s \<notin> {None, Some []} \<and> src_source_type s \<in> {Git, Tarball, Zip})"

definition source_bases :: "ree \<Rightarrow> 'b ree_dir \<Rightarrow> evidence_basis set" where
  "source_bases r d =
     (if has_acquirable_origin (def_source (sub_definition (ree_subject r))) then {Independent} else {}) \<union>
     (if rd_snapshot d \<noteq> None then {Bundled} else {})"

definition source_basis_refusal :: "review_basis \<Rightarrow> string" where
  "source_basis_refusal requested =
     (case requested of
        Requested_Basis Independent \<Rightarrow> ''The author baseline has no independently acquirable source origin''
      | Requested_Basis Bundled \<Rightarrow> ''This REE carries no source snapshot to reproduce from''
      | Auto_Basis \<Rightarrow> ''The author baseline has neither an acquirable source origin nor a bundled snapshot'')"

text \<open>The SWHID the author observed, empty when none.\<close>

definition author_swhid :: "ree \<Rightarrow> string" where
  "author_swhid r =
     text_of (Option.bind (rcp_source (sub_receipts (ree_subject r))) asr_observed_swhid)"

definition stage_acquisition ::
  "'b ree_dir \<Rightarrow> ree \<Rightarrow> evidence_basis \<Rightarrow> 'b review_dir \<Rightarrow> ree_error + acquire_request \<times> 'b review_dir" where
  "stage_acquisition d r basis v =
     (let v = v\<lparr>vd_upstream := None\<rparr>
      in if basis = Bundled
         then Inr (\<lparr>aq_origin_url = [], aq_source_type = No_Type, aq_revision = [],
             aq_swhid = author_swhid r\<rparr>, v\<lparr>vd_snapshot := rd_snapshot d\<rparr>)
         else case def_source (sub_definition (ree_subject r)) of
           None \<Rightarrow> Inl (Value_Error ''independent source acquisition requires a source definition'')
         | Some source \<Rightarrow>
             Inr (\<lparr>aq_origin_url = text_of (src_origin_url source),
                 aq_source_type = src_source_type source,
                 aq_revision = text_of (src_requested_ref source), aq_swhid = author_swhid r\<rparr>,
               v\<lparr>vd_snapshot := None\<rparr>))"

definition review_source_receipt_of ::
  "'b review_env \<Rightarrow> string \<Rightarrow> ree \<Rightarrow> evidence_basis \<Rightarrow> source_comparison \<Rightarrow> review_source_receipt" where
  "review_source_receipt_of env run_id r basis comparison =
     (let fetched = (if basis = Independent then def_source (sub_definition (ree_subject r)) else None)
      in review_envelope.extend (review_receipt_envelope run_id (review_timing env) True)
           (review_source_receipt.fields (Option.bind fetched src_origin_url)
             (case fetched of None \<Rightarrow> No_Type | Some s \<Rightarrow> src_source_type s)
             (Option.bind fetched src_requested_ref)
             (sc_expected_swhid comparison) (sc_observed_swhid comparison)))"

text \<open>The acquisition once its basis is settled.\<close>

definition acquire_and_compare ::
  "'b review_env \<Rightarrow> review_step \<Rightarrow> string \<Rightarrow> ree \<Rightarrow> evidence_basis \<Rightarrow> 'b ree_dir \<Rightarrow> 'b review_dir \<Rightarrow> 'b ended" where
  "acquire_and_compare env s run_id r basis d v =
     (case stage_acquisition d r basis v of
        Inl e \<Rightarrow> (Inl e, v)
      | Inr (request, v) \<Rightarrow>
          let (returncode, canceled, upstream) = ve_acquire env request (vd_snapshot v);
              v = v\<lparr>vd_upstream := upstream\<rparr>
          in if canceled \<or> ve_canceled env 1
             then stop env s v Rs_Canceled ''source acquisition canceled''
             else if returncode \<noteq> 0
             then stop env s v Rs_Failed ''acquire script exited with a failure''
             else case upstream of
               None \<Rightarrow> (Inl (Os_Error ENOTDIR), v)
             | Some tree \<Rightarrow>
                 let comparison = compare_source_swhids (author_swhid r) (ve_swhid env tree) basis;
                     receipt = review_source_receipt_of env run_id r basis comparison
                 in if \<not> valid_review_source receipt
                    then (Inl (Value_Error ''receipt does not fit the model''), v)
                    else (Inr (action_succeeded []),
                      settle env s ((vs_record s)\<lparr>rr_source_receipt := Some receipt,
                          rr_source_comparison := Some comparison\<rparr>)
                        (write_review_evidence run_id ''acquire_source'' ''source''
                          (Source_Receipt_Doc receipt) (Source_Comparison_Doc comparison) v)))"

definition handle_review_acquire_source ::
  "'b review_env \<Rightarrow> string \<Rightarrow> review_basis \<Rightarrow> string \<Rightarrow> 'b ree_dir \<Rightarrow> 'b review_dir \<Rightarrow> 'b ended" where
  "handle_review_acquire_source env review_id requested run_id d v =
     (case validate_path_segment ''review_id'' review_id of
        Inl e \<Rightarrow> (Inl e, v)
      | Inr _ \<Rightarrow>
     (case require_ree_baseline (ve_platform env) d of
        Inl ended \<Rightarrow> (ended, v)
      | Inr r \<Rightarrow>
          let record = new_review_record review_id (ve_format env (fst (ve_start env)));
              (started, v) = begin_review_step env v record Source_Step;
              s = \<lparr>vs_review_id = review_id, vs_step = Source_Step, vs_record = started\<rparr>
          in if ve_canceled env 0
             then stop env s v Rs_Canceled ''canceled before source acquisition''
             else case resolve_basis requested (source_bases r d) of
               None \<Rightarrow> stop env s v Rs_Failed (source_basis_refusal requested)
             | Some basis \<Rightarrow> acquire_and_compare env s run_id r basis d v))"

section \<open>Runtime\<close>

text \<open>\<open>scan.py\<close>: the archive suffixes and the version the document records.\<close>

definition is_runtime_archive :: "string \<Rightarrow> bool" where
  "is_runtime_archive path =
     (\<exists>ending \<in> set [''.tar'', ''.tar.gz'', ''.tgz'']. suffix ending (lower path))"

fun falsy :: "json \<Rightarrow> bool" where
  "falsy JNull = True"
| "falsy (JBool b) = (\<not> b)"
| "falsy (JInt i) = (i = 0)"
| "falsy (JFloat x) = (x = 0)"
| "falsy (JStr s) = (s = [])"
| "falsy (JList l) = (l = [])"
| "falsy (JObj m) = (m = [])"

definition syft_version :: "json \<Rightarrow> string option" where
  "syft_version tools =
     (let entries = (case tools of JObj t \<Rightarrow> map_of t ''components'' | t \<Rightarrow> Some t)
      in case entries of
           Some (JList es) \<Rightarrow>
             (case List.find (\<lambda>e. case e of JObj m \<Rightarrow> map_of m ''name'' = Some (JStr ''syft'') | _ \<Rightarrow> False) es of
                Some (JObj m) \<Rightarrow> (case map_of m ''version'' of Some (JStr x) \<Rightarrow> Some x | _ \<Rightarrow> None)
              | _ \<Rightarrow> None)
         | _ \<Rightarrow> None)"

definition read_tool_version :: "json option \<Rightarrow> ree_error + string option" where
  "read_tool_version document =
     (case document of
        Some (JObj data) \<Rightarrow>
          (case map_of data ''metadata'' of
             None \<Rightarrow> Inr None
           | Some metadata \<Rightarrow>
               if falsy metadata then Inr None
               else case metadata of
                 JObj m \<Rightarrow> Inr (Option.bind (map_of m ''tools'') syft_version)
               | _ \<Rightarrow> Inl (Runtime_Error ''AttributeError''))
      | _ \<Rightarrow> Inr None)"

definition author_runtime_digest :: "build_runtime_receipt option \<Rightarrow> string \<Rightarrow> string option" where
  "author_runtime_digest build runtime_path =
     (case build of
        Some b \<Rightarrow> if brr_runtime_path b = runtime_path then Some (brr_produced_runtime_digest b) else None
      | None \<Rightarrow> None)"

definition author_packages :: "'b review_env \<Rightarrow> 'b ree_dir \<Rightarrow> observed_package list" where
  "author_packages env d =
     (case map_of (rd_artifacts d) [''sbom.json''] of
        None \<Rightarrow> []
      | Some document \<Rightarrow> parse_cyclonedx (ve_json env document))"

text \<open>
  What the scan of the runtime in hand settles: its document, packages and tool version; nothing
  when it was canceled.
\<close>

definition scan_runtime ::
  "'b review_env \<Rightarrow> string \<Rightarrow> 'b \<Rightarrow> 'b review_dir \<Rightarrow>
     ree_error + (observed_package list \<times> string option) option \<times> 'b review_dir" where
  "scan_runtime env runtime_path runtime v =
     (if \<not> is_runtime_archive runtime_path then Inr (Some ([], None), v)
      else
        let v = v\<lparr>vd_sbom := None\<rparr>
        in case ve_scan env runtime of
             Scan_Unstartable \<Rightarrow> Inr (Some ([], None), v)
           | Scan_Canceled left \<Rightarrow> Inr (None, v\<lparr>vd_sbom := left\<rparr>)
           | Scan_Failed left \<Rightarrow> Inr (Some ([], None), v\<lparr>vd_sbom := left\<rparr>)
           | Scan_Done document \<Rightarrow>
               bind_res (read_tool_version (ve_json env document)) (\<lambda>version.
               Inr (Some (parse_cyclonedx (ve_json env document), version),
                 v\<lparr>vd_sbom := Some document\<rparr>)))"

definition certify_build ::
  "'b review_env \<Rightarrow> ree \<Rightarrow> 'b ree_dir \<Rightarrow> string \<Rightarrow> 'b \<Rightarrow> evidence_basis \<Rightarrow> 'b review_dir \<Rightarrow>
     ree_error + build_comparison option \<times> 'b review_dir" where
  "certify_build env r d runtime_path runtime basis v =
     (let receipts = sub_receipts (ree_subject r); dig = pf_digest (ve_platform env)
      in bind_res (scan_runtime env runtime_path runtime v) (\<lambda>(scanned, v).
         Inr (map_option (\<lambda>(packages, version).
             compare_build_runtimes (author_runtime_digest (rcp_build receipts) runtime_path)
               (Some (dig runtime)) (author_packages env d) packages
               (map_option gsr_sbom_digest (rcp_sbom receipts)) (map_option dig (vd_sbom v))
               version basis) scanned, v)))"

definition build_bases :: "'b ree_dir \<Rightarrow> 'b review_dir \<Rightarrow> bool \<Rightarrow> evidence_basis set" where
  "build_bases d v has_bundled_runtime =
     (if is_file_at (rd_overlay d) (posix_parts reserved_build_script) \<or>
         (case vd_upstream v of None \<Rightarrow> False
          | Some t \<Rightarrow> is_file_at t (posix_parts reserved_build_script)) then {Independent} else {}) \<union>
     (if has_bundled_runtime then {Bundled} else {})"

definition build_basis_refusal :: "review_basis \<Rightarrow> string" where
  "build_basis_refusal requested =
     (case requested of
        Requested_Basis Independent \<Rightarrow> ''The author baseline carries no '' @ reserved_build_script @
          '' to rebuild the runtime with''
      | Requested_Basis Bundled \<Rightarrow> ''This REE ships no runtime artifact to certify''
      | Auto_Basis \<Rightarrow> ''The author baseline has neither a '' @ reserved_build_script @
          '' nor a bundled runtime artifact'')"

text \<open>\<open>layout.workspace\<close> as a tree: a missing directory holds no file.\<close>

definition workspace_tree :: "'b review_dir \<Rightarrow> 'b tree" where
  "workspace_tree v = (case vd_workspace v of None \<Rightarrow> [] | Some t \<Rightarrow> t)"

text \<open>
  Putting a runtime into the workspace, staged or built: where it is, the digest of the script
  that built it, and the directory left; or how the step ends.
\<close>

definition obtain_runtime ::
  "'b review_env \<Rightarrow> review_step \<Rightarrow> string \<Rightarrow> evidence_basis \<Rightarrow> 'b option \<Rightarrow> 'b review_dir \<Rightarrow>
     'b ended + string list \<times> string option \<times> 'b review_dir" where
  "obtain_runtime env s runtime_path basis bundled v =
     (case (basis, bundled) of
        (Bundled, Some shipped) \<Rightarrow>
          let target = last (workspace_runtime_candidates runtime_path)
          in (case write_atomic (workspace_tree v) target shipped of
                Inl _ \<Rightarrow> Inl (stop env s v Rs_Failed ''could not stage the bundled runtime'')
              | Inr ws \<Rightarrow> Inr (target, None, v\<lparr>vd_workspace := Some ws\<rparr>))
      | _ \<Rightarrow>
          let (outcome, ws) = run_workspace_script (ve_exec env) (workspace_tree v) reserved_build_script;
              v = v\<lparr>vd_workspace := map_option (\<lambda>_. ws) (vd_workspace v)\<rparr>
          in if so_status outcome = Canceled \<or> ve_canceled env 2
             then Inl (stop env s v Rs_Canceled ''build canceled'')
             else if so_status outcome \<noteq> Succeeded
             then Inl (stop env s v Rs_Failed ''build script exited with a failure'')
             else Inr (workspace_runtime ws runtime_path,
               digest_file_if_exists (pf_digest (ve_platform env)) ws (posix_parts reserved_build_script),
               v))"

definition review_build_receipt_of ::
  "'b review_env \<Rightarrow> string \<Rightarrow> evidence_basis \<Rightarrow> string option \<Rightarrow> string \<Rightarrow> string \<Rightarrow> review_build_receipt" where
  "review_build_receipt_of env run_id basis built_with runtime_path produced =
     review_envelope.extend (review_receipt_envelope run_id (review_timing env) True)
       (review_build_receipt.fields
         (if basis = Independent then Some reserved_build_script else None)
         built_with runtime_path produced)"

text \<open>\<open>_prune_rebuilt_tree\<close>, for \<open>prune_workspace\<close>.\<close>

definition prune_rebuilt_tree :: "'b review_dir \<Rightarrow> 'b review_dir" where
  "prune_rebuilt_tree v = v\<lparr>vd_workspace := None, vd_overlay := []\<rparr>"

text \<open>Certifying the runtime, however it got there, and settling the step.\<close>

definition certify_and_settle ::
  "'b review_env \<Rightarrow> review_step \<Rightarrow> string \<Rightarrow> bool \<Rightarrow> ree \<Rightarrow> 'b ree_dir \<Rightarrow> string \<Rightarrow> evidence_basis \<Rightarrow>
     string list \<Rightarrow> string option \<Rightarrow> 'b review_dir \<Rightarrow> 'b ended" where
  "certify_and_settle env s run_id prune r d runtime_path basis place built_with v =
     (case map_of (workspace_tree v) place of
        None \<Rightarrow> stop env s v Rs_Failed (''the build produced no runtime artifact at '' @ runtime_path)
      | Some runtime \<Rightarrow>
          (case certify_build env r d runtime_path runtime basis v of
             Inl e \<Rightarrow> (Inl e, v)
           | Inr (None, v) \<Rightarrow> stop env s v Rs_Canceled ''certification canceled''
           | Inr (Some comparison, v) \<Rightarrow>
               let receipt = review_build_receipt_of env run_id basis built_with runtime_path
                     (pf_digest (ve_platform env) runtime)
               in if \<not> valid_review_build receipt
                  then (Inl (Value_Error ''receipt does not fit the model''), v)
                  else
                    let v = settle env s ((vs_record s)\<lparr>rr_build_receipt := Some receipt,
                            rr_build_comparison := Some comparison\<rparr>)
                          (write_review_evidence run_id ''build_runtime'' ''build''
                            (Build_Receipt_Doc receipt) (Build_Comparison_Doc comparison) v)
                    in (Inr (action_succeeded []), if prune then prune_rebuilt_tree v else v)))"

text \<open>Assembling the workspace from the reviewer's source and the author's recipe.\<close>

definition materialize_review ::
  "'b review_env \<Rightarrow> review_step \<Rightarrow> 'b ree_dir \<Rightarrow> 'b review_dir \<Rightarrow> 'b ended + 'b review_dir" where
  "materialize_review env s d v =
     (let v = v\<lparr>vd_overlay := rd_overlay d\<rparr>;
          (returncode, canceled, ws) = ve_materialize env (vd_upstream v) (vd_overlay v) (vd_workspace v);
          v = v\<lparr>vd_workspace := ws\<rparr>
      in if canceled \<or> ve_canceled env 1 then Inl (stop env s v Rs_Canceled ''materialization canceled'')
         else if returncode \<noteq> 0
         then Inl (stop env s v Rs_Failed ''materialize script exited with a failure'')
         else Inr v)"

text \<open>The build once its step began.\<close>

definition build_begun ::
  "'b review_env \<Rightarrow> review_step \<Rightarrow> review_basis \<Rightarrow> bool \<Rightarrow> string \<Rightarrow> ree \<Rightarrow> 'b ree_dir \<Rightarrow> 'b review_dir \<Rightarrow>
     'b ended" where
  "build_begun env s requested prune run_id r d v =
     (if ve_canceled env 0 then stop env s v Rs_Canceled ''canceled before build''
      else case require_completed_step env s v Source_Step
          ''Reproduce the source before certifying the runtime'' of
        Inl ended \<Rightarrow> ended
      | Inr _ \<Rightarrow>
          (case Option.bind (def_build_runtime (sub_definition (ree_subject r))) bld_runtime_path of
             None \<Rightarrow> stop env s v Rs_Failed ''The author baseline declares no runtime artifact to certify''
           | Some runtime_path \<Rightarrow>
               (case author_artifact d (Some runtime_path) of
                  Inl e \<Rightarrow> (Inl e, v)
                | Inr bundled \<Rightarrow>
                    (case resolve_basis requested (build_bases d v (bundled \<noteq> None)) of
                       None \<Rightarrow> stop env s v Rs_Failed (build_basis_refusal requested)
                     | Some basis \<Rightarrow>
                         (case bind_res (materialize_review env s d v)
                             (obtain_runtime env s runtime_path basis bundled) of
                            Inl ended \<Rightarrow> ended
                          | Inr (place, built_with, v) \<Rightarrow>
                              certify_and_settle env s run_id prune r d runtime_path basis
                                place built_with v)))))"

definition handle_review_build_runtime ::
  "'b review_env \<Rightarrow> string \<Rightarrow> review_basis \<Rightarrow> bool \<Rightarrow> string \<Rightarrow> 'b ree_dir \<Rightarrow> 'b review_dir \<Rightarrow> 'b ended" where
  "handle_review_build_runtime env review_id requested prune run_id d v =
     (case join_attempt (ve_platform env) review_id d v of
        Inl ended \<Rightarrow> ended
      | Inr (r, record) \<Rightarrow>
          let (started, v) = begin_review_step env v record Build_Step
          in build_begun env \<lparr>vs_review_id = review_id, vs_step = Build_Step, vs_record = started\<rparr>
               requested prune run_id r d v)"

text \<open>The four steps as one command, routed as the dispatcher routes them.\<close>

datatype review_command =
    Review_Acquire_Source review_basis
  | Review_Build_Runtime review_basis bool
  | Review_Activation_Test
  | Review_Run_Experiment string

fun command_step :: "review_command \<Rightarrow> review_step_key" where
  "command_step (Review_Acquire_Source _) = Source_Step"
| "command_step (Review_Build_Runtime _ _) = Build_Step"
| "command_step Review_Activation_Test = Activation_Step"
| "command_step (Review_Run_Experiment _) = Experiments_Step"

fun handle_review ::
  "'b review_env \<Rightarrow> string \<Rightarrow> review_command \<Rightarrow> string \<Rightarrow> 'b ree_dir \<Rightarrow> 'b review_dir \<Rightarrow> 'b ended" where
  "handle_review env i (Review_Acquire_Source basis) run_id d v =
     handle_review_acquire_source env i basis run_id d v"
| "handle_review env i (Review_Build_Runtime basis prune) run_id d v =
     handle_review_build_runtime env i basis prune run_id d v"
| "handle_review env i Review_Activation_Test run_id d v =
     handle_review_activation_test env i run_id d v"
| "handle_review env i (Review_Run_Experiment name) run_id d v =
     handle_review_run_experiment env i name run_id d v"

end
