(* ===== verification/Ree_Review_Facts.thy ===== *)
theory Ree_Review_Facts
  imports Ree_Review_Steps
begin

text \<open>
  What the reviewer's handlers do to an attempt's record: every way a step ends, as an inductive
  relation the handlers refine, and the invariants of the attempts they lead to.
\<close>

section \<open>Ways a step ends\<close>

definition completed :: "review_record \<Rightarrow> review_step_key \<Rightarrow> bool" where
  "completed r k \<longleftrightarrow> map_option st_status (step_state r k) = Some Rs_Completed"

text \<open>The evidence a completed step adds to the started record, and what it rests on.\<close>

fun gathered :: "review_step_key \<Rightarrow> review_record \<Rightarrow> review_record \<Rightarrow> bool" where
  "gathered Source_Step s r \<longleftrightarrow>
     (\<exists>a b. r = s\<lparr>rr_source_receipt := Some a, rr_source_comparison := Some b\<rparr>)"
| "gathered Build_Step s r \<longleftrightarrow> completed s Source_Step \<and>
     (\<exists>a b. r = s\<lparr>rr_build_receipt := Some a, rr_build_comparison := Some b\<rparr>)"
| "gathered Activation_Step s r \<longleftrightarrow> completed s Build_Step \<and>
     (\<exists>a b build. r = s\<lparr>rr_activation_receipt := Some a, rr_activation_outcome := Some b\<rparr> \<and>
        rr_build_receipt s = Some build \<and> attempt_basis s = Some (ao_basis b) \<and>
        ao_runtime_digest b = Some (vbr_produced_runtime_digest build))"
| "gathered Experiments_Step s r \<longleftrightarrow> completed s Activation_Step \<and>
     (\<exists>a b build outcome. r = with_experiment s a b \<and> vxr_experiment_name a = xc_experiment_name b \<and>
        rr_build_receipt s = Some build \<and> attempt_basis s = Some (xc_basis b) \<and>
        xc_runtime_digest b \<in> {None, Some (vbr_produced_runtime_digest build)} \<and>
        rr_activation_outcome s = Some outcome \<and> ao_verdict outcome = Av_Passed)"

inductive step_halt :: "review_step_key \<Rightarrow> review_record \<Rightarrow> 'b ended \<Rightarrow> bool"
  for k :: review_step_key and r :: review_record where
  Raised: "vd_record v = Some (with_step r k Rs_Running now None) \<Longrightarrow> step_halt k r (Inl e, v)"
| Halted: "vd_record v =
      Some (with_step (with_step r k Rs_Running now None) k status t (Some m)) \<Longrightarrow>
    status = Rs_Failed \<and> ar_status a = Failed \<or> status = Rs_Canceled \<and> ar_status a = Canceled \<Longrightarrow>
    step_halt k r (Inr a, v)"

inductive step_exit :: "review_step_key \<Rightarrow> review_record \<Rightarrow> 'b ended \<Rightarrow> bool"
  for k :: review_step_key and r :: review_record where
  Halting: "step_halt k r e \<Longrightarrow> step_exit k r e"
| Settled: "vd_record v = Some (with_step r' k Rs_Completed t None) \<Longrightarrow>
    gathered k (with_step r k Rs_Running now None) r' \<Longrightarrow> ar_status a = Succeeded \<Longrightarrow>
    step_exit k r (Inr a, v)"

inductive_cases step_haltE: "step_halt k r e"
inductive_cases step_exitE: "step_exit k r e"

definition begun :: "review_step_key \<Rightarrow> review_record \<Rightarrow> review_step \<Rightarrow> bool" where
  "begun k r s \<longleftrightarrow> vs_step s = k \<and> (\<exists>now. vs_record s = with_step r k Rs_Running now None)"

lemma stop_halt:
  assumes "begun k r s" and "status \<in> {Rs_Failed, Rs_Canceled}"
  shows "step_halt k r (stop env s v status m)"
proof -
  from assms(1) obtain now where "vs_record s = with_step r k Rs_Running now None" "vs_step s = k"
    by (auto simp: begun_def)
  with assms(2) show ?thesis
    unfolding stop_def by (intro Halted[where now = now]) auto
qed

lemma settle_exit:
  assumes "begun k r s" and "gathered k (vs_record s) r'"
  shows "step_exit k r (Inr (action_succeeded []), settle env s r' v)"
    and "step_exit k r (Inr (action_succeeded []), prune_rebuilt_tree (settle env s r' v))"
  using assms by (auto simp: begun_def settle_def prune_rebuilt_tree_def intro!: Settled)

lemma raise_halt:
  "begun k r s \<Longrightarrow> vd_record v = Some (vs_record s) \<Longrightarrow> step_halt k r (Inl e, v)"
  by (auto simp: begun_def intro: Raised)

lemmas stop_exit = Halting[OF stop_halt]

lemmas raise_exit = Halting[OF raise_halt]

lemma put_document_record [simp]:
  "vd_record (put_document p doc v) = vd_record v"
  "vd_record (write_review_evidence i oper st a b v) = vd_record v"
  by (simp_all add: put_document_def write_review_evidence_def)

lemma write_experiment_evidence_record:
  "write_experiment_evidence a b v = Inr v' \<Longrightarrow> vd_record v' = vd_record v"
  by (auto simp: write_experiment_evidence_def Let_def)

section \<open>The guards\<close>

lemma require_ree_baseline_Inl:
  "require_ree_baseline P d = Inl res \<Longrightarrow> (\<exists>e. res = Inl e) \<or> (\<exists>a. res = Inr a \<and> ar_status a = Failed)"
  by (auto simp: require_ree_baseline_def split: if_splits sum.splits)

lemma require_review_record_cases:
  "require_review_record v i = Inl res \<Longrightarrow> \<exists>a. res = Inr a \<and> ar_status a = Failed"
  "require_review_record v i = Inr r \<longleftrightarrow> vd_record v = Some r"
  by (auto simp: require_review_record_def split: option.splits)

lemma require_completed_step_Inl:
  "begun k r s \<Longrightarrow> require_completed_step env s v needed m = Inl ended \<Longrightarrow> step_halt k r ended"
  by (auto simp: require_completed_step_def intro: stop_halt split: option.splits if_splits)

lemma require_completed_step_Inr:
  "require_completed_step env s v needed m = Inr u \<longleftrightarrow> completed (vs_record s) needed"
  by (auto simp: require_completed_step_def completed_def split: option.splits)

lemma require_certified_runtime_Inl:
  "begun k r s \<Longrightarrow> require_certified_runtime env s v p q = Inl ended \<Longrightarrow> step_halt k r ended"
  by (auto simp: require_certified_runtime_def Let_def intro: stop_halt
      split: option.splits if_splits)

lemma require_certified_runtime_Inr:
  assumes "require_certified_runtime env s v p q = Inr c"
  shows "attempt_basis (vs_record s) = Some (cf_basis c) \<and>
    rr_build_receipt (vs_record s) = Some (cf_build_receipt c) \<and>
    cf_runtime_path c = strip (vbr_runtime_path (cf_build_receipt c)) \<and>
    cf_runtime_digest c = (if cf_runtime_path c = [] then None
      else Some (vbr_produced_runtime_digest (cf_build_receipt c))) \<and>
    (\<exists>ws. vd_workspace v = Some ws \<and> (cf_runtime_path c \<noteq> [] \<longrightarrow>
      digest_file_if_exists (pf_digest (ve_platform env)) ws
        (workspace_runtime ws (cf_runtime_path c)) = cf_runtime_digest c))"
  using assms by (auto simp: require_certified_runtime_def Let_def split: option.splits if_splits)

lemma run_selected_Inl:
  "begun k r s \<Longrightarrow> run_selected env step ree s v c spec l = Inl ended \<Longrightarrow> step_halt k r ended"
  by (auto simp: run_selected_def Let_def intro: stop_halt split: option.splits if_splits prod.splits)

lemma run_selected_Inr:
  assumes "run_selected env step ree s v c spec l = Inr run"
  shows "vr_ree run = ree \<and> vr_step run = s \<and> vr_certified run = c \<and> vr_runnable run = spec \<and>
    vr_label run = l \<and> vd_record (vr_dir run) = vd_record v \<and>
    vd_workspace (vr_dir run) = Some (vr_workspace run) \<and>
    (\<exists>ws. vd_workspace v = Some ws \<and>
       run_runnable (ve_exec env) ws spec l = (vr_outcome run, vr_workspace run))"
  using assms by (auto simp: run_selected_def Let_def split: option.splits if_splits prod.splits)

section \<open>Opening a run\<close>

text \<open>A step that never began leaves its directory alone.\<close>

definition not_begun :: "'b review_dir \<Rightarrow> 'b ended \<Rightarrow> bool" where
  "not_begun v e \<longleftrightarrow> snd e = v \<and> (\<forall>a. fst e = Inr a \<longrightarrow> ar_status a = Failed)"

lemma join_attempt_Inl: "join_attempt P i d v = Inl ended \<Longrightarrow> not_begun v ended"
  by (auto simp: join_attempt_def not_begun_def bind_res_Inl_iff map_sum_def
      dest: require_ree_baseline_Inl require_review_record_cases(1) split: sum.splits)

lemma join_attempt_Inr:
  "join_attempt P i d v = Inr (ree, r) \<Longrightarrow> vd_record v = Some r \<and> read_ree P d = Inr ree"
  by (auto simp: join_attempt_def require_review_record_cases(2) require_ree_baseline_def
      split: sum.splits if_splits)

lemma select_and_run_Inl:
  assumes "begun k r s" and "vd_record v = Some (vs_record s)"
    and "select_and_run env step ree s v c = Inl ended"
  shows "step_halt k r ended"
  using assms(3)
  by (auto simp: select_and_run_def split: option.splits sum.splits ree_error.splits prod.splits
      intro: stop_halt[OF assms(1)] raise_halt[OF assms(1,2)] run_selected_Inl[OF assms(1)])

lemma run_begun_step_Inl:
  assumes "begun k r s" and "vd_record v = Some (vs_record s)"
    and "run_begun_step env step ree s v = Inl ended"
  shows "step_halt k r ended"
  using assms(3)
  by (auto simp: run_begun_step_def bind_res_Inl_iff split: if_splits intro: stop_halt[OF assms(1)]
      require_completed_step_Inl[OF assms(1)] require_certified_runtime_Inl[OF assms(1)]
      select_and_run_Inl[OF assms(1,2)])

lemma begin_facts:
  assumes "begin_review_step env v record k = (started, v')"
  shows "begun k record \<lparr>vs_review_id = i, vs_step = k, vs_record = started\<rparr>"
    and "vd_record v' = Some started" and "vd_workspace v' = vd_workspace v"
    and "vd_snapshot v' = vd_snapshot v" and "vd_upstream v' = vd_upstream v"
    and "started = with_step record k Rs_Running (ve_format env (fst (ve_start env))) None"
  using assms by (auto simp: begin_review_step_def begun_def Let_def)

lemma open_review_run_Inl:
  assumes "open_review_run env step i d v = Inl ended"
  shows "not_begun v ended \<or> (\<exists>r. vd_record v = Some r \<and> step_halt (rn_step step) r ended)"
proof (cases "join_attempt (ve_platform env) i d v")
  case (Inl e)
  with assms show ?thesis by (auto simp: open_review_run_def intro: join_attempt_Inl)
next
  case (Inr p)
  obtain ree r where p: "p = (ree, r)" by (cases p)
  obtain started v1 where b: "begin_review_step env v r (rn_step step) = (started, v1)"
    by fastforce
  from assms Inr have "run_begun_step env step ree
      \<lparr>vs_review_id = i, vs_step = rn_step step, vs_record = started\<rparr> v1 = Inl ended"
    by (simp add: open_review_run_def p b)
  then have "step_halt (rn_step step) r ended"
    by (rule run_begun_step_Inl[OF begin_facts(1)[OF b], rotated]) (simp add: begin_facts(2)[OF b])
  with Inr p join_attempt_Inr show ?thesis by blast
qed

text \<open>What is known of a run that was opened.\<close>

lemma open_review_run_Inr:
  assumes "open_review_run env step i d v = Inr run"
  shows "\<exists>r. vd_record v = Some r \<and> read_ree (ve_platform env) d = Inr (vr_ree run) \<and>
    begun (rn_step step) r (vr_step run) \<and>
    vd_record (vr_dir run) = Some (vs_record (vr_step run)) \<and>
    completed (vs_record (vr_step run)) (rn_requires step) \<and>
    attempt_basis (vs_record (vr_step run)) = Some (cf_basis (vr_certified run)) \<and>
    rr_build_receipt (vs_record (vr_step run)) = Some (cf_build_receipt (vr_certified run)) \<and>
    cf_runtime_digest (vr_certified run) = (if cf_runtime_path (vr_certified run) = [] then None
      else Some (vbr_produced_runtime_digest (cf_build_receipt (vr_certified run)))) \<and>
    rn_admit step (vs_record (vr_step run)) (vr_certified run) = None \<and>
    rn_select step (sub_definition (ree_subject (vr_ree run))) =
      Inr (vr_runnable run, vr_label run) \<and>
    cf_runtime_path (vr_certified run) = strip (vbr_runtime_path (cf_build_receipt (vr_certified run))) \<and>
    vd_workspace (vr_dir run) = Some (vr_workspace run) \<and>
    (\<exists>ws. vd_workspace v = Some ws \<and> run_runnable (ve_exec env) ws (vr_runnable run) (vr_label run) =
       (vr_outcome run, vr_workspace run) \<and>
       (cf_runtime_path (vr_certified run) \<noteq> [] \<longrightarrow>
          digest_file_if_exists (pf_digest (ve_platform env)) ws
            (workspace_runtime ws (cf_runtime_path (vr_certified run))) = cf_runtime_digest (vr_certified run)))"
proof (cases "join_attempt (ve_platform env) i d v")
  case (Inl e)
  with assms show ?thesis by (simp add: open_review_run_def)
next
  case (Inr p)
  obtain ree r where p: "p = (ree, r)" by (cases p)
  obtain started v1 where b: "begin_review_step env v r (rn_step step) = (started, v1)"
    by fastforce
  let ?s = "\<lparr>vs_review_id = i, vs_step = rn_step step, vs_record = started\<rparr>"
  from assms Inr have run: "run_begun_step env step ree ?s v1 = Inr run"
    by (simp add: open_review_run_def p b)
  then obtain c where c: "completed started (rn_requires step)"
      "require_certified_runtime env ?s v1 (rn_runtime_purpose step) (rn_runtime_retry_purpose step) = Inr c"
      "select_and_run env step ree ?s v1 c = Inr run"
    by (auto simp: run_begun_step_def require_completed_step_Inr split: if_splits)
  from c(3) obtain spec l where sel: "rn_admit step started c = None"
      "rn_select step (sub_definition (ree_subject ree)) = Inr (spec, l)"
      "run_selected env step ree ?s v1 c spec l = Inr run"
    by (auto simp: select_and_run_def split: option.splits sum.splits ree_error.splits)
  note facts = run_selected_Inr[OF sel(3)] require_certified_runtime_Inr[OF c(2)] begin_facts(1)[OF b, of i]
    begin_facts(2-)[OF b]
  from join_attempt_Inr[OF Inr[unfolded p]]
  have "vd_record v = Some r" "read_ree (ve_platform env) d = Inr ree" by auto
  with facts c(1) sel(1,2) show ?thesis by (intro exI[of _ r]) auto
qed

section \<open>The handlers refine the relation\<close>

lemmas review_extend = review_envelope.defs review_source_receipt.defs review_build_receipt.defs
  review_activation_receipt.defs review_experiment_receipt.defs

lemma gathered_sourceI:
  "gathered Source_Step s (s\<lparr>rr_source_receipt := Some a, rr_source_comparison := Some b\<rparr>)"
  by (auto intro!: exI[of _ a] exI[of _ b])

lemma gathered_buildI:
  "completed s Source_Step \<Longrightarrow>
   gathered Build_Step s (s\<lparr>rr_build_receipt := Some a, rr_build_comparison := Some b\<rparr>)"
  by (auto intro!: exI[of _ a] exI[of _ b])

lemma gathered_activationI:
  assumes "completed s Build_Step" and "rr_build_receipt s = Some build"
    and "attempt_basis s = Some (ao_basis b)"
    and "ao_runtime_digest b = Some (vbr_produced_runtime_digest build)"
  shows "gathered Activation_Step s
    (s\<lparr>rr_activation_receipt := Some a, rr_activation_outcome := Some b\<rparr>)"
  using assms by (auto intro!: exI[of _ a] exI[of _ b])

lemma activation_exit:
  "not_begun v (handle_review_activation_test env i run_id d v) \<or>
   (\<exists>r. vd_record v = Some r \<and>
      step_exit Activation_Step r (handle_review_activation_test env i run_id d v))"
proof (cases "open_review_run env activation_step i d v")
  case (Inl e)
  with open_review_run_Inl[OF Inl] show ?thesis
    by (auto simp: handle_review_activation_test_def activation_step_def intro: Halting)
next
  case (Inr run)
  from open_review_run_Inr[OF Inr] obtain r where r: "vd_record v = Some r"
    and b: "begun Activation_Step r (vr_step run)"
    and dir: "vd_record (vr_dir run) = Some (vs_record (vr_step run))"
    and facts: "completed (vs_record (vr_step run)) Build_Step"
      "attempt_basis (vs_record (vr_step run)) = Some (cf_basis (vr_certified run))"
      "rr_build_receipt (vs_record (vr_step run)) = Some (cf_build_receipt (vr_certified run))"
      "cf_runtime_digest (vr_certified run) = (if cf_runtime_path (vr_certified run) = [] then None
        else Some (vbr_produced_runtime_digest (cf_build_receipt (vr_certified run))))"
    by (auto simp: activation_step_def)
  have "step_exit Activation_Step r (handle_review_activation_test env i run_id d v)"
    using facts
    by (auto simp: handle_review_activation_test_def Inr Let_def
        intro!: stop_exit[OF b] raise_exit[OF b dir] settle_exit(1)[OF b] gathered_activationI
        simp del: gathered.simps split: option.splits if_splits)
  with r show ?thesis by blast
qed

lemma certify_experiment_Inr:
  assumes "certify_experiment env d run = Inr c"
  shows "xc_experiment_name c = vr_label run \<and> xc_basis c = cf_basis (vr_certified run) \<and>
    xc_runtime_digest c = cf_runtime_digest (vr_certified run)"
  using assms by (auto simp: certify_experiment_def compare_experiment_results_def Let_def)

lemma experiment_receipt_name [simp]:
  "vxr_experiment_name (review_experiment_receipt_of env run_id run x c) = vr_label run"
  by (simp add: review_experiment_receipt_of_def review_extend Let_def)

lemma experiment_exit:
  "not_begun v (handle_review_run_experiment env i name run_id d v) \<or>
   (\<exists>r. vd_record v = Some r \<and>
      step_exit Experiments_Step r (handle_review_run_experiment env i name run_id d v))"
proof (cases "open_review_run env (experiment_step name) i d v")
  case (Inl e)
  with open_review_run_Inl[OF Inl] show ?thesis
    by (auto simp: handle_review_run_experiment_def experiment_step_def intro: Halting)
next
  case (Inr run)
  from open_review_run_Inr[OF Inr] obtain r where r: "vd_record v = Some r"
    and b: "begun Experiments_Step r (vr_step run)"
    and dir: "vd_record (vr_dir run) = Some (vs_record (vr_step run))"
    and facts: "completed (vs_record (vr_step run)) Activation_Step"
      "attempt_basis (vs_record (vr_step run)) = Some (cf_basis (vr_certified run))"
      "rr_build_receipt (vs_record (vr_step run)) = Some (cf_build_receipt (vr_certified run))"
      "cf_runtime_digest (vr_certified run) = (if cf_runtime_path (vr_certified run) = [] then None
        else Some (vbr_produced_runtime_digest (cf_build_receipt (vr_certified run))))"
      "admit_experiment (vs_record (vr_step run)) (vr_certified run) = None"
    by (auto simp: experiment_step_def)
  have "gathered Experiments_Step (vs_record (vr_step run))
      (with_experiment (vs_record (vr_step run)) (review_experiment_receipt_of env run_id run x c) c)"
    if "certify_experiment env d run = Inr c" for x c
    using facts certify_experiment_Inr[OF that]
    by (auto simp: admit_experiment_def split: option.splits if_splits
        intro!: exI[of _ "review_experiment_receipt_of env run_id run x c"] exI[of _ c])
  then have "step_exit Experiments_Step r (handle_review_run_experiment env i name run_id d v)"
    using dir
    by (auto simp: handle_review_run_experiment_def Inr Let_def write_experiment_evidence_record
        intro!: stop_exit[OF b] raise_exit[OF b] settle_exit(1)[OF b] split: option.splits if_splits sum.splits)
  with r show ?thesis by blast
qed

lemma stage_acquisition_keeps:
  "stage_acquisition d r b v = Inr (q, v') \<Longrightarrow> vd_record v' = vd_record v"
  by (auto simp: stage_acquisition_def Let_def split: if_splits option.splits)

lemma acquire_and_compare_exit:
  assumes "begun Source_Step r s" and "vd_record v = Some (vs_record s)"
  shows "step_exit Source_Step r (acquire_and_compare env s run_id ree basis d v)"
  using assms(2) stage_acquisition_keeps[of d ree basis v]
  by (auto simp: acquire_and_compare_def Let_def
      intro!: stop_exit[OF assms(1)] raise_exit[OF assms(1)] settle_exit(1)[OF assms(1)] gathered_sourceI
      simp del: gathered.simps split: sum.splits prod.splits option.splits if_splits)

lemma source_exit:
  "not_begun v (handle_review_acquire_source env i basis run_id d v) \<or>
   step_exit Source_Step (new_review_record i (ve_format env (fst (ve_start env))))
     (handle_review_acquire_source env i basis run_id d v)"
proof -
  let ?rec = "new_review_record i (ve_format env (fst (ve_start env)))"
  obtain started v1 where b: "begin_review_step env v ?rec Source_Step = (started, v1)"
    by fastforce
  let ?s = "\<lparr>vs_review_id = i, vs_step = Source_Step, vs_record = started\<rparr>"
  have s: "begun Source_Step ?rec ?s" and v1: "vd_record v1 = Some (vs_record ?s)"
    using begin_facts[OF b] by auto
  have exit: "step_exit Source_Step ?rec (if ve_canceled env 0
      then stop env ?s v1 Rs_Canceled ''canceled before source acquisition''
      else case resolve_basis basis (source_bases r d) of
          None \<Rightarrow> stop env ?s v1 Rs_Failed (source_basis_refusal basis)
        | Some chosen \<Rightarrow> acquire_and_compare env ?s run_id r chosen d v1)" for r
    by (simp add: stop_exit[OF s] acquire_and_compare_exit[OF s v1] split: option.split)
  show ?thesis
  proof (cases "validate_path_segment ''review_id'' i")
    case (Inl e)
    then show ?thesis by (simp add: handle_review_acquire_source_def not_begun_def)
  next
    case segment: (Inr u)
    show ?thesis
    proof (cases "require_ree_baseline (ve_platform env) d")
      case (Inl e)
      with require_ree_baseline_Inl[OF Inl] show ?thesis
        unfolding handle_review_acquire_source_def segment by (auto simp: not_begun_def)
    next
      case (Inr r)
      with exit[of r] b show ?thesis
        unfolding handle_review_acquire_source_def segment by (auto simp: Let_def)
    qed
  qed
qed

lemma materialize_review_Inl:
  "begun k r s \<Longrightarrow> materialize_review env s d v = Inl e \<Longrightarrow> step_halt k r e"
  by (auto simp: materialize_review_def Let_def intro: stop_halt split: if_splits prod.splits)

lemma materialize_review_Inr:
  "materialize_review env s d v = Inr v' \<Longrightarrow> vd_record v' = vd_record v"
  by (auto simp: materialize_review_def Let_def split: if_splits prod.splits)

lemma obtain_runtime_Inl:
  "begun k r s \<Longrightarrow> obtain_runtime env s p basis shipped v = Inl e \<Longrightarrow> step_halt k r e"
  by (auto simp: obtain_runtime_def Let_def intro: stop_halt
      split: if_splits prod.splits sum.splits option.splits evidence_basis.splits)

lemma obtain_runtime_Inr:
  "obtain_runtime env s p basis shipped v = Inr (place, script, v') \<Longrightarrow> vd_record v' = vd_record v"
  by (auto simp: obtain_runtime_def Let_def
      split: if_splits prod.splits sum.splits option.splits evidence_basis.splits)

lemma certify_build_Inr:
  "certify_build env r d p runtime basis v = Inr (c, v') \<Longrightarrow> vd_record v' = vd_record v"
  by (auto simp: certify_build_def scan_runtime_def Let_def
      split: if_splits scan_run.splits prod.splits)

lemma certify_and_settle_exit:
  assumes "begun Build_Step r s" and "vd_record v = Some (vs_record s)"
    and "completed (vs_record s) Source_Step"
  shows "step_exit Build_Step r (certify_and_settle env s run_id prune ree d p basis place script v)"
  using assms(2,3) certify_build_Inr[of env ree d p _ basis v]
  by (auto simp: certify_and_settle_def Let_def
      intro!: stop_exit[OF assms(1)] raise_exit[OF assms(1)] settle_exit[OF assms(1)] gathered_buildI
      simp del: gathered.simps split: sum.splits prod.splits option.splits if_splits)

lemma build_begun_exit:
  assumes "begun Build_Step r s" and "vd_record v = Some (vs_record s)"
  shows "step_exit Build_Step r (build_begun env s req prune run_id ree d v)"
proof -
  have "step_exit Build_Step r ended"
    if "bind_res (materialize_review env s d v) (obtain_runtime env s p basis shipped) = Inl ended"
    for p basis shipped ended
    using that by (auto simp: bind_res_Inl_iff intro: Halting[OF materialize_review_Inl[OF assms(1)]]
        Halting[OF obtain_runtime_Inl[OF assms(1)]])
  moreover have "vd_record v' = Some (vs_record s)"
    if "bind_res (materialize_review env s d v) (obtain_runtime env s p basis shipped) =
      Inr (place, script, v')" for p basis shipped place script v'
    using that assms(2) materialize_review_Inr[of env s d v] obtain_runtime_Inr
    by (fastforce simp: bind_res_Inr_iff)
  ultimately show ?thesis
    using assms(2) Halting[OF require_completed_step_Inl[OF assms(1)]]
    by (auto simp: build_begun_def require_completed_step_Inr simp del: bind_res_Inr_iff
        intro!: stop_exit[OF assms(1)] raise_exit[OF assms(1)] certify_and_settle_exit[OF assms(1)]
        split: sum.splits prod.splits option.splits if_splits)
qed

lemma build_exit:
  "not_begun v (handle_review_build_runtime env i req prune run_id d v) \<or>
   (\<exists>r. vd_record v = Some r \<and>
      step_exit Build_Step r (handle_review_build_runtime env i req prune run_id d v))"
proof (cases "join_attempt (ve_platform env) i d v")
  case (Inl e)
  with join_attempt_Inl[OF Inl] show ?thesis by (simp add: handle_review_build_runtime_def)
next
  case (Inr p)
  obtain ree r where p: "p = (ree, r)" by (cases p)
  obtain started v1 where b: "begin_review_step env v r Build_Step = (started, v1)"
    by fastforce
  have "step_exit Build_Step r (handle_review_build_runtime env i req prune run_id d v)"
    using begin_facts(1)[OF b, of i] begin_facts(2)[OF b] by (simp add: handle_review_build_runtime_def Inr p b build_begun_exit)
  with join_attempt_Inr[OF Inr[unfolded p]] show ?thesis by blast
qed

section \<open>Every handler\<close>

text \<open>The record a step starts from: the source step opens the attempt anew.\<close>

fun attempt_before ::
  "'b review_env \<Rightarrow> string \<Rightarrow> review_command \<Rightarrow> 'b review_dir \<Rightarrow> review_record option" where
  "attempt_before env i (Review_Acquire_Source basis) v =
     Some (new_review_record i (ve_format env (fst (ve_start env))))"
| "attempt_before env i cmd v = vd_record v"

text \<open>
  Property C18. The four review handlers implement one abstract step relation. Whatever the scripts,
  the scanner, the clock and the cancellation flag do, a handler either leaves its directory alone
  and reports a failure (or lets an exception escape), or it takes the attempt's record through one
  of the exits of \<open>step_exit\<close>: the step is left running behind an escaping exception, it is
  marked failed or canceled in agreement with the result returned, or it is completed with exactly
  the evidence of its step, gathered on a completed predecessor.
\<close>

theorem review_handlers_refine_steps:
  "not_begun v (handle_review env i cmd run_id d v) \<or>
   (\<exists>r. attempt_before env i cmd v = Some r \<and>
      step_exit (command_step cmd) r (handle_review env i cmd run_id d v))"
  using source_exit build_exit activation_exit experiment_exit by (cases cmd) simp_all

lemma handle_review_exit:
  assumes "handle_review env i cmd run_id d v = e"
  obtains (idle) "not_begun v e"
  | (step) r where "attempt_before env i cmd v = Some r" "step_exit (command_step cmd) r e"
  using assms source_exit[of v env i _ run_id d] build_exit[of v env i _ _ run_id d]
    activation_exit[of v env i run_id d] experiment_exit[of v env i _ run_id d]
  by (cases cmd) (simp, blast)+

end
