(* ===== verification/Ree_Review_Attempts.thy ===== *)
theory Ree_Review_Attempts
  imports Ree_Review_Facts Ree_Bundle_Facts
begin

text \<open>
  The attempts the review handlers lead to: the invariant of an attempt's record over any sequence
  of commands, and what the verdicts of a review do and do not certify.
\<close>

section \<open>The record of an attempt\<close>

lemma completed_with_step [simp]:
  "completed (with_step r k status now failure) j \<longleftrightarrow>
     (if j = k then status = Rs_Completed else completed r j)"
  by (simp add: completed_def)

lemma completed_evidence [simp]:
  "completed (r\<lparr>rr_source_receipt := a, rr_source_comparison := b\<rparr>) k = completed r k"
  "completed (r\<lparr>rr_build_receipt := c, rr_build_comparison := d\<rparr>) k = completed r k"
  "completed (r\<lparr>rr_activation_receipt := e, rr_activation_outcome := f\<rparr>) k = completed r k"
  "completed (with_experiment r g h) k = completed r k"
  by (simp_all add: completed_def)

text \<open>The evidence a step leaves in the record.\<close>

fun evidenced :: "review_record \<Rightarrow> review_step_key \<Rightarrow> bool" where
  "evidenced r Source_Step = (rr_source_comparison r \<noteq> None)"
| "evidenced r Build_Step = (rr_build_comparison r \<noteq> None)"
| "evidenced r Activation_Step = (rr_activation_outcome r \<noteq> None)"
| "evidenced r Experiments_Step = (rr_experiment_comparisons r \<noteq> [])"

definition receipts_paired :: "review_record \<Rightarrow> bool" where
  "receipts_paired r \<longleftrightarrow>
     (rr_source_receipt r = None \<longleftrightarrow> rr_source_comparison r = None) \<and>
     (rr_build_receipt r = None \<longleftrightarrow> rr_build_comparison r = None) \<and>
     (rr_activation_receipt r = None \<longleftrightarrow> rr_activation_outcome r = None)"

text \<open>Evidence comes with its receipt, completed steps have it, and none rests on nothing.\<close>

definition evidence_chained :: "review_record \<Rightarrow> bool" where
  "evidence_chained r \<longleftrightarrow>
     receipts_paired r \<and> (\<forall>k. completed r k \<longrightarrow> evidenced r k) \<and>
     (\<forall>j k. j < k \<longrightarrow> evidenced r k \<longrightarrow> evidenced r j)"

lemma all_steps:
  "(\<forall>k. Q k) \<longleftrightarrow> Q Source_Step \<and> Q Build_Step \<and> Q Activation_Step \<and> Q Experiments_Step"
  by (metis review_step_key.exhaust)

lemma some_step:
  "(\<exists>k. Q k) \<longleftrightarrow> Q Source_Step \<or> Q Build_Step \<or> Q Activation_Step \<or> Q Experiments_Step"
  by (metis review_step_key.exhaust)

lemmas chained_simps = evidence_chained_def receipts_paired_def all_steps less_review_step_key_def

lemma evidenced_with_step [simp]:
  "evidenced (with_step r k status now failure) j = evidenced r j"
  by (cases j) simp_all

lemma source_receipt_with_step [simp]:
  "rr_source_receipt (with_step r k status now failure) = rr_source_receipt r"
  by (simp add: with_step_alt Let_def)

lemma experiment_comparison_of_with_step [simp]:
  "experiment_comparison_of (with_step r k status now failure) name = experiment_comparison_of r name"
  by (simp add: experiment_comparison_of_def)

lemma chained_new [simp]: "evidence_chained (new_review_record i now)"
  by (simp add: chained_simps new_review_record_def completed_def step_state_def
      find_None_iff[THEN iffD2])

lemma chained_with_step:
  "evidence_chained r \<Longrightarrow> status \<noteq> Rs_Completed \<or> evidenced r k \<Longrightarrow>
   evidence_chained (with_step r k status now failure)"
  unfolding evidence_chained_def receipts_paired_def by auto

lemma with_experiment_other [simp]:
  "rr_source_receipt (with_experiment r a b) = rr_source_receipt r"
  "rr_source_comparison (with_experiment r a b) = rr_source_comparison r"
  "rr_build_receipt (with_experiment r a b) = rr_build_receipt r"
  "rr_build_comparison (with_experiment r a b) = rr_build_comparison r"
  "rr_activation_receipt (with_experiment r a b) = rr_activation_receipt r"
  "rr_activation_outcome (with_experiment r a b) = rr_activation_outcome r"
  by (simp_all add: with_experiment_def Let_def)

lemma with_experiment_some [simp]: "rr_experiment_comparisons (with_experiment r a b) \<noteq> []"
  by (simp add: with_experiment_def Let_def flip: set_empty)

text \<open>A step's evidence keeps the chain, and is there afterwards.\<close>

lemma gathered_completed: "gathered k s r \<Longrightarrow> completed r j = completed s j"
  by (cases k) auto

lemma gathered_evidenced: "gathered k s r \<Longrightarrow> evidenced r j \<longleftrightarrow> j = k \<or> evidenced s j"
  by (cases k; cases j) auto

lemma gathered_rests: "gathered k s r \<Longrightarrow> j < k \<Longrightarrow> \<exists>m. j \<le> m \<and> m < k \<and> completed s m"
  by (cases k; cases j)
    (auto simp: some_step less_review_step_key_def less_eq_review_step_key_def)

lemma gathered_paired: "gathered k s r \<Longrightarrow> receipts_paired s \<Longrightarrow> receipts_paired r"
  by (cases k) (auto simp: receipts_paired_def)

lemma chained_gathered:
  assumes "evidence_chained s" and "gathered k s r"
  shows "evidence_chained r" and "evidenced r k"
proof -
  have below: "evidenced s j" if "j < k" for j
    using gathered_rests[OF assms(2) that] assms(1)
    by (auto simp: evidence_chained_def le_less)
  show "evidence_chained r"
    using assms(1) gathered_paired[OF assms(2)]
    by (auto simp: evidence_chained_def gathered_completed[OF assms(2)]
        gathered_evidenced[OF assms(2)] below)
  show "evidenced r k"
    using gathered_evidenced[OF assms(2)] by simp
qed

lemma record_ok_gathered: "record_ok s \<Longrightarrow> gathered k s r \<Longrightarrow> record_ok r"
  by (cases k) (auto intro: with_experiment_ok)

definition attempt_ok :: "review_record \<Rightarrow> bool" where
  "attempt_ok r \<longleftrightarrow> record_ok r \<and> evidence_chained r"

lemma attempt_ok_exit:
  assumes "attempt_ok r" and "step_exit k r (res, v)"
  shows "\<exists>r'. vd_record v = Some r' \<and> attempt_ok r'"
  using assms(2)
proof (cases rule: step_exit.cases)
  case Halting
  then show ?thesis
    by (cases rule: step_halt.cases) (use assms(1) in \<open>auto simp: attempt_ok_def chained_with_step\<close>)
next
  case (Settled r' t now a)
  have "attempt_ok (with_step r k Rs_Running now None)"
    using assms(1) by (simp add: attempt_ok_def chained_with_step)
  with Settled have "attempt_ok (with_step r' k Rs_Completed t None)"
    by (auto simp: attempt_ok_def record_ok_gathered
        dest: chained_gathered intro!: chained_with_step intro: record_ok_gathered)
  with Settled show ?thesis by auto
qed

text \<open>The directories an attempt goes through, whatever is asked of it and whenever.\<close>

inductive reviewed :: "'b review_dir \<Rightarrow> bool" where
  Unopened: "vd_record v = None \<Longrightarrow> reviewed v"
| Handled: "reviewed v \<Longrightarrow> reviewed (snd (handle_review env i cmd run_id d v))"

lemma reviewed_attempt_ok: "reviewed v \<Longrightarrow> vd_record v = Some r \<Longrightarrow> attempt_ok r"
proof (induction arbitrary: r rule: reviewed.induct)
  case (Handled v env i cmd run_id d)
  let ?e = "handle_review env i cmd run_id d v"
  show ?case
  proof (rule handle_review_exit[where env = env and i = i and cmd = cmd and run_id = run_id and d = d and v = v, OF refl])
    assume "not_begun v ?e"
    with Handled show ?thesis by (simp add: not_begun_def)
  next
    fix r0
    assume step: "attempt_before env i cmd v = Some r0" "step_exit (command_step cmd) r0 ?e"
    then have "attempt_ok r0"
      using Handled.IH by (cases cmd) (auto simp: attempt_ok_def)
    with step(2) Handled.prems attempt_ok_exit[of r0 "command_step cmd" "fst ?e" "snd ?e"]
    show ?thesis by auto
  qed
qed simp

section \<open>What a settled step rests on\<close>

lemma stop_not_succeeded:
  "stop env s v Rs_Failed m = (Inr a, v') \<Longrightarrow> ar_status a \<noteq> Succeeded"
  "stop env s v Rs_Canceled m = (Inr a, v') \<Longrightarrow> ar_status a \<noteq> Succeeded"
  by (auto simp: stop_def)

text \<open>A result that is a success leaves the step completed, its evidence gathered.\<close>

lemma exit_succeeded:
  assumes "step_exit k r (Inr a, v)" and "ar_status a = Succeeded"
  obtains r' t now where "vd_record v = Some (with_step r' k Rs_Completed t None)"
    and "gathered k (with_step r k Rs_Running now None) r'"
  using assms(1)
proof (cases rule: step_exit.cases)
  case Halting
  then show ?thesis by (cases rule: step_halt.cases) (use assms(2) in auto)
qed (rule that)

lemma handle_review_succeeded:
  assumes "handle_review env i cmd run_id d v = (Inr a, v')" and "ar_status a = Succeeded"
  obtains r r' t now where "attempt_before env i cmd v = Some r"
    and "vd_record v' = Some (with_step r' (command_step cmd) Rs_Completed t None)"
    and "gathered (command_step cmd) (with_step r (command_step cmd) Rs_Running now None) r'"
proof (rule handle_review_exit[OF assms(1)])
  assume "not_begun v (Inr a, v')"
  with assms(2) show ?thesis by (simp add: not_begun_def)
next
  fix r
  assume "attempt_before env i cmd v = Some r" and "step_exit (command_step cmd) r (Inr a, v')"
  with exit_succeeded[OF _ assms(2)] that show ?thesis by metis
qed

lemma write_experiment_evidence_workspace:
  "write_experiment_evidence a b v = Inr v' \<Longrightarrow> vd_workspace v' = vd_workspace v"
  by (auto simp: write_experiment_evidence_def put_document_def Let_def)

lemma experiment_succeeded:
  assumes "handle_review_run_experiment env i name run_id d v = (Inr a, v')"
    and "ar_status a = Succeeded"
  obtains run c x t where "open_review_run env (experiment_step name) i d v = Inr run"
    and "certify_experiment env d run = Inr c" and "vxr_experiment_name x = vr_label run"
    and "vd_record v' = Some (with_step (with_experiment (vs_record (vr_step run)) x c)
      (vs_step (vr_step run)) Rs_Completed t None)"
    and "vd_workspace v' = vd_workspace (vr_dir run)"
proof (cases "open_review_run env (experiment_step name) i d v")
  case (Inl e)
  then have "e = (Inr a, v')" using assms(1) by (simp add: handle_review_run_experiment_def)
  with open_review_run_Inl[OF Inl] assms(2) show ?thesis
    by (auto simp: not_begun_def elim!: step_halt.cases)
next
  case (Inr run)
  from assms(1) obtain c where c: "certify_experiment env d run = Inr c"
    by (cases "certify_experiment env d run") (simp_all add: handle_review_run_experiment_def Inr Let_def)
  from assms(1) obtain run_digest where digest:
    "script_digest env (vr_workspace run) (rs_run_script (vr_runnable run)) = Some run_digest"
    by (cases "script_digest env (vr_workspace run) (rs_run_script (vr_runnable run))")
      (use assms(2) in \<open>auto simp: handle_review_run_experiment_def Inr c Let_def
        dest: stop_not_succeeded\<close>)
  let ?x = "review_experiment_receipt_of env run_id run run_digest c"
  from assms(1) obtain v1 where "write_experiment_evidence ?x c (vr_dir run) = Inr v1"
    "v' = settle env (vr_step run) (with_experiment (vs_record (vr_step run)) ?x c) v1"
    by (auto simp: handle_review_run_experiment_def Inr c digest Let_def split: if_splits sum.splits)
  with that[OF Inr c, of ?x] show ?thesis
    by (simp add: settle_def write_experiment_evidence_workspace)
qed

text \<open>The verdict of an experiment, as the ladder decides it.\<close>

lemma experiment_verdict:
  "xc_verdict (compare_experiment_results name basis verify expected observed run_exit runtime) \<in>
     {Xv_Identical, Xv_Reproduced} \<longleftrightarrow>
   strip verify \<noteq> [] \<and> cl_verify_exit_code expected = Some 0 \<and>
   (\<exists>g. cl_verify_script_digest expected = Some g \<and> cl_verify_script_digest observed = Some g) \<and>
   cl_verify_exit_code observed = Some 0"
  "xc_verdict (compare_experiment_results name basis verify expected observed run_exit runtime) =
     Xv_Identical \<longleftrightarrow>
   xc_verdict (compare_experiment_results name basis verify expected observed run_exit runtime) \<in>
     {Xv_Identical, Xv_Reproduced} \<and>
   cl_output_digest expected \<noteq> None \<and> cl_output_digest expected = cl_output_digest observed"
  by (auto simp: compare_experiment_results_def Let_def) (cases "cl_output_digest observed"; simp)

text \<open>What the author's receipt claims for an experiment, and what the reviewer saw of it.\<close>

definition author_accepted :: "ree \<Rightarrow> string \<Rightarrow> string option \<Rightarrow> string option \<Rightarrow> bool" where
  "author_accepted ree name criterion outputs \<longleftrightarrow>
     (\<exists>receipt. map_of (rcp_experiments (sub_receipts (ree_subject ree))) name = Some receipt \<and>
        rer_verify_exit_code receipt = Some 0 \<and> criterion \<noteq> None \<and>
        rer_verify_script_digest receipt = criterion \<and>
        (outputs = None \<or> rer_produced_output_digest receipt = outputs))"

lemma author_claim_accepted:
  "author_accepted ree name criterion None \<longleftrightarrow>
     cl_verify_exit_code (author_claim ree name) = Some 0 \<and> criterion \<noteq> None \<and>
     cl_verify_script_digest (author_claim ree name) = criterion"
  "author_accepted ree name criterion (Some out) \<longleftrightarrow>
     author_accepted ree name criterion None \<and>
     cl_output_digest (author_claim ree name) = Some out"
  by (auto simp: author_accepted_def author_claim_def split: option.splits)

lemma select_experiment_label: "select_experiment name def = Inr (spec, label) \<Longrightarrow> label = name"
  by (auto simp: select_experiment_def find_Some_iff split: option.splits)

lemma source_succeeded:
  assumes "handle_review_acquire_source env i requested run_id d v = (Inr a, v')"
    and "ar_status a = Succeeded"
  obtains s x c t basis r where "vd_record v' =
      Some (with_step (s\<lparr>rr_source_receipt := Some x, rr_source_comparison := Some c\<rparr>) Source_Step
        Rs_Completed t None)"
    and "sc_basis c = basis" and "resolve_basis requested (source_bases r d) = Some basis"
  using assms
  by (auto simp: handle_review_acquire_source_def begin_review_step_def acquire_and_compare_def
      settle_def compare_source_swhids_def Let_def
      dest!: stop_not_succeeded require_ree_baseline_Inl split: sum.splits option.splits if_splits prod.splits)

lemma certify_build_basis:
  "certify_build env r d p runtime basis v = Inr (Some c, v') \<Longrightarrow> bc_basis c = basis"
  by (auto simp: certify_build_def compare_build_runtimes_def Let_def split: option.splits)

lemma certify_and_settle_succeeded:
  assumes "certify_and_settle env s run_id prune r d p basis place script v = (Inr a, v')"
    and "ar_status a = Succeeded"
  obtains x c t where "vd_record v' = Some (with_step ((vs_record s)
      \<lparr>rr_build_receipt := Some x, rr_build_comparison := Some c\<rparr>) (vs_step s) Rs_Completed t None)"
    and "bc_basis c = basis"
  using assms
  by (auto simp: certify_and_settle_def settle_def prune_rebuilt_tree_def certify_build_basis Let_def
      dest!: stop_not_succeeded split: sum.splits option.splits if_splits prod.splits)

lemma build_begun_succeeded:
  assumes "begun Build_Step r s" and "build_begun env s requested prune run_id ree d v = (Inr a, v')"
    and "ar_status a = Succeeded"
  obtains p bases basis place script v1 where "resolve_basis requested bases = Some basis"
    and "certify_and_settle env s run_id prune ree d p basis place script v1 = (Inr a, v')"
proof -
  have halted: "\<not> step_halt Build_Step r (Inr a, v')"
    using assms(3) by (auto elim: step_halt.cases)
  have "require_completed_step env s v k m \<noteq> Inl (Inr a, v')" for k m
    using halted require_completed_step_Inl[OF assms(1)] by blast
  moreover have "bind_res (materialize_review env s d v) (obtain_runtime env s p basis shipped) \<noteq>
      Inl (Inr a, v')" for p basis shipped
    using halted by (auto simp: bind_res_Inl_iff
        dest: materialize_review_Inl[OF assms(1)] obtain_runtime_Inl[OF assms(1)])
  ultimately show ?thesis
    using assms(2,3) that
    by (auto simp: build_begun_def dest!: stop_not_succeeded simp del: bind_res_Inr_iff
        split: sum.splits option.splits if_splits prod.splits)
qed

lemma build_succeeded:
  assumes "handle_review_build_runtime env i requested prune run_id d v = (Inr a, v')"
    and "ar_status a = Succeeded"
  obtains s x c t bases where "vd_record v' =
      Some (with_step (s\<lparr>rr_build_receipt := Some x, rr_build_comparison := Some c\<rparr>) Build_Step
        Rs_Completed t None)"
    and "resolve_basis requested bases = Some (bc_basis c)"
proof (cases "join_attempt (ve_platform env) i d v")
  case (Inl e)
  with assms join_attempt_Inl[OF Inl] show ?thesis
    by (simp add: handle_review_build_runtime_def not_begun_def)
next
  case (Inr p)
  obtain ree r where p: "p = (ree, r)" by (cases p)
  obtain started v1 where b: "begin_review_step env v r Build_Step = (started, v1)" by fastforce
  let ?s = "\<lparr>vs_review_id = i, vs_step = Build_Step, vs_record = started\<rparr>"
  have s: "begun Build_Step r ?s" using begin_facts(1)[OF b] .
  have run: "build_begun env ?s requested prune run_id ree d v1 = (Inr a, v')"
    using assms(1) by (simp add: handle_review_build_runtime_def Inr p b)
  from build_begun_succeeded[OF s run assms(2)] obtain p bases basis place script v2 where
    "resolve_basis requested bases = Some basis"
    "certify_and_settle env ?s run_id prune ree d p basis place script v2 = (Inr a, v')" .
  with certify_and_settle_succeeded[OF _ assms(2)] that show ?thesis
    by (metis review_step.select_convs(2))
qed

text \<open>
  Property C20. A reproduced result is grounded. When a reviewer's experiment succeeds, the
  comparison recorded under its name grants \<open>reproduced\<close> or \<open>identical\<close> exactly when the author's
  receipt of that name accepted the result by a verify script of some digest, the reviewer's
  workspace holds a verify script of that very digest after the run, and it exited with 0; and
  \<open>identical\<close> exactly when moreover both sides recorded the same output digest. The run took place
  in a workspace whose runtime file has the digest the attempt's build certified.
\<close>

theorem reproduced_verdict_iff:
  assumes "handle_review env i (Review_Run_Experiment name) run_id d v = (Inr a, v')"
    and "ar_status a = Succeeded"
  shows "\<exists>ree r c spec ws ws' outcome build.
    read_ree (ve_platform env) d = Inr ree \<and> vd_record v' = Some r \<and>
    experiment_comparison_of r name = Some c \<and>
    select_experiment name (sub_definition (ree_subject ree)) = Inr (spec, name) \<and>
    vd_workspace v = Some ws \<and> run_runnable (ve_exec env) ws spec name = (outcome, ws') \<and>
    vd_workspace v' = Some ws' \<and> rr_build_receipt r = Some build \<and>
    (let path = strip (vbr_runtime_path build) in path = [] \<or>
       digest_file_if_exists (pf_digest (ve_platform env)) ws (workspace_runtime ws path) =
         Some (vbr_produced_runtime_digest build)) \<and>
    (let criterion = script_digest env ws' (rs_verify_script spec);
         passed = (strip (rs_verify_script spec) \<noteq> [] \<and>
           ro_verify_exit_code (eo_run_outputs outcome) = Some 0);
         outputs = digest_output_paths (ve_sha env) (pf_digest (ve_platform env)) ws'
           (rs_output_paths spec)
     in (xc_verdict c \<in> {Xv_Identical, Xv_Reproduced} \<longleftrightarrow>
           passed \<and> author_accepted ree name criterion None) \<and>
        (xc_verdict c = Xv_Identical \<longleftrightarrow>
           passed \<and> outputs \<noteq> None \<and> author_accepted ree name criterion outputs))"
proof -
  from assms obtain run c x t where run: "open_review_run env (experiment_step name) i d v = Inr run"
    and c: "certify_experiment env d run = Inr c" and x: "vxr_experiment_name x = vr_label run"
    and v': "vd_record v' = Some (with_step (with_experiment (vs_record (vr_step run)) x c)
      (vs_step (vr_step run)) Rs_Completed t None)" "vd_workspace v' = vd_workspace (vr_dir run)"
    by (auto elim: experiment_succeeded)
  let ?ree = "vr_ree run" and ?spec = "vr_runnable run" and ?out = "eo_run_outputs (vr_outcome run)"
  let ?criterion = "script_digest env (vr_workspace run) (rs_verify_script ?spec)"
  let ?outputs = "digest_output_paths (ve_sha env) (pf_digest (ve_platform env)) (vr_workspace run)
    (rs_output_paths ?spec)"
  from open_review_run_Inr[OF run] obtain ws where ws: "vd_workspace v = Some ws"
      "run_runnable (ve_exec env) ws ?spec (vr_label run) = (vr_outcome run, vr_workspace run)"
      "cf_runtime_path (vr_certified run) \<noteq> [] \<longrightarrow>
          digest_file_if_exists (pf_digest (ve_platform env)) ws
            (workspace_runtime ws (cf_runtime_path (vr_certified run))) = cf_runtime_digest (vr_certified run)"
    and opened: "read_ree (ve_platform env) d = Inr ?ree"
      "rr_build_receipt (vs_record (vr_step run)) = Some (cf_build_receipt (vr_certified run))"
      "cf_runtime_digest (vr_certified run) = (if cf_runtime_path (vr_certified run) = [] then None
        else Some (vbr_produced_runtime_digest (cf_build_receipt (vr_certified run))))"
      "cf_runtime_path (vr_certified run) = strip (vbr_runtime_path (cf_build_receipt (vr_certified run)))"
      "select_experiment name (sub_definition (ree_subject ?ree)) = Inr (?spec, vr_label run)"
      "vd_workspace (vr_dir run) = Some (vr_workspace run)"
    by (auto simp: experiment_step_def)
  have label: "vr_label run = name" using opened(5) by (rule select_experiment_label)
  from c opened(1) have c': "c = compare_experiment_results name (cf_basis (vr_certified run))
      (rs_verify_script ?spec) (author_claim ?ree name)
      \<lparr>cl_verify_script_digest = (if rs_verify_script ?spec = [] then None else ?criterion),
       cl_verify_exit_code = ro_verify_exit_code ?out, cl_output_digest = ?outputs\<rparr>
      (ro_exit_code ?out) (cf_runtime_digest (vr_certified run))"
    by (simp add: certify_experiment_def label Let_def)
  have name: "xc_experiment_name c = name" by (simp add: c' compare_experiment_results_def Let_def)
  have verdict: "xc_verdict c \<in> {Xv_Identical, Xv_Reproduced} \<longleftrightarrow>
      strip (rs_verify_script ?spec) \<noteq> [] \<and> ro_verify_exit_code ?out = Some 0 \<and>
      author_accepted ?ree name ?criterion None"
    unfolding c' experiment_verdict author_claim_accepted by (auto simp: strip_def)
  have identical: "xc_verdict c = Xv_Identical \<longleftrightarrow>
      strip (rs_verify_script ?spec) \<noteq> [] \<and> ro_verify_exit_code ?out = Some 0 \<and>
      ?outputs \<noteq> None \<and> author_accepted ?ree name ?criterion ?outputs"
  proof -
    have "xc_verdict c = Xv_Identical \<longleftrightarrow> xc_verdict c \<in> {Xv_Identical, Xv_Reproduced} \<and>
        cl_output_digest (author_claim ?ree name) \<noteq> None \<and>
        cl_output_digest (author_claim ?ree name) = ?outputs"
      unfolding c' by (subst experiment_verdict(2)) (simp only: experiment_claim.simps)
    then show ?thesis
      unfolding verdict by (cases ?outputs) (auto simp: author_claim_accepted(2))
  qed
  show ?thesis
    using opened ws v' verdict identical
    by - (rule exI[of _ ?ree], rule exI[of _ "with_step (with_experiment (vs_record (vr_step run)) x c)
        (vs_step (vr_step run)) Rs_Completed t None"], rule exI[of _ c], rule exI[of _ ?spec],
      rule exI[of _ ws], rule exI[of _ "vr_workspace run"], rule exI[of _ "vr_outcome run"],
      rule exI[of _ "cf_build_receipt (vr_certified run)"],
      auto simp: label name experiment_of_with_experiment x Let_def)
qed

lemma attempt_basis_with_step [simp]:
  "attempt_basis (with_step r k status now failure) = attempt_basis r"
  "attempt_basis (with_experiment r x c) = attempt_basis r"
  "attempt_basis (r\<lparr>rr_activation_receipt := e, rr_activation_outcome := f\<rparr>) = attempt_basis r"
  by (simp_all add: attempt_basis_def)

section \<open>An example attempt\<close>

definition reviewed_ree :: ree where
  "reviewed_ree = (let e = experiment_run_script_path ''e''; w = experiment_verify_script_path ''e'' in
   \<lparr>ree_subject = \<lparr>sub_schema_version = 1,
     sub_definition = (new_definition ''a'')
       \<lparr>def_source := Some \<lparr>src_origin_url = Some ''u'', src_source_type = Git,
          src_requested_ref = None\<rparr>,
        def_build_runtime := Some \<lparr>bld_script_path = reserved_build_script,
          bld_script_digest = ''sha256:tmk'', bld_script_size = 2, bld_runtime_path = Some ''img.tar''\<rparr>,
        def_test_activation := Some example_activation,
        def_experiments := [\<lparr>exp_name = ''e'', exp_run_script_path = e,
          exp_run_script_digest = ''sha256:tr'', exp_run_script_size = 1,
          exp_verify_script_path = Some w, exp_verify_script_digest = Some ''sha256:tv'',
          exp_verify_script_size = Some 1, exp_output_paths = []\<rparr>]\<rparr>,
     sub_receipts = empty_receipts\<lparr>rcp_source := Some (example_source_receipt ''sha256:s''),
       rcp_build := Some (example_build_receipt ''sha256:s'' ''sha256:tmk'' ''sha256:ti''),
       rcp_experiments := [(''e'', receipt_envelope.extend example_envelope
         (experiment_receipt.fields ''e'' ''sha256:s'' None ''sha256:tr'' (Some ''sha256:tv'')
           0 (Some 0) None))]\<rparr>,
     sub_contents = []\<rparr>, ree_sealed = None\<rparr>)"
definition reviewed_dir :: "string \<Rightarrow> (ree + string) ree_dir" where
  "reviewed_dir runtime = (example_dir reviewed_ree)\<lparr>rd_workspace := [([''img.tar''], Inr runtime)]\<rparr>"

definition reviewed_scripts :: "(ree + string) tree" where
  "reviewed_scripts = [(posix_parts reserved_activation_script, Inr ''ok''),
     (posix_parts (experiment_run_script_path ''e''), Inr ''r''),
     (posix_parts (experiment_verify_script_path ''e''), Inr ''v'')]"

definition example_review_env :: "(ree + string) review_env" where
  "example_review_env = \<lparr>ve_platform = example_platform, ve_sha = id, ve_format = (\<lambda>_. ''t''),
     ve_exec = (\<lambda>_ ws. (0, False, ws)), ve_acquire = (\<lambda>_ _. (0, False, Some [])),
     ve_materialize = (\<lambda>_ _ _. (0, False, Some reviewed_scripts)), ve_scan = (\<lambda>_. Scan_Unstartable),
     ve_json = (\<lambda>_. None), ve_swhid = (\<lambda>_. ''swh:1:dir:0''), ve_start = (0, 0), ve_settle = (1, 1),
     ve_halt = (1, 1), ve_canceled = (\<lambda>_. False)\<rparr>"

definition unopened_dir :: "(ree + string) review_dir" where
  "unopened_dir = \<lparr>vd_record = None, vd_snapshot = None, vd_upstream = None, vd_overlay = [],
     vd_workspace = None, vd_sbom = None, vd_evidence = []\<rparr>"

definition review_of :: "string \<Rightarrow> review_command \<Rightarrow> (ree + string) review_dir \<Rightarrow> (ree + string) ended" where
  "review_of runtime cmd v = handle_review example_review_env ''x'' cmd ''r'' (reviewed_dir runtime) v"


definition example_done :: "review_step_key \<Rightarrow> review_step_state" where
  "example_done k = \<lparr>st_step = k, st_status = Rs_Completed, st_started_at = ''t'', st_updated_at = ''t'',
     st_failure = None\<rparr>"


definition build_made :: review_build_receipt where
  "build_made = review_envelope.extend (review_receipt_envelope ''r'' (review_timing example_review_env) True)
     (review_build_receipt.fields None None ''img.tar'' ''sha256:ti'')"

definition probed_record :: review_record where
  "probed_record = (new_review_record ''x'' ''t'')\<lparr>
     rr_steps := map example_done [Source_Step, Build_Step, Activation_Step],
     rr_source_comparison := Some (compare_source_swhids [] [] Independent),
     rr_build_receipt := Some build_made,
     rr_build_comparison := Some (compare_build_runtimes None None [] [] None None None Bundled),
     rr_activation_outcome := Some \<lparr>ao_basis = Bundled, ao_verdict = Av_Passed,
       ao_runtime_digest = Some ''sha256:ti'', ao_run_exit_code = Some 0, ao_verify_exit_code = None\<rparr>\<rparr>"

definition probed_dir :: "(ree + string) review_dir" where
  "probed_dir = unopened_dir\<lparr>vd_record := Some probed_record,
     vd_workspace := Some (([''img.tar''], Inr ''i'') # reviewed_scripts)\<rparr>"

lemma read_reviewed: "read_ree example_platform (reviewed_dir x) = Inr reviewed_ree"
proof -
  have "bind_res (require (valid_subject (ree_subject reviewed_ree) \<and> opt_ok valid_seal_fields (ree_sealed reviewed_ree))
       (Value_Error ''document does not fit the model'')) (\<lambda>_.
     bind_res (validate_seal (pf_subject_digest example_platform) reviewed_ree) (\<lambda>_. Inr reviewed_ree)) = Inr reviewed_ree" by code_simp
  then show ?thesis unfolding read_ree_def reviewed_dir_def parse_ree_manifest_def example_dir_def by (simp add: example_platform_def)
qed

definition begun_build :: review_step where
  "begun_build = \<lparr>vs_review_id = ''x'', vs_step = Build_Step,
     vs_record = with_step probed_record Build_Step Rs_Running ''t'' None\<rparr>"

definition begun_dir :: "(ree + string) review_dir" where
  "begun_dir = probed_dir\<lparr>vd_record := Some (vs_record begun_build)\<rparr>"

definition staged_dir :: "(ree + string) review_dir" where
  "staged_dir = begun_dir\<lparr>vd_overlay := [], vd_workspace := Some (reviewed_scripts @ [([''img.tar''], Inr ''j'')])\<rparr>"

lemma scripts: "reviewed_scripts = [([''ree-scripts'', ''activation.sh''], Inr ''ok''),
   ([''ree-scripts'', ''experiments'', ''e.sh''], Inr ''r''), ([''ree-scripts'', ''experiments'', ''e.verify.sh''], Inr ''v'')]" by code_simp

lemma img: "posix_parts ''img.tar'' = [''img.tar'']" by code_simp

lemma obtained: "obtain_runtime example_review_env begun_build ''img.tar'' Bundled (Some (Inr ''j''))
    (begun_dir\<lparr>vd_overlay := [], vd_workspace := Some reviewed_scripts\<rparr>) = Inr ([''img.tar''], None, staged_dir)"
  by (simp add: scripts Let_def obtain_runtime_def workspace_runtime_candidates_def img write_atomic_def workspace_tree_def
    staged_dir_def has_key_def is_file_at_def is_dir_at_def)
lemma mat: "materialize_review example_review_env begun_build (reviewed_dir x) begun_dir = Inr (begun_dir\<lparr>vd_overlay := [], vd_workspace := Some reviewed_scripts\<rparr>)"
  by (simp add: materialize_review_def example_review_env_def reviewed_dir_def example_dir_def empty_dir_def)


lemma join_probed:
  "join_attempt example_platform ''x'' (reviewed_dir runtime) probed_dir = Inr (reviewed_ree, probed_record)"
proof -
  have segment: "validate_path_segment ''review_id'' ''x'' = Inr ''x''" by code_simp
  have "require_ree_baseline example_platform (reviewed_dir runtime) = Inr reviewed_ree"
    by (simp add: require_ree_baseline_def read_reviewed)
      (simp add: manifest_exists_def reviewed_dir_def example_dir_def)
  then show ?thesis
    unfolding join_attempt_def segment by (simp add: require_review_record_def probed_dir_def)
qed

lemma rebuild_stages:
  "review_of ''j'' (Review_Build_Runtime (Requested_Basis Bundled) False) probed_dir =
     certify_and_settle example_review_env begun_build ''r'' False reviewed_ree (reviewed_dir ''j'')
       ''img.tar'' Bundled [''img.tar''] None staged_dir"
proof -
  have begins: "begin_review_step example_review_env probed_dir probed_record Build_Step =
      (vs_record begun_build, begun_dir)"
    by (simp add: begin_review_step_def begun_build_def begun_dir_def example_review_env_def Let_def)
  have "completed (vs_record begun_build) Source_Step" by code_simp
  then have source: "require_completed_step example_review_env begun_build begun_dir Source_Step m = Inr ()"
    for m by (simp only: require_completed_step_Inr)
  have runtime: "Option.bind (def_build_runtime (sub_definition (ree_subject reviewed_ree))) bld_runtime_path =
      Some ''img.tar''" by code_simp
  have shipped: "author_artifact (reviewed_dir ''j'') (Some ''img.tar'') = Inr (Some (Inr ''j''))"
    by code_simp
  have basis: "resolve_basis (Requested_Basis Bundled) (build_bases (reviewed_dir ''j'') begun_dir True) =
      Some Bundled"
    by (simp add: resolve_basis_def build_bases_def)
  have env: "ve_platform example_review_env = example_platform" "\<not> ve_canceled example_review_env n" for n
    by (simp_all add: example_review_env_def)
  have "build_begun example_review_env begun_build (Requested_Basis Bundled) False ''r'' reviewed_ree
      (reviewed_dir ''j'') begun_dir =
      certify_and_settle example_review_env begun_build ''r'' False reviewed_ree (reviewed_dir ''j'')
       ''img.tar'' Bundled [''img.tar''] None staged_dir"
    unfolding build_begun_def
    by (simp add: env source runtime shipped basis mat obtained)
  moreover have "\<lparr>vs_review_id = ''x'', vs_step = Build_Step, vs_record = vs_record begun_build\<rparr> = begun_build"
    by (simp add: begun_build_def)
  ultimately show ?thesis
    by (simp add: review_of_def handle_review_build_runtime_def env join_probed begins)
qed

lemma rebuilt_runtime:
  "case review_of ''j'' (Review_Build_Runtime (Requested_Basis Bundled) False) probed_dir of
     (Inr a, v) \<Rightarrow> ar_status a = Succeeded \<and> map_option (map_option vbr_produced_runtime_digest)
       (map_option rr_build_receipt (vd_record v)) = Some (Some ''sha256:tj'')
   | _ \<Rightarrow> False"
  unfolding rebuild_stages by code_simp

section \<open>Properties\<close>

text \<open>
  Property C19. Nothing a reviewer asks for takes an attempt out of its invariant: after any
  sequence of review commands, in any order and whatever they end in, the record's steps are
  distinct and in lifecycle order, its status and failure are those its steps derive, experiment
  receipts and comparisons are in step under one name each, every completed step has its evidence
  and receipt, and no step has evidence whose predecessor has none.
\<close>

theorem review_attempts_well_formed:
  assumes "reviewed v" and "vd_record v = Some r"
  shows "record_ok r \<and> evidence_chained r"
  using reviewed_attempt_ok[OF assms] by (simp add: attempt_ok_def)

lemma example_sourced:
  "map_sum id ar_status (fst (review_of ''i'' (Review_Acquire_Source (Requested_Basis Independent))
     unopened_dir)) = Inr Succeeded"
  by code_simp

theorem review_attempts_well_formed_witness:
  "\<exists>(v :: (ree + string) review_dir) r. reviewed v \<and> vd_record v = Some r \<and> completed r Source_Step \<and> evidenced r Source_Step"
proof -
  let ?e = "review_of ''i'' (Review_Acquire_Source (Requested_Basis Independent)) unopened_dir"
  have "reviewed unopened_dir" by (rule Unopened) (simp add: unopened_dir_def)
  then have v: "reviewed (snd ?e)" unfolding review_of_def by (rule Handled)
  obtain a where "handle_review_acquire_source example_review_env ''x'' (Requested_Basis Independent) ''r''
      (reviewed_dir ''i'') unopened_dir = (Inr a, snd ?e)" "ar_status a = Succeeded"
    using example_sourced unfolding review_of_def by (cases ?e; cases "fst ?e") (auto simp: review_of_def)
  from source_succeeded[OF this] obtain r where r: "vd_record (snd ?e) = Some r" "completed r Source_Step"
    by (metis completed_with_step)
  moreover from review_attempts_well_formed[OF v r(1)] r(2) have "evidenced r Source_Step"
    unfolding evidence_chained_def by blast
  ultimately show ?thesis using v by blast
qed



text \<open>
  Property C22. A rebuild leaves an earlier activation in force. When the runtime of an attempt
  whose activation passed is certified again, the attempt keeps the pass, about the runtime it was
  run in, as a completed activation step, and experiments are admitted whatever the digest of the
  runtime now certified: the admission never compares it with the one the pass is about.
\<close>

theorem rebuild_keeps_activation_pass:
  assumes "handle_review env i (Review_Build_Runtime basis prune) run_id d v = (Inr a, v')"
    and "ar_status a = Succeeded" and "vd_record v = Some r" and "completed r Activation_Step"
    and "rr_activation_outcome r = Some outcome" and "ao_verdict outcome = Av_Passed"
  shows "\<exists>r'. vd_record v' = Some r' \<and> completed r' Build_Step \<and> completed r' Activation_Step \<and>
    rr_activation_outcome r' = Some outcome \<and>
    (\<forall>certified. admit_experiment r' certified = None)"
proof (rule handle_review_succeeded[OF assms(1,2)])
  fix r0 r' t now
  assume "attempt_before env i (Review_Build_Runtime basis prune) v = Some r0"
    and v': "vd_record v' = Some (with_step r' (command_step (Review_Build_Runtime basis prune)) Rs_Completed t None)"
    and "gathered (command_step (Review_Build_Runtime basis prune))
      (with_step r0 (command_step (Review_Build_Runtime basis prune)) Rs_Running now None) r'"
  with assms(3-6) show ?thesis
    by (auto simp: admit_experiment_def)
qed

theorem rebuild_keeps_activation_pass_witness:
  "\<exists>r build outcome. vd_record (snd (review_of ''j'' (Review_Build_Runtime (Requested_Basis Bundled) False)
      probed_dir)) = Some r \<and> rr_build_receipt r = Some build \<and>
    rr_activation_outcome r = Some outcome \<and>
    ao_runtime_digest outcome \<noteq> Some (vbr_produced_runtime_digest build) \<and>
    admit_experiment r \<lparr>cf_basis = Bundled, cf_build_receipt = build, cf_runtime_path = ''img.tar'',
      cf_runtime_digest = Some (vbr_produced_runtime_digest build)\<rparr> = None"
proof -
  let ?e = "review_of ''j'' (Review_Build_Runtime (Requested_Basis Bundled) False) probed_dir"
  obtain a r build where h: "handle_review example_review_env ''x''
      (Review_Build_Runtime (Requested_Basis Bundled) False) ''r'' (reviewed_dir ''j'') probed_dir =
      (Inr a, snd ?e)" "ar_status a = Succeeded"
    and r: "vd_record (snd ?e) = Some r" "rr_build_receipt r = Some build"
      "vbr_produced_runtime_digest build = ''sha256:tj''"
    using rebuilt_runtime by (cases ?e; cases "fst ?e") (auto simp: review_of_def)
  have "vd_record probed_dir = Some probed_record" by (simp add: probed_dir_def)
  moreover have "completed probed_record Activation_Step" by code_simp
  moreover obtain outcome where "rr_activation_outcome probed_record = Some outcome"
    "ao_verdict outcome = Av_Passed" "ao_runtime_digest outcome = Some ''sha256:ti''"
    by (simp add: probed_record_def)
  ultimately show ?thesis
    using rebuild_keeps_activation_pass[OF h] r by auto
qed

theorem reproduced_verdict_iff_witness:
  "\<exists>r c criterion. vd_record (snd (review_of ''i'' (Review_Run_Experiment ''e'') probed_dir)) = Some r \<and>
     experiment_comparison_of r ''e'' = Some c \<and> xc_verdict c = Xv_Reproduced \<and>
     author_accepted reviewed_ree ''e'' criterion None"
proof -
  let ?e = "review_of ''i'' (Review_Run_Experiment ''e'') probed_dir"
  have run: "case ?e of (Inr a, v) \<Rightarrow> ar_status a = Succeeded \<and> map_option xc_verdict
      (Option.bind (vd_record v) (\<lambda>r. experiment_comparison_of r ''e'')) = Some Xv_Reproduced | _ \<Rightarrow> False"
    by code_simp
  then obtain a r c where h: "handle_review example_review_env ''x'' (Review_Run_Experiment ''e'') ''r''
      (reviewed_dir ''i'') probed_dir = (Inr a, snd ?e)" "ar_status a = Succeeded"
    and r: "vd_record (snd ?e) = Some r" "experiment_comparison_of r ''e'' = Some c"
      "xc_verdict c = Xv_Reproduced"
    by (cases ?e; cases "fst ?e") (auto simp: review_of_def bind_eq_Some_conv)
  have ree: "read_ree (ve_platform example_review_env) (reviewed_dir ''i'') = Inr reviewed_ree"
    by (simp add: example_review_env_def read_reviewed)
  from reproduced_verdict_iff[OF h] r ree show ?thesis
    by (auto simp: Let_def)
qed

end
