(* ===== verification/Ree_Swhid.thy ===== *)
theory Ree_Swhid
  imports Ree_Paths
begin

text \<open>
  \<open>source_repo/swhid.py\<close>: the Software Heritage identifier of a source tree, git's object
  hashing over a tree of files, symbolic links and directories.

  A \<^typ>\<open>string\<close> is a byte string here; a name is the bytes it encodes to. \<open>sha1\<close> is the raw
  SHA-1 of \<open>hashlib\<close>, an argument. What is on disk is a \<open>node\<close>; a directory lists its children in the order \<open>iterdir\<close>
  yields them.
\<close>

section \<open>Trees on disk\<close>

datatype node =
    File bool string
  | Symlink string
  | Directory "(string \<times> node) list"
  | Special

definition mode_file :: string where "mode_file = ''100644''"
definition mode_exec :: string where "mode_exec = ''100755''"
definition mode_symlink :: string where "mode_symlink = ''120000''"
definition mode_dir :: string where "mode_dir = ''40000''"

lemmas modes = mode_file_def mode_exec_def mode_symlink_def mode_dir_def

definition excluded_dirs :: "string set" where
  "excluded_dirs = {''.git''}"

definition swhid_dir_prefix :: string where "swhid_dir_prefix = ''swh:1:dir:''"
definition swhid_cnt_prefix :: string where "swhid_cnt_prefix = ''swh:1:cnt:''"

text \<open>\<open>str(path)\<close> of a link's target: a \<open>Path\<close> keeps its root and its parts only.\<close>

definition path_str :: "string \<Rightarrow> string" where
  "path_str t =
     (let root = (if take 2 t = ''//'' \<and> take 3 t \<noteq> ''///'' then ''//''
        else if take 1 t = ''/'' then ''/'' else []);
          parts = posix_parts t
      in if root = [] \<and> parts = [] then ''.'' else root @ join_with ''/'' parts)"

section \<open>Objects\<close>

record tree_entry =
  te_mode :: string
  te_name :: string
  te_object_id :: string

definition sort_key_of :: "tree_entry \<Rightarrow> string" where
  "sort_key_of e = te_name e @ (if te_mode e = mode_dir then ''/'' else [])"

text \<open>\<open>str(n)\<close> of a number.\<close>

fun decimal :: "nat \<Rightarrow> string" where
  "decimal n = (if n < 10 then [] else decimal (n div 10)) @ [char_of (48 + n mod 10)]"

declare decimal.simps [simp del]

text \<open>The bytes that are hashed, and the object's identifier.\<close>

definition git_object :: "string \<Rightarrow> string \<Rightarrow> string" where
  "git_object object_type body =
     object_type @ '' '' @ decimal (length body) @ [CHR 0x00] @ body"

definition git_object_id :: "(string \<Rightarrow> string) \<Rightarrow> string \<Rightarrow> string \<Rightarrow> string" where
  "git_object_id sha1 object_type body = sha1 (git_object object_type body)"

definition content_object_id :: "(string \<Rightarrow> string) \<Rightarrow> string \<Rightarrow> string" where
  "content_object_id sha1 data = git_object_id sha1 ''blob'' data"

definition entry_bytes :: "tree_entry \<Rightarrow> string" where
  "entry_bytes e = te_mode e @ '' '' @ te_name e @ [CHR 0x00] @ te_object_id e"

definition tree_payload :: "tree_entry list \<Rightarrow> string" where
  "tree_payload entries = concat (map entry_bytes (sort_key sort_key_of entries))"

definition hash_directory_entries :: "(string \<Rightarrow> string) \<Rightarrow> tree_entry list \<Rightarrow> string" where
  "hash_directory_entries sha1 entries = git_object_id sha1 ''tree'' (tree_payload entries)"

text \<open>What is there of a list of optional values.\<close>

definition present :: "'a option list \<Rightarrow> 'a list" where
  "present xs = concat (map (\<lambda>x. case x of None \<Rightarrow> [] | Some y \<Rightarrow> [y]) xs)"

fun entry_for :: "(string \<Rightarrow> string) \<Rightarrow> string \<times> node \<Rightarrow> tree_entry option" where
  "entry_for sha1 (name, Symlink target) =
     Some \<lparr>te_mode = mode_symlink, te_name = name,
       te_object_id = content_object_id sha1 (path_str target)\<rparr>"
| "entry_for sha1 (name, Directory children) =
     (if name \<in> excluded_dirs then None
      else Some \<lparr>te_mode = mode_dir, te_name = name,
        te_object_id = hash_directory_entries sha1 (present (map (entry_for sha1) children))\<rparr>)"
| "entry_for sha1 (name, File exec content) =
     Some \<lparr>te_mode = (if exec then mode_exec else mode_file), te_name = name,
       te_object_id = content_object_id sha1 content\<rparr>"
| "entry_for sha1 (name, Special) = None"

definition directory_object_id :: "(string \<Rightarrow> string) \<Rightarrow> (string \<times> node) list \<Rightarrow> string" where
  "directory_object_id sha1 children =
     hash_directory_entries sha1 (present (map (entry_for sha1) children))"

text \<open>\<open>bytes.hex()\<close>.\<close>

definition hex_char :: "nat \<Rightarrow> char" where
  "hex_char n = ''0123456789abcdef'' ! n"

definition hex :: "string \<Rightarrow> string" where
  "hex bytes = concat (map (\<lambda>c. [hex_char (of_char c div 16), hex_char (of_char c mod 16)]) bytes)"

definition content_swhid :: "(string \<Rightarrow> string) \<Rightarrow> string \<Rightarrow> string" where
  "content_swhid sha1 data = swhid_cnt_prefix @ hex (content_object_id sha1 data)"

text \<open>\<open>Inl\<close> when the path is no directory.\<close>

definition directory_swhid ::
  "(string \<Rightarrow> string) \<Rightarrow> node \<Rightarrow> ree_error + string" where
  "directory_swhid sha1 place =
     (case place of
        Directory children \<Rightarrow> Inr (swhid_dir_prefix @ hex (directory_object_id sha1 children))
      | _ \<Rightarrow> Inl (Os_Error ENOTDIR))"

section \<open>Objects determine what they encode\<close>

lemma decimal_no_nul [simp]: "CHR 0x00 \<notin> set (decimal n)"
proof (induction n rule: decimal.induct)
  case (1 n)
  have "char_of (48 + n mod 10) \<noteq> (CHR 0x00)"
  proof
    assume "char_of (48 + n mod 10) = (CHR 0x00)"
    then have "of_char (char_of (48 + n mod 10) :: char) = (0 :: nat)" by simp
    then show False by simp
  qed
  with 1 show ?case by (subst decimal.simps) auto
qed

text \<open>Up to the first occurrence of a byte that ends a field.\<close>

lemma split_at_terminator:
  "c \<notin> set a \<Longrightarrow> c \<notin> set b \<Longrightarrow> a @ c # x = b @ c # y \<longleftrightarrow> a = b \<and> x = y"
proof (induction a arbitrary: b)
  case Nil
  then show ?case by (cases b) auto
next
  case (Cons z a)
  then show ?case by (cases b) auto
qed

lemma git_object_inject:
  assumes "CHR '' '' \<notin> set s" "CHR '' '' \<notin> set t"
  shows "git_object s p = git_object t q \<longleftrightarrow> s = t \<and> p = q"
proof -
  have "git_object s p = git_object t q \<longleftrightarrow>
      s = t \<and> decimal (length p) @ CHR 0x00 # p = decimal (length q) @ CHR 0x00 # q"
    unfolding git_object_def using split_at_terminator[OF assms] by simp
  then show ?thesis by (auto simp: split_at_terminator)
qed

section \<open>What an identifier names\<close>

text \<open>
  The tree a source is read as: links normalised, excluded and special entries gone, every
  directory in git's order.
\<close>

fun node_key :: "string \<times> node \<Rightarrow> string" where
  "node_key (name, Directory _) = name @ ''/''"
| "node_key (name, _) = name"

fun canonical :: "string \<times> node \<Rightarrow> (string \<times> node) option" where
  "canonical (name, Symlink target) = Some (name, Symlink (path_str target))"
| "canonical (name, Directory children) =
     (if name \<in> excluded_dirs then None
      else Some (name, Directory (sort_key node_key (present (map canonical children)))))"
| "canonical (name, File exec content) = Some (name, File exec content)"
| "canonical (name, Special) = None"

definition source_tree :: "(string \<times> node) list \<Rightarrow> (string \<times> node) list" where
  "source_tree children = sort_key node_key (present (map canonical children))"

text \<open>The entry, and the hashed objects, of a tree already in that form.\<close>

fun entry_of :: "(string \<Rightarrow> string) \<Rightarrow> string \<times> node \<Rightarrow> tree_entry" where
  "entry_of sha1 (name, Symlink target) =
     \<lparr>te_mode = mode_symlink, te_name = name, te_object_id = content_object_id sha1 target\<rparr>"
| "entry_of sha1 (name, Directory children) =
     \<lparr>te_mode = mode_dir, te_name = name,
       te_object_id = git_object_id sha1 ''tree'' (concat (map (\<lambda>c. entry_bytes (entry_of sha1 c)) children))\<rparr>"
| "entry_of sha1 (name, File exec content) =
     \<lparr>te_mode = (if exec then mode_exec else mode_file), te_name = name,
       te_object_id = content_object_id sha1 content\<rparr>"
| "entry_of sha1 (name, Special) = \<lparr>te_mode = [], te_name = name, te_object_id = []\<rparr>"

definition tree_object :: "(string \<Rightarrow> string) \<Rightarrow> (string \<times> node) list \<Rightarrow> string" where
  "tree_object sha1 children =
     git_object ''tree'' (concat (map (\<lambda>c. entry_bytes (entry_of sha1 c)) children))"

fun objects :: "(string \<Rightarrow> string) \<Rightarrow> string \<times> node \<Rightarrow> string set" where
  "objects sha1 (name, Symlink target) = {git_object ''blob'' target}"
| "objects sha1 (name, Directory children) =
     insert (tree_object sha1 children) (\<Union>c \<in> set children. objects sha1 c)"
| "objects sha1 (name, File exec content) = {git_object ''blob'' content}"
| "objects sha1 (name, Special) = {}"

fun readable :: "string \<times> node \<Rightarrow> bool" where
  "readable (name, Directory children) \<longleftrightarrow> CHR 0x00 \<notin> set name \<and> (\<forall>c \<in> set children. readable c)"
| "readable (name, Special) \<longleftrightarrow> False"
| "readable (name, _) \<longleftrightarrow> CHR 0x00 \<notin> set name"

lemma sort_key_map: "sort_key k (map f xs) = map f (sort_key (\<lambda>x. k (f x)) xs)"
proof (rule properties_for_sort_key)
  show "mset (map f (sort_key (\<lambda>x. k (f x)) xs)) = mset (map f xs)" by simp
  show "sorted (map k (map f (sort_key (\<lambda>x. k (f x)) xs)))" by (simp add: comp_def)
  show "filter (\<lambda>y. k x = k y) (map f (sort_key (\<lambda>x. k (f x)) xs)) = filter (\<lambda>y. k x = k y) (map f xs)" for x
    using sort_key_stable[of "\<lambda>x. k (f x)" "k x" xs] by (simp add: filter_map comp_def eq_commute)
qed

lemma sort_key_agree:
  assumes "\<And>x. x \<in> set xs \<Longrightarrow> f x = g x"
  shows "sort_key f xs = sort_key g xs"
proof (rule properties_for_sort_key)
  show "mset (sort_key g xs) = mset xs" by simp
  have "map f (sort_key g xs) = map g (sort_key g xs)" using assms by simp
  then show "sorted (map f (sort_key g xs))" by (simp only: sorted_sort_key)
  show "filter (\<lambda>y. f x = f y) (sort_key g xs) = filter (\<lambda>y. f x = f y) xs" if "x \<in> set (sort_key g xs)" for x
  proof -
    have "filter (\<lambda>y. f x = f y) (sort_key g xs) = filter (\<lambda>y. g y = g x) (sort_key g xs)"
      using that assms by (intro filter_cong) auto
    also have "\<dots> = filter (\<lambda>y. g y = g x) xs" by (rule sort_key_stable)
    also have "\<dots> = filter (\<lambda>y. f x = f y) xs" using that assms by (intro filter_cong) auto
    finally show ?thesis .
  qed
qed

lemma sort_key_entry_of: "readable x \<Longrightarrow> sort_key_of (entry_of sha1 x) = node_key x"
  by (cases x rule: node_key.cases) (auto simp: sort_key_of_def modes)

text \<open>Names on disk hold no zero byte.\<close>

fun encodable :: "string \<times> node \<Rightarrow> bool" where
  "encodable (name, Directory children) \<longleftrightarrow> CHR 0x00 \<notin> set name \<and> (\<forall>c \<in> set children. encodable c)"
| "encodable (name, _) \<longleftrightarrow> CHR 0x00 \<notin> set name"

lemma in_present [simp]: "y \<in> set (present xs) \<longleftrightarrow> Some y \<in> set xs"
  by (auto simp: present_def split: option.splits)

lemma present_map_option: "present (map (\<lambda>x. map_option f (g x)) xs) = map f (present (map g xs))"
  by (induction xs) (auto simp: present_def split: option.split)

lemma canonical_readable: "encodable x \<Longrightarrow> canonical x = Some y \<Longrightarrow> readable y"
proof (induction x arbitrary: y rule: canonical.induct)
  case (2 name children)
  then show ?case by (fastforce split: if_splits)
qed auto

lemma present_readable:
  assumes "y \<in> set (present (map canonical cs))" and "\<forall>c \<in> set cs. encodable c"
  shows "readable y"
proof -
  from assms(1) obtain c where "c \<in> set cs" "canonical c = Some y" by (auto simp: image_iff)
  with assms(2) show ?thesis by (auto intro: canonical_readable)
qed

lemma source_tree_readable: "y \<in> set (source_tree cs) \<Longrightarrow> \<forall>c \<in> set cs. encodable c \<Longrightarrow> readable y"
  by (auto simp: source_tree_def simp del: in_present dest: present_readable)

text \<open>The hash of a directory is the hash of its canonical tree.\<close>

lemma entries_canonical:
  assumes "\<And>c. c \<in> set cs \<Longrightarrow> encodable c"
    and "\<And>c. c \<in> set cs \<Longrightarrow> entry_for sha1 c = map_option (entry_of sha1) (canonical c)"
  shows "directory_object_id sha1 cs = sha1 (tree_object sha1 (source_tree cs))"
proof -
  have "present (map (entry_for sha1) cs) = map (entry_of sha1) (present (map canonical cs))"
    using assms(2) by (simp flip: present_map_option cong: map_cong)
  moreover have "sort_key sort_key_of (map (entry_of sha1) (present (map canonical cs))) =
      map (entry_of sha1) (source_tree cs)"
    unfolding sort_key_map source_tree_def
    by (rule arg_cong[where f = "map (entry_of sha1)"], rule sort_key_agree)
      (use assms(1) in \<open>simp add: sort_key_entry_of present_readable del: in_present\<close>)
  ultimately show ?thesis
    by (simp add: directory_object_id_def hash_directory_entries_def git_object_id_def tree_payload_def
        tree_object_def comp_def)
qed

lemma entry_for_canonical:
  "encodable x \<Longrightarrow> entry_for sha1 x = map_option (entry_of sha1) (canonical x)"
proof (induction x rule: canonical.induct)
  case (2 name children)
  show ?case
  proof (cases "name \<in> excluded_dirs")
    case False
    with 2 have "directory_object_id sha1 children = sha1 (tree_object sha1 (source_tree children))"
      by (auto intro!: entries_canonical)
    with False show ?thesis
      by (simp add: directory_object_id_def source_tree_def tree_object_def git_object_id_def)
  qed simp
qed auto

lemma directory_object_id_canonical:
  "\<forall>c \<in> set cs. encodable c \<Longrightarrow> directory_object_id sha1 cs = sha1 (tree_object sha1 (source_tree cs))"
  by (rule entries_canonical) (auto intro: entry_for_canonical)

section \<open>Distinct trees have distinct identifiers\<close>

lemma entry_mode: "readable x \<Longrightarrow> te_mode (entry_of sha1 x) \<in> {mode_symlink, mode_dir, mode_exec, mode_file}"
  by (cases x rule: node_key.cases) auto

lemma entry_name [simp]: "te_name (entry_of sha1 x) = fst x"
  by (cases x rule: node_key.cases) auto

lemma readable_name: "readable x \<Longrightarrow> CHR 0x00 \<notin> set (fst x)"
  by (cases x rule: readable.cases) auto

lemma entry_id_length:
  assumes "\<And>s. length (sha1 s) = 20" and "readable x"
  shows "length (te_object_id (entry_of sha1 x)) = 20"
  using assms(2) by (cases x rule: readable.cases)
    (simp_all add: content_object_id_def git_object_id_def assms(1))

lemma entry_bytes_inject:
  assumes "CHR '' '' \<notin> set (te_mode e)" "CHR '' '' \<notin> set (te_mode f)"
    and "CHR 0x00 \<notin> set (te_name e)" "CHR 0x00 \<notin> set (te_name f)"
    and "length (te_object_id e) = length (te_object_id f)"
  shows "entry_bytes e @ x = entry_bytes f @ y \<longleftrightarrow> e = f \<and> x = y"
  unfolding entry_bytes_def
  by (auto simp: split_at_terminator[OF assms(1,2)] split_at_terminator[OF assms(3,4)] assms(5))

lemma entry_bytes_nonempty [simp]: "entry_bytes e \<noteq> []"
  by (simp add: entry_bytes_def)

text \<open>A directory's payload determines its entries, hence its object.\<close>

lemma entries_inject:
  assumes "\<And>s. length (sha1 s) = 20" and "\<forall>x \<in> set xs. readable x" and "\<forall>y \<in> set ys. readable y"
    and "concat (map (\<lambda>c. entry_bytes (entry_of sha1 c)) xs) =
      concat (map (\<lambda>c. entry_bytes (entry_of sha1 c)) ys)"
  shows "map (entry_of sha1) xs = map (entry_of sha1) ys"
  using assms(2-4)
proof (induction xs arbitrary: ys)
  case Nil
  then show ?case by (cases ys) auto
next
  case (Cons x xs)
  then obtain y ys' where ys: "ys = y # ys'" by (cases ys) auto
  have mode: "CHR '' '' \<notin> set (te_mode (entry_of sha1 z))" if "readable z" for z
    using entry_mode[OF that, of sha1] by (auto simp: modes)
  from Cons.prems(3) have "entry_bytes (entry_of sha1 x) @ concat (map (\<lambda>c. entry_bytes (entry_of sha1 c)) xs) =
      entry_bytes (entry_of sha1 y) @ concat (map (\<lambda>c. entry_bytes (entry_of sha1 c)) ys')"
    by (simp add: ys)
  moreover have "readable x" "readable y" using Cons.prems(1,2) by (simp_all add: ys)
  ultimately have "entry_of sha1 x = entry_of sha1 y \<and>
      concat (map (\<lambda>c. entry_bytes (entry_of sha1 c)) xs) =
      concat (map (\<lambda>c. entry_bytes (entry_of sha1 c)) ys')"
    by (subst (asm) entry_bytes_inject)
      (simp_all add: mode readable_name entry_id_length[OF assms(1)])
  with Cons.IH[of ys'] Cons.prems(1,2) show ?case by (simp add: ys)
qed

lemma tree_object_inject:
  assumes "\<And>s. length (sha1 s) = 20" and "\<forall>x \<in> set xs. readable x" and "\<forall>y \<in> set ys. readable y"
  shows "tree_object sha1 xs = tree_object sha1 ys \<longleftrightarrow> map (entry_of sha1) xs = map (entry_of sha1) ys"
proof
  assume "tree_object sha1 xs = tree_object sha1 ys"
  then show "map (entry_of sha1) xs = map (entry_of sha1) ys"
    using entries_inject[OF assms] unfolding tree_object_def by (simp add: git_object_inject)
next
  assume "map (entry_of sha1) xs = map (entry_of sha1) ys"
  then have "map entry_bytes (map (entry_of sha1) xs) = map entry_bytes (map (entry_of sha1) ys)" by simp
  then show "tree_object sha1 xs = tree_object sha1 ys" by (simp add: tree_object_def comp_def)
qed

text \<open>Without a collision among the objects of two trees, equal entries are equal nodes.\<close>

lemma map_inject_on:
  "map f xs = map f ys \<Longrightarrow> (\<And>x y. x \<in> set xs \<Longrightarrow> y \<in> set ys \<Longrightarrow> f x = f y \<Longrightarrow> x = y) \<Longrightarrow> xs = ys"
proof (induction xs arbitrary: ys)
  case (Cons x xs)
  then show ?case by (cases ys) auto
qed auto

lemma entry_of_inject:
  "\<forall>s. length (sha1 s) = 20 \<Longrightarrow> readable x \<Longrightarrow> readable y \<Longrightarrow> inj_on sha1 (objects sha1 x \<union> objects sha1 y) \<Longrightarrow>
    entry_of sha1 x = entry_of sha1 y \<Longrightarrow> x = y"
proof (induction sha1 x arbitrary: y rule: entry_of.induct)
  case (2 sha1 name children)
  note len = spec[OF "2.prems"(1)] and prems = "2.prems"(2-)
  from prems(4) obtain children' where y: "y = (name, Directory children')"
    by (cases y rule: node_key.cases) (auto simp: modes split: if_splits)
  let ?S = "objects sha1 (name, Directory children) \<union> objects sha1 y"
  from prems(4) have same: "sha1 (tree_object sha1 children) = sha1 (tree_object sha1 children')"
    by (simp add: y tree_object_def git_object_id_def)
  have "tree_object sha1 children = tree_object sha1 children'"
    by (rule inj_onD[OF prems(3) same]) (simp_all add: y)
  with prems(1,2) have "map (entry_of sha1) children = map (entry_of sha1) children'"
    using tree_object_inject[OF len] by (simp add: y)
  then have "children = children'"
  proof (rule map_inject_on)
    fix c c'
    assume c: "c \<in> set children" "c' \<in> set children'" "entry_of sha1 c = entry_of sha1 c'"
    have "objects sha1 c \<union> objects sha1 c' \<subseteq> ?S" using c(1,2) by (auto simp: y)
    with prems(3) have "inj_on sha1 (objects sha1 c \<union> objects sha1 c')" by (rule inj_on_subset)
    with "2.IH"[OF c(1), of c'] len c prems(1,2) show "c = c'" by (simp add: y)
  qed
  with y show ?case by simp
next
  case (1 sha1 name target)
  then show ?case
    by (cases y rule: node_key.cases)
      (auto simp: modes content_object_id_def git_object_id_def git_object_inject dest!: inj_onD split: if_splits)
next
  case (3 sha1 name exec content)
  then show ?case
    by (cases y rule: node_key.cases)
      (auto simp: modes content_object_id_def git_object_id_def git_object_inject dest!: inj_onD split: if_splits)
qed auto

lemma hex_char_inject:
  assumes "m < 16" "n < 16"
  shows "hex_char m = hex_char n \<longleftrightarrow> m = n"
proof -
  have "distinct ''0123456789abcdef''" "length ''0123456789abcdef'' = 16" by simp_all
  with assms show ?thesis unfolding hex_char_def by (metis nth_eq_iff_index_eq)
qed

lemma hex_inject: "hex xs = hex ys \<longleftrightarrow> xs = ys"
proof (induction xs arbitrary: ys)
  case Nil
  then show ?case by (cases ys) (auto simp: hex_def)
next
  case (Cons x xs)
  have small: "of_char c div 16 < (16 :: nat)" for c :: char
    using nat_of_char_less_256[of c] by (simp add: less_mult_imp_div_less)
  have "c = d" if "of_char c div 16 = (of_char d div 16 :: nat)" "of_char c mod 16 = (of_char d mod 16 :: nat)"
    for c d :: char
    using that by (metis div_mult_mod_eq of_char_eq_iff)
  with Cons show ?case
    by (cases ys) (auto simp: hex_def hex_char_inject[OF small small] hex_char_inject)
qed

section \<open>Properties\<close>

text \<open>
  Property C11. The directory SWHID names the source and nothing else. Unless SHA-1 collides on the
  objects of the two trees, two directories get one identifier exactly when they hold the same
  tree: the same names, contents, executable bits and link targets (as \<open>pathlib\<close> spells them), in
  whatever order the directory listing yields them, with \<open>.git\<close> directories and special files
  ignored at every level.
\<close>

theorem directory_swhid_eq_iff:
  assumes "\<forall>s. length (sha1 s) = 20"
    and "\<forall>c \<in> set a. encodable c" and "\<forall>c \<in> set b. encodable c"
    and "inj_on sha1 (objects sha1 (name, Directory (source_tree a)) \<union>
      objects sha1 (name, Directory (source_tree b)))"
  shows "directory_swhid sha1 (Directory a) = directory_swhid sha1 (Directory b) \<longleftrightarrow>
    source_tree a = source_tree b"
proof -
  have readable: "readable ([], Directory (source_tree a))" "readable ([], Directory (source_tree b))"
    using source_tree_readable assms(2,3) by auto
  have "objects sha1 (name, Directory c) = objects sha1 ([], Directory c)" for c by simp
  then have inj: "inj_on sha1 (objects sha1 ([], Directory (source_tree a)) \<union>
      objects sha1 ([], Directory (source_tree b)))"
    using assms(4) by simp
  have "directory_swhid sha1 (Directory a) = directory_swhid sha1 (Directory b) \<longleftrightarrow>
      entry_of sha1 ([], Directory (source_tree a)) = entry_of sha1 ([], Directory (source_tree b))"
    by (simp add: directory_swhid_def hex_inject directory_object_id_canonical assms(2,3)
        git_object_id_def tree_object_def)
  also have "\<dots> \<longleftrightarrow> source_tree a = source_tree b"
    using entry_of_inject[OF assms(1) readable inj] by auto
  finally show ?thesis .
qed

text \<open>A hash of 20 bytes that tells the objects of the example apart.\<close>

definition example_sha1 :: "string \<Rightarrow> string" where
  "example_sha1 s = take 20 (rev s @ replicate 20 (CHR ''0''))"

theorem directory_swhid_eq_iff_witness:
  "directory_swhid example_sha1 (Directory [(''b'', File False ''x''), (''a'', Symlink ''b/'')]) \<noteq>
   directory_swhid example_sha1 (Directory [(''a'', Symlink ''b''), (''b'', File False ''y'')])"
proof -
  let ?a = "[(''b'', File False ''x''), (''a'', Symlink ''b/'')]"
  let ?b = "[(''a'', Symlink ''b''), (''b'', File False ''y'')]"
  have "\<forall>s. length (example_sha1 s) = 20" by (auto simp: example_sha1_def min_def)
  moreover have "inj_on example_sha1 (objects example_sha1 ([], Directory (source_tree ?a)) \<union>
      objects example_sha1 ([], Directory (source_tree ?b)))"
    by code_simp
  moreover have "source_tree ?a \<noteq> source_tree ?b" by code_simp
  ultimately show ?thesis
    using directory_swhid_eq_iff[of example_sha1 ?a ?b "[]"] by simp
qed

text \<open>What git tells apart and this does not: the spelling of a link's target.\<close>

lemma link_spelling_lost:
  "directory_swhid sha1 (Directory [(name, Symlink ''lib/'')]) =
   directory_swhid sha1 (Directory [(name, Symlink ''./lib'')])"
proof -
  have "path_str ''lib/'' = ''lib''" "path_str ''./lib'' = ''lib''" by code_simp+
  then show ?thesis by (simp add: directory_swhid_def directory_object_id_def)
qed

end
