(* ===== verification/Run_Store.thy ===== *)
theory Run_Store
  imports Ree_Result "HOL-Library.Product_Lexorder"
begin

text \<open>
  Durable background runs of the API: the vocabulary of \<open>contracts/runs.py\<close>, the stored run of
  \<open>storage/run_store.py\<close> and the JSON store \<open>storage/json_run_store.py\<close>.

  The disk is a dictionary of run directories, each with the run of its \<open>state.json\<close>, if that was
  written, and the lines of its \<open>logs.jsonl\<close>; a stored document reads back as the value written. A
  process that stops while it appends leaves a last line that is \<open>Torn\<close>, or \<open>Unended\<close> when only the line
  break is missing; an append after either runs into it and is \<open>Garbled\<close>.
  The three indexes live in memory. Every operation holds the store's lock, so it is one function of
  the state; the clock is an argument. A missing \<open>state.json\<close> would raise, which the invariant
  excludes for an indexed directory.
\<close>

section \<open>Runs\<close>

datatype run_status =
    Queued | Provisioning_Run | Running | Canceling | Run_Succeeded | Run_Failed | Run_Canceled

datatype run_operation =
    Op_Provision | Op_Ree_Load | Op_Build | Op_Sbom | Op_Crosscheck | Op_Hbom | Op_Activation
  | Op_Source | Op_Evaluate | Op_Experiment

definition active_statuses :: "run_status set" where
  "active_statuses = {Running, Queued, Provisioning_Run, Canceling}"

definition terminal_statuses :: "run_status set" where
  "terminal_statuses = {Run_Succeeded, Run_Failed, Run_Canceled}"

lemma active_iff: "status \<in> active_statuses \<longleftrightarrow> status \<notin> terminal_statuses"
  by (cases status) (simp_all add: active_statuses_def terminal_statuses_def)

record stored_run =
  sr_schema_version :: int
  sr_run_id :: string
  sr_ree_id :: string
  sr_operation :: run_operation
  sr_status :: run_status
  sr_created_at :: string
  sr_started_at :: "string option"
  sr_finished_at :: "string option"
  sr_cancel_requested_at :: "string option"
  sr_request :: json_object
  sr_outputs :: json_object
  sr_failure :: "failure option"
  sr_idempotency_key :: "string option"
  sr_request_fingerprint :: "string option"

type_synonym run_key = "string \<times> string"

definition run_key :: "stored_run \<Rightarrow> run_key" where
  "run_key r = (sr_ree_id r, sr_run_id r)"

type_synonym run_slot = "string \<times> run_operation \<times> string"

text \<open>The slot of a run with a key; an empty key is none.\<close>

definition run_slot :: "stored_run \<Rightarrow> run_slot option" where
  "run_slot r = (case sr_idempotency_key r of
      Some key \<Rightarrow> if key = [] then None else Some (sr_ree_id r, sr_operation r, key)
    | None \<Rightarrow> None)"

record log_entry =
  le_seq :: nat
  le_ts :: string
  le_stream :: string
  le_level :: string
  le_message :: string

definition valid_log_entry :: "log_entry \<Rightarrow> bool" where
  "valid_log_entry e \<longleftrightarrow> le_stream e \<in> {''stdout'', ''stderr'', ''system''} \<and>
     le_level e \<in> {''debug'', ''info'', ''warn'', ''error''}"

section \<open>The disk\<close>

datatype log_line = Whole log_entry | Torn | Unended log_entry | Garbled

record run_dir =
  dir_state :: "stored_run option"
  dir_log :: "log_line list"

type_synonym run_disk = "(string \<times> run_dir) list"

definition read_state :: "run_disk \<Rightarrow> string \<Rightarrow> stored_run option" where
  "read_state disk name = Option.bind (map_of disk name) dir_state"

definition write_state :: "string \<Rightarrow> stored_run \<Rightarrow> run_disk \<Rightarrow> run_disk" where
  "write_state name r disk =
     (let d = (case map_of disk name of None \<Rightarrow> \<lparr>dir_state = None, dir_log = []\<rparr> | Some d \<Rightarrow> d)
      in AList.update name (d\<lparr>dir_state := Some r\<rparr>) disk)"

definition log_of :: "run_disk \<Rightarrow> string \<Rightarrow> log_line list" where
  "log_of disk name = (case map_of disk name of None \<Rightarrow> [] | Some d \<Rightarrow> dir_log d)"

definition write_log :: "string \<Rightarrow> log_line list \<Rightarrow> run_disk \<Rightarrow> run_disk" where
  "write_log name lines disk =
     (case map_of disk name of
        None \<Rightarrow> disk
      | Some d \<Rightarrow> AList.update name (d\<lparr>dir_log := lines\<rparr>) disk)"

definition append_line :: "log_entry \<Rightarrow> log_line list \<Rightarrow> log_line list" where
  "append_line e lines =
     (if lines = [] then [Whole e]
      else case last lines of
        Torn \<Rightarrow> butlast lines @ [Garbled]
      | Unended _ \<Rightarrow> butlast lines @ [Garbled]
      | _ \<Rightarrow> lines @ [Whole e])"

text \<open>The entries of a log and the log left behind: an unreadable last line goes.\<close>

fun read_logs :: "log_line list \<Rightarrow> ree_error + log_entry list \<times> log_line list" where
  "read_logs [] = Inr ([], [])"
| "read_logs (Whole e # lines) = map_sum id (\<lambda>(es, rest). (e # es, Whole e # rest)) (read_logs lines)"
| "read_logs (Unended e # lines) =
     (if lines = [] then Inr ([e], [Unended e]) else Inl (Value_Error ''unreadable log line''))"
| "read_logs (_ # lines) =
     (if lines = [] then Inr ([], []) else Inl (Value_Error ''unreadable log line''))"

definition next_sequence :: "log_line list \<Rightarrow> ree_error + nat \<times> log_line list" where
  "next_sequence lines =
     map_sum id (\<lambda>(entries, rest). (if entries = [] then 1 else le_seq (last entries) + 1, rest))
       (read_logs lines)"

section \<open>The store\<close>

record run_store =
  js_disk :: run_disk
  js_runs :: "(run_key \<times> string) list"
  js_idempotency :: "(run_slot \<times> run_key) list"
  js_next_seq :: "(run_key \<times> nat) list"

text \<open>What \<open>create_idempotent\<close> does: creates, replays, or raises.\<close>

datatype run_creation =
    Created stored_run | Replayed stored_run | Idempotency_Conflict stored_run | Creation_Failed ree_error

definition get_run :: "run_store \<Rightarrow> run_key \<Rightarrow> stored_run option" where
  "get_run s key = Option.bind (map_of (js_runs s) key) (read_state (js_disk s))"

definition write_for_run :: "stored_run \<Rightarrow> run_store \<Rightarrow> run_store" where
  "write_for_run r s =
     (case map_of (js_runs s) (run_key r) of
        None \<Rightarrow> s
      | Some name \<Rightarrow> s\<lparr>js_disk := write_state name r (js_disk s)\<rparr>)"

definition create_fresh :: "stored_run \<Rightarrow> run_store \<Rightarrow> run_creation \<times> run_store" where
  "create_fresh r s =
     (if has_key (js_disk s) (sr_run_id r)
      then (Creation_Failed (File_Exists ''run directory already exists''), s)
      else (Created r, s\<lparr>
        js_disk := write_state (sr_run_id r) r (js_disk s),
        js_runs := AList.update (run_key r) (sr_run_id r) (js_runs s),
        js_next_seq := AList.update (run_key r) 1 (js_next_seq s),
        js_idempotency := (case run_slot r of
            None \<Rightarrow> js_idempotency s
          | Some slot \<Rightarrow> AList.update slot (run_key r) (js_idempotency s))\<rparr>))"

definition create_idempotent :: "stored_run \<Rightarrow> run_store \<Rightarrow> run_creation \<times> run_store" where
  "create_idempotent r s =
     (case Option.bind (run_slot r) (map_of (js_idempotency s)) of
        None \<Rightarrow> create_fresh r s
      | Some key \<Rightarrow>
          (case get_run s key of
             None \<Rightarrow> (Creation_Failed (Key_Error ''run''), s)
           | Some existing \<Rightarrow>
               if sr_request_fingerprint existing \<noteq> sr_request_fingerprint r
               then (Idempotency_Conflict existing, s) else (Replayed existing, s)))"

definition list_runs :: "run_store \<Rightarrow> string \<Rightarrow> stored_run list" where
  "list_runs s ree_id =
     sort_desc (\<lambda>r. (sr_created_at r, sr_run_id r))
       (List.map_filter (\<lambda>((ree, _), name). if ree = ree_id then read_state (js_disk s) name else None)
         (js_runs s))"

text \<open>The read-modify-write of the operations on one run.\<close>

definition update_run ::
  "(stored_run \<Rightarrow> stored_run) \<Rightarrow> run_key \<Rightarrow> run_store \<Rightarrow> stored_run option \<times> run_store" where
  "update_run f key s =
     (case get_run s key of
        None \<Rightarrow> (None, s)
      | Some current \<Rightarrow> (Some (f current), write_for_run (f current) s))"

definition begun_run :: "string \<Rightarrow> stored_run \<Rightarrow> stored_run" where
  "begun_run now r =
     r\<lparr>sr_started_at := Some now,
       sr_status := (if sr_status r = Queued
         then (if sr_operation r = Op_Provision then Provisioning_Run else Running) else sr_status r)\<rparr>"

definition begin_run :: "string \<Rightarrow> run_key \<Rightarrow> run_store \<Rightarrow> stored_run option \<times> run_store" where
  "begin_run now = update_run (begun_run now)"

definition update_outputs ::
  "json_object \<Rightarrow> run_key \<Rightarrow> run_store \<Rightarrow> stored_run option \<times> run_store" where
  "update_outputs outputs = update_run (\<lambda>r. r\<lparr>sr_outputs := outputs\<rparr>)"

definition cancel_requested :: "string \<Rightarrow> stored_run \<Rightarrow> stored_run" where
  "cancel_requested now r =
     r\<lparr>sr_cancel_requested_at :=
         (case sr_cancel_requested_at r of None \<Rightarrow> Some now | Some t \<Rightarrow> Some t),
       sr_status := (if sr_status r \<in> active_statuses then Canceling else sr_status r)\<rparr>"

definition request_cancel :: "string \<Rightarrow> run_key \<Rightarrow> run_store \<Rightarrow> stored_run option \<times> run_store" where
  "request_cancel now = update_run (cancel_requested now)"

definition is_cancel_requested :: "run_store \<Rightarrow> run_key \<Rightarrow> bool" where
  "is_cancel_requested s key \<longleftrightarrow>
     (case get_run s key of None \<Rightarrow> False | Some r \<Rightarrow> sr_cancel_requested_at r \<noteq> None)"

definition finalized_run ::
  "string \<Rightarrow> run_status \<Rightarrow> json_object \<Rightarrow> failure option \<Rightarrow> stored_run \<Rightarrow> stored_run" where
  "finalized_run now status outputs failure r =
     (let canceled = sr_cancel_requested_at r \<noteq> None \<and> status \<notin> {Run_Failed, Run_Succeeded};
          status = (if canceled then Run_Canceled else status);
          failure = (if canceled then None else failure)
      in r\<lparr>sr_status := status, sr_outputs := outputs, sr_failure := failure,
           sr_finished_at := (if status \<in> terminal_statuses then Some now else None)\<rparr>)"

definition finalize_run ::
  "string \<Rightarrow> run_status \<Rightarrow> json_object \<Rightarrow> failure option \<Rightarrow> run_key \<Rightarrow> run_store \<Rightarrow>
     stored_run option \<times> run_store" where
  "finalize_run now status outputs failure = update_run (finalized_run now status outputs failure)"

definition append_log ::
  "string \<Rightarrow> string \<Rightarrow> string \<Rightarrow> string \<Rightarrow> run_key \<Rightarrow> run_store \<Rightarrow>
     (ree_error + log_entry option) \<times> run_store" where
  "append_log now stream level message key s =
     (case (map_of (js_runs s) key, map_of (js_next_seq s) key) of
        (None, _) \<Rightarrow> (Inr None, s)
      | (Some _, None) \<Rightarrow> (Inl (Key_Error ''run''), s)
      | (Some name, Some n) \<Rightarrow>
          let entry = \<lparr>le_seq = n, le_ts = now, le_stream = stream, le_level = level,
                le_message = message\<rparr>
          in if \<not> valid_log_entry entry then (Inl (Value_Error ''invalid log entry''), s)
             else (Inr (Some entry), s\<lparr>
               js_disk := write_log name (append_line entry (log_of (js_disk s) name)) (js_disk s),
               js_next_seq := AList.update key (n + 1) (js_next_seq s)\<rparr>))"

definition list_logs ::
  "nat \<Rightarrow> nat option \<Rightarrow> run_key \<Rightarrow> run_store \<Rightarrow> (ree_error + log_entry list) \<times> run_store" where
  "list_logs after limit key s =
     (case map_of (js_runs s) key of
        None \<Rightarrow> (Inr [], s)
      | Some name \<Rightarrow>
          (case read_logs (log_of (js_disk s) name) of
             Inl e \<Rightarrow> (Inl e, s)
           | Inr (entries, rest) \<Rightarrow>
               (Inr (let newer = filter (\<lambda>e. after < le_seq e) entries
                     in case limit of None \<Rightarrow> newer | Some n \<Rightarrow> take n newer),
                s\<lparr>js_disk := write_log name rest (js_disk s)\<rparr>)))"

definition interrupted_failure :: failure where
  "interrupted_failure = \<lparr>fl_category = Cat_Internal,
     fl_message = ''API process stopped before the run completed'', fl_retryable = True,
     fl_origin = Org_Api, fl_details = Some [(''code'', JStr ''run_interrupted'')]\<rparr>"

definition interrupted_run :: "string \<Rightarrow> stored_run \<Rightarrow> stored_run" where
  "interrupted_run now r =
     r\<lparr>sr_status := Run_Failed, sr_failure := Some interrupted_failure, sr_finished_at := Some now\<rparr>"

text \<open>One iteration of \<open>interrupt_incomplete\<close> and the loop.\<close>

definition interrupt_one ::
  "string \<Rightarrow> run_key \<times> string \<Rightarrow> stored_run list \<times> run_store \<Rightarrow>
     ree_error + stored_run list \<times> run_store" where
  "interrupt_one now entry acc =
     (let (key, name) = entry; (interrupted, s) = acc
      in case read_state (js_disk s) name of
           None \<Rightarrow> Inl (File_Not_Found name)
         | Some current \<Rightarrow>
             if sr_status current \<notin> active_statuses then Inr acc
             else
               let updated = interrupted_run now current;
                   disk = write_state name updated (js_disk s)
               in bind_res (next_sequence (log_of disk name)) (\<lambda>(n, rest).
                  Inr (interrupted @ [updated],
                    s\<lparr>js_disk := write_log name rest disk,
                      js_next_seq := AList.update key n (js_next_seq s)\<rparr>)))"

fun interrupt_all ::
  "string \<Rightarrow> (run_key \<times> string) list \<Rightarrow> stored_run list \<times> run_store \<Rightarrow>
     ree_error + stored_run list \<times> run_store" where
  "interrupt_all now [] acc = Inr acc"
| "interrupt_all now (entry # entries) acc =
     bind_res (interrupt_one now entry acc) (interrupt_all now entries)"

definition interrupt_incomplete :: "string \<Rightarrow> run_store \<Rightarrow> ree_error + stored_run list \<times> run_store" where
  "interrupt_incomplete now s = interrupt_all now (js_runs s) ([], s)"

section \<open>Starting from the disk\<close>

definition load_index :: "string \<times> run_dir \<Rightarrow> run_store \<Rightarrow> ree_error + run_store" where
  "load_index entry s =
     (let (name, dir) = entry
      in case dir_state dir of
           None \<Rightarrow> Inr s
         | Some r \<Rightarrow>
             if has_key (js_runs s) (run_key r) then Inl (Value_Error ''duplicate persisted run'')
             else bind_res (next_sequence (dir_log dir)) (\<lambda>(n, rest).
               let s = s\<lparr>js_disk := write_log name rest (js_disk s),
                     js_runs := AList.update (run_key r) name (js_runs s),
                     js_next_seq := AList.update (run_key r) n (js_next_seq s)\<rparr>
               in case run_slot r of
                    None \<Rightarrow> Inr s
                  | Some slot \<Rightarrow>
                      if has_key (js_idempotency s) slot
                      then Inl (Value_Error ''duplicate persisted idempotency key'')
                      else Inr (s\<lparr>js_idempotency := AList.update slot (run_key r) (js_idempotency s)\<rparr>)))"

fun load_indexes :: "(string \<times> run_dir) list \<Rightarrow> run_store \<Rightarrow> ree_error + run_store" where
  "load_indexes [] s = Inr s"
| "load_indexes (entry # entries) s = bind_res (load_index entry s) (load_indexes entries)"

text \<open>\<open>JsonRunStore(root)\<close>: the directories in the order of their names.\<close>

definition open_store :: "run_disk \<Rightarrow> ree_error + run_store" where
  "open_store disk =
     load_indexes (sort_key fst disk)
       \<lparr>js_disk = disk, js_runs = [], js_idempotency = [], js_next_seq = []\<rparr>"

end
