(* ===== verification/Run_Store_Facts.thy ===== *)
theory Run_Store_Facts
  imports Run_Store
begin

text \<open>
  The store's invariant, that every operation keeps it and what it does to the runs and logs, and
  that opening the store on the disk a stopped process left recovers both.
\<close>

declare split_paired_All [simp del] split_paired_Ex [simp del]

section \<open>The disk\<close>

lemma map_of_write_state:
  "map_of (write_state name r disk) other =
     (if other = name then Some \<lparr>dir_state = Some r, dir_log = log_of disk name\<rparr> else map_of disk other)"
  by (auto simp: write_state_def log_of_def Let_def split: option.split)

lemma read_write_state [simp]:
  "read_state (write_state name r disk) other = (if other = name then Some r else read_state disk other)"
  by (simp add: read_state_def map_of_write_state)

lemma log_write_state [simp]: "log_of (write_state name r disk) other = log_of disk other"
  by (simp add: log_of_def map_of_write_state)

lemma dict_ok_write [simp]:
  "dict_ok disk \<Longrightarrow> dict_ok (write_state name r disk)"
  "dict_ok disk \<Longrightarrow> dict_ok (write_log name lines disk)"
  by (simp_all add: write_state_def write_log_def Let_def split: option.split)

lemma map_of_write_log:
  "map_of (write_log name lines disk) other =
     (if other = name then map_option (dir_log_update (\<lambda>_. lines)) (map_of disk name)
      else map_of disk other)"
  by (auto simp: write_log_def split: option.split)

lemma read_write_log [simp]: "read_state (write_log name lines disk) = read_state disk"
  by (rule ext, rename_tac other) (cases "map_of disk name"; simp add: read_state_def map_of_write_log)

lemma log_write_log [simp]:
  "log_of (write_log name lines disk) other =
     (if other = name \<and> map_of disk name \<noteq> None then lines else log_of disk other)"
  by (auto simp: log_of_def map_of_write_log split: option.split)

lemma read_state_Some: "read_state disk name = Some r \<Longrightarrow> map_of disk name \<noteq> None"
  by (auto simp: read_state_def bind_eq_Some_conv)

section \<open>Logs\<close>

text \<open>A log in order holds the entries numbered from 1; \<open>n\<close> is the next number.\<close>

definition log_ok :: "log_line list \<Rightarrow> nat \<Rightarrow> bool" where
  "log_ok lines n \<longleftrightarrow> (\<exists>es. lines = map Whole es \<and> n = Suc (length es) \<and>
     (\<forall>i < length es. le_seq (es ! i) = Suc i))"

lemma read_logs_whole [simp]: "read_logs (map Whole es) = Inr (es, map Whole es)"
  by (induction es) simp_all

lemma read_logs_torn: "read_logs (map Whole es @ [Torn]) = Inr (es, map Whole es)"
  by (induction es) simp_all

lemma append_whole [simp]: "append_line e (map Whole es) = map Whole (es @ [e])"
  by (cases es rule: rev_cases) (simp_all add: append_line_def)

lemma log_ok_new [simp]: "log_ok [] (Suc 0)"
  by (simp add: log_ok_def)

lemma last_seq:
  "\<forall>i < length es. le_seq (es ! i) = Suc i \<Longrightarrow>
   (if es = [] then 1 else le_seq (last es) + 1) = Suc (length es)"
  by (simp add: last_conv_nth)

lemma log_ok_append:
  assumes "log_ok lines n" and "le_seq e = n"
  shows "log_ok (append_line e lines) (Suc n)"
proof -
  from assms obtain es where "lines = map Whole es" "le_seq e = Suc (length es)"
    "\<forall>i < length es. le_seq (es ! i) = Suc i" "n = Suc (length es)" by (auto simp: log_ok_def)
  then show ?thesis
    unfolding log_ok_def by (intro exI[of _ "es @ [e]"]) (simp add: nth_append less_Suc_eq)
qed

lemma next_sequence_ok:
  assumes "log_ok lines n"
  shows "next_sequence lines = Inr (n, lines)" and "next_sequence (lines @ [Torn]) = Inr (n, lines)"
  using assms last_seq unfolding log_ok_def next_sequence_def by (auto simp only: read_logs_whole
      read_logs_torn map_sum.simps prod.case)

section \<open>The invariant\<close>

definition store_ok :: "run_store \<Rightarrow> bool" where
  "store_ok s \<longleftrightarrow> dict_ok (js_disk s) \<and> dict_ok (js_runs s) \<and>
     (\<forall>name r. read_state (js_disk s) name = Some r \<longrightarrow> sr_run_id r = name) \<and>
     (\<forall>key. map_of (js_runs s) key =
        (if map_option run_key (read_state (js_disk s) (snd key)) = Some key then Some (snd key) else None)) \<and>
     (\<forall>slot key. map_of (js_idempotency s) slot = Some key \<longleftrightarrow>
        (\<exists>r. get_run s key = Some r \<and> run_slot r = Some slot)) \<and>
     (\<forall>key. map_of (js_runs s) key \<noteq> None \<longrightarrow>
        (\<exists>n. map_of (js_next_seq s) key = Some n \<and> log_ok (log_of (js_disk s) (snd key)) n))"

lemma indexed_runs:
  "store_ok s \<Longrightarrow> map_of (js_runs s) key =
     (if map_option run_key (read_state (js_disk s) (snd key)) = Some key then Some (snd key) else None)"
  unfolding store_ok_def by blast

lemma get_run_ok:
  "store_ok s \<Longrightarrow> get_run s key = Some r \<longleftrightarrow> read_state (js_disk s) (snd key) = Some r \<and> run_key r = key"
  unfolding get_run_def by (simp only: indexed_runs) auto

lemma get_run_key: "store_ok s \<Longrightarrow> get_run s key = Some r \<Longrightarrow> run_key r = key"
  by (simp add: get_run_ok)

lemma runs_ok:
  assumes "store_ok s"
  shows "map_of (js_runs s) key = (if get_run s key = None then None else Some (snd key))"
proof (cases "map_option run_key (read_state (js_disk s) (snd key)) = Some key")
  case True
  then obtain r where "get_run s key = Some r" using get_run_ok[OF assms] by auto
  with True show ?thesis by (simp add: indexed_runs[OF assms])
next
  case False
  then have "get_run s key = None" using get_run_ok[OF assms] by (cases "get_run s key") auto
  with False show ?thesis by (simp add: indexed_runs[OF assms])
qed

lemma slots_ok:
  "store_ok s \<Longrightarrow> map_of (js_idempotency s) slot = Some key \<longleftrightarrow>
     (\<exists>r. get_run s key = Some r \<and> run_slot r = Some slot)"
  unfolding store_ok_def by blast

lemma log_numbered:
  assumes "store_ok s" and "get_run s key \<noteq> None"
  shows "\<exists>n. map_of (js_next_seq s) key = Some n \<and> log_ok (log_of (js_disk s) (snd key)) n"
proof -
  have "map_of (js_runs s) key \<noteq> None" using runs_ok[OF assms(1), of key] assms(2) by simp
  with assms(1) show ?thesis unfolding store_ok_def by blast
qed

text \<open>The invariant, to be shown.\<close>

lemma store_okI:
  assumes "dict_ok (js_disk s)" and "dict_ok (js_runs s)"
    and "\<And>name r. read_state (js_disk s) name = Some r \<Longrightarrow> sr_run_id r = name"
    and "\<And>key. map_of (js_runs s) key =
      (if map_option run_key (read_state (js_disk s) (snd key)) = Some key then Some (snd key) else None)"
    and "\<And>slot key. map_of (js_idempotency s) slot = Some key \<longleftrightarrow>
      (\<exists>r. get_run s key = Some r \<and> run_slot r = Some slot)"
    and "\<And>key. get_run s key \<noteq> None \<Longrightarrow>
      \<exists>n. map_of (js_next_seq s) key = Some n \<and> log_ok (log_of (js_disk s) (snd key)) n"
  shows "store_ok s"
proof -
  have "map_of (js_runs s) key \<noteq> None \<Longrightarrow> get_run s key \<noteq> None" for key
    using assms(4)[of key] by (auto simp: get_run_def split: if_splits)
  with assms show ?thesis unfolding store_ok_def by blast
qed

lemma run_key_snd [simp]: "snd (run_key r) = sr_run_id r"
  by (simp add: run_key_def)

definition logs_of :: "run_store \<Rightarrow> run_key \<Rightarrow> log_line list" where
  "logs_of s key = log_of (js_disk s) (snd key)"

text \<open>An update that keeps what identifies the run.\<close>

definition keeps_identity :: "(stored_run \<Rightarrow> stored_run) \<Rightarrow> bool" where
  "keeps_identity f \<longleftrightarrow> (\<forall>r. run_key (f r) = run_key r \<and> run_slot (f r) = run_slot r)"

lemma keeps_identity_ops [simp]:
  "keeps_identity (begun_run now)" "keeps_identity (cancel_requested now)"
  "keeps_identity (finalized_run now status outputs failure)" "keeps_identity (interrupted_run now)"
  "keeps_identity (sr_outputs_update g)"
  by (simp_all add: keeps_identity_def run_key_def run_slot_def begun_run_def cancel_requested_def
      finalized_run_def interrupted_run_def Let_def split: option.split)

lemma write_for_run_ok:
  assumes "store_ok s" and "get_run s key = Some r" and "run_key r' = key" and "run_slot r' = run_slot r"
  shows "store_ok (write_for_run r' s)" and "get_run (write_for_run r' s) = (get_run s)(key \<mapsto> r')"
    and "logs_of (write_for_run r' s) = logs_of s" and "js_next_seq (write_for_run r' s) = js_next_seq s"
    and "js_idempotency (write_for_run r' s) = js_idempotency s"
proof -
  let ?s = "write_for_run r' s"
  have s: "?s = s\<lparr>js_disk := write_state (snd key) r' (js_disk s)\<rparr>"
    using assms by (simp add: write_for_run_def runs_ok)
  have r: "read_state (js_disk s) (snd key) = Some r" "run_key r = key"
    using assms(1,2) by (simp_all add: get_run_ok)
  show get: "get_run ?s = (get_run s)(key \<mapsto> r')"
  proof
    fix k
    show "get_run ?s k = ((get_run s)(key \<mapsto> r')) k"
    proof (cases "get_run s k")
      case None
      then have "map_of (js_runs s) k = None" "k \<noteq> key" using assms(1,2) runs_ok by auto
      then show ?thesis using None by (simp add: s get_run_def)
    next
      case (Some x)
      then have runs: "map_of (js_runs s) k = Some (snd k)" using assms(1) runs_ok by simp
      from Some have x: "read_state (js_disk s) (snd k) = Some x" "run_key x = k"
        using get_run_ok[OF assms(1)] by auto
      show ?thesis
      proof (cases "snd k = snd key")
        case True
        then have "x = r" using x(1) r(1) by simp
        then have "k = key" using x(2) r(2) by simp
        with runs show ?thesis by (simp add: s get_run_def)
      next
        case False
        with runs x Some show ?thesis by (auto simp: s get_run_def)
      qed
    qed
  qed
  show "logs_of ?s = logs_of s" by (simp add: s logs_of_def fun_eq_iff)
  show "js_next_seq ?s = js_next_seq s" "js_idempotency ?s = js_idempotency s" by (simp_all add: s)
  have id: "sr_run_id r' = snd key" using assms(3) by (metis run_key_snd)
  show "store_ok ?s"
  proof (rule store_okI)
    show "map_of (js_idempotency ?s) slot = Some k \<longleftrightarrow>
        (\<exists>x. get_run ?s k = Some x \<and> run_slot x = Some slot)" for slot k
      using slots_ok[OF assms(1), of slot k] assms(2,4) unfolding get by (simp add: s)
    show "\<exists>n. map_of (js_next_seq ?s) k = Some n \<and> log_ok (log_of (js_disk ?s) (snd k)) n"
      if "get_run ?s k \<noteq> None" for k
    proof -
      have "get_run s k \<noteq> None" using that assms(2) unfolding get by (auto split: if_splits)
      from log_numbered[OF assms(1) this] show ?thesis by (simp add: s)
    qed
    show "map_of (js_runs ?s) k = (if map_option run_key (read_state (js_disk ?s) (snd k)) = Some k
      then Some (snd k) else None)" for k
      using indexed_runs[OF assms(1), of k] assms(3) r by (cases "snd k = snd key") (auto simp: s)
    show "dict_ok (js_disk ?s)" "dict_ok (js_runs ?s)" using assms(1) by (simp_all add: s store_ok_def)
    show "read_state (js_disk ?s) name = Some x \<Longrightarrow> sr_run_id x = name" for name x
      using assms(1) id by (auto simp: s store_ok_def split: if_splits)
  qed
qed

lemma update_run_ok:
  assumes "store_ok s" and "keeps_identity f" and "update_run f key s = (res, s')"
  shows "store_ok s'" and "get_run s' = (get_run s)(key := map_option f (get_run s key))"
    and "logs_of s' = logs_of s" and "js_next_seq s' = js_next_seq s"
    and "js_idempotency s' = js_idempotency s" and "res = map_option f (get_run s key)"
proof -
  show "res = map_option f (get_run s key)"
    using assms(3) by (auto simp: update_run_def split: option.splits)
  have "store_ok s' \<and> get_run s' = (get_run s)(key := map_option f (get_run s key)) \<and>
      logs_of s' = logs_of s \<and> js_next_seq s' = js_next_seq s \<and> js_idempotency s' = js_idempotency s"
  proof (cases "get_run s key")
    case None
    with assms show ?thesis by (auto simp: update_run_def)
  next
    case (Some r)
    have "run_key (f r) = key" "run_slot (f r) = run_slot r"
      using assms(2) get_run_key[OF assms(1) Some] by (simp_all add: keeps_identity_def)
    with write_for_run_ok[OF assms(1) Some this] assms(3) Some show ?thesis
      by (auto simp: update_run_def)
  qed
  then show "store_ok s'" "get_run s' = (get_run s)(key := map_option f (get_run s key))"
    "logs_of s' = logs_of s" "js_next_seq s' = js_next_seq s" "js_idempotency s' = js_idempotency s"
    by simp_all
qed

section \<open>Creating\<close>

lemma create_fresh_ok:
  assumes "store_ok s" and "\<not> has_key (js_disk s) (sr_run_id r)"
    and "run_slot r = None \<or> map_of (js_idempotency s) (the (run_slot r)) = None"
    and "create_fresh r s = (out, s')"
  shows "store_ok s'" and "out = Created r" and "get_run s (run_key r) = None"
    and "get_run s' = (get_run s)(run_key r \<mapsto> r)"
    and "logs_of s' k = (if snd k = sr_run_id r then [] else logs_of s k)"
proof -
  let ?disk = "write_state (sr_run_id r) r (js_disk s)"
  have fresh: "map_of (js_disk s) (sr_run_id r) = None" using assms(2) by (simp add: has_key_def)
  from assms(4) fresh show out: "out = Created r"
    by (simp add: create_fresh_def has_key_def)
  from assms(4) fresh have s': "js_disk s' = ?disk"
      "js_runs s' = AList.update (run_key r) (sr_run_id r) (js_runs s)"
      "js_next_seq s' = AList.update (run_key r) 1 (js_next_seq s)"
      "js_idempotency s' = (case run_slot r of None \<Rightarrow> js_idempotency s
        | Some slot \<Rightarrow> AList.update slot (run_key r) (js_idempotency s))"
    by (auto simp: create_fresh_def has_key_def)
  have unread: "read_state (js_disk s) (sr_run_id r) = None" using fresh by (simp add: read_state_def)
  have other: "get_run s k = None" if "snd k = sr_run_id r" for k
  proof (rule ccontr)
    assume "get_run s k \<noteq> None"
    then obtain x where "get_run s k = Some x" by blast
    then have "read_state (js_disk s) (snd k) = Some x" using get_run_ok[OF assms(1)] by blast
    with unread that show False by simp
  qed
  show none: "get_run s (run_key r) = None" by (rule other) simp
  show get: "get_run s' = (get_run s)(run_key r \<mapsto> r)"
  proof
    fix k
    show "get_run s' k = ((get_run s)(run_key r \<mapsto> r)) k"
    proof (cases "k = run_key r")
      case False
      then show ?thesis
        using runs_ok[OF assms(1), of k] other[of k]
        by (auto simp: get_run_def s' split: if_splits)
    qed (simp add: get_run_def s')
  qed
  show "logs_of s' k = (if snd k = sr_run_id r then [] else logs_of s k)"
    using fresh by (simp add: logs_of_def s') (simp add: log_of_def)
  show "store_ok s'"
  proof (rule store_okI)
    show "dict_ok (js_disk s')" "dict_ok (js_runs s')" using assms(1) by (simp_all add: s' store_ok_def)
    show "read_state (js_disk s') name = Some x \<Longrightarrow> sr_run_id x = name" for name x
      using assms(1) by (auto simp: s' store_ok_def split: if_splits)
    show "map_of (js_runs s') k = (if map_option run_key (read_state (js_disk s') (snd k)) = Some k
      then Some (snd k) else None)" for k
      using indexed_runs[OF assms(1), of k] other[of k] unread
      by (cases "snd k = sr_run_id r") (auto simp: s')
    show "\<exists>n. map_of (js_next_seq s') k = Some n \<and> log_ok (log_of (js_disk s') (snd k)) n"
      if "get_run s' k \<noteq> None" for k
    proof (cases "k = run_key r")
      case True
      then show ?thesis using fresh by (simp add: s') (simp add: log_of_def)
    next
      case False
      with that have "get_run s k \<noteq> None" by (simp add: get)
      from log_numbered[OF assms(1) this] False show ?thesis by (simp add: s')
    qed
    show "map_of (js_idempotency s') slot = Some k \<longleftrightarrow> (\<exists>x. get_run s' k = Some x \<and> run_slot x = Some slot)"
      for slot k
      using slots_ok[OF assms(1), of slot k] assms(3) none unfolding get
      by (auto simp: s' split: option.splits if_splits)
  qed
qed

text \<open>A run proposed under a directory that is not there yet.\<close>

lemma create_idempotent_cases:
  assumes "store_ok s" and "\<not> has_key (js_disk s) (sr_run_id r)"
    and "create_idempotent r s = (out, s')"
  obtains (fresh) "out = Created r" "create_fresh r s = (Created r, s')"
      "run_slot r = None \<or> map_of (js_idempotency s) (the (run_slot r)) = None"
  | (replay) slot existing where "out = Replayed existing" "s' = s" "run_slot r = Some slot"
      "get_run s (run_key existing) = Some existing" "run_slot existing = Some slot"
      "sr_request_fingerprint existing = sr_request_fingerprint r"
  | (conflict) slot existing where "out = Idempotency_Conflict existing" "s' = s" "run_slot r = Some slot"
      "get_run s (run_key existing) = Some existing" "run_slot existing = Some slot"
      "sr_request_fingerprint existing \<noteq> sr_request_fingerprint r"
proof (cases "Option.bind (run_slot r) (map_of (js_idempotency s))")
  case None
  then have free: "run_slot r = None \<or> map_of (js_idempotency s) (the (run_slot r)) = None"
    by (cases "run_slot r") auto
  have "create_fresh r s = (out, s')" using None assms(3) by (simp add: create_idempotent_def)
  with create_fresh_ok(2)[OF assms(1,2) free] fresh free show ?thesis by metis
next
  case (Some key)
  then obtain slot where slot: "run_slot r = Some slot" "map_of (js_idempotency s) slot = Some key"
    by (cases "run_slot r") auto
  then obtain existing where e: "get_run s key = Some existing" "run_slot existing = Some slot"
    using slots_ok[OF assms(1)] by blast
  have "key = run_key existing" using get_run_key[OF assms(1) e(1)] by simp
  with e have there: "get_run s (run_key existing) = Some existing" by simp
  show ?thesis
  proof (cases "sr_request_fingerprint existing = sr_request_fingerprint r")
    case True
    with assms(3) Some e there slot(1) show ?thesis
      by (intro replay[of existing slot]) (auto simp: create_idempotent_def)
  next
    case False
    with assms(3) Some e there slot(1) show ?thesis
      by (intro conflict[of existing slot]) (auto simp: create_idempotent_def)
  qed
qed

section \<open>Logging\<close>

lemma append_log_ok:
  assumes "store_ok s" and "append_log now stream level message key s = (res, s')"
  shows "store_ok s'" and "get_run s' = get_run s" and "js_idempotency s' = js_idempotency s"
    and "logs_of s' k = (case res of Inr (Some e) \<Rightarrow>
      if snd k = snd key then append_line e (logs_of s k) else logs_of s k | _ \<Rightarrow> logs_of s k)"
proof -
  have "store_ok s' \<and> get_run s' = get_run s \<and> js_idempotency s' = js_idempotency s \<and>
    logs_of s' k = (case res of Inr (Some e) \<Rightarrow>
      if snd k = snd key then append_line e (logs_of s k) else logs_of s k | _ \<Rightarrow> logs_of s k)"
  proof (cases "\<exists>e. res = Inr (Some e)")
    case False
    with assms show ?thesis
      by (auto simp: append_log_def Let_def split: option.splits if_splits)
  next
    case True
    then obtain e where e: "res = Inr (Some e)" ..
    with assms(2) obtain name n where n: "map_of (js_runs s) key = Some name"
        "map_of (js_next_seq s) key = Some n" "le_seq e = n"
        "s' = s\<lparr>js_disk := write_log name (append_line e (log_of (js_disk s) name)) (js_disk s),
           js_next_seq := AList.update key (n + 1) (js_next_seq s)\<rparr>"
      by (auto simp: append_log_def Let_def split: option.splits if_splits)
    have there: "get_run s key \<noteq> None" and name: "name = snd key"
      using runs_ok[OF assms(1), of key] n(1) by (auto split: if_splits)
    have log: "log_ok (log_of (js_disk s) (snd key)) n" using log_numbered[OF assms(1) there] n(2) by simp
    have dir: "map_of (js_disk s) (snd key) \<noteq> None"
      using there get_run_ok[OF assms(1), of key] read_state_Some by blast
    have get: "get_run s' = get_run s" by (simp add: n(4) get_run_def fun_eq_iff)
    have same: "k = key" if "get_run s k \<noteq> None" "snd k = snd key" for k
      using that there get_run_ok[OF assms(1), of k] get_run_ok[OF assms(1), of key] by auto
    have "store_ok s'"
    proof (rule store_okI)
      show "dict_ok (js_disk s')" "dict_ok (js_runs s')" using assms(1)
        by (simp_all add: n(4) store_ok_def)
      show "read_state (js_disk s') x = Some r \<Longrightarrow> sr_run_id r = x" for x r
        using assms(1) by (simp add: n(4) store_ok_def)
      show "map_of (js_runs s') k = (if map_option run_key (read_state (js_disk s') (snd k)) = Some k
        then Some (snd k) else None)" for k
        using indexed_runs[OF assms(1), of k] by (simp add: n(4))
      show "map_of (js_idempotency s') slot = Some k \<longleftrightarrow> (\<exists>r. get_run s' k = Some r \<and> run_slot r = Some slot)"
        for slot k using slots_ok[OF assms(1), of slot k] unfolding get by (simp add: n(4))
      show "\<exists>n. map_of (js_next_seq s') k = Some n \<and> log_ok (log_of (js_disk s') (snd k)) n"
        if "get_run s' k \<noteq> None" for k
      proof (cases "k = key")
        case True
        then show ?thesis using log_ok_append[OF log n(3)] dir by (simp add: n(4) name)
      next
        case False
        with that same have "snd k \<noteq> snd key" unfolding get by blast
        with that log_numbered[OF assms(1), of k] False show ?thesis unfolding get by (simp add: n(4) name)
      qed
    qed
    with get dir show ?thesis by (simp add: e n(4) name logs_of_def)
  qed
  then show "store_ok s'" "get_run s' = get_run s" "js_idempotency s' = js_idempotency s"
    "logs_of s' k = (case res of Inr (Some e) \<Rightarrow>
      if snd k = snd key then append_line e (logs_of s k) else logs_of s k | _ \<Rightarrow> logs_of s k)"
    by simp_all
qed

text \<open>Reading a log of a store in order changes nothing and returns the numbered entries.\<close>

lemma write_same_log: "log_of disk name = lines \<Longrightarrow> write_log name lines disk = disk"
  by (auto simp: write_log_def log_of_def update_triv split: option.splits)

definition entries_of :: "run_store \<Rightarrow> run_key \<Rightarrow> log_entry list" where
  "entries_of s key = List.map_filter (\<lambda>l. case l of Whole e \<Rightarrow> Some e | _ \<Rightarrow> None) (logs_of s key)"

lemma map_filter_whole [simp]:
  "List.map_filter (\<lambda>l. case l of Whole e \<Rightarrow> Some e | _ \<Rightarrow> None) (map Whole es) = es"
  by (induction es) (simp_all add: List.map_filter_def)

lemma entries_numbered:
  assumes "store_ok s" and "get_run s key \<noteq> None"
  shows "logs_of s key = map Whole (entries_of s key)"
    and "i < length (entries_of s key) \<Longrightarrow> le_seq (entries_of s key ! i) = Suc i"
    and "map_of (js_next_seq s) key = Some (Suc (length (entries_of s key)))"
  using log_numbered[OF assms] by (auto simp: log_ok_def entries_of_def logs_of_def)

lemma list_logs_ok:
  assumes "store_ok s" and "get_run s key \<noteq> None"
  shows "list_logs after limit key s =
    (Inr (let newer = drop after (entries_of s key)
       in case limit of None \<Rightarrow> newer | Some n \<Rightarrow> take n newer), s)"
proof -
  let ?es = "entries_of s key"
  have log: "log_of (js_disk s) (snd key) = map Whole ?es"
    using entries_numbered(1)[OF assms] by (simp add: logs_of_def)
  have newer: "filter (\<lambda>e. after < le_seq e) es = drop after es"
    if "\<forall>i < length es. le_seq (es ! i) = Suc i" for es
    using that
  proof (induction es rule: rev_induct)
    case (snoc e es)
    then have "filter (\<lambda>e. after < le_seq e) es = drop after es"
      by (metis (no_types, lifting) length_append_singleton less_SucI nth_append)
    moreover have "le_seq e = Suc (length es)" using snoc.prems by (auto simp: nth_append)
    ultimately show ?case by simp
  qed simp
  have "map_of (js_runs s) key = Some (snd key)" using runs_ok[OF assms(1), of key] assms(2) by simp
  moreover have "filter (\<lambda>e. after < le_seq e) ?es = drop after ?es"
    by (rule newer) (simp add: entries_numbered(2)[OF assms])
  ultimately show ?thesis
    by (simp add: list_logs_def log write_same_log)
qed

section \<open>Interrupting\<close>

definition settle_interrupted :: "string \<Rightarrow> stored_run \<Rightarrow> stored_run" where
  "settle_interrupted now r = (if sr_status r \<in> active_statuses then interrupted_run now r else r)"

lemma write_for_run_indexed:
  "store_ok s \<Longrightarrow> get_run s key = Some r \<Longrightarrow> run_key r' = key \<Longrightarrow>
   write_for_run r' s = s\<lparr>js_disk := write_state (snd key) r' (js_disk s)\<rparr>"
  by (simp add: write_for_run_def runs_ok)

lemma interrupt_one_ok:
  assumes "store_ok s" and "map_of (js_runs s) key = Some name"
  shows "\<exists>out' s'. interrupt_one now (key, name) (out, s) = Inr (out', s') \<and> store_ok s' \<and>
    js_runs s' = js_runs s \<and> logs_of s' = logs_of s \<and> js_idempotency s' = js_idempotency s \<and>
    get_run s' = (get_run s)(key := map_option (settle_interrupted now) (get_run s key))"
proof -
  obtain r where r: "get_run s key = Some r" and name: "name = snd key"
    using assms runs_ok[OF assms(1), of key] by (auto split: if_splits)
  have read: "read_state (js_disk s) name = Some r" using get_run_ok[OF assms(1)] r name by blast
  show ?thesis
  proof (cases "sr_status r \<in> active_statuses")
    case False
    then show ?thesis using r read assms(1)
      by (auto simp: interrupt_one_def settle_interrupted_def fun_eq_iff)
  next
    case True
    let ?r = "interrupted_run now r"
    let ?s = "write_for_run ?r s"
    have id: "run_key ?r = key" "run_slot ?r = run_slot r"
      using keeps_identity_ops(4) get_run_key[OF assms(1) r] by (auto simp: keeps_identity_def)
    note w = write_for_run_ok[OF assms(1) r id]
    obtain n where n: "map_of (js_next_seq s) key = Some n" "log_ok (log_of (js_disk s) name) n"
      using log_numbered[OF assms(1)] r name by blast
    have "interrupt_one now (key, name) (out, s) = Inr (out @ [?r], ?s)"
      using True read n write_for_run_indexed[OF assms(1) r id(1)]
      by (simp add: interrupt_one_def next_sequence_ok name write_same_log update_triv Let_def)
    moreover have "js_runs ?s = js_runs s"
      by (simp add: write_for_run_indexed[OF assms(1) r id(1)])
    ultimately show ?thesis using w r True by (simp add: settle_interrupted_def)
  qed
qed

lemma settle_interrupted_twice [simp]:
  "settle_interrupted now (settle_interrupted now r) = settle_interrupted now r"
  by (simp add: settle_interrupted_def interrupted_run_def active_statuses_def)

lemma interrupt_all_ok:
  "store_ok s \<Longrightarrow> \<forall>(key, name) \<in> set entries. map_of (js_runs s) key = Some name \<Longrightarrow>
   \<exists>out' s'. interrupt_all now entries (out, s) = Inr (out', s') \<and> store_ok s' \<and>
     logs_of s' = logs_of s \<and> js_idempotency s' = js_idempotency s \<and>
     (\<forall>key. get_run s' key = (if key \<in> fst ` set entries
        then map_option (settle_interrupted now) (get_run s key) else get_run s key))"
proof (induction entries arbitrary: out s)
  case Nil
  then show ?case by simp
next
  case (Cons entry entries)
  obtain key name where entry: "entry = (key, name)" by (cases entry)
  from Cons.prems have "map_of (js_runs s) key = Some name" by (simp add: entry)
  from interrupt_one_ok[OF Cons.prems(1) this] obtain out1 s1 where
    one: "interrupt_one now (key, name) (out, s) = Inr (out1, s1)" "store_ok s1" "js_runs s1 = js_runs s"
      "logs_of s1 = logs_of s" "js_idempotency s1 = js_idempotency s"
      "get_run s1 = (get_run s)(key := map_option (settle_interrupted now) (get_run s key))"
    by blast
  have "\<forall>(key, name) \<in> set entries. map_of (js_runs s1) key = Some name"
    using Cons.prems(2) one(3) by auto
  from Cons.IH[OF one(2) this] obtain out2 s2 where
    rest: "interrupt_all now entries (out1, s1) = Inr (out2, s2)" "store_ok s2" "logs_of s2 = logs_of s1"
      "js_idempotency s2 = js_idempotency s1"
      "\<forall>key. get_run s2 key = (if key \<in> fst ` set entries
        then map_option (settle_interrupted now) (get_run s1 key) else get_run s1 key)"
    by blast
  have "get_run s2 k = (if k \<in> fst ` set (entry # entries)
      then map_option (settle_interrupted now) (get_run s k) else get_run s k)" for k
    using spec[OF rest(5), of k]
    by (cases "k = key"; cases "get_run s key") (auto simp: one(6) entry option.map_comp comp_def)
  with one(1,4,5) rest(1-4) show ?case by (auto simp: entry)
qed

theorem interrupt_incomplete_ok:
  assumes "store_ok s"
  shows "\<exists>out s'. interrupt_incomplete now s = Inr (out, s') \<and> store_ok s' \<and> logs_of s' = logs_of s \<and>
    js_idempotency s' = js_idempotency s \<and>
    get_run s' = (\<lambda>key. map_option (settle_interrupted now) (get_run s key))"
proof -
  have "dict_ok (js_runs s)" using assms by (simp add: store_ok_def)
  then have "\<forall>(key, name) \<in> set (js_runs s). map_of (js_runs s) key = Some name"
    by (auto simp: dict_ok_map_of_iff)
  from interrupt_all_ok[OF assms this, of now "[]"] obtain out s' where
    s': "interrupt_all now (js_runs s) ([], s) = Inr (out, s')" "store_ok s'" "logs_of s' = logs_of s"
      "js_idempotency s' = js_idempotency s"
      "\<forall>key. get_run s' key = (if key \<in> fst ` set (js_runs s)
        then map_option (settle_interrupted now) (get_run s key) else get_run s key)"
    by blast
  have "get_run s' key = map_option (settle_interrupted now) (get_run s key)" for key
    using spec[OF s'(5), of key] runs_ok[OF assms, of key] map_of_eq_None_iff[of "js_runs s" key]
    by (cases "get_run s key"; cases "key \<in> fst ` set (js_runs s)") simp_all
  with s' show ?thesis by (auto simp: interrupt_incomplete_def)
qed

section \<open>Recovering\<close>

text \<open>
  A disk the store can be opened on: every state sits in the directory named by its run, slots are
  taken once and every log is in order but for a torn last line.
\<close>

definition recoverable :: "log_line list \<Rightarrow> bool" where
  "recoverable lines \<longleftrightarrow> (\<exists>n sound. log_ok sound n \<and> (lines = sound \<or> lines = sound @ [Torn]))"

definition sound_log :: "log_line list \<Rightarrow> log_line list" where
  "sound_log lines = (if lines \<noteq> [] \<and> last lines = Torn then butlast lines else lines)"

lemma log_ok_not_torn:
  assumes "log_ok lines n"
  shows "sound_log lines = lines"
proof -
  from assms obtain es where "lines = map Whole es" by (auto simp: log_ok_def)
  then show ?thesis by (cases es rule: rev_cases) (simp_all add: sound_log_def)
qed

lemma recoverable_sequence:
  assumes "recoverable lines"
  shows "\<exists>n. next_sequence lines = Inr (n, sound_log lines) \<and> log_ok (sound_log lines) n"
proof -
  from assms obtain n sound where *: "log_ok sound n" "lines = sound \<or> lines = sound @ [Torn]"
    unfolding recoverable_def by blast
  then have "sound_log lines = sound" using log_ok_not_torn[OF *(1)] by (auto simp: sound_log_def)
  with * next_sequence_ok[OF *(1)] show ?thesis by auto
qed

definition disk_ok :: "run_disk \<Rightarrow> bool" where
  "disk_ok disk \<longleftrightarrow> dict_ok disk \<and>
     (\<forall>name r. read_state disk name = Some r \<longrightarrow>
        sr_run_id r = name \<and> recoverable (log_of disk name)) \<and>
     (\<forall>m n q r slot. read_state disk m = Some q \<longrightarrow> read_state disk n = Some r \<longrightarrow>
        run_slot q = Some slot \<longrightarrow> run_slot r = Some slot \<longrightarrow> m = n)"

text \<open>The store after some of the directories were read.\<close>

definition on_disk :: "run_disk \<Rightarrow> string set \<Rightarrow> run_key \<Rightarrow> stored_run \<Rightarrow> bool" where
  "on_disk disk names key r \<longleftrightarrow> snd key \<in> names \<and> read_state disk (snd key) = Some r \<and> run_key r = key"

definition loaded :: "run_disk \<Rightarrow> string set \<Rightarrow> run_store \<Rightarrow> bool" where
  "loaded disk names s \<longleftrightarrow> dict_ok (js_disk s) \<and> dict_ok (js_runs s) \<and>
     read_state (js_disk s) = read_state disk \<and>
     (\<forall>name. log_of (js_disk s) name = (if name \<in> names \<and> read_state disk name \<noteq> None
        then sound_log (log_of disk name) else log_of disk name)) \<and>
     (\<forall>key. map_of (js_runs s) key = (if \<exists>r. on_disk disk names key r then Some (snd key) else None)) \<and>
     (\<forall>key. (\<exists>r. on_disk disk names key r) \<longrightarrow>
        (\<exists>n. map_of (js_next_seq s) key = Some n \<and> log_ok (sound_log (log_of disk (snd key))) n)) \<and>
     (\<forall>slot key. map_of (js_idempotency s) slot = Some key \<longleftrightarrow>
        (\<exists>r. on_disk disk names key r \<and> run_slot r = Some slot))"

lemma on_disk_insert:
  "on_disk disk (insert name names) key r \<longleftrightarrow>
     on_disk disk names key r \<or> snd key = name \<and> read_state disk name = Some r \<and> run_key r = key"
  by (auto simp: on_disk_def)

lemma load_index_ok:
  assumes "disk_ok disk" and "loaded disk names s" and "map_of disk name = Some d" and "name \<notin> names"
  shows "\<exists>s'. load_index (name, d) s = Inr s' \<and> loaded disk (insert name names) s'"
proof (cases "dir_state d")
  case None
  then have "read_state disk name = None" using assms(3) by (simp add: read_state_def)
  then have "on_disk disk (insert name names) = on_disk disk names"
    by (auto simp: fun_eq_iff on_disk_def)
  with None assms(2) \<open>read_state disk name = None\<close> show ?thesis
    by (auto simp: load_index_def loaded_def)
next
  case (Some r)
  then have r: "read_state disk name = Some r" and log: "log_of disk name = dir_log d"
    using assms(3) by (simp_all add: read_state_def log_of_def)
  then have id: "sr_run_id r = name" and "recoverable (dir_log d)"
    using assms(1) unfolding disk_ok_def by metis+
  then obtain n where n: "next_sequence (dir_log d) = Inr (n, sound_log (dir_log d))"
      "log_ok (sound_log (dir_log d)) n"
    using recoverable_sequence by blast
  have new: "\<not> on_disk disk names (run_key r) x" for x using assms(4) id by (simp add: on_disk_def)
  have fresh: "\<not> has_key (js_runs s) (run_key r)"
    using assms(2) new by (simp add: loaded_def has_key_def)
  have slot: "map_of (js_idempotency s) slot = None" if "run_slot r = Some slot" for slot
  proof (rule ccontr)
    assume "map_of (js_idempotency s) slot \<noteq> None"
    then obtain key q where "on_disk disk names key q" "run_slot q = Some slot"
      using assms(2) unfolding loaded_def by blast
    with that r assms(1,4) show False unfolding disk_ok_def on_disk_def by metis
  qed
  define s' where "s' = s\<lparr>js_disk := write_log name (sound_log (dir_log d)) (js_disk s),
      js_runs := AList.update (run_key r) name (js_runs s),
      js_next_seq := AList.update (run_key r) n (js_next_seq s),
      js_idempotency := (case run_slot r of None \<Rightarrow> js_idempotency s
        | Some slot \<Rightarrow> AList.update slot (run_key r) (js_idempotency s))\<rparr>"
  have "load_index (name, d) s = Inr s'"
    using Some fresh n slot
    by (auto simp: load_index_def s'_def has_key_def Let_def split: option.splits)
  moreover have "loaded disk (insert name names) s'"
  proof -
    have here: "read_state (js_disk s) name = Some r" using assms(2) r by (simp add: loaded_def)
    have "log_of (js_disk s') m = (if m \<in> insert name names \<and> read_state disk m \<noteq> None
        then sound_log (log_of disk m) else log_of disk m)" for m
      using assms(2) read_state_Some[OF here] r by (auto simp: s'_def loaded_def log)
    moreover have "map_of (js_runs s') key =
        (if \<exists>x. on_disk disk (insert name names) key x then Some (snd key) else None)" for key
      using assms(2) r id by (auto simp: s'_def loaded_def on_disk_insert)
    moreover have "\<exists>m. map_of (js_next_seq s') key = Some m \<and> log_ok (sound_log (log_of disk (snd key))) m"
      if "\<exists>x. on_disk disk (insert name names) key x" for key
    proof (cases "key = run_key r")
      case True
      then show ?thesis using n(2) id by (simp add: s'_def log)
    next
      case False
      with that r have "\<exists>x. on_disk disk names key x" by (auto simp: on_disk_insert)
      with assms(2) False show ?thesis unfolding loaded_def by (simp add: s'_def)
    qed
    moreover have "map_of (js_idempotency s') slot = Some key \<longleftrightarrow>
        (\<exists>x. on_disk disk (insert name names) key x \<and> run_slot x = Some slot)" for slot key
    proof -
      have "map_of (js_idempotency s) slot = Some key \<longleftrightarrow>
          (\<exists>x. on_disk disk names key x \<and> run_slot x = Some slot)"
        using assms(2) unfolding loaded_def by blast
      then show ?thesis
        using r id slot[of slot] by (auto simp: s'_def on_disk_insert split: option.split)
    qed
    moreover have "dict_ok (js_disk s')" "dict_ok (js_runs s')" "read_state (js_disk s') = read_state disk"
      using assms(2) by (simp_all add: s'_def loaded_def)
    ultimately show ?thesis unfolding loaded_def by blast
  qed
  ultimately show ?thesis by blast
qed

lemma load_indexes_ok:
  assumes "disk_ok disk"
  shows "loaded disk names s \<Longrightarrow> \<forall>(name, d) \<in> set entries. map_of disk name = Some d \<Longrightarrow>
    distinct (map fst entries) \<Longrightarrow> fst ` set entries \<inter> names = {} \<Longrightarrow>
    \<exists>s'. load_indexes entries s = Inr s' \<and> loaded disk (names \<union> fst ` set entries) s'"
proof (induction entries arbitrary: names s)
  case (Cons entry entries)
  obtain name d where entry: "entry = (name, d)" by (cases entry)
  from load_index_ok[OF assms Cons.prems(1), of name d] Cons.prems entry obtain s1 where
    s1: "load_index (name, d) s = Inr s1" "loaded disk (insert name names) s1" by auto
  from Cons.IH[OF s1(2)] Cons.prems obtain s2 where
    "load_indexes entries s1 = Inr s2" "loaded disk (insert name names \<union> fst ` set entries) s2"
    by (auto simp: entry)
  with s1(1) show ?case by (simp add: entry)
qed simp

text \<open>Opening succeeds and finds every run and log that is on the disk.\<close>

lemma open_store_ok:
  assumes "disk_ok disk"
  shows "\<exists>s. open_store disk = Inr s \<and> store_ok s \<and>
    (\<forall>key r. get_run s key = Some r \<longleftrightarrow> read_state disk (snd key) = Some r \<and> run_key r = key) \<and>
    (\<forall>key. get_run s key \<noteq> None \<longrightarrow> logs_of s key = sound_log (log_of disk (snd key)))"
proof -
  let ?s = "\<lparr>js_disk = disk, js_runs = [], js_idempotency = [], js_next_seq = []\<rparr>"
  have dict: "dict_ok disk" using assms by (simp add: disk_ok_def)
  then have "loaded disk {} ?s" by (simp add: loaded_def on_disk_def)
  moreover have "\<forall>(name, d) \<in> set (sort_key fst disk). map_of disk name = Some d"
    using dict by (auto simp: dict_ok_map_of_iff)
  moreover have "distinct (map fst (sort_key fst disk))" using dict by (simp add: dict_ok_def)
  ultimately obtain s where s: "open_store disk = Inr s" "loaded disk (fst ` set disk) s"
    using load_indexes_ok[OF assms, of "{}" ?s "sort_key fst disk"] by (auto simp: open_store_def)
  have on: "on_disk disk (fst ` set disk) key r \<longleftrightarrow> read_state disk (snd key) = Some r \<and> run_key r = key"
    for key r
    using read_state_Some[of disk "snd key" r] map_of_eq_None_iff[of disk "snd key"]
    by (auto simp: on_disk_def)
  have get: "get_run s key = Some r \<longleftrightarrow> read_state disk (snd key) = Some r \<and> run_key r = key" for key r
  proof -
    have "map_of (js_runs s) key =
        (if \<exists>r. on_disk disk (fst ` set disk) key r then Some (snd key) else None)"
      "read_state (js_disk s) = read_state disk" using s(2) unfolding loaded_def by blast+
    then show ?thesis unfolding on by (auto simp: get_run_def)
  qed
  have logs: "logs_of s key = sound_log (log_of disk (snd key))" if "get_run s key \<noteq> None" for key
    using that s(2) get read_state_Some[of disk "snd key"] map_of_eq_None_iff[of disk "snd key"]
    unfolding loaded_def logs_of_def by (metis (no_types, lifting) option.exhaust)
  have "store_ok s"
  proof (rule store_okI)
    show "dict_ok (js_disk s)" "dict_ok (js_runs s)" using s(2) by (simp_all add: loaded_def)
    show "read_state (js_disk s) name = Some r \<Longrightarrow> sr_run_id r = name" for name r
      using assms s(2) unfolding loaded_def disk_ok_def by metis
    show "map_of (js_runs s) key = (if map_option run_key (read_state (js_disk s) (snd key)) = Some key
      then Some (snd key) else None)" for key
    proof -
      have "map_of (js_runs s) key =
          (if \<exists>r. on_disk disk (fst ` set disk) key r then Some (snd key) else None)"
        "read_state (js_disk s) = read_state disk" using s(2) unfolding loaded_def by blast+
      then show ?thesis unfolding on by auto
    qed
    show "map_of (js_idempotency s) slot = Some key \<longleftrightarrow> (\<exists>r. get_run s key = Some r \<and> run_slot r = Some slot)"
      for slot key
    proof -
      have "map_of (js_idempotency s) slot = Some key \<longleftrightarrow>
          (\<exists>r. on_disk disk (fst ` set disk) key r \<and> run_slot r = Some slot)"
        using s(2) unfolding loaded_def by blast
      then show ?thesis unfolding on get .
    qed
    show "\<exists>n. map_of (js_next_seq s) key = Some n \<and> log_ok (log_of (js_disk s) (snd key)) n"
      if "get_run s key \<noteq> None" for key
    proof -
      have "\<exists>r. on_disk disk (fst ` set disk) key r" using that get on by auto
      then show ?thesis using s(2) logs[OF that] unfolding loaded_def logs_of_def by metis
    qed
  qed
  with s(1) get logs show ?thesis by blast
qed

end
