(* ===== verification/Run_Registry.thy ===== *)
theory Run_Registry
  imports Run_Store_Facts
begin

text \<open>
  The background-run state machine of the API, \<open>control/run_registry.py\<close>, over the JSON store:
  starting runs, the worker of a run and its last-resort boundary, cancellation, and what a restart
  settles. Tracing, metrics and the condition variable that wakes pollers are dropped.

  A worker is a phase of a run; the runner it calls, and every request in between, are the steps of
  a process that may stop at any point and leave its disk behind.
\<close>

section \<open>Failures of a runner\<close>

definition status_category :: "int \<Rightarrow> failure_category option" where
  "status_category = map_of [(400, Cat_Validation), (404, Cat_Precondition), (409, Cat_Conflict),
     (412, Cat_Conflict), (413, Cat_Validation), (422, Cat_Validation), (502, Cat_Unavailable),
     (503, Cat_Unavailable), (504, Cat_Timeout)]"

definition retryable_statuses :: "int set" where
  "retryable_statuses = {429, 502, 503, 504}"

text \<open>What an \<open>HTTPException\<close> carries; \<open>render\<close> is \<open>str\<close> of a value that is not a string.\<close>

record http_exception =
  he_status_code :: int
  he_detail :: json

definition py_str :: "(json \<Rightarrow> string) \<Rightarrow> json \<Rightarrow> string" where
  "py_str render v = (case v of JStr s \<Rightarrow> s | _ \<Rightarrow> render v)"

fun truthy :: "json \<Rightarrow> bool" where
  "truthy JNull = False"
| "truthy (JBool b) = b"
| "truthy (JInt i) = (i \<noteq> 0)"
| "truthy (JFloat x) = (x \<noteq> 0)"
| "truthy (JStr s) = (s \<noteq> [])"
| "truthy (JList l) = (l \<noteq> [])"
| "truthy (JObj m) = (m \<noteq> [])"

text \<open>\<open>a or b\<close> over the values of optional keys.\<close>

definition first_truthy :: "json option list \<Rightarrow> json \<Rightarrow> json" where
  "first_truthy options fallback =
     (case List.find (\<lambda>v. case v of None \<Rightarrow> False | Some j \<Rightarrow> truthy j) options of
        Some (Some j) \<Rightarrow> j
      | _ \<Rightarrow> fallback)"

definition failure_from_http_exception :: "(json \<Rightarrow> string) \<Rightarrow> http_exception \<Rightarrow> failure" where
  "failure_from_http_exception render e =
     (let status = he_status_code e;
          category = (case status_category status of Some c \<Rightarrow> c
            | None \<Rightarrow> if status < 500 then Cat_Validation else Cat_Internal);
          (message, carried) = (case he_detail e of
              JObj m \<Rightarrow> (py_str render (first_truthy [map_of m ''message'', map_of m ''code'']
                  (JStr ''Run failed'')),
                filter (\<lambda>(key, v). key \<noteq> ''message'' \<and> v \<noteq> JNull) m)
            | detail \<Rightarrow> (py_str render (first_truthy [Some detail] (JStr ''Run failed'')), []))
      in \<lparr>fl_category = category, fl_message = message, fl_retryable = status \<in> retryable_statuses,
          fl_origin = Org_Api,
          fl_details = Some (AList.update ''http_status'' (JInt status) carried)\<rparr>)"

text \<open>How a runner ends.\<close>

datatype runner_outcome =
    Returned action_result | Raised_Http http_exception | Raised_Other string

definition internal_failure :: "string \<Rightarrow> failure" where
  "internal_failure message = \<lparr>fl_category = Cat_Internal, fl_message = message,
     fl_retryable = False, fl_origin = Org_Api, fl_details = None\<rparr>"

definition terminal_from_failure :: "run_store \<Rightarrow> run_key \<Rightarrow> failure \<Rightarrow> action_result" where
  "terminal_from_failure s key failure =
     (if is_cancel_requested s key then action_canceled
      else \<lparr>ar_status = Failed, ar_exit_code = 1, ar_outputs = [], ar_failure = Some failure\<rparr>)"

definition terminal_from_exception :: "run_store \<Rightarrow> run_key \<Rightarrow> string \<Rightarrow> action_result" where
  "terminal_from_exception s key message = terminal_from_failure s key (internal_failure message)"

fun run_status_of :: "action_status \<Rightarrow> run_status" where
  "run_status_of Succeeded = Run_Succeeded"
| "run_status_of Failed = Run_Failed"
| "run_status_of Canceled = Run_Canceled"

section \<open>The registry\<close>

text \<open>A submitted worker has not called its runner yet; the store is the durable part.\<close>

datatype worker_phase = Submitted | Begun

record registry =
  rg_store :: run_store
  rg_workers :: "(run_key \<times> worker_phase) list"

definition settle_run :: "string \<Rightarrow> action_result \<Rightarrow> run_key \<Rightarrow> run_store \<Rightarrow> run_store" where
  "settle_run now result key s =
     snd (finalize_run now (run_status_of (ar_status result)) (ar_outputs result) (ar_failure result) key s)"

text \<open>The run a request proposes; \<open>fingerprint\<close> is the canonical JSON text of its payload.\<close>

definition proposed_run ::
  "string \<Rightarrow> string \<Rightarrow> run_operation \<Rightarrow> string \<Rightarrow> json_object \<Rightarrow> string \<Rightarrow> string option \<Rightarrow>
     json_object \<Rightarrow> stored_run" where
  "proposed_run run_id ree_id operation now request fingerprint idempotency_key outputs =
     (let key = strip (case idempotency_key of None \<Rightarrow> [] | Some k \<Rightarrow> k)
      in \<lparr>sr_schema_version = 1, sr_run_id = run_id, sr_ree_id = ree_id, sr_operation = operation,
          sr_status = Queued, sr_created_at = now, sr_started_at = None, sr_finished_at = None,
          sr_cancel_requested_at = None, sr_request = request, sr_outputs = outputs,
          sr_failure = None, sr_idempotency_key = (if key = [] then None else Some key),
          sr_request_fingerprint = (if key = [] then None else Some fingerprint)\<rparr>)"

definition scheduling_failure :: "string \<Rightarrow> failure" where
  "scheduling_failure reason = \<lparr>fl_category = Cat_Internal,
     fl_message = ''Background run could not be scheduled: '' @ reason, fl_retryable = True,
     fl_origin = Org_Api, fl_details = None\<rparr>"

text \<open>\<open>unschedulable\<close> is the message of the executor's refusal, if it refuses.\<close>

definition start_background ::
  "string \<Rightarrow> string option \<Rightarrow> stored_run \<Rightarrow> registry \<Rightarrow> run_creation \<times> registry" where
  "start_background now unschedulable proposed g =
     (case create_idempotent proposed (rg_store g) of
        (Created r, s) \<Rightarrow>
          (case unschedulable of
             None \<Rightarrow> (Created r, g\<lparr>rg_store := s,
               rg_workers := AList.update (run_key r) Submitted (rg_workers g)\<rparr>)
           | Some reason \<Rightarrow>
               let failure = scheduling_failure reason;
                   (_, s) = append_log now ''system'' ''error'' (fl_message failure) (run_key r) s;
                   s = snd (finalize_run now Run_Failed [] (Some failure) (run_key r) s)
               in (case get_run s (run_key r) of
                     Some r' \<Rightarrow> (Created r', g\<lparr>rg_store := s\<rparr>)
                   | None \<Rightarrow> (Creation_Failed (Runtime_Error reason), g\<lparr>rg_store := s\<rparr>)))
      | (other, s) \<Rightarrow> (other, g\<lparr>rg_store := s\<rparr>))"

definition worker_begin :: "string \<Rightarrow> run_key \<Rightarrow> registry \<Rightarrow> registry" where
  "worker_begin now key g =
     g\<lparr>rg_store := snd (begin_run now key (rg_store g)),
       rg_workers := AList.update key Begun (rg_workers g)\<rparr>"

text \<open>The result of a runner and the store after the line an exception leaves in the log.\<close>

definition runner_result ::
  "(json \<Rightarrow> string) \<Rightarrow> string \<Rightarrow> runner_outcome \<Rightarrow> run_key \<Rightarrow> run_store \<Rightarrow> action_result \<times> run_store" where
  "runner_result render now outcome key s =
     (case outcome of
        Returned result \<Rightarrow> (result, s)
      | Raised_Http e \<Rightarrow>
          let failure = failure_from_http_exception render e;
              s = snd (append_log now ''system'' ''error'' (fl_message failure) key s)
          in (terminal_from_failure s key failure, s)
      | Raised_Other message \<Rightarrow>
          let s = snd (append_log now ''system'' ''error'' message key s)
          in (terminal_from_exception s key message, s))"

definition worker_end ::
  "(json \<Rightarrow> string) \<Rightarrow> string \<Rightarrow> runner_outcome \<Rightarrow> run_key \<Rightarrow> registry \<Rightarrow> registry" where
  "worker_end render now outcome key g =
     (let (result, s) = runner_result render now outcome key (rg_store g)
      in g\<lparr>rg_store := settle_run now result key s, rg_workers := AList.delete key (rg_workers g)\<rparr>)"

text \<open>The last-resort boundary: telemetry may fail before the worker began, or around its end.\<close>

definition worker_fault :: "string \<Rightarrow> string \<Rightarrow> run_key \<Rightarrow> registry \<Rightarrow> registry" where
  "worker_fault now message key g =
     (let settled = (case get_run (rg_store g) key of
            Some r \<Rightarrow> sr_status r \<in> terminal_statuses | None \<Rightarrow> False);
          s = snd (append_log now ''system'' ''error'' message key (rg_store g))
      in g\<lparr>rg_store := (if settled then rg_store g
             else settle_run now (terminal_from_exception s key message) key s),
           rg_workers := AList.delete key (rg_workers g)\<rparr>)"

definition mark_cancel_requested :: "string \<Rightarrow> run_key \<Rightarrow> registry \<Rightarrow> bool \<times> registry" where
  "mark_cancel_requested now key g =
     (let (updated, s) = request_cancel now key (rg_store g)
      in (updated \<noteq> None, g\<lparr>rg_store := s\<rparr>))"

text \<open>A process that starts: the store is opened and unfinished runs are settled.\<close>

definition boot :: "string \<Rightarrow> run_disk \<Rightarrow> ree_error + registry" where
  "boot now disk =
     bind_res (open_store disk) (\<lambda>s.
     bind_res (interrupt_incomplete now s) (\<lambda>(_, s).
     Inr \<lparr>rg_store = s, rg_workers = []\<rparr>))"

text \<open>The rows of a run list, and an observation that does not wait.\<close>

record run_summary =
  su_run_id :: string
  su_ree_id :: string
  su_operation :: run_operation
  su_status :: run_status
  su_created_at :: string
  su_started_at :: "string option"
  su_finished_at :: "string option"
  su_outputs :: json_object
  su_failure :: "failure option"

definition run_summary_of :: "stored_run \<Rightarrow> run_summary" where
  "run_summary_of r =
     \<lparr>su_run_id = sr_run_id r, su_ree_id = sr_ree_id r, su_operation = sr_operation r,
      su_status = sr_status r, su_created_at = sr_created_at r, su_started_at = sr_started_at r,
      su_finished_at = sr_finished_at r, su_outputs = sr_outputs r, su_failure = sr_failure r\<rparr>"

record run_observation =
  ob_run :: run_summary
  ob_entries :: "log_entry list"
  ob_next_cursor :: "nat option"
  ob_changed :: bool

text \<open>\<open>None\<close> is the 404; the wait ends when an entry or a terminal state is there, or in time.\<close>

definition observe :: "run_key \<Rightarrow> nat \<Rightarrow> nat \<Rightarrow> run_store \<Rightarrow> (ree_error + run_observation option) \<times> run_store" where
  "observe key after limit s =
     (case get_run s key of
        None \<Rightarrow> (Inr None, s)
      | Some r \<Rightarrow>
          let (available, s) = list_logs after (Some limit) key s
          in (map_sum id (\<lambda>available.
                let entries = take limit available
                in Some \<lparr>ob_run = run_summary_of r, ob_entries = entries,
                     ob_next_cursor = (if entries \<noteq> [] then Some (le_seq (last entries))
                       else if after \<noteq> 0 then Some after else None),
                     ob_changed = (entries \<noteq> [] \<or> sr_status r \<in> terminal_statuses)\<rparr>) available, s))"

section \<open>The process\<close>

text \<open>What a process that stopped leaves of its disk.\<close>

inductive left_behind :: "run_disk \<Rightarrow> run_disk \<Rightarrow> bool" where
  Clean: "left_behind disk disk"
| Torn_Line: "left_behind disk (write_log name (log_of disk name @ [Torn]) disk)"
| Unborn: "\<not> has_key disk name \<Longrightarrow> left_behind disk (disk @ [(name, \<lparr>dir_state = None, dir_log = []\<rparr>)])"

datatype process = Up registry | Down run_disk

datatype registry_event =
    Start_Run stored_run | Begin_Worker run_key | Log_Line run_key | Set_Outputs run_key
  | Cancel_Run run_key | End_Worker run_key | Fault_Worker run_key | Stop_Process | Boot_Process

inductive registry_step :: "process \<Rightarrow> registry_event \<Rightarrow> process \<Rightarrow> bool" where
  Started: "sr_status r = Queued \<Longrightarrow> \<not> has_key (js_disk (rg_store g)) (sr_run_id r) \<Longrightarrow>
    registry_step (Up g) (Start_Run r) (Up (snd (start_background now refusal r g)))"
| Worker_Began: "map_of (rg_workers g) key = Some Submitted \<Longrightarrow>
    registry_step (Up g) (Begin_Worker key) (Up (worker_begin now key g))"
| Logged: "registry_step (Up g) (Log_Line key)
    (Up (g\<lparr>rg_store := snd (append_log now stream level message key (rg_store g))\<rparr>))"
| Outputs_Set: "map_of (rg_workers g) key = Some Begun \<Longrightarrow>
    registry_step (Up g) (Set_Outputs key)
      (Up (g\<lparr>rg_store := snd (update_outputs outputs key (rg_store g))\<rparr>))"
| Cancel_Marked: "registry_step (Up g) (Cancel_Run key) (Up (snd (mark_cancel_requested now key g)))"
| Worker_Ended: "map_of (rg_workers g) key = Some Begun \<Longrightarrow>
    registry_step (Up g) (End_Worker key) (Up (worker_end render now outcome key g))"
| Worker_Faulted: "map_of (rg_workers g) key \<noteq> None \<Longrightarrow>
    registry_step (Up g) (Fault_Worker key) (Up (worker_fault now message key g))"
| Stopped: "left_behind (js_disk (rg_store g)) disk \<Longrightarrow>
    registry_step (Up g) Stop_Process (Down disk)"
| Booted: "boot now disk = Inr g \<Longrightarrow> registry_step (Down disk) Boot_Process (Up g)"

inductive registry_path :: "process \<Rightarrow> process \<Rightarrow> bool" where
  Here: "registry_path p p"
| Onward: "registry_path p q \<Longrightarrow> registry_step q event r \<Longrightarrow> registry_path p r"

inductive_cases registry_stepE: "registry_step p event q"

text \<open>The runs a client of the process, or of the next one on its disk, can read.\<close>

fun process_run :: "process \<Rightarrow> run_key \<Rightarrow> stored_run option" where
  "process_run (Up g) key = get_run (rg_store g) key"
| "process_run (Down disk) key =
     (case read_state disk (snd key) of
        Some r \<Rightarrow> if run_key r = key then Some r else None
      | None \<Rightarrow> None)"

end
