(* ===== verification/Run_Registry_Facts.thy ===== *)
theory Run_Registry_Facts
  imports Run_Registry
begin

text \<open>
  What holds of background runs however requests, workers, faults and restarts interleave: no run is
  left without someone to settle it, a settled run stays as it was read, the log is numbered without
  gaps, and an idempotency key names one run for good.
\<close>

declare split_paired_All [simp del] split_paired_Ex [simp del]

section \<open>The store as the registry sees it\<close>

text \<open>\<open>RunStore\<close>: a table of runs that are changed one at a time, and logs beside it.\<close>

locale run_table =
  fixes wf :: "'s \<Rightarrow> bool" and get :: "'s \<Rightarrow> run_key \<Rightarrow> stored_run option"
    and change :: "(stored_run \<Rightarrow> stored_run) \<Rightarrow> run_key \<Rightarrow> 's \<Rightarrow> 's"
    and log_line :: "string \<Rightarrow> string \<Rightarrow> string \<Rightarrow> string \<Rightarrow> run_key \<Rightarrow> 's \<Rightarrow> 's"
  assumes change_wf: "wf s \<Longrightarrow> keeps_identity f \<Longrightarrow> wf (change f key s)"
    and change_get: "wf s \<Longrightarrow> keeps_identity f \<Longrightarrow>
      get (change f key s) = (get s)(key := map_option f (get s key))"
    and log_wf: "wf s \<Longrightarrow> wf (log_line now stream level message key s)"
    and log_get: "wf s \<Longrightarrow> get (log_line now stream level message key s) = get s"
begin

lemma logged_change:
  assumes "wf s" and "keeps_identity f"
  shows "wf (change f key (log_line now stream level message key s))"
    and "get (change f key (log_line now stream level message key s)) =
      (get s)(key := map_option f (get s key))"
  using assms by (simp_all add: change_wf change_get log_wf log_get)

text \<open>A property of settled runs that a change keeps survives the change wherever it is made.\<close>

lemma change_preserves:
  assumes "wf s" and "keeps_identity f" and "get s k = Some r" and "P r" and "\<And>x. P x \<Longrightarrow> P (f x)"
  shows "\<exists>r'. get (change f key s) k = Some r' \<and> P r' \<and> (r' = r \<or> r' = f r)"
  using assms by (auto simp: change_get)

end

interpretation json_runs: run_table store_ok get_run "\<lambda>f key s. snd (update_run f key s)"
  "\<lambda>now stream level message key s. snd (append_log now stream level message key s)"
proof unfold_locales
  fix s f key
  assume "store_ok s" "keeps_identity f"
  from update_run_ok[OF this surjective_pairing]
  show "store_ok (snd (update_run f key s))"
    "get_run (snd (update_run f key s)) = (get_run s)(key := map_option f (get_run s key))" by blast+
next
  fix s now stream level message key
  assume "store_ok s"
  from append_log_ok[OF this surjective_pairing]
  show "store_ok (snd (append_log now stream level message key s))"
    "get_run (snd (append_log now stream level message key s)) = get_run s" by blast+
qed

lemmas table_ops = begin_run_def update_outputs_def request_cancel_def finalize_run_def settle_run_def

lemmas table_facts = json_runs.change_wf json_runs.change_get json_runs.log_wf json_runs.log_get

section \<open>What operations do to a run\<close>

lemma begun_status [simp]: "sr_status (begun_run now r) \<in> active_statuses \<longleftrightarrow> sr_status r \<in> active_statuses"
  by (auto simp: begun_run_def active_statuses_def)

lemma canceled_status [simp]:
  "sr_status (cancel_requested now r) \<in> active_statuses \<longleftrightarrow> sr_status r \<in> active_statuses"
  by (simp add: cancel_requested_def) (simp add: active_statuses_def)

lemma finalized_status [simp]:
  "sr_status (finalized_run now (run_status_of status) outputs failure r) \<in> terminal_statuses"
  by (cases status) (simp_all add: finalized_run_def terminal_statuses_def Let_def)

lemma finalized_failed_status [simp]:
  "sr_status (finalized_run now Run_Failed outputs failure r) = Run_Failed"
  by (simp add: finalized_run_def Let_def)

text \<open>What a client was told of a settled run.\<close>

definition settled_as :: "stored_run \<Rightarrow> stored_run \<Rightarrow> bool" where
  "settled_as r r' \<longleftrightarrow> sr_status r' = sr_status r \<and> sr_outputs r' = sr_outputs r \<and>
     sr_failure r' = sr_failure r \<and> sr_finished_at r' = sr_finished_at r \<and>
     run_key r' = run_key r \<and> run_slot r' = run_slot r"

lemma settled_as_refl [simp]: "settled_as r r"
  by (simp add: settled_as_def)

lemma settled_as_trans: "settled_as a b \<Longrightarrow> settled_as b c \<Longrightarrow> settled_as a c"
  by (simp add: settled_as_def)

lemma settled_cancel:
  "sr_status r \<in> terminal_statuses \<Longrightarrow> settled_as r (cancel_requested now r)"
  by (simp add: settled_as_def cancel_requested_def active_iff run_key_def run_slot_def split: option.split)

lemma settled_interrupt:
  "sr_status r \<in> terminal_statuses \<Longrightarrow> settle_interrupted now r = r"
  by (simp add: settle_interrupted_def active_iff)

lemma keeps_identity_interrupt: "keeps_identity (settle_interrupted now)"
  by (simp add: keeps_identity_def settle_interrupted_def interrupted_run_def run_key_def run_slot_def
      split: option.split)

lemma interrupted_terminal [simp]: "sr_status (settle_interrupted now r) \<in> terminal_statuses"
  by (simp add: settle_interrupted_def active_iff interrupted_run_def terminal_statuses_def)

section \<open>The invariant\<close>

definition attended :: "registry \<Rightarrow> bool" where
  "attended g \<longleftrightarrow> (\<forall>key. map_of (rg_workers g) key \<noteq> None \<longleftrightarrow>
     (\<exists>r. get_run (rg_store g) key = Some r \<and> sr_status r \<in> active_statuses))"

fun process_ok :: "process \<Rightarrow> bool" where
  "process_ok (Up g) \<longleftrightarrow> store_ok (rg_store g) \<and> attended g"
| "process_ok (Down disk) \<longleftrightarrow> (\<exists>s. store_ok s \<and> left_behind (js_disk s) disk)"

lemma attended_change:
  assumes "store_ok (rg_store g)" and "attended g" and "keeps_identity f"
    and "\<And>r. sr_status (f r) \<in> active_statuses \<longleftrightarrow> sr_status r \<in> active_statuses"
  shows "attended (g\<lparr>rg_store := snd (update_run f key (rg_store g))\<rparr>)"
  using assms by (auto simp: attended_def json_runs.change_get)

lemma attended_settle:
  assumes "attended g" and "get_run s = (get_run (rg_store g))(key := map_option f (get_run (rg_store g) key))"
    and "\<And>r. sr_status (f r) \<in> terminal_statuses"
  shows "attended (g\<lparr>rg_store := s, rg_workers := AList.delete key (rg_workers g)\<rparr>)"
  using assms by (auto simp: attended_def active_iff)

text \<open>A settling worker.\<close>

lemma runner_result_store:
  assumes "store_ok s" and "runner_result render now outcome key s = (result, s')"
  shows "store_ok s'" and "get_run s' = get_run s"
  using assms by (auto simp: runner_result_def table_facts Let_def split: runner_outcome.splits)

lemma settle_run_ok:
  assumes "store_ok s"
  shows "store_ok (settle_run now result key s)"
    and "\<exists>f. keeps_identity f \<and> (\<forall>r. sr_status (f r) \<in> terminal_statuses) \<and>
      get_run (settle_run now result key s) = (get_run s)(key := map_option f (get_run s key))"
  using assms by (auto simp: table_ops table_facts intro!: exI[of _ "finalized_run now
      (run_status_of (ar_status result)) (ar_outputs result) (ar_failure result)"])

lemma worker_end_ok:
  assumes "store_ok (rg_store g)" and "attended g"
  shows "store_ok (rg_store (worker_end render now outcome key g))"
    and "attended (worker_end render now outcome key g)"
    and "\<exists>f. keeps_identity f \<and> (\<forall>r. sr_status (f r) \<in> terminal_statuses) \<and>
      get_run (rg_store (worker_end render now outcome key g)) =
        (get_run (rg_store g))(key := map_option f (get_run (rg_store g) key))"
proof -
  obtain result s where run: "runner_result render now outcome key (rg_store g) = (result, s)"
    by fastforce
  note s = runner_result_store[OF assms(1) run]
  from settle_run_ok(2)[OF s(1), of now result key] obtain f where f: "keeps_identity f"
    "\<forall>r. sr_status (f r) \<in> terminal_statuses"
    "get_run (settle_run now result key s) = (get_run (rg_store g))(key := map_option f (get_run (rg_store g) key))"
    unfolding s(2) by blast
  have e: "worker_end render now outcome key g =
      g\<lparr>rg_store := settle_run now result key s, rg_workers := AList.delete key (rg_workers g)\<rparr>"
    by (simp add: worker_end_def run)
  show "store_ok (rg_store (worker_end render now outcome key g))"
    using settle_run_ok(1)[OF s(1)] by (simp add: e)
  show "attended (worker_end render now outcome key g)"
    unfolding e using attended_settle[OF assms(2) f(3)] f(2) by blast
  show "\<exists>f. keeps_identity f \<and> (\<forall>r. sr_status (f r) \<in> terminal_statuses) \<and>
      get_run (rg_store (worker_end render now outcome key g)) =
        (get_run (rg_store g))(key := map_option f (get_run (rg_store g) key))"
    using f by (auto simp: e)
qed

lemma worker_fault_ok:
  assumes "store_ok (rg_store g)" and "attended g" and "map_of (rg_workers g) key \<noteq> None"
  shows "store_ok (rg_store (worker_fault now message key g))"
    and "attended (worker_fault now message key g)"
    and "\<exists>f. keeps_identity f \<and> (\<forall>r. sr_status (f r) \<in> terminal_statuses) \<and>
      get_run (rg_store (worker_fault now message key g)) =
        (get_run (rg_store g))(key := map_option f (get_run (rg_store g) key))"
proof -
  from assms(2,3) obtain r where r: "get_run (rg_store g) key = Some r" "sr_status r \<in> active_statuses"
    unfolding attended_def by blast
  let ?s = "snd (append_log now ''system'' ''error'' message key (rg_store g))"
  let ?result = "terminal_from_exception ?s key message"
  have s: "store_ok ?s" "get_run ?s = get_run (rg_store g)" using assms(1) by (simp_all add: table_facts)
  from settle_run_ok(2)[OF s(1), of now ?result key] obtain f where f: "keeps_identity f"
    "\<forall>r. sr_status (f r) \<in> terminal_statuses"
    "get_run (settle_run now ?result key ?s) = (get_run (rg_store g))(key := map_option f (get_run (rg_store g) key))"
    unfolding s(2) by blast
  have e: "worker_fault now message key g =
      g\<lparr>rg_store := settle_run now ?result key ?s, rg_workers := AList.delete key (rg_workers g)\<rparr>"
    using r by (simp add: worker_fault_def active_iff Let_def)
  show "store_ok (rg_store (worker_fault now message key g))"
    using settle_run_ok(1)[OF s(1)] by (simp add: e)
  show "attended (worker_fault now message key g)"
    unfolding e using attended_settle[OF assms(2) f(3)] f(2) by blast
  show "\<exists>f. keeps_identity f \<and> (\<forall>r. sr_status (f r) \<in> terminal_statuses) \<and>
      get_run (rg_store (worker_fault now message key g)) =
        (get_run (rg_store g))(key := map_option f (get_run (rg_store g) key))"
    using f by (auto simp: e)
qed

section \<open>Restarts\<close>

lemma left_behind_disk:
  assumes "store_ok s" and "left_behind (js_disk s) disk"
  shows "disk_ok disk" and "read_state disk = read_state (js_disk s)"
    and "read_state disk name \<noteq> None \<Longrightarrow> sound_log (log_of disk name) = log_of (js_disk s) name"
proof -
  have numbered: "\<exists>n. log_ok (log_of (js_disk s) name) n" if "read_state (js_disk s) name = Some r" for name r
  proof -
    have "sr_run_id r = name" using assms(1) that by (simp add: store_ok_def)
    then have "get_run s (run_key r) = Some r" using that get_run_ok[OF assms(1)] by simp
    with log_numbered[OF assms(1), of "run_key r"] \<open>sr_run_id r = name\<close> show ?thesis by auto
  qed
  have read: "read_state disk = read_state (js_disk s)"
    using assms(2) by cases (auto simp: fun_eq_iff read_state_def has_key_def map_add_def split: option.split)
  have log: "log_of disk name = log_of (js_disk s) name \<or> log_of disk name = log_of (js_disk s) name @ [Torn]"
    for name
    using assms(2)
  proof cases
    case Unborn
    then show ?thesis by (auto simp: log_of_def has_key_def map_add_def split: option.split)
  qed simp_all
  have "dict_ok disk"
    using assms(2) assms(1)
    by cases (auto simp: store_ok_def dict_ok_def has_key_def map_of_eq_None_iff write_log_def
        distinct_update split: option.split)
  moreover have "m = n" if "read_state disk m = Some q" "read_state disk n = Some r"
    "run_slot q = Some slot" "run_slot r = Some slot" for m n q r slot
  proof -
    have "sr_run_id q = m" "sr_run_id r = n" using assms(1) that(1,2) by (simp_all add: read store_ok_def)
    moreover from this have "get_run s (run_key q) = Some q" "get_run s (run_key r) = Some r"
      using that(1,2) get_run_ok[OF assms(1)] by (simp_all add: read)
    then have "run_key q = run_key r"
      using slots_ok[OF assms(1), of slot] that(3,4) by (metis option.inject)
    ultimately show ?thesis by (metis run_key_snd)
  qed
  moreover have "sr_run_id r = name \<and> recoverable (log_of disk name)" if "read_state disk name = Some r"
    for name r
    using that log[of name] numbered[of name r] assms(1)
    by (auto simp: read store_ok_def recoverable_def)
  ultimately show "disk_ok disk" unfolding disk_ok_def by blast
  show "read_state disk = read_state (js_disk s)" by (rule read)
  show "sound_log (log_of disk name) = log_of (js_disk s) name" if "read_state disk name \<noteq> None"
  proof -
    from that obtain n where n: "log_ok (log_of (js_disk s) name) n" using numbered read by auto
    with log[of name] log_ok_not_torn[OF n] show ?thesis by (auto simp: sound_log_def)
  qed
qed

text \<open>The runs a stopped process leaves on its disk are the ones it knew.\<close>

lemma down_runs:
  assumes "store_ok s" and "left_behind (js_disk s) disk"
  shows "process_run (Down disk) k = get_run s k"
proof (cases "read_state disk (snd k)")
  case None
  then have "get_run s k \<noteq> Some r" for r
    using get_run_ok[OF assms(1), of k r] left_behind_disk(2)[OF assms] by simp
  then have "get_run s k = None" by (cases "get_run s k") blast+
  with None show ?thesis by simp
next
  case (Some q)
  then have found: "get_run s k = Some r \<longleftrightarrow> q = r \<and> run_key r = k" for r
    using get_run_ok[OF assms(1), of k r] left_behind_disk(2)[OF assms] by simp
  show ?thesis
  proof (cases "run_key q = k")
    case True
    with found[of q] Some show ?thesis by simp
  next
    case False
    have "get_run s k = None"
    proof (cases "get_run s k")
      case (Some r)
      with found[of r] False show ?thesis by simp
    qed
    with False Some show ?thesis by simp
  qed
qed

text \<open>A store that is opened again is the store that was.\<close>

lemma reopened:
  assumes "store_ok s" and "left_behind (js_disk s) disk"
  shows "\<exists>s'. open_store disk = Inr s' \<and> store_ok s' \<and> get_run s' = get_run s \<and>
    (\<forall>key. get_run s key \<noteq> None \<longrightarrow> logs_of s' key = logs_of s key)"
proof -
  note d = left_behind_disk[OF assms]
  from open_store_ok[OF d(1)] obtain s' where s': "open_store disk = Inr s'" "store_ok s'"
    "\<forall>key r. get_run s' key = Some r \<longleftrightarrow> read_state disk (snd key) = Some r \<and> run_key r = key"
    "\<forall>key. get_run s' key \<noteq> None \<longrightarrow> logs_of s' key = sound_log (log_of disk (snd key))"
    by blast
  have same: "get_run s' key = get_run s key" for key
  proof -
    have "get_run s' key = Some r \<longleftrightarrow> get_run s key = Some r" for r
      using s'(3) get_run_ok[OF assms(1), of key r] d(2) by simp
    then show ?thesis by (cases "get_run s key"; cases "get_run s' key") auto
  qed
  have "logs_of s' key = logs_of s key" if "get_run s key \<noteq> None" for key
  proof -
    have "read_state disk (snd key) \<noteq> None" using that get_run_ok[OF assms(1), of key] d(2) by auto
    with s'(4) that d(3) show ?thesis by (simp add: same logs_of_def)
  qed
  with s'(1,2) same show ?thesis by blast
qed

lemma boot_ok:
  assumes "store_ok s" and "left_behind (js_disk s) disk"
  shows "\<exists>g. boot now disk = Inr g \<and> store_ok (rg_store g) \<and> attended g \<and>
    get_run (rg_store g) = (\<lambda>key. map_option (settle_interrupted now) (get_run s key)) \<and>
    (\<forall>key. get_run s key \<noteq> None \<longrightarrow> logs_of (rg_store g) key = logs_of s key)"
proof -
  from reopened[OF assms] obtain s1 where s1: "open_store disk = Inr s1" "store_ok s1" "get_run s1 = get_run s"
    "\<forall>key. get_run s key \<noteq> None \<longrightarrow> logs_of s1 key = logs_of s key" by blast
  from interrupt_incomplete_ok[OF s1(2), of now] obtain out s2 where
    s2: "interrupt_incomplete now s1 = Inr (out, s2)" "store_ok s2" "logs_of s2 = logs_of s1"
      "get_run s2 = (\<lambda>key. map_option (settle_interrupted now) (get_run s1 key))" by blast
  have "attended \<lparr>rg_store = s2, rg_workers = []\<rparr>"
    by (auto simp: attended_def s2(4) active_iff)
  with s1 s2 show ?thesis by (auto simp: boot_def)
qed

section \<open>Every step keeps the invariant\<close>

text \<open>What a step does to the run under a key.\<close>

inductive run_change :: "stored_run option \<Rightarrow> stored_run option \<Rightarrow> bool" where
  Same: "run_change r r"
| Born: "run_change None (Some r)"
| Moved: "sr_status r \<in> active_statuses \<Longrightarrow> run_key r' = run_key r \<Longrightarrow> run_slot r' = run_slot r \<Longrightarrow>
    run_change (Some r) (Some r')"
| Kept: "sr_status r \<in> terminal_statuses \<Longrightarrow> settled_as r r' \<Longrightarrow> run_change (Some r) (Some r')"

lemma run_change_map:
  assumes "keeps_identity f" and "\<And>r. sr_status r \<in> terminal_statuses \<Longrightarrow> settled_as r (f r)"
  shows "run_change r (map_option f r)"
proof (cases r)
  case (Some x)
  with assms show ?thesis
    by (cases "sr_status x \<in> terminal_statuses") (auto simp: keeps_identity_def active_iff intro: Kept Moved)
qed (simp add: Same)

text \<open>A change of a run that has a worker, hence an active one.\<close>

lemma run_change_active:
  assumes "keeps_identity f" and "\<And>r. x = Some r \<Longrightarrow> sr_status r \<in> active_statuses"
  shows "run_change x (map_option f x)"
  using assms by (cases x) (auto simp: keeps_identity_def intro: Same Moved)

lemma start_background_ok:
  assumes "store_ok (rg_store g)" and "attended g" and "sr_status r = Queued"
    and "\<not> has_key (js_disk (rg_store g)) (sr_run_id r)"
    and "start_background now refusal r g = (out, g')"
  shows "store_ok (rg_store g') \<and> attended g' \<and>
    (\<forall>k. run_change (get_run (rg_store g) k) (get_run (rg_store g') k))"
proof -
  obtain made s where made: "create_idempotent r (rg_store g) = (made, s)" by fastforce
  from assms(1,4) made show ?thesis
  proof (cases rule: create_idempotent_cases)
    case fresh
    note new = create_fresh_ok[OF assms(1,4) fresh(3,2)]
    show ?thesis
    proof (cases refusal)
      case None
      then have g': "g' = g\<lparr>rg_store := s, rg_workers := AList.update (run_key r) Submitted (rg_workers g)\<rparr>"
        using assms(5) made fresh(1) by (simp add: start_background_def)
      have "attended g'"
        using assms(2,3) new(3,4) by (auto simp: g' attended_def active_statuses_def)
      moreover have "run_change (get_run (rg_store g) k) (get_run (rg_store g') k)" for k
        using new(3,4) by (auto simp: g' intro: Same Born)
      ultimately show ?thesis using new(1) by (simp add: g')
    next
      case (Some reason)
      let ?log = "snd (append_log now ''system'' ''error'' (fl_message (scheduling_failure reason)) (run_key r) s)"
      let ?done = "finalized_run now Run_Failed [] (Some (scheduling_failure reason))"
      let ?s = "snd (update_run ?done (run_key r) ?log)"
      have s: "store_ok ?s" "get_run ?s = (get_run (rg_store g))(run_key r \<mapsto> ?done r)"
        using new(1,4) by (simp_all add: table_facts)
      then have g': "g' = g\<lparr>rg_store := ?s\<rparr>"
        using assms(5) made fresh(1) Some
        by (auto simp: start_background_def Let_def finalize_run_def split: prod.splits)
      have "attended g'"
        using assms(2) new(3) s(2) by (auto simp: g' attended_def active_statuses_def)
      moreover have "run_change (get_run (rg_store g) k) (get_run (rg_store g') k)" for k
        using new(3) s(2) by (auto simp: g' intro: Same Born)
      ultimately show ?thesis using s(1) by (simp add: g')
    qed
  next
    case replay
    then have "g' = g" using assms(5) made by (simp add: start_background_def)
    then show ?thesis using assms(1,2) by (simp add: Same)
  next
    case conflict
    then have "g' = g" using assms(5) made by (simp add: start_background_def)
    then show ?thesis using assms(1,2) by (simp add: Same)
  qed
qed

lemma attended_worker:
  "attended g \<Longrightarrow> map_of (rg_workers g) key \<noteq> None \<Longrightarrow> get_run (rg_store g) key = Some r \<Longrightarrow>
   sr_status r \<in> active_statuses"
  unfolding attended_def by force

text \<open>A change of the run under one key.\<close>

lemma run_change_at:
  assumes "get_run s' = (get_run s)(key := map_option f (get_run s key))"
    and "run_change (get_run s key) (map_option f (get_run s key))"
  shows "run_change (get_run s k) (get_run s' k)"
  using assms by (auto intro: Same)

theorem step_keeps:
  assumes "process_ok p" and "registry_step p event q"
  shows "process_ok q \<and> (\<forall>k. run_change (process_run p k) (process_run q k))"
  using assms(2)
proof cases
  case (Started r g now refusal)
  obtain out g' where "start_background now refusal r g = (out, g')" by fastforce
  with start_background_ok[OF _ _ Started(4,5) this] assms(1) Started(1) show ?thesis
    by (auto simp: Started(3))
next
  case (Worker_Began g key now)
  let ?s = "snd (update_run (begun_run now) key (rg_store g))"
  have g: "store_ok (rg_store g)" "attended g" using assms(1) Worker_Began by simp_all
  have s: "store_ok ?s" "get_run ?s = (get_run (rg_store g))(key := map_option (begun_run now) (get_run (rg_store g) key))"
    using g(1) by (simp_all add: table_facts)
  have "attended (worker_begin now key g)"
    using attended_change[OF g keeps_identity_ops(1) begun_status, of now key] Worker_Began(4)
    by (auto simp: worker_begin_def table_ops attended_def)
  moreover have "run_change (get_run (rg_store g) k) (get_run ?s k)" for k
    using g(2) Worker_Began(4)
    by (intro run_change_at[OF s(2)] run_change_active) (auto dest: attended_worker)
  ultimately show ?thesis using s(1) Worker_Began(1,3) by (simp add: worker_begin_def table_ops)
next
  case (Logged g now stream level message key)
  then show ?thesis using assms(1) by (simp add: table_facts attended_def Same)
next
  case (Outputs_Set g key outputs)
  let ?f = "sr_outputs_update (\<lambda>_. outputs)"
  let ?s = "snd (update_run ?f key (rg_store g))"
  have g: "store_ok (rg_store g)" "attended g" using assms(1) Outputs_Set by simp_all
  have s: "store_ok ?s" "get_run ?s = (get_run (rg_store g))(key := map_option ?f (get_run (rg_store g) key))"
    using g(1) by (simp_all add: table_facts)
  have "attended (g\<lparr>rg_store := ?s\<rparr>)" by (rule attended_change[OF g]) simp_all
  moreover have "run_change (get_run (rg_store g) k) (get_run ?s k)" for k
    using g(2) Outputs_Set(4)
    by (intro run_change_at[OF s(2)] run_change_active) (auto dest: attended_worker)
  ultimately show ?thesis using s(1) Outputs_Set(1,3) by (simp add: table_ops)
next
  case (Cancel_Marked g key now)
  let ?f = "cancel_requested now"
  let ?s = "snd (update_run ?f key (rg_store g))"
  have g: "store_ok (rg_store g)" "attended g" using assms(1) Cancel_Marked by simp_all
  have s: "store_ok ?s" "get_run ?s = (get_run (rg_store g))(key := map_option ?f (get_run (rg_store g) key))"
    using g(1) by (simp_all add: table_facts)
  have "attended (g\<lparr>rg_store := ?s\<rparr>)" by (rule attended_change[OF g]) simp_all
  moreover have "run_change (get_run (rg_store g) k) (get_run ?s k)" for k
    by (intro run_change_at[OF s(2)] run_change_map) (auto intro: settled_cancel)
  ultimately show ?thesis using s(1) Cancel_Marked
    by (simp add: mark_cancel_requested_def table_ops split: prod.splits)
next
  case (Worker_Ended g key render now outcome)
  have g: "store_ok (rg_store g)" "attended g" using assms(1) Worker_Ended by simp_all
  from worker_end_ok(3)[OF g] obtain f where f: "keeps_identity f"
    "get_run (rg_store (worker_end render now outcome key g)) =
      (get_run (rg_store g))(key := map_option f (get_run (rg_store g) key))" by blast
  have "run_change (get_run (rg_store g) k) (get_run (rg_store (worker_end render now outcome key g)) k)" for k
    using g(2) Worker_Ended(4)
    by (intro run_change_at[OF f(2)] run_change_active[OF f(1)]) (auto dest: attended_worker)
  with worker_end_ok(1,2)[OF g] show ?thesis by (simp add: Worker_Ended(1,3))
next
  case (Worker_Faulted g key now message)
  have g: "store_ok (rg_store g)" "attended g" using assms(1) Worker_Faulted by simp_all
  from worker_fault_ok(3)[OF g Worker_Faulted(4)] obtain f where f: "keeps_identity f"
    "get_run (rg_store (worker_fault now message key g)) =
      (get_run (rg_store g))(key := map_option f (get_run (rg_store g) key))" by blast
  have "run_change (get_run (rg_store g) k) (get_run (rg_store (worker_fault now message key g)) k)" for k
    using g(2) Worker_Faulted(4)
    by (intro run_change_at[OF f(2)] run_change_active[OF f(1)]) (auto dest: attended_worker)
  with worker_fault_ok(1,2)[OF g Worker_Faulted(4)] show ?thesis by (simp add: Worker_Faulted(1,3))
next
  case (Stopped g disk)
  have g: "store_ok (rg_store g)" using assms(1) Stopped by simp
  note same = down_runs[OF g Stopped(4)]
  have "process_ok (Down disk)" using g Stopped(4) by auto
  with same show ?thesis by (simp add: Stopped(1,3) Same del: process_run.simps(2) process_ok.simps(2))
next
  case (Booted now disk g)
  then obtain s where s: "store_ok s" "left_behind (js_disk s) disk" using assms(1) by auto
  from boot_ok[OF s, of now] Booted(4) have g: "store_ok (rg_store g)" "attended g"
    "get_run (rg_store g) = (\<lambda>key. map_option (settle_interrupted now) (get_run s key))" by auto
  note was = down_runs[OF s]
  have "run_change (get_run s k) (map_option (settle_interrupted now) (get_run s k))" for k
    by (rule run_change_map)
      (simp_all add: settled_interrupt keeps_identity_interrupt)
  with g was show ?thesis by (simp add: Booted(1,3) del: process_run.simps(2))
qed

lemma path_keeps:
  "registry_path p q \<Longrightarrow> process_ok p \<Longrightarrow> process_ok q"
  by (induction rule: registry_path.induct) (auto dest: step_keeps)

text \<open>Processes reachable from an empty disk.\<close>

definition serving :: "process \<Rightarrow> bool" where
  "serving p \<longleftrightarrow> registry_path (Down []) p"

lemma empty_process_ok: "process_ok (Down [])"
proof -
  have "store_ok \<lparr>js_disk = [], js_runs = [], js_idempotency = [], js_next_seq = []\<rparr>"
    by (simp add: store_ok_def get_run_def read_state_def)
  then show ?thesis using Clean[of "[]"] by fastforce
qed

lemma serving_ok: "serving p \<Longrightarrow> process_ok p"
  using path_keeps[OF _ empty_process_ok] by (simp add: serving_def)

lemma settled_step:
  assumes "process_ok p" and "registry_step p event q" and "process_run p k = Some r"
    and "sr_status r \<in> terminal_statuses"
  shows "\<exists>r'. process_run q k = Some r' \<and> settled_as r r'"
proof -
  from step_keeps[OF assms(1,2)] have "run_change (process_run p k) (process_run q k)" by blast
  then show ?thesis using assms(3,4) by cases (auto simp: active_iff)
qed

lemma settled_path:
  "registry_path p q \<Longrightarrow> process_ok p \<Longrightarrow> process_run p k = Some r \<Longrightarrow> sr_status r \<in> terminal_statuses \<Longrightarrow>
   \<exists>r'. process_run q k = Some r' \<and> settled_as r r'"
proof (induction rule: registry_path.induct)
  case (Onward p q event q')
  then obtain r' where r': "process_run q k = Some r'" "settled_as r r'" by blast
  then have "sr_status r' \<in> terminal_statuses" using Onward.prems(3) by (simp add: settled_as_def)
  from settled_step[OF path_keeps[OF Onward.hyps(1) Onward.prems(1)] Onward.hyps(2) r'(1) this] r'(2)
  show ?case by (blast intro: settled_as_trans)
qed auto

text \<open>A run keeps its key and its idempotency slot.\<close>

lemma identity_step:
  assumes "process_ok p" and "registry_step p event q" and "process_run p k = Some r"
  shows "\<exists>r'. process_run q k = Some r' \<and> run_key r' = run_key r \<and> run_slot r' = run_slot r"
proof -
  from step_keeps[OF assms(1,2)] have "run_change (process_run p k) (process_run q k)" by blast
  then show ?thesis using assms(3) by cases (auto simp: settled_as_def)
qed

lemma identity_path:
  "registry_path p q \<Longrightarrow> process_ok p \<Longrightarrow> process_run p k = Some r \<Longrightarrow>
   \<exists>r'. process_run q k = Some r' \<and> run_key r' = run_key r \<and> run_slot r' = run_slot r"
proof (induction rule: registry_path.induct)
  case (Onward p q event q')
  then obtain r' where "process_run q k = Some r'" "run_key r' = run_key r" "run_slot r' = run_slot r"
    by blast
  with identity_step[OF path_keeps[OF Onward.hyps(1) Onward.prems(1)] Onward.hyps(2)] show ?case
    by metis
qed auto

section \<open>Settling\<close>

text \<open>The steps that settle a run: its worker's end, a fault of its worker, and a restart.\<close>

fun settles :: "run_key \<Rightarrow> registry_event \<Rightarrow> bool" where
  "settles key (End_Worker k) \<longleftrightarrow> k = key"
| "settles key (Fault_Worker k) \<longleftrightarrow> k = key"
| "settles key Boot_Process \<longleftrightarrow> True"
| "settles key _ \<longleftrightarrow> False"

lemma settling_step:
  assumes "process_ok p" and "process_run p key = Some r" and "settles key event"
    and "registry_step p event q"
  shows "\<exists>r'. process_run q key = Some r' \<and> sr_status r' \<in> terminal_statuses"
  using assms(4)
proof cases
  case (Worker_Ended g k render now outcome)
  then have g: "store_ok (rg_store g)" "attended g" "get_run (rg_store g) key = Some r" "k = key"
    using assms(1-3) by simp_all
  from worker_end_ok(3)[OF g(1,2), of render now outcome k] g(3,4) Worker_Ended(3) show ?thesis by auto
next
  case (Worker_Faulted g k now message)
  then have g: "store_ok (rg_store g)" "attended g" "get_run (rg_store g) key = Some r" "k = key"
    using assms(1-3) by simp_all
  from worker_fault_ok(3)[OF g(1,2) Worker_Faulted(4), of now message] g(3,4) Worker_Faulted(3)
  show ?thesis by auto
next
  case (Booted now disk g)
  then obtain s where s: "store_ok s" "left_behind (js_disk s) disk" using assms(1) by auto
  from boot_ok[OF s, of now] Booted(4)
  have g: "get_run (rg_store g) = (\<lambda>key. map_option (settle_interrupted now) (get_run s key))" by auto
  have "get_run s key = Some r"
    using down_runs[OF s, of key] assms(2) Booted(1) by simp
  with g Booted(3) show ?thesis by simp
qed (use assms(3) in simp_all)

text \<open>The worker's end, or the restart, is at most one step away.\<close>

lemma worker_end_enabled:
  "map_of (rg_workers g) key = Some Begun \<Longrightarrow> \<exists>q. registry_step (Up g) (End_Worker key) q"
  by (blast intro: Worker_Ended)

lemma settling_enabled:
  assumes "process_ok p" and "process_run p key = Some r" and "sr_status r \<in> active_statuses"
  shows "\<exists>q event q'. (q = p \<or> registry_step p (Begin_Worker key) q) \<and> registry_step q event q' \<and>
    settles key event"
proof (cases p)
  case (Down disk)
  with assms(1) obtain s where "store_ok s" "left_behind (js_disk s) disk" by auto
  from boot_ok[OF this] obtain g where "boot [] disk = Inr g" by blast
  then show ?thesis using Booted Down by (metis settles.simps(3))
next
  case (Up g)
  then have "attended g" "get_run (rg_store g) key = Some r" using assms(1,2) by simp_all
  with assms(3) have "map_of (rg_workers g) key \<noteq> None" unfolding attended_def by blast
  then obtain w where w: "map_of (rg_workers g) key = Some w" by blast
  show ?thesis
  proof (cases w)
    case Begun
    then show ?thesis using worker_end_enabled w Up by (metis settles.simps(1))
  next
    case Submitted
    have "map_of (rg_workers (worker_begin [] key g)) key = Some Begun"
      by (simp add: worker_begin_def update_conv)
    then show ?thesis using worker_end_enabled Worker_Began[OF w[unfolded Submitted]] Up
      by (metis settles.simps(1))
  qed
qed

section \<open>Properties\<close>

text \<open>
  Property C7. No run is stranded. In every reachable process an unfinished run can be settled, by
  at most its worker's start and one more step; and whichever settling step comes, the worker's end
  with any outcome (an action's result, an HTTP exception or any other exception), a fault of the
  worker or a restart, it leaves the run in a terminal status, cancellations included.
\<close>

theorem every_run_settles:
  assumes "serving p" and "process_run p key = Some r" and "sr_status r \<in> active_statuses"
  shows "(\<exists>q event q'. (q = p \<or> registry_step p (Begin_Worker key) q) \<and> registry_step q event q' \<and>
      settles key event) \<and>
    (\<forall>event q. settles key event \<and> registry_step p event q \<longrightarrow>
      (\<exists>r'. process_run q key = Some r' \<and> sr_status r' \<in> terminal_statuses))"
  using settling_enabled[OF serving_ok[OF assms(1)] assms(2,3)]
    settling_step[OF serving_ok[OF assms(1)] assms(2)] by blast

definition demo_run :: stored_run where
  "demo_run = proposed_run ''r1'' ''e1'' Op_Build ''t0'' [] ''{}'' (Some ''k'') []"

definition demo_up :: registry where
  "demo_up = snd (start_background ''t1'' None demo_run
     \<lparr>rg_store = \<lparr>js_disk = [], js_runs = [], js_idempotency = [], js_next_seq = []\<rparr>, rg_workers = []\<rparr>)"

lemma demo_up_serving: "serving (Up demo_up)"
proof -
  have "boot [] [] = Inr \<lparr>rg_store = \<lparr>js_disk = [], js_runs = [], js_idempotency = [], js_next_seq = []\<rparr>,
      rg_workers = []\<rparr>" by code_simp
  from Onward[OF Here Booted[OF this]] Started[of demo_run _ "''t1''" None] show ?thesis
    unfolding serving_def demo_up_def
    by (rule Onward) (simp_all add: demo_run_def proposed_run_def Let_def has_key_def)
qed

lemma demo_up_run: "process_run (Up demo_up) (''e1'', ''r1'') = Some demo_run"
  by code_simp

lemma every_run_settles_witness:
  "(\<exists>q event q'. (q = Up demo_up \<or> registry_step (Up demo_up) (Begin_Worker (''e1'', ''r1'')) q) \<and>
      registry_step q event q' \<and> settles (''e1'', ''r1'') event) \<and>
   (\<exists>r'. process_run (Up (worker_fault ''t2'' ''boom'' (''e1'', ''r1'') demo_up)) (''e1'', ''r1'') = Some r' \<and>
      sr_status r' \<in> terminal_statuses)"
proof -
  have "sr_status demo_run \<in> active_statuses" by code_simp
  note use = every_run_settles[OF demo_up_serving demo_up_run this]
  have "map_of (rg_workers demo_up) (''e1'', ''r1'') \<noteq> None" by code_simp
  from Worker_Faulted[OF this, of "''t2''" "''boom''"] use show ?thesis
    by (metis settles.simps(2))
qed


definition demo_done :: registry where
  "demo_done = worker_fault ''t2'' ''boom'' (''e1'', ''r1'') demo_up"

lemma demo_done_serving: "serving (Up demo_done)"
proof -
  have "map_of (rg_workers demo_up) (''e1'', ''r1'') \<noteq> None" by code_simp
  from Onward[OF demo_up_serving[unfolded serving_def] Worker_Faulted[OF this]] show ?thesis
    unfolding serving_def demo_done_def .
qed


text \<open>
  Property C8. An idempotency key names one run. Once a run holds the slot of its REE, operation and
  key, every later request for that slot, however many steps and restarts lie between, starts
  nothing: it is answered with that run if its fingerprint is the same, with a conflict that names
  the run if it is not, and the registry stays as it is.
\<close>

theorem idempotency_key_names_one_run:
  assumes "serving p" and "process_run p key = Some r" and "run_slot r = Some slot"
    and "registry_path p (Up g)" and "run_slot proposed = Some slot"
  shows "\<exists>r'. get_run (rg_store g) key = Some r' \<and> run_key r' = run_key r \<and>
    start_background now refusal proposed g =
      (if sr_request_fingerprint r' = sr_request_fingerprint proposed then Replayed r'
       else Idempotency_Conflict r', g)"
proof -
  from identity_path[OF assms(4) serving_ok[OF assms(1)] assms(2)] obtain r' where
    r': "get_run (rg_store g) key = Some r'" "run_key r' = run_key r" "run_slot r' = run_slot r" by auto
  have "process_ok (Up g)" using path_keeps[OF assms(4) serving_ok[OF assms(1)]] .
  then have "map_of (js_idempotency (rg_store g)) slot = Some key"
    using slots_ok[of "rg_store g" slot key] r' assms(3) by auto
  then have "start_background now refusal proposed g =
      (if sr_request_fingerprint r' = sr_request_fingerprint proposed then Replayed r'
       else Idempotency_Conflict r', g)"
    using r'(1) assms(5) by (simp add: start_background_def create_idempotent_def)
  with r' show ?thesis by blast
qed

lemma idempotency_key_names_one_run_witness:
  "\<exists>r'. get_run (rg_store demo_done) (''e1'', ''r1'') = Some r' \<and> run_key r' = run_key demo_run \<and>
    start_background ''t4'' None (proposed_run ''r2'' ''e1'' Op_Build ''t4'' [] ''{x}'' (Some '' k '') []) demo_done =
      (if sr_request_fingerprint r' = Some ''{x}'' then Replayed r' else Idempotency_Conflict r', demo_done)"
proof -
  have slot: "run_slot demo_run = Some (''e1'', Op_Build, ''k'')"
    "run_slot (proposed_run ''r2'' ''e1'' Op_Build ''t4'' [] ''{x}'' (Some '' k '') []) = Some (''e1'', Op_Build, ''k'')"
    "sr_request_fingerprint (proposed_run ''r2'' ''e1'' Op_Build ''t4'' [] ''{x}'' (Some '' k '') []) = Some ''{x}''"
    by code_simp+
  have "map_of (rg_workers demo_up) (''e1'', ''r1'') \<noteq> None" by code_simp
  from Onward[OF Here Worker_Faulted[OF this]] have path: "registry_path (Up demo_up) (Up demo_done)"
    unfolding demo_done_def .
  from idempotency_key_names_one_run[OF demo_up_serving demo_up_run slot(1) path slot(2)]
  show ?thesis unfolding slot(3) .
qed

text \<open>
  Property C10. A restart recovers every run. Whatever a stopped process leaves (its files as they
  were, a torn last log line, or a directory without a state), the next process starts; it knows the
  same runs, the unfinished ones settled as interrupted and the others unchanged, and lists the same
  log entries for each of them.
\<close>

theorem restart_recovers:
  assumes "serving (Up g)" and "left_behind (js_disk (rg_store g)) disk"
  shows "\<exists>g'. boot now disk = Inr g' \<and> rg_workers g' = [] \<and>
    get_run (rg_store g') = (\<lambda>key. map_option (settle_interrupted now) (get_run (rg_store g) key)) \<and>
    (\<forall>key after limit. get_run (rg_store g) key \<noteq> None \<longrightarrow>
      fst (list_logs after limit key (rg_store g')) = fst (list_logs after limit key (rg_store g)))"
proof -
  have s: "store_ok (rg_store g)" using serving_ok[OF assms(1)] by simp
  from boot_ok[OF s assms(2), of now] obtain g' where g': "boot now disk = Inr g'" "store_ok (rg_store g')"
    "get_run (rg_store g') = (\<lambda>key. map_option (settle_interrupted now) (get_run (rg_store g) key))"
    "\<forall>key. get_run (rg_store g) key \<noteq> None \<longrightarrow> logs_of (rg_store g') key = logs_of (rg_store g) key"
    by blast
  have "rg_workers g' = []"
    using g'(1) by (auto simp: boot_def)
  moreover have "fst (list_logs after limit key (rg_store g')) = fst (list_logs after limit key (rg_store g))"
    if "get_run (rg_store g) key \<noteq> None" for key after limit
  proof -
    have "get_run (rg_store g') key \<noteq> None" using that by (simp add: g'(3))
    with that g'(4) show ?thesis
      by (simp add: list_logs_ok[OF s that] list_logs_ok[OF g'(2)] entries_of_def)
  qed
  ultimately show ?thesis using g'(1,3) by blast
qed

lemma restart_recovers_witness:
  "\<exists>g'. boot ''t9'' (js_disk (rg_store demo_up) @ [(''r0'', \<lparr>dir_state = None, dir_log = []\<rparr>)]) = Inr g' \<and>
     map_option sr_status (get_run (rg_store g') (''e1'', ''r1'')) = Some Run_Failed"
proof -
  have "\<not> has_key (js_disk (rg_store demo_up)) ''r0''" by code_simp
  from restart_recovers[OF demo_up_serving Unborn[OF this], of "''t9''"] obtain g' where
    g': "boot ''t9'' (js_disk (rg_store demo_up) @ [(''r0'', \<lparr>dir_state = None, dir_log = []\<rparr>)]) = Inr g'"
      "get_run (rg_store g') = (\<lambda>key. map_option (settle_interrupted ''t9'') (get_run (rg_store demo_up) key))"
    by blast
  have "sr_status (settle_interrupted ''t9'' demo_run) = Run_Failed" by code_simp
  with g' demo_up_run show ?thesis by auto
qed

text \<open>
  Polling a log misses nothing. In a running process the entries of a run are numbered
  1, 2, 3, ...; a request after cursor \<open>n\<close> with a limit gets the next entries from number \<open>n + 1\<close> on, so
  a client that asks again after the last number it has seen gets every entry once and in order.
\<close>

theorem log_polling_complete:
  assumes "serving (Up g)" and "get_run (rg_store g) key \<noteq> None"
  shows "\<exists>es. (\<forall>i < length es. le_seq (es ! i) = i + 1) \<and>
    (\<forall>after limit. fst (list_logs after (Some limit) key (rg_store g)) = Inr (take limit (drop after es))) \<and>
    (\<forall>after. fst (list_logs after None key (rg_store g)) = Inr (drop after es))"
proof -
  have s: "store_ok (rg_store g)" using serving_ok[OF assms(1)] by simp
  show ?thesis
    by (rule exI[of _ "entries_of (rg_store g) key"])
      (simp add: list_logs_ok[OF s assms(2)] entries_numbered(2)[OF s assms(2)])
qed

lemma log_polling_complete_witness:
  "\<exists>es. fst (list_logs 0 None (''e1'', ''r1'') (rg_store demo_done)) = Inr es \<and>
     fst (list_logs 1 (Some 5) (''e1'', ''r1'') (rg_store demo_done)) = Inr (take 5 (drop 1 es))"
proof -
  have "get_run (rg_store demo_done) (''e1'', ''r1'') \<noteq> None" by code_simp
  from log_polling_complete[OF demo_done_serving this] show ?thesis by force
qed

text \<open>
  The stop the recovery does not cover: a process that stops between a log entry and
  its newline leaves a complete entry on an unfinished line. The next entry is appended to that same
  line and the one after it makes the log unreadable, for every listing and for every later start.
\<close>

theorem unended_line_unreadable:
  "read_logs (append_line c (append_line b (map Whole es @ [Unended a]))) =
     Inl (Value_Error ''unreadable log line'')"
proof -
  have "append_line c (append_line b (map Whole es @ [Unended a])) = map Whole es @ [Garbled, Whole c]"
    by (simp add: append_line_def)
  moreover have "read_logs (map Whole es @ [Garbled, Whole c]) = Inl (Value_Error ''unreadable log line'')"
    by (induction es) simp_all
  ultimately show ?thesis by simp
qed

end
