(* ===== verification/Api_Pagination.thy ===== *)
theory Api_Pagination
  imports Run_Registry Ree_Model
begin

text \<open>
  Keyset pagination, \<open>pagination.py\<close> of the API, with the two listings of \<open>control/rees.py\<close> and
  \<open>control/runs.py\<close> that page over it. A client walks a listing by sending back the cursor of each
  page; the walk may not end in general, so it is a \<open>partial_function\<close>, and that it ends is proved.
\<close>

section \<open>Pages\<close>

definition keyset_sep :: char where "keyset_sep = CHR ''~''"

type_synonym page_key = "string \<times> string"

text \<open>\<open>s.partition(sep)\<close> for a one-character separator, and \<open>sep.join\<close> of a pair.\<close>

definition partition_at :: "char \<Rightarrow> string \<Rightarrow> string \<times> bool \<times> string" where
  "partition_at c s = (takeWhile (\<lambda>x. x \<noteq> c) s, c \<in> set s, tl (dropWhile (\<lambda>x. x \<noteq> c) s))"

definition join_key :: "page_key \<Rightarrow> string" where
  "join_key k = fst k @ [keyset_sep] @ snd k"

definition invalid_cursor :: "string \<Rightarrow> http_exception" where
  "invalid_cursor cursor = \<lparr>he_status_code = 400, he_detail = JObj
     [(''code'', JStr ''invalid_cursor''), (''message'', JStr ''Malformed pagination cursor''),
      (''details'', JObj [(''cursor'', JStr cursor)]), (''retryable'', JBool False)]\<rparr>"

definition boundary_of :: "string option \<Rightarrow> http_exception + page_key option" where
  "boundary_of cursor =
     (case cursor of
        None \<Rightarrow> Inr None
      | Some c \<Rightarrow>
          let (sort_value, found, tiebreak) = partition_at keyset_sep c
          in if found then Inr (Some (sort_value, tiebreak)) else Inl (invalid_cursor c))"

definition keyset_paginate ::
  "('a \<Rightarrow> page_key) \<Rightarrow> 'a list \<Rightarrow> string option \<Rightarrow> int option \<Rightarrow>
     http_exception + 'a list \<times> string option \<times> bool" where
  "keyset_paginate key items cursor limit =
     bind_res (boundary_of cursor) (\<lambda>boundary.
       let items = (case boundary of None \<Rightarrow> items | Some b \<Rightarrow> filter (\<lambda>x. key x < b) items);
           page = (case limit of None \<Rightarrow> items | Some n \<Rightarrow> take (nat (max n 0)) items);
           has_more = (length page < length items);
           next_cursor = (if page \<noteq> [] \<and> has_more then Some (join_key (key (last page))) else None)
       in Inr (page, next_cursor, has_more))"

section \<open>The listings\<close>

record ree_summary =
  rs_ree_id :: string
  rs_name :: string
  rs_status :: ree_status
  rs_allocation_id :: string
  rs_location_id :: string
  rs_image :: string

definition ree_page_key :: "ree_summary \<Rightarrow> page_key" where
  "ree_page_key m = (rs_name m, rs_ree_id m)"

text \<open>\<open>list_rees_route\<close> over the summaries of the benches that answered; the empty filter is none.\<close>

definition list_rees ::
  "ree_summary list \<Rightarrow> string option \<Rightarrow> int option \<Rightarrow> ree_status option \<Rightarrow>
     http_exception + ree_summary list \<times> string option" where
  "list_rees summaries cursor limit status =
     (let items = (case status of None \<Rightarrow> summaries | Some s \<Rightarrow> filter (\<lambda>m. rs_status m = s) summaries);
          items = sort_desc ree_page_key items
      in map_sum id (\<lambda>(page, next_cursor, _). (page, next_cursor))
           (keyset_paginate ree_page_key items cursor limit))"

definition run_page_key :: "run_summary \<Rightarrow> page_key" where
  "run_page_key r = (su_created_at r, su_run_id r)"

text \<open>
  \<open>list_ree_runs\<close>; \<open>refused\<close> is what \<open>require_handle\<close> raises when the REE has no bench that answers,
  which only an empty history asks.
\<close>

definition list_ree_runs ::
  "http_exception option \<Rightarrow> run_store \<Rightarrow> string \<Rightarrow> string option \<Rightarrow> int option \<Rightarrow>
     http_exception + run_summary list \<times> string option" where
  "list_ree_runs refused s ree_id cursor limit =
     (let runs = map run_summary_of (list_runs s ree_id)
      in bind_res (if runs = [] then (case refused of None \<Rightarrow> Inr () | Some e \<Rightarrow> Inl e) else Inr ()) (\<lambda>_.
         map_sum id (\<lambda>(page, next_cursor, _). (page, next_cursor))
           (keyset_paginate run_page_key runs cursor limit)))"

section \<open>Walks\<close>

text \<open>A client that follows the cursors of an unchanging listing.\<close>

partial_function (option) page_walk ::
  "('a \<Rightarrow> page_key) \<Rightarrow> int option \<Rightarrow> 'a list \<Rightarrow> string option \<Rightarrow> (http_exception + 'a list) option" where
  "page_walk key limit items cursor =
     (case keyset_paginate key items cursor limit of
        Inl e \<Rightarrow> Some (Inl e)
      | Inr (page, next_cursor, _) \<Rightarrow>
          (case next_cursor of
             None \<Rightarrow> Some (Inr page)
           | Some c \<Rightarrow> Option.bind (page_walk key limit items (Some c))
               (\<lambda>rest. Some (map_sum id ((@) page) rest))))"

text \<open>
  A client that follows the cursors while the listing changes: the snapshots are what each request
  finds. The flag says that the last page was reached.
\<close>

fun walk_over ::
  "('a \<Rightarrow> page_key) \<Rightarrow> int option \<Rightarrow> 'a list list \<Rightarrow> string option \<Rightarrow> 'a list \<times> bool" where
  "walk_over key limit [] cursor = ([], False)"
| "walk_over key limit (items # later) cursor =
     (case keyset_paginate key items cursor limit of
        Inl e \<Rightarrow> ([], False)
      | Inr (page, None, _) \<Rightarrow> (page, True)
      | Inr (page, Some c, _) \<Rightarrow>
          (let (rest, ended) = walk_over key limit later (Some c) in (page @ rest, ended)))"

section \<open>Cursors\<close>

lemma boundary_join: "boundary_of (Some (join_key k)) = Inr (Some (fst (partition_at keyset_sep (join_key k)),
    snd (snd (partition_at keyset_sep (join_key k)))))"
  by (simp add: boundary_of_def partition_at_def join_key_def Let_def)

lemma partition_join:
  "keyset_sep \<notin> set (fst k) \<Longrightarrow> partition_at keyset_sep (join_key k) = (fst k, True, snd k)"
  by (auto simp: partition_at_def join_key_def takeWhile_append dropWhile_append)

lemma boundary_join_plain:
  "keyset_sep \<notin> set (fst k) \<Longrightarrow> boundary_of (Some (join_key k)) = Inr (Some k)"
  by (simp add: boundary_join partition_join)

text \<open>A cut name is a prefix, so the boundary never comes after the key it was made of.\<close>

lemma cut_le: "takeWhile P (xs :: string) \<le> xs"
  by (induction xs) auto

lemma extension_not_less: "\<not> (xs @ ys :: string) < xs"
proof -
  have "xs \<le> xs @ ys" by (induction xs) auto
  then show ?thesis by simp
qed

lemma boundary_join_le:
  "\<exists>b. boundary_of (Some (join_key k)) = Inr (Some b) \<and> b \<le> k"
proof (cases "keyset_sep \<in> set (fst k)")
  case False
  then show ?thesis by (auto simp: boundary_join_plain)
next
  case True
  let ?cut = "takeWhile (\<lambda>x. x \<noteq> keyset_sep) (fst k)"
  have "?cut \<noteq> fst k" using True by (metis set_takeWhileD)
  then have "?cut < fst k" by (rule order.not_eq_order_implies_strict[OF _ cut_le])
  moreover have "fst (partition_at keyset_sep (join_key k)) = ?cut"
    using True by (simp add: partition_at_def join_key_def takeWhile_append1)
  ultimately show ?thesis
    by (intro exI[of _ "(fst (partition_at keyset_sep (join_key k)),
        snd (snd (partition_at keyset_sep (join_key k))))"])
      (simp add: boundary_join less_eq_prod_def)
qed

section \<open>Walks end\<close>

definition after_cursor :: "('a \<Rightarrow> page_key) \<Rightarrow> 'a list \<Rightarrow> page_key option \<Rightarrow> 'a list" where
  "after_cursor key items boundary =
     (case boundary of None \<Rightarrow> items | Some b \<Rightarrow> filter (\<lambda>x. key x < b) items)"

lemma keyset_paginate_after:
  "boundary_of cursor = Inr boundary \<Longrightarrow>
   keyset_paginate key items cursor limit =
     (let items = after_cursor key items boundary;
          page = (case limit of None \<Rightarrow> items | Some n \<Rightarrow> take (nat (max n 0)) items)
      in Inr (page, if page \<noteq> [] \<and> length page < length items then Some (join_key (key (last page))) else None,
           length page < length items))"
  by (simp add: keyset_paginate_def after_cursor_def Let_def)

lemma shorter_after:
  assumes "y \<in> set (after_cursor key items boundary)" and "b \<le> key y"
  shows "length (after_cursor key items (Some b)) < length (after_cursor key items boundary)"
proof -
  have "after_cursor key items (Some b) = filter (\<lambda>x. key x < b) (after_cursor key items boundary)"
    using assms by (auto simp: after_cursor_def intro!: filter_cong split: option.splits)
  then show ?thesis using assms by (auto intro!: length_filter_less[of y])
qed

lemma set_after_cursor: "set (after_cursor key items boundary) \<subseteq> set items"
  by (auto simp: after_cursor_def split: option.split)

lemma page_walk_ends_at:
  "boundary_of cursor = Inr boundary \<Longrightarrow>
   \<exists>pages. page_walk key limit items cursor = Some (Inr pages) \<and> set pages \<subseteq> set items"
proof (induction "length (after_cursor key items boundary)" arbitrary: cursor boundary rule: less_induct)
  case less
  let ?items = "after_cursor key items boundary"
  let ?page = "case limit of None \<Rightarrow> ?items | Some n \<Rightarrow> take (nat (max n 0)) ?items"
  have page: "set ?page \<subseteq> set ?items" by (auto split: option.split dest: in_set_takeD)
  show ?case
  proof (cases "?page \<noteq> [] \<and> length ?page < length ?items")
    case False
    then show ?thesis
      using page set_after_cursor[of key items boundary]
      by (subst page_walk.simps) (auto simp: keyset_paginate_after[OF less.prems] Let_def)
  next
    case True
    let ?c = "join_key (key (last ?page))"
    obtain b where b: "boundary_of (Some ?c) = Inr (Some b)" "b \<le> key (last ?page)"
      using boundary_join_le by blast
    have "last ?page \<in> set ?items" using True page last_in_set by blast
    from less.hyps[OF shorter_after[OF this b(2)] b(1)] obtain rest where
      rest: "page_walk key limit items (Some ?c) = Some (Inr rest)" "set rest \<subseteq> set items" by blast
    have "page_walk key limit items cursor = Some (Inr (?page @ rest))"
      using True by (subst page_walk.simps) (simp add: keyset_paginate_after[OF less.prems] Let_def rest(1))
    then show ?thesis using rest(2) page set_after_cursor[of key items boundary] by auto
  qed
qed

section \<open>Walks over a listing that changes\<close>

text \<open>A listing in order whose names are free of the separator.\<close>

definition listing :: "('a \<Rightarrow> page_key) \<Rightarrow> 'a list \<Rightarrow> bool" where
  "listing key items \<longleftrightarrow> sorted_wrt (\<lambda>x y. key y < key x) items \<and>
     (\<forall>x \<in> set items. keyset_sep \<notin> set (fst (key x)))"

lemma listing_after: "listing key items \<Longrightarrow> listing key (after_cursor key items boundary)"
  by (auto simp: listing_def after_cursor_def sorted_wrt_filter split: option.split)

lemma listing_take:
  assumes "listing key items" and "take n items \<noteq> []" and "x \<in> set items"
    and "\<not> key x < key (last (take n items))"
  shows "x \<in> set (take n items)"
proof (rule ccontr)
  assume "x \<notin> set (take n items)"
  then have "x \<in> set (drop n items)" using assms(3) by (metis Un_iff append_take_drop_id set_append)
  moreover have "sorted_wrt (\<lambda>x y. key y < key x) (take n items @ drop n items)"
    using assms(1) by (simp add: listing_def)
  ultimately have "key x < key (last (take n items))"
    using assms(2) last_in_set unfolding sorted_wrt_append by blast
  with assms(4) show False by simp
qed

lemma listing_last:
  "listing key items \<Longrightarrow> x \<in> set items \<Longrightarrow> key (last items) \<le> key x"
  by (induction items rule: rev_induct) (auto simp: listing_def sorted_wrt_append)

lemma listing_take': "listing key items \<Longrightarrow> listing key (take n items)"
  by (auto simp: listing_def sorted_wrt_take dest: in_set_takeD)

definition before :: "('a \<Rightarrow> page_key) \<Rightarrow> page_key option \<Rightarrow> 'a \<Rightarrow> bool" where
  "before key boundary x \<longleftrightarrow> (case boundary of None \<Rightarrow> True | Some b \<Rightarrow> key x < b)"

lemma in_after_cursor [simp]:
  "x \<in> set (after_cursor key items boundary) \<longleftrightarrow> x \<in> set items \<and> before key boundary x"
  by (auto simp: after_cursor_def before_def split: option.split)

lemma walk_over_step:
  assumes "boundary_of cursor = Inr boundary" and "limit = None \<or> (\<exists>n. limit = Some n \<and> 1 \<le> n)"
    and "listing key items"
  obtains (ended) page where "keyset_paginate key items cursor limit = Inr (page, None, False)"
      "page = after_cursor key items boundary"
  | (onward) page where
      "keyset_paginate key items cursor limit = Inr (page, Some (join_key (key (last page))), True)"
      "page \<noteq> []" "listing key page" "\<forall>x \<in> set page. before key boundary x"
      "\<forall>x \<in> set items. before key boundary x \<longrightarrow> key x < key (last page) \<or> x \<in> set page"
proof -
  let ?items = "after_cursor key items boundary"
  obtain n where n: "(case limit of None \<Rightarrow> ?items | Some n \<Rightarrow> take (nat (max n 0)) ?items) = take n ?items"
    "?items = [] \<or> n \<noteq> 0"
  proof (cases limit)
    case None
    then show thesis by (intro that[of "length ?items"]) simp_all
  next
    case (Some n)
    then have "1 \<le> n" using assms(2) by simp
    with Some show thesis by (intro that[of "nat n"]) simp_all
  qed
  have step: "keyset_paginate key items cursor limit =
      Inr (take n ?items, if take n ?items \<noteq> [] \<and> length (take n ?items) < length ?items
        then Some (join_key (key (last (take n ?items)))) else None, length (take n ?items) < length ?items)"
    by (simp add: keyset_paginate_after[OF assms(1)] n(1) Let_def)
  show thesis
  proof (cases "length (take n ?items) < length ?items")
    case False
    then have "take n ?items = ?items" by simp
    with False step show thesis by (intro ended) simp_all
  next
    case True
    have some: "take n ?items \<noteq> []" using n(2) True by auto
    note items = listing_after[OF assms(3), of boundary]
    show thesis
    proof (rule onward)
      show "\<forall>x \<in> set items. before key boundary x \<longrightarrow> key x < key (last (take n ?items)) \<or> x \<in> set (take n ?items)"
        using listing_take[OF items some] by (metis in_after_cursor)
      show "\<forall>x \<in> set (take n ?items). before key boundary x"
        by (meson in_after_cursor in_set_takeD)
    qed (use step True some listing_take'[OF items] in simp_all)
  qed
qed

lemma walk_over_complete:
  assumes "limit = None \<or> (\<exists>n. limit = Some n \<and> 1 \<le> n)"
  shows "boundary_of cursor = Inr boundary \<Longrightarrow> \<forall>items \<in> set snapshots. listing key items \<Longrightarrow>
    walk_over key limit snapshots cursor = (pages, True) \<Longrightarrow>
    listing key pages \<and> (\<forall>x \<in> set pages. before key boundary x) \<and>
    (\<forall>x. (\<forall>items \<in> set snapshots. x \<in> set items) \<and> before key boundary x \<longrightarrow> x \<in> set pages)"
proof (induction snapshots arbitrary: cursor boundary pages)
  case Nil
  then show ?case by simp
next
  case (Cons items later)
  have items: "listing key items" using Cons.prems(2) by simp
  from Cons.prems(1) assms items show ?case
  proof (cases rule: walk_over_step)
    case (ended page)
    then have pages: "pages = after_cursor key items boundary" using Cons.prems(3) by simp
    show ?thesis using listing_after[OF items] by (simp add: pages)
  next
    case (onward page)
    obtain rest where rest: "walk_over key limit later (Some (join_key (key (last page)))) = (rest, True)"
      "pages = page @ rest"
      using Cons.prems(3) onward(1) by (auto split: prod.splits)
    have "keyset_sep \<notin> set (fst (key (last page)))" using onward(2,3) by (simp add: listing_def)
    note next_boundary = boundary_join_plain[OF this]
    have later: "\<forall>items \<in> set later. listing key items" using Cons.prems(2) by simp
    note IH = Cons.IH[OF next_boundary later rest(1)]
    have last: "key (last page) \<le> key x" if "x \<in> set page" for x using listing_last[OF onward(3) that] .
    have lower: "key y < key (last page)" if "y \<in> set rest" for y
      using IH that by (simp add: before_def)
    have "listing key pages"
      using onward(3) IH last lower unfolding rest(2) listing_def sorted_wrt_append
      by (auto intro: less_le_trans)
    moreover have "before key boundary y" if "y \<in> set pages" for y
    proof (cases "y \<in> set page")
      case False
      have "before key boundary (last page)" using onward(2,4) by simp
      moreover have "key y < key (last page)" using lower False that by (simp add: rest(2))
      ultimately show ?thesis by (auto simp: before_def split: option.splits)
    qed (use onward(4) in blast)
    moreover have "x \<in> set pages"
      if "\<forall>items \<in> set (items # later). x \<in> set items" "before key boundary x" for x
      using onward(5) IH that by (auto simp: rest(2) before_def)
    ultimately show ?thesis by blast
  qed
qed

section \<open>Properties\<close>

text \<open>
  Every walk ends. Whatever the items, their order, the names they carry and the limit,
  following the cursors of a listing reaches a last page, never a refused cursor, and yields only
  items of the listing.
\<close>

theorem page_walk_ends:
  "\<exists>pages. page_walk key limit items None = Some (Inr pages) \<and> set pages \<subseteq> set items"
  by (rule page_walk_ends_at[of _ None]) (simp add: boundary_of_def)

text \<open>
  Property C34. Pages deliver every stable item once. However a listing in order changes between the
  requests, as long as its names are free of the separator: a walk with a positive limit that reached
  its last page yields items in strictly descending key order, so none twice, and every item that was
  there at each request.
\<close>

theorem pages_deliver_stable_items:
  assumes "limit = None \<or> (\<exists>n. limit = Some n \<and> 1 \<le> n)"
    and "\<forall>items \<in> set snapshots. listing key items"
    and "walk_over key limit snapshots None = (pages, True)"
  shows "sorted_wrt (\<lambda>x y. key y < key x) pages \<and>
    (\<forall>x. (\<forall>items \<in> set snapshots. x \<in> set items) \<longrightarrow> x \<in> set pages)"
proof -
  have "boundary_of None = Inr None" by (simp add: boundary_of_def)
  from walk_over_complete[OF assms(1) this assms(2,3)] show ?thesis
    by (simp add: listing_def before_def)
qed

definition demo_keys :: "(string \<times> string) list" where
  "demo_keys = [(''t4'', ''d''), (''t3'', ''c''), (''t2'', ''b''), (''t1'', ''a'')]"

lemma pages_deliver_stable_items_witness:
  "(''t1'', ''a'') \<in> set (fst (walk_over id (Some 2) [demo_keys, (''t5'', ''e'') # demo_keys] None))"
proof -
  let ?snapshots = "[demo_keys, (''t5'', ''e'') # demo_keys]"
  have keys: "listing id items" if "items \<in> set ?snapshots" for items
    using that by (auto simp: listing_def demo_keys_def keyset_sep_def)
  have walk: "walk_over id (Some 2) ?snapshots None = (fst (walk_over id (Some 2) ?snapshots None), True)"
    by code_simp
  have "(Some 2 :: int option) = None \<or> (\<exists>n. Some 2 = Some n \<and> (1 :: int) \<le> n)" by simp
  from pages_deliver_stable_items[OF this _ walk] keys
  have "\<forall>x. (\<forall>items \<in> set ?snapshots. x \<in> set items) \<longrightarrow>
    x \<in> set (fst (walk_over id (Some 2) ?snapshots None))" by blast
  then show ?thesis by (rule allE[of _ "(''t1'', ''a'')"]) (simp add: demo_keys_def)
qed

text \<open>
  Property C36. A separator in a name loses items. The cursor of a page that ends in a REE whose name
  contains the separator is cut at the name, so a walk of the REE listing one by one ends after the
  first of two REEs whose names agree up to a separator, and the second is never listed.
\<close>

theorem separator_in_name_skips:
  assumes "rs_name x = common @ [keyset_sep] @ rest" and "rs_name y = common @ [keyset_sep] @ rest'"
    and "keyset_sep \<notin> set common" and "ree_page_key y < ree_page_key x"
  shows "page_walk ree_page_key (Some 1) (sort_desc ree_page_key [y, x]) None = Some (Inr [x])"
proof -
  have order: "sort_desc ree_page_key [y, x] = [x, y]"
    using assms(4) by (simp add: sort_desc_def)
  let ?c = "join_key (ree_page_key x)"
  have cut: "fst (partition_at keyset_sep ?c) = common"
    using assms(1,3) by (simp add: partition_at_def join_key_def ree_page_key_def takeWhile_append)
  have later: "\<not> ree_page_key z < (common, t)" if "rs_name z = common @ keyset_sep # r" for z t r
    using that extension_not_less[of common "keyset_sep # r"] by (simp add: ree_page_key_def less_prod_def')
  have "page_walk ree_page_key (Some 1) [x, y] (Some ?c) = Some (Inr [])"
    using later assms(1,2)
    by (subst page_walk.simps) (simp add: keyset_paginate_def boundary_join cut)
  then show ?thesis
    unfolding order
    by (subst page_walk.simps) (simp add: keyset_paginate_def boundary_of_def)
qed

definition demo_summary :: "string \<Rightarrow> string \<Rightarrow> ree_summary" where
  "demo_summary ree_id name = \<lparr>rs_ree_id = ree_id, rs_name = name, rs_status = Draft,
     rs_allocation_id = ''alloc-1'', rs_location_id = ''here'', rs_image = []\<rparr>"

lemma separator_in_name_skips_witness:
  "page_walk ree_page_key (Some 1)
     (sort_desc ree_page_key [demo_summary ''r1'' ''run~1'', demo_summary ''r2'' ''run~2'']) None =
   Some (Inr [demo_summary ''r2'' ''run~2''])"
  by (rule separator_in_name_skips[of _ "''run''" "''2''" _ "''1''"]; code_simp)

end
