(* ===== verification/Api_Index.thy ===== *)
theory Api_Index
  imports Api_Pagination Ree_Swhid Ree_Audit
begin

text \<open>
  The durable record of sealed REEs, \<open>ree_index.py\<close> of the API, with the attestations of
  \<open>deposit/models.py\<close>, the write at seal time of \<open>authoring/seal.py\<close> and the listing of
  \<open>ree_index_routes.py\<close>. The file is a dictionary from subject digests to entries that reads back as
  it was written; each operation holds the lock, so it is one function of that dictionary.
\<close>

section \<open>Times\<close>

text \<open>
  \<open>moment.isoformat().replace("+00:00", "Z")\<close> of a UTC instant in microseconds, for the years 1 to
  9999 of a \<open>datetime\<close>: the date is counted in eras of 400 years from 1 March of year 0.
\<close>

definition padded :: "nat \<Rightarrow> int \<Rightarrow> string" where
  "padded w n = (let d = decimal (nat n) in replicate (w - length d) (CHR ''0'') @ d)"

definition civil_date :: "int \<Rightarrow> int \<times> int \<times> int" where
  "civil_date days =
     (let z = days + 719468;
          era = z div 146097;
          doe = z mod 146097;
          yoe = (doe - doe div 1460 + doe div 36524 - doe div 146096) div 365;
          doy = doe - (365 * yoe + yoe div 4 - yoe div 100);
          mp = (5 * doy + 2) div 153;
          d = doy - (153 * mp + 2) div 5 + 1;
          m = (if mp < 10 then mp + 3 else mp - 9)
      in (yoe + era * 400 + (if m \<le> 2 then 1 else 0), m, d))"

definition iso_utc :: "utc_instant \<Rightarrow> string" where
  "iso_utc t =
     (let secs = t div 1000000; us = t mod 1000000; sod = secs mod 86400;
          (y, m, d) = civil_date (secs div 86400)
      in padded 4 y @ ''-'' @ padded 2 m @ ''-'' @ padded 2 d @ ''T'' @
         padded 2 (sod div 3600) @ '':'' @ padded 2 (sod div 60 mod 60) @ '':'' @ padded 2 (sod mod 60) @
         (if us = 0 then [] else ''.'' @ padded 6 us) @ ''Z'')"

section \<open>Entries\<close>

datatype archive_provider = Software_Heritage | Zenodo | Dataverse

record attestation =
  att_subject_digest :: string
  att_signer_identity :: string
  att_signer_role :: string
  att_signed_at :: string
  att_policy :: string
  att_signature :: "string option"
  att_verification_material :: "string option"
  att_archive :: archive_provider
  att_identifier :: string
  att_record_url :: string
  att_concept_identifier :: string
  att_version :: string

record index_entry =
  ie_subject_digest :: string
  ie_name :: string
  ie_sealed_at :: string
  ie_catalog_metadata :: ree_catalog
  ie_ree_version :: string
  ie_archive_attestations :: "attestation list"

definition is_deposited :: "index_entry \<Rightarrow> bool" where
  "is_deposited e \<longleftrightarrow> ie_archive_attestations e \<noteq> []"

definition entry_from_ree :: "ree \<Rightarrow> ree_error + index_entry" where
  "entry_from_ree r =
     (case ree_sealed r of
        None \<Rightarrow> Inl (Value_Error ''only a sealed REE can be indexed'')
      | Some seal \<Rightarrow>
          let d = sub_definition (ree_subject r)
          in Inr \<lparr>ie_subject_digest = seal_ree_digest seal, ie_name = def_name d,
               ie_sealed_at = iso_utc (seal_sealed_at seal), ie_catalog_metadata = def_catalog d,
               ie_ree_version = decimal (nat (sub_schema_version (ree_subject r))),
               ie_archive_attestations = []\<rparr>)"

section \<open>The store\<close>

type_synonym ree_index = "(string \<times> index_entry) list"

definition index_sort_key :: "index_entry \<Rightarrow> page_key" where
  "index_sort_key e = (ie_sealed_at e, ie_subject_digest e)"

definition index_record_seal :: "index_entry \<Rightarrow> ree_index \<Rightarrow> index_entry \<times> ree_index" where
  "index_record_seal entry data =
     (let entry = (case map_of data (ie_subject_digest entry) of
            Some existing \<Rightarrow> entry\<lparr>ie_archive_attestations := ie_archive_attestations existing\<rparr>
          | None \<Rightarrow> entry)
      in (entry, AList.update (ie_subject_digest entry) entry data))"

definition binding_of :: "attestation \<Rightarrow> archive_provider \<times> string" where
  "binding_of a = (att_archive a, att_identifier a)"

definition append_attestation :: "attestation \<Rightarrow> ree_index \<Rightarrow> (ree_error + index_entry) \<times> ree_index" where
  "append_attestation a data =
     (case map_of data (att_subject_digest a) of
        None \<Rightarrow> (Inl (Key_Error (''no index entry for '' @ att_subject_digest a)), data)
      | Some entry \<Rightarrow>
          if binding_of a \<in> binding_of ` set (ie_archive_attestations entry) then (Inr entry, data)
          else let entry = entry\<lparr>ie_archive_attestations := ie_archive_attestations entry @ [a]\<rparr>
            in (Inr entry, AList.update (ie_subject_digest entry) entry data))"

definition index_get :: "string \<Rightarrow> ree_index \<Rightarrow> index_entry option" where
  "index_get digest data = map_of data digest"

definition list_all_entries :: "bool \<Rightarrow> ree_index \<Rightarrow> index_entry list" where
  "list_all_entries deposited_only data =
     (let entries = map snd data;
          entries = (if deposited_only then filter is_deposited entries else entries)
      in sort_key index_sort_key entries)"

section \<open>The writes and the listing of the API\<close>

text \<open>
  \<open>_record_in_ree_index\<close> after a seal: what cannot be recorded is logged, and the index stays.
  \<open>parse\<close> is \<open>Ree.model_validate\<close> and \<open>writable\<close> says that the file can be written.
\<close>

definition record_in_ree_index :: "('d \<Rightarrow> ree option) \<Rightarrow> bool \<Rightarrow> 'd \<Rightarrow> ree_index \<Rightarrow> ree_index" where
  "record_in_ree_index parse writable document data =
     (case parse document of
        None \<Rightarrow> data
      | Some r \<Rightarrow>
          (case entry_from_ree r of
             Inl _ \<Rightarrow> data
           | Inr entry \<Rightarrow> if writable then snd (index_record_seal entry data) else data))"

definition index_page_key :: "index_entry \<Rightarrow> page_key" where
  "index_page_key e = (ie_sealed_at e, ie_subject_digest e)"

definition list_ree_index ::
  "ree_index \<Rightarrow> string option \<Rightarrow> int option \<Rightarrow> bool \<Rightarrow> http_exception + index_entry list \<times> string option" where
  "list_ree_index data cursor limit deposited_only =
     map_sum id (\<lambda>(page, next_cursor, _). (page, next_cursor))
       (keyset_paginate index_page_key (rev (list_all_entries deposited_only data)) cursor limit)"

section \<open>The index keeps what it was told\<close>

definition index_ok :: "ree_index \<Rightarrow> bool" where
  "index_ok data \<longleftrightarrow> dict_ok data \<and>
     (\<forall>(digest, e) \<in> set data. ie_subject_digest e = digest \<and>
        (\<forall>a \<in> set (ie_archive_attestations e). att_subject_digest a = digest) \<and>
        distinct (map binding_of (ie_archive_attestations e)))"

lemma index_okD:
  assumes "index_ok data" and "map_of data digest = Some e"
  shows "ie_subject_digest e = digest" and "\<forall>a \<in> set (ie_archive_attestations e). att_subject_digest a = digest"
    and "distinct (map binding_of (ie_archive_attestations e))"
  using assms map_of_SomeD[OF assms(2)] by (auto simp: index_ok_def)

lemma index_ok_update:
  assumes "index_ok data" and "ie_subject_digest e = digest"
    and "\<forall>a \<in> set (ie_archive_attestations e). att_subject_digest a = digest"
    and "distinct (map binding_of (ie_archive_attestations e))"
  shows "index_ok (AList.update digest e data)"
proof -
  have d: "dict_ok data" "dict_ok (AList.update digest e data)" using assms(1) by (simp_all add: index_ok_def)
  have "ie_subject_digest y = k \<and> (\<forall>a \<in> set (ie_archive_attestations y). att_subject_digest a = k) \<and>
      distinct (map binding_of (ie_archive_attestations y))"
    if "(k, y) \<in> set (AList.update digest e data)" for k y
  proof -
    have "map_of (AList.update digest e data) k = Some y" using that d(2) by (simp add: dict_ok_map_of_iff del: map_of_update)
    then show ?thesis
      using assms index_okD[OF assms(1), of k y] by (auto split: if_splits)
  qed
  with d(2) show ?thesis by (auto simp: index_ok_def)
qed

inductive index_step :: "ree_index \<Rightarrow> ree_index \<Rightarrow> bool" where
  Sealed_Entry: "entry_from_ree r = Inr entry \<Longrightarrow> index_step data (snd (index_record_seal entry data))"
| Attested: "index_step data (snd (append_attestation a data))"

inductive index_path :: "ree_index \<Rightarrow> ree_index \<Rightarrow> bool" where
  Index_Here: "index_path data data"
| Index_Onward: "index_path data mid \<Longrightarrow> index_step mid later \<Longrightarrow> index_path data later"

lemma entry_from_ree_Inr:
  "entry_from_ree r = Inr entry \<Longrightarrow> ie_archive_attestations entry = []"
  by (auto simp: entry_from_ree_def Let_def split: option.splits)

text \<open>An entry is never lost, and its attestations only grow at the end.\<close>

definition grows :: "ree_index \<Rightarrow> ree_index \<Rightarrow> bool" where
  "grows data later \<longleftrightarrow> (\<forall>digest e. map_of data digest = Some e \<longrightarrow>
     (\<exists>e' new. map_of later digest = Some e' \<and>
        ie_archive_attestations e' = ie_archive_attestations e @ new))"

lemma grows_refl: "grows data data"
  unfolding grows_def by (metis append_Nil2)

lemma grows_update:
  assumes "\<And>e. map_of data digest = Some e \<Longrightarrow>
      \<exists>new. ie_archive_attestations e' = ie_archive_attestations e @ new"
  shows "grows data (AList.update digest e' data)"
  unfolding grows_def using assms by (metis append_Nil2 fun_upd_apply map_of_update)

lemma index_step_ok:
  assumes "index_ok data" and "index_step data later"
  shows "index_ok later \<and> grows data later"
  using assms(2)
proof cases
  case (Sealed_Entry r entry)
  let ?entry = "case map_of data (ie_subject_digest entry) of
      Some existing \<Rightarrow> entry\<lparr>ie_archive_attestations := ie_archive_attestations existing\<rparr> | None \<Rightarrow> entry"
  have later: "later = AList.update (ie_subject_digest entry) ?entry data"
    by (auto simp: Sealed_Entry(1) index_record_seal_def Let_def split: option.split)
  have "index_ok later"
    unfolding later using assms(1) index_okD[OF assms(1)] entry_from_ree_Inr[OF Sealed_Entry(2)]
    by (intro index_ok_update) (auto split: option.split)
  moreover have "grows data later"
    unfolding later by (intro grows_update) (auto split: option.split)
  ultimately show ?thesis by simp
next
  case (Attested a)
  show ?thesis
  proof (cases "map_of data (att_subject_digest a)")
    case None
    then show ?thesis using assms(1) by (simp add: Attested append_attestation_def grows_refl)
  next
    case (Some e)
    note e = index_okD[OF assms(1) Some]
    show ?thesis
    proof (cases "binding_of a \<in> binding_of ` set (ie_archive_attestations e)")
      case True
      then show ?thesis using assms(1) Some by (simp add: Attested append_attestation_def grows_refl)
    next
      case False
      let ?e = "e\<lparr>ie_archive_attestations := ie_archive_attestations e @ [a]\<rparr>"
      have later: "later = AList.update (att_subject_digest a) ?e data"
        using False Some e(1) by (simp add: Attested append_attestation_def Let_def)
      have "index_ok later"
        unfolding later using assms(1) e False by (intro index_ok_update) auto
      moreover have "grows data later"
        unfolding later using Some by (intro grows_update) auto
      ultimately show ?thesis by simp
    qed
  qed
qed

lemma grows_trans: "grows a b \<Longrightarrow> grows b c \<Longrightarrow> grows a c"
  unfolding grows_def by (metis append_assoc)

lemma index_path_ok:
  "index_path data later \<Longrightarrow> index_ok data \<Longrightarrow> index_ok later \<and> grows data later"
proof (induction rule: index_path.induct)
  case (Index_Onward data mid later)
  then show ?case using index_step_ok[of mid later] grows_trans by blast
qed (simp add: grows_refl)

section \<open>Properties\<close>

text \<open>
  Property C35. The index never loses a claim. From an empty file on, whatever seals and attestations are
  recorded, every entry is filed under the digest of its REE, its attestations name that digest, no
  archive identifier is held twice; and from any such state on an entry stays and its attestations
  only grow at the end, re-sealing included.
\<close>

theorem index_append_only:
  assumes "index_path [] data" and "index_path data later" and "map_of data digest = Some e"
  shows "\<exists>e' new. map_of later digest = Some e' \<and> ie_subject_digest e' = digest \<and>
    ie_archive_attestations e' = ie_archive_attestations e @ new \<and>
    distinct (map binding_of (ie_archive_attestations e')) \<and>
    att_subject_digest ` set (ie_archive_attestations e') \<subseteq> {digest}"
proof -
  have "index_ok data" using index_path_ok[OF assms(1)] by (simp add: index_ok_def)
  then have later: "index_ok later" "grows data later" using index_path_ok[OF assms(2)] by simp_all
  then obtain e' new where e': "map_of later digest = Some e'"
    "ie_archive_attestations e' = ie_archive_attestations e @ new"
    using assms(3) unfolding grows_def by blast
  from index_okD[OF later(1) e'(1)] e' show ?thesis by blast
qed

definition demo_attestation :: "string \<Rightarrow> attestation" where
  "demo_attestation identifier = \<lparr>att_subject_digest = ''sha256:1'', att_signer_identity = [],
     att_signer_role = ''archive_adapter'', att_signed_at = [], att_policy = [], att_signature = None,
     att_verification_material = None, att_archive = Zenodo, att_identifier = identifier,
     att_record_url = [], att_concept_identifier = [], att_version = []\<rparr>"

definition demo_seal :: ree where
  "demo_seal = example_ree\<lparr>ree_sealed := Some \<lparr>seal_sealed_at = 1700000000000000,
     seal_ree_digest = ''sha256:1'', seal_signature = None\<rparr>\<rparr>"

definition demo_index :: ree_index where
  "demo_index = snd (append_attestation (demo_attestation ''doi:1'')
     (snd (index_record_seal (projr (entry_from_ree demo_seal)) [])))"

lemma demo_index_path: "index_path [] demo_index"
proof -
  have "entry_from_ree demo_seal = Inr (projr (entry_from_ree demo_seal))"
    by (simp add: entry_from_ree_def demo_seal_def Let_def)
  from Index_Onward[OF Index_Here Sealed_Entry[OF this]] show ?thesis
    unfolding demo_index_def by (rule Index_Onward[OF _ Attested])
qed

lemma demo_index_entry:
  "map_option (\<lambda>e. map att_identifier (ie_archive_attestations e)) (map_of demo_index ''sha256:1'') = Some [''doi:1'']"
  by code_simp

lemma index_append_only_witness:
  "\<exists>e' new. map_of (snd (append_attestation (demo_attestation ''doi:2'') demo_index)) ''sha256:1'' = Some e' \<and>
     map att_identifier (ie_archive_attestations e') = ''doi:1'' # new"
proof -
  obtain e where e: "map_of demo_index ''sha256:1'' = Some e"
    "map att_identifier (ie_archive_attestations e) = [''doi:1'']"
    using demo_index_entry by (cases "map_of demo_index ''sha256:1''") auto
  from index_append_only[OF demo_index_path Index_Onward[OF Index_Here Attested] e(1), of "demo_attestation ''doi:2''"]
  show ?thesis using e(2) by auto
qed

text \<open>
  Attesting is idempotent: recording a binding that an entry already has, by archive and
  identifier, answers with the entry as it is and leaves the file alone.
\<close>

theorem attestation_idempotent:
  assumes "append_attestation a data = (Inr e, data')" and "index_ok data" and "binding_of b = binding_of a"
    and "att_subject_digest b = att_subject_digest a"
  shows "append_attestation b data' = (Inr e, data')"
proof -
  obtain old where old: "map_of data (att_subject_digest a) = Some old"
    using assms(1) by (auto simp: append_attestation_def split: option.splits)
  have "ie_subject_digest old = att_subject_digest a" using index_okD(1)[OF assms(2) old] .
  with assms(1,3,4) old show ?thesis
    by (auto simp: append_attestation_def Let_def split: if_splits)
qed

lemma attestation_idempotent_witness:
  "append_attestation (demo_attestation ''doi:1''\<lparr>att_record_url := ''u''\<rparr>)
     (snd (append_attestation (demo_attestation ''doi:1'') demo_index)) =
   append_attestation (demo_attestation ''doi:1'') demo_index"
proof -
  have ok: "index_ok demo_index" using index_path_ok[OF demo_index_path] by (simp add: index_ok_def)
  obtain e where "map_of demo_index ''sha256:1'' = Some e"
    using demo_index_entry by (cases "map_of demo_index ''sha256:1''") auto
  then have "map_of demo_index (att_subject_digest (demo_attestation ''doi:1'')) = Some e"
    by (simp add: demo_attestation_def)
  then obtain e' where "append_attestation (demo_attestation ''doi:1'') demo_index =
      (Inr e', snd (append_attestation (demo_attestation ''doi:1'') demo_index))"
    by (cases "binding_of (demo_attestation ''doi:1'') \<in> binding_of ` set (ie_archive_attestations e)")
      (simp_all add: append_attestation_def Let_def)
  from attestation_idempotent[OF this ok, of "demo_attestation ''doi:1''\<lparr>att_record_url := ''u''\<rparr>"] this
  show ?thesis by (simp add: binding_of_def demo_attestation_def)
qed

text \<open>
  The published order is not quite the order in time: an instant on a whole second is written without
  a fraction, and its Z sorts after every fraction of the same second.
\<close>

lemma index_order_not_chronological:
  "iso_utc 1700000000000001 < iso_utc 1700000000000000"
  by code_simp

end
