(* ===== verification/Inf_Model.thy ===== *)
theory Inf_Model
  imports Ree_Model
begin

text \<open>
  The data of script inference, \<open>author_recipes/inference/models.py\<close>: what a decision graph is, what
  flows along it and what a walk returns; with the targets of \<open>targets.py\<close>, the authored inputs of
  \<open>runtime_inputs.py\<close>, the policy of \<open>policy.py\<close> and the warning catalog of \<open>warnings.py\<close>.

  A check, a resolver and a renderer are records of their declarations and of one function that may
  raise. A built artifact is opened as the archive \<open>tarfile\<close> reads from it.
\<close>

section \<open>Targets\<close>

datatype target_kind =
    Build_Target | Activation_Run | Activation_Verify | Experiment_Run | Experiment_Verify

record script_selector =
  sel_kind :: target_kind
  sel_experiment_name :: "string option"

record script_target =
  tgt_kind :: target_kind
  tgt_experiment_name :: "string option"
  tgt_path :: string

fun kind_text :: "target_kind \<Rightarrow> string" where
  "kind_text Build_Target = ''build''"
| "kind_text Activation_Run = ''activation_run''"
| "kind_text Activation_Verify = ''activation_verify''"
| "kind_text Experiment_Run = ''experiment_run''"
| "kind_text Experiment_Verify = ''experiment_verify''"

fun fixed_target_path :: "target_kind \<Rightarrow> string option" where
  "fixed_target_path Build_Target = Some reserved_build_script"
| "fixed_target_path Activation_Run = Some reserved_activation_script"
| "fixed_target_path Activation_Verify = Some reserved_activation_verify_script"
| "fixed_target_path _ = None"

definition resolve_target :: "script_selector \<Rightarrow> ree_error + script_target" where
  "resolve_target s =
     (let kind = sel_kind s; name = (case sel_experiment_name s of None \<Rightarrow> [] | Some n \<Rightarrow> n)
      in case fixed_target_path kind of
           None \<Rightarrow>
             if name = [] then Inl (Value_Error (kind_text kind @ '' requires an experiment_name''))
             else Inr \<lparr>tgt_kind = kind, tgt_experiment_name = Some name,
               tgt_path = (if kind = Experiment_Run then experiment_run_script_path name
                 else experiment_verify_script_path name)\<rparr>
         | Some path \<Rightarrow>
             if name \<noteq> [] then Inl (Value_Error (kind_text kind @ '' must not carry an experiment_name''))
             else Inr \<lparr>tgt_kind = kind, tgt_experiment_name = None, tgt_path = path\<rparr>)"

section \<open>Evidence, dependencies, warnings\<close>

datatype candidate_status = Cs_Complete | Cs_Needs_Input | Cs_Not_Inferred

datatype application_policy = Automatic_Allowed | Confirmation_Required | Unavailable

datatype dependency_kind =
    Dep_Source | Dep_Inventory | Dep_Script | Dep_Runtime_Artifact | Dep_Runtime_Declaration
  | Dep_Experiment_Declaration | Dep_Baseline_Result

record candidate_dependency =
  cdp_kind :: dependency_kind
  cdp_path :: "string option"
  cdp_digest :: string
  cdp_role :: string

record inference_evidence =
  iev_code :: string
  iev_path :: "string option"
  iev_digest :: "string option"
  iev_line :: "int option"
  iev_detail :: string

datatype warning_severity = Sev_Info | Sev_Warning | Sev_Error

record inference_warning =
  iw_code :: string
  iw_severity :: warning_severity
  iw_blocking :: bool
  iw_message :: string
  iw_affected_paths :: "string list"
  iw_details :: "(string \<times> json) list option"

datatype validation_status = Not_Run | Not_Runnable | Vs_Succeeded | Vs_Failed | Vs_Stale

record script_validation =
  val_status :: validation_status
  val_script_digest :: "string option"
  val_source_snapshot_digest :: "string option"
  val_runtime_digest :: "string option"
  val_matching_run_id :: "string option"

section \<open>Runtime contracts and command candidates\<close>

definition default_venv_restore_dir :: string where
  "default_venv_restore_dir = ''/tmp/ree-venv''"

record docker_contract =
  dco_artifact_path :: string
  dco_image_ref :: string
  dco_workspace_mount :: string
  dco_working_directory :: string

record venv_contract =
  vco_artifact_path :: string
  vco_venv_restore_dir :: string
  vco_interpreter :: string

datatype runtime_contract = Docker_Runtime docker_contract | Venv_Runtime venv_contract

record docker_plan =
  dpl_dockerfile_path :: string
  dpl_build_context :: string
  dpl_image_ref :: string
  dpl_artifact_path :: string

text \<open>An argument list, or the text of a shell command and its shell; each with its id and source.\<close>

datatype command_candidate =
    Argv_Candidate string "string list" string
  | Shell_Candidate string string string string

fun candidate_source :: "command_candidate \<Rightarrow> string" where
  "candidate_source (Argv_Candidate _ _ source) = source"
| "candidate_source (Shell_Candidate _ _ _ source) = source"

section \<open>Bindings\<close>

datatype binding_kind =
    Bk_Project_Root | Bk_Dockerfile | Bk_Requirements_Project | Bk_Runtime_Plan
  | Bk_Runtime_Declaration | Bk_Runtime_Contract | Bk_Image_Command | Bk_Experiment
  | Bk_Command_Candidates | Bk_Verification_Claim

datatype root_source = From_Root | From_Wrapper

datatype contract_provenance = Inspected_Artifact | Unchanged_Generated_Build

record experiment_binding =
  xb_name :: string
  xb_run_script_path :: string
  xb_verify_script_path :: "string option"
  xb_output_paths :: "string list"

datatype decision_binding =
    Project_Root string root_source
  | Dockerfile_Binding (dfb_path: string) (dfb_build_context: string) (dfb_digest: string)
  | Requirements_Project (rqb_path: string) (rqb_digest: string)
  | Runtime_Plan docker_plan
  | Runtime_Declaration string "string option"
  | Contract_Binding runtime_contract contract_provenance
  | Image_Command "string list option" "string option"
  | Experiment_Found experiment_binding
  | Candidates_Binding "command_candidate list"

fun kind_of :: "decision_binding \<Rightarrow> binding_kind" where
  "kind_of (Project_Root _ _) = Bk_Project_Root"
| "kind_of (Dockerfile_Binding _ _ _) = Bk_Dockerfile"
| "kind_of (Requirements_Project _ _) = Bk_Requirements_Project"
| "kind_of (Runtime_Plan _) = Bk_Runtime_Plan"
| "kind_of (Runtime_Declaration _ _) = Bk_Runtime_Declaration"
| "kind_of (Contract_Binding _ _) = Bk_Runtime_Contract"
| "kind_of (Image_Command _ _) = Bk_Image_Command"
| "kind_of (Experiment_Found _) = Bk_Experiment"
| "kind_of (Candidates_Binding _) = Bk_Command_Candidates"

section \<open>Observations\<close>

datatype leaf_outcome = Lo_Complete | Lo_Candidate | Lo_Blocked | Lo_Not_Applicable

fun outcome_text :: "leaf_outcome \<Rightarrow> string" where
  "outcome_text Lo_Complete = ''complete''"
| "outcome_text Lo_Candidate = ''candidate''"
| "outcome_text Lo_Blocked = ''blocked''"
| "outcome_text Lo_Not_Applicable = ''not_applicable''"

definition viable :: "leaf_outcome \<Rightarrow> bool" where
  "viable o1 \<longleftrightarrow> o1 = Lo_Complete \<or> o1 = Lo_Candidate"

fun status_text :: "candidate_status \<Rightarrow> string" where
  "status_text Cs_Complete = ''complete''"
| "status_text Cs_Needs_Input = ''needs_input''"
| "status_text Cs_Not_Inferred = ''not_inferred''"

text \<open>The last constructor but one is a contract observation: result, kind, provenance, detail.\<close>

datatype decision_observation =
    Logical_Root_Seen string int
  | Path_Matches_Seen int "string list"
  | Outcomes_Seen "(string \<times> leaf_outcome \<times> string) list"
  | Contract_Seen string "string option" "string option" string
  | Commands_Seen int "string list"
  | Experiment_Gate_Seen string string bool

section \<open>Facts, policy and authored inputs\<close>

record file_fact =
  ff_path :: string
  ff_project_relative_path :: string
  ff_digest :: string
  ff_at_project_root :: bool

record repository_facts =
  rf_logical_project_root :: string
  rf_dockerfiles :: "file_fact list"
  rf_requirements_files :: "file_fact list"

record inference_policy =
  pol_allowed_runtime_kinds :: "string list"
  pol_conda_base_image :: "string option"
  pol_python_base_images :: "(string \<times> string) list"
  pol_node_base_images :: "(string \<times> string) list"
  pol_default_platform :: "string option"

definition default_policy :: inference_policy where
  "default_policy = \<lparr>pol_allowed_runtime_kinds = [''docker_archive'', ''venv_archive''],
     pol_conda_base_image = None, pol_python_base_images = [], pol_node_base_images = [],
     pol_default_platform = None\<rparr>"

record artifact_file =
  af_exists :: bool
  af_is_file :: bool
  af_size :: int
  af_digest :: "string option"

definition absent_artifact :: artifact_file where
  "absent_artifact = \<lparr>af_exists = False, af_is_file = False, af_size = 0, af_digest = None\<rparr>"

text \<open>
  An archive as \<open>tarfile\<close> reads it: the members in order, a regular one with its size and bytes, or
  the name of the exception that opening it or listing its names raises.
\<close>

datatype tar_member = Regular_Member nat string | Other_Member

datatype tar_archive = Members "(string \<times> tar_member) list" | Unreadable string

record artifact_accessor =
  acc_stat :: "string \<Rightarrow> artifact_file"
  acc_open :: "string \<Rightarrow> tar_archive option"

definition null_accessor :: artifact_accessor where
  "null_accessor = \<lparr>acc_stat = (\<lambda>_. absent_artifact), acc_open = (\<lambda>_. None)\<rparr>"

record runtime_inputs =
  ri_declared_runtime_path :: "string option"
  ri_experiments :: "experiment_definition list"
  ri_accessor :: artifact_accessor

definition no_runtime_inputs :: runtime_inputs where
  "no_runtime_inputs = \<lparr>ri_declared_runtime_path = None, ri_experiments = [], ri_accessor = null_accessor\<rparr>"

definition declared_experiment :: "runtime_inputs \<Rightarrow> string \<Rightarrow> experiment_definition option" where
  "declared_experiment i name = List.find (\<lambda>e. exp_name e = name) (ri_experiments i)"

section \<open>The decision context\<close>

record decision_context =
  dc_facts :: repository_facts
  dc_policy :: inference_policy
  dc_ree_name :: string
  dc_runtime :: runtime_inputs
  dc_requested_experiment :: string
  dc_bindings :: "decision_binding list"

definition bound :: "decision_context \<Rightarrow> binding_kind \<Rightarrow> decision_binding option" where
  "bound c kind = List.find (\<lambda>b. kind_of b = kind) (dc_bindings c)"

fun new_bindings :: "binding_kind list \<Rightarrow> decision_binding list \<Rightarrow> ree_error + unit" where
  "new_bindings present [] = Inr ()"
| "new_bindings present (b # bs) =
     (if kind_of b \<in> set present then Inl (Value_Error ''conflicting binding'')
      else new_bindings (kind_of b # present) bs)"

definition with_bindings :: "decision_context \<Rightarrow> decision_binding list \<Rightarrow> ree_error + decision_context" where
  "with_bindings c new =
     bind_res (new_bindings (map kind_of (dc_bindings c)) new) (\<lambda>_.
       Inr (c\<lparr>dc_bindings := dc_bindings c @ new\<rparr>))"

section \<open>Checks, renderers, resolvers\<close>

record check_result =
  cr_branch :: string
  cr_observed :: decision_observation
  cr_bindings :: "decision_binding list"
  cr_evidence :: "inference_evidence list"
  cr_warnings :: "inference_warning list"

record decision_check =
  ck_code :: string
  ck_branches :: "string list"
  ck_requires :: "binding_kind list"
  ck_produces :: "(string \<times> binding_kind list) list"
  ck_evaluate :: "decision_context \<Rightarrow> ree_error + check_result"

record rendered_script =
  rsc_body :: string
  rsc_dependencies :: "candidate_dependency list"
  rsc_evidence :: "inference_evidence list"
  rsc_warnings :: "inference_warning list"

record script_renderer =
  ren_code :: string
  ren_requires :: "binding_kind list"
  ren_render :: "decision_context \<Rightarrow> script_target \<Rightarrow> ree_error + rendered_script"

record strategy_outcome =
  so_strategy :: string
  so_leaf :: string
  so_outcome :: leaf_outcome
  so_bindings :: "decision_binding list"
  so_warnings :: "inference_warning list"

record resolver_result =
  rr_result :: string
  rr_observed :: decision_observation

record strategy_resolver =
  res_code :: string
  res_results :: "string list"
  res_evaluate :: "(string \<times> strategy_outcome) list \<Rightarrow> ree_error + resolver_result"

section \<open>Decision graphs\<close>

record check_node =
  cn_id :: string
  cn_check :: string
  cn_branches :: "(string \<times> string) list"

record fork_node =
  fn_id :: string
  fn_branches :: "(string \<times> string) list"
  fn_join :: string

record leaf_node =
  ln_id :: string
  ln_strategy :: string
  ln_outcome :: leaf_outcome
  ln_rule :: "string option"
  ln_inference_version :: int
  ln_warnings :: "string list"
  ln_render :: "string option"
  ln_next :: string

record resolve_node =
  rn_id :: string
  rn_fork :: string
  rn_resolver :: string
  rn_branches :: "(string \<times> string) list"

record result_node =
  tn_id :: string
  tn_status :: candidate_status
  tn_application :: application_policy

datatype decision_node =
    Check_Node check_node | Fork_Node fork_node | Leaf_Node leaf_node
  | Resolve_Node resolve_node | Result_Node result_node

fun node_id :: "decision_node \<Rightarrow> string" where
  "node_id (Check_Node n) = cn_id n"
| "node_id (Fork_Node n) = fn_id n"
| "node_id (Leaf_Node n) = ln_id n"
| "node_id (Resolve_Node n) = rn_id n"
| "node_id (Result_Node n) = tn_id n"

record decision_dag =
  dag_key :: string
  dag_version :: int
  dag_root :: string
  dag_nodes :: "decision_node list"

section \<open>Traces and results\<close>

datatype step_kind = Sk_Check | Sk_Fork | Sk_Leaf | Sk_Resolve | Sk_Result

record decision_step =
  ds_node_id :: string
  ds_kind :: step_kind
  ds_check :: "string option"
  ds_branch :: "string option"
  ds_observed :: "decision_observation option"
  ds_outcome :: "string option"
  ds_bindings :: "decision_binding list"
  ds_evidence :: "inference_evidence list"

definition plain_step :: "string \<Rightarrow> step_kind \<Rightarrow> string \<Rightarrow> decision_step" where
  "plain_step node kind outcome = \<lparr>ds_node_id = node, ds_kind = kind, ds_check = None, ds_branch = None,
     ds_observed = None, ds_outcome = Some outcome, ds_bindings = [], ds_evidence = []\<rparr>"

record traversed_edge =
  te_source :: string
  te_branch :: string
  te_target :: string

record decision_trace =
  tr_dag :: string
  tr_version :: int
  tr_steps :: "decision_step list"
  tr_edges :: "traversed_edge list"
  tr_result_node :: string

record script_candidate =
  sc_candidate_id :: string
  sc_target :: script_target
  sc_status :: candidate_status
  sc_application :: application_policy
  sc_body :: "string option"
  sc_dependencies :: "candidate_dependency list"
  sc_evidence :: "inference_evidence list"
  sc_warnings :: "inference_warning list"
  sc_inference_rule :: string
  sc_inference_version :: int
  sc_decision_leaf :: string
  sc_validation :: script_validation

record target_inference =
  ti_target :: script_target
  ti_status :: candidate_status
  ti_application :: application_policy
  ti_candidates :: "script_candidate list"
  ti_warnings :: "inference_warning list"
  ti_decision :: decision_trace

section \<open>The warning catalog\<close>

definition warning_catalog :: "(string \<times> warning_severity \<times> bool \<times> string) list" where
  "warning_catalog = [
    (''execution_not_validated'', Sev_Info, False,
       ''This script has been inferred but not yet validated by execution.''),
    (''multiple_dockerfiles'', Sev_Error, True,
       ''More than one Dockerfile sits at the logical project root; repo2ree will not guess which one is'' @
       '' the runtime.''),
    (''ambiguous_build_context'', Sev_Error, True,
       ''A Dockerfile was found below the logical project root, but its build context cannot be '' @
       ''determined without explicit evidence.''),
    (''runtime_declaration_missing'', Sev_Warning, True,
       ''No runtime artifact path is declared on the REE intent; set it before the build candidate can '' @
       ''be considered complete.''),
    (''runtime_outside_project_root'', Sev_Error, True,
       ''The declared runtime artifact path escapes the logical project root.''),
    (''pip_environment_strategy'', Sev_Info, False,
       ''Builds a Python virtual environment from requirements.txt with pip and packs it as the runtime '' @
       ''artifact -- no container. Confirm this strategy before writing.''),
    (''python_version_unknown'', Sev_Warning, False,
       ''requirements.txt does not declare a Python interpreter version, so the build uses the '' @
       ''workbench's python.''),
    (''dependencies_not_locked'', Sev_Warning, False,
       ''requirements.txt is not a lockfile; a future install may resolve different transitive versions.''),
    (''runtime_not_resolved'', Sev_Error, True,
       ''No runtime contract could be resolved, so the runtime plumbing cannot be generated.''),
    (''runtime_artifact_missing'', Sev_Error, True,
       ''The declared runtime artifact does not exist yet; build the runtime before generating this '' @
       ''script.''),
    (''runtime_archive_invalid'', Sev_Error, True,
       ''The declared runtime artifact is not a readable archive of a recognized runtime kind.''),
    (''runtime_image_ref_missing'', Sev_Error, True,
       ''The runtime archive declares no usable image reference, so no image can be loaded and run.''),
    (''multiple_runtime_images'', Sev_Error, True,
       ''The runtime archive declares more than one image reference; repo2ree will not guess which is '' @
       ''the runtime.''),
    (''venv_restore_dir_assumed'', Sev_Warning, True,
       ''The packed venv does not record the directory it was built in, so it will be restored to the '' @
       ''default location; if it was built elsewhere, restoration will fail -- confirm VENV_DIR in the '' @
       ''generated script points at the path the venv was built at before running.''),
    (''activation_command_missing'', Sev_Warning, True,
       ''No activation command was selected; edit the 'set --' line to define a finite command that '' @
       ''proves the runtime is usable before running activation.''),
    (''experiment_command_missing'', Sev_Warning, True,
       ''No experiment command was selected; edit the 'set --' line to define the command whose result '' @
       ''you intend to preserve before running the experiment.''),
    (''experiment_not_declared'', Sev_Error, True,
       ''The requested experiment is not declared on the REE; declare it before generating its run '' @
       ''script.''),
    (''experiment_output_declaration_missing'', Sev_Warning, True,
       ''The generated log path is not among the experiment's declared output_paths; declare it so the '' @
       ''result is captured and disclosed.''),
    (''possibly_long_running'', Sev_Info, False,
       ''A detected candidate command may start a server or run indefinitely; confirm it is finite '' @
       ''before use.''),
    (''shell_required_in_runtime'', Sev_Info, False,
       ''A detected candidate is a shell-form command; it is offered verbatim and needs a shell in the '' @
       ''runtime (make it explicit with 'set -- sh -c ...').'')]"

definition make_warning :: "string \<Rightarrow> string list \<Rightarrow> ree_error + inference_warning" where
  "make_warning code affected =
     (case map_of warning_catalog code of
        None \<Rightarrow> Inl (Key_Error code)
      | Some (severity, blocking, message) \<Rightarrow>
          Inr \<lparr>iw_code = code, iw_severity = severity, iw_blocking = blocking, iw_message = message,
            iw_affected_paths = affected, iw_details = None\<rparr>)"

definition is_known_code :: "string \<Rightarrow> bool" where
  "is_known_code code \<longleftrightarrow> map_of warning_catalog code \<noteq> None"

text \<open>The codes alone: what the validator asks of a leaf reads no message.\<close>

lemma known_code_iff [code]:
  "is_known_code code \<longleftrightarrow> code \<in> set
    [''execution_not_validated'', ''multiple_dockerfiles'', ''ambiguous_build_context'',
     ''runtime_declaration_missing'', ''runtime_outside_project_root'', ''pip_environment_strategy'',
     ''python_version_unknown'', ''dependencies_not_locked'', ''runtime_not_resolved'',
     ''runtime_artifact_missing'', ''runtime_archive_invalid'', ''runtime_image_ref_missing'',
     ''multiple_runtime_images'', ''venv_restore_dir_assumed'', ''activation_command_missing'',
     ''experiment_command_missing'', ''experiment_not_declared'',
     ''experiment_output_declaration_missing'', ''possibly_long_running'', ''shell_required_in_runtime'']"
  (is "_ \<longleftrightarrow> _ \<in> set ?codes")
proof -
  have "is_known_code code \<longleftrightarrow> code \<in> set (map fst warning_catalog)"
    using map_of_eq_None_iff[of warning_catalog code] by (simp add: is_known_code_def)
  moreover have "map fst warning_catalog = ?codes" by (simp add: warning_catalog_def)
  ultimately show ?thesis by (simp only:)
qed

text \<open>A comprehension of operations that may raise: the first error ends it.\<close>

fun map_res :: "('a \<Rightarrow> 'e + 'b) \<Rightarrow> 'a list \<Rightarrow> 'e + 'b list" where
  "map_res f [] = Inr []"
| "map_res f (x # xs) = bind_res (f x) (\<lambda>y. bind_res (map_res f xs) (\<lambda>ys. Inr (y # ys)))"

lemma map_res_Inr:
  "(\<And>x. x \<in> set xs \<Longrightarrow> \<exists>y. f x = Inr y) \<Longrightarrow> \<exists>ys. map_res f xs = Inr ys"
  by (induction xs) auto

lemma make_warning_Inr: "is_known_code code \<Longrightarrow> \<exists>w. make_warning code affected = Inr w"
  by (auto simp: is_known_code_def make_warning_def)

section \<open>Bindings of a context\<close>

text \<open>The kinds a context has; \<open>with_bindings\<close> keeps at most one of each.\<close>

definition kinds :: "decision_context \<Rightarrow> binding_kind set" where
  "kinds c = kind_of ` set (dc_bindings c)"

lemma bound_iff: "bound c kind \<noteq> None \<longleftrightarrow> kind \<in> kinds c"
  by (auto simp: bound_def kinds_def find_None_iff)

lemma bound_kind: "bound c kind = Some b \<Longrightarrow> kind_of b = kind"
  by (auto simp: bound_def find_Some_iff)

lemma new_bindings_Inr:
  "new_bindings present bs = Inr u \<longleftrightarrow> distinct (map kind_of bs) \<and> kind_of ` set bs \<inter> set present = {}"
  by (induction bs arbitrary: present) auto

lemma with_bindings_Inr:
  "with_bindings c bs = Inr c' \<longleftrightarrow> c' = c\<lparr>dc_bindings := dc_bindings c @ bs\<rparr> \<and>
     distinct (map kind_of bs) \<and> kind_of ` set bs \<inter> kinds c = {}"
  by (auto simp: with_bindings_def new_bindings_Inr kinds_def)

lemma kinds_with: "kinds (c\<lparr>dc_bindings := dc_bindings c @ bs\<rparr>) = kinds c \<union> kind_of ` set bs"
  by (auto simp: kinds_def)

lemma finite_binding_kinds [simp]: "finite (s :: binding_kind set)"
proof (rule finite_subset)
  show "s \<subseteq> {Bk_Project_Root, Bk_Dockerfile, Bk_Requirements_Project, Bk_Runtime_Plan,
    Bk_Runtime_Declaration, Bk_Runtime_Contract, Bk_Image_Command, Bk_Experiment,
    Bk_Command_Candidates, Bk_Verification_Claim}"
    using binding_kind.exhaust by auto
qed simp

end
