(* ===== verification/Inf_Engine.thy ===== *)
theory Inf_Engine
  imports Inf_Model Ree_Swhid
begin

text \<open>
  The engine of script inference, \<open>inference/engine.py\<close>: the validator of decision graphs and the
  walk that evaluates one for a target. The loops of the validator terminate and are functions with
  their measures; the walk follows whatever graph it is given, so it is a \<open>partial_function\<close>, and
  that it ends is a theorem about validated graphs.
\<close>

section \<open>Wiring\<close>

record wiring =
  wi_checks :: "(string \<times> decision_check) list"
  wi_resolvers :: "(string \<times> strategy_resolver) list"
  wi_renderers :: "(string \<times> script_renderer) list"

text \<open>\<open>{node.id: node for node in nodes}\<close>: of two nodes with one id the later counts.\<close>

definition by_id :: "decision_dag \<Rightarrow> string \<Rightarrow> decision_node option" where
  "by_id dag = map_of (rev (map (\<lambda>n. (node_id n, n)) (dag_nodes dag)))"

fun successors :: "decision_node \<Rightarrow> string list" where
  "successors (Check_Node n) = map snd (cn_branches n)"
| "successors (Fork_Node n) = map snd (fn_branches n) @ [fn_join n]"
| "successors (Leaf_Node n) = [ln_next n]"
| "successors (Resolve_Node n) = map snd (rn_branches n)"
| "successors (Result_Node n) = []"

section \<open>Defects\<close>

text \<open>One constructor per refusal of the validator, with the node it names.\<close>

datatype dag_defect =
    Duplicate_Ids "string list" | Unknown_Root string | Unknown_Target string string
  | Unknown_Check string | Branch_Mismatch string | Short_Circuit string string
  | Empty_Fork string | Join_Not_Resolve string | Next_Not_Resolve string | No_Renderer string
  | Unknown_Renderer string | Unknown_Warning string string | Unknown_Resolver string
  | Fork_Mismatch string | Result_Mismatch string | Branch_Not_Result string string
  | Joins_Elsewhere string string | Cycle string | Missing_Bindings string
  | Unreachable_Results "string list"

definition demand :: "bool \<Rightarrow> 'e \<Rightarrow> 'e + unit" where
  "demand c e = (if c then Inr () else Inl e)"

lemma demand_Inr [simp]: "demand c e = Inr u \<longleftrightarrow> c"
  by (simp add: demand_def)

fun all_res :: "('a \<Rightarrow> 'e + unit) \<Rightarrow> 'a list \<Rightarrow> 'e + unit" where
  "all_res f [] = Inr ()"
| "all_res f (x # xs) = bind_res (f x) (\<lambda>_. all_res f xs)"

lemma all_res_Inr [simp]: "all_res f xs = Inr u \<longleftrightarrow> (\<forall>x \<in> set xs. f x = Inr ())"
  by (induction xs) auto

section \<open>References and branches\<close>

definition require_target :: "decision_dag \<Rightarrow> string \<Rightarrow> string \<Rightarrow> dag_defect + unit" where
  "require_target dag source target = demand (by_id dag target \<noteq> None) (Unknown_Target source target)"

fun short_circuits :: "decision_node option \<Rightarrow> bool" where
  "short_circuits (Some (Result_Node n)) \<longleftrightarrow> tn_status n \<noteq> Cs_Not_Inferred"
| "short_circuits _ \<longleftrightarrow> False"

fun is_resolve :: "decision_node option \<Rightarrow> bool" where
  "is_resolve (Some (Resolve_Node _)) \<longleftrightarrow> True"
| "is_resolve _ \<longleftrightarrow> False"

fun is_result :: "decision_node option \<Rightarrow> bool" where
  "is_result (Some (Result_Node _)) \<longleftrightarrow> True"
| "is_result _ \<longleftrightarrow> False"

fun joins_back :: "string \<Rightarrow> decision_node option \<Rightarrow> bool" where
  "joins_back node (Some (Fork_Node f)) \<longleftrightarrow> fn_join f = node"
| "joins_back node _ \<longleftrightarrow> False"

definition validate_check :: "wiring \<Rightarrow> decision_dag \<Rightarrow> check_node \<Rightarrow> dag_defect + unit" where
  "validate_check w dag n =
     (case map_of (wi_checks w) (cn_check n) of
        None \<Rightarrow> Inl (Unknown_Check (cn_id n))
      | Some c \<Rightarrow>
          bind_res (demand (set (map fst (cn_branches n)) = set (ck_branches c)) (Branch_Mismatch (cn_id n))) (\<lambda>_.
          all_res (\<lambda>(_, target).
            bind_res (require_target dag (cn_id n) target) (\<lambda>_.
            demand (\<not> short_circuits (by_id dag target)) (Short_Circuit (cn_id n) target)))
            (cn_branches n)))"

definition validate_fork :: "decision_dag \<Rightarrow> fork_node \<Rightarrow> dag_defect + unit" where
  "validate_fork dag n =
     bind_res (demand (fn_branches n \<noteq> []) (Empty_Fork (fn_id n))) (\<lambda>_.
     bind_res (all_res (\<lambda>(_, target). require_target dag (fn_id n) target) (fn_branches n)) (\<lambda>_.
     bind_res (require_target dag (fn_id n) (fn_join n)) (\<lambda>_.
     demand (is_resolve (by_id dag (fn_join n))) (Join_Not_Resolve (fn_id n)))))"

definition validate_leaf :: "wiring \<Rightarrow> decision_dag \<Rightarrow> leaf_node \<Rightarrow> dag_defect + unit" where
  "validate_leaf w dag n =
     bind_res (require_target dag (ln_id n) (ln_next n)) (\<lambda>_.
     bind_res (demand (is_resolve (by_id dag (ln_next n))) (Next_Not_Resolve (ln_id n))) (\<lambda>_.
     bind_res (if viable (ln_outcome n)
         then (case ln_render n of
             None \<Rightarrow> Inl (No_Renderer (ln_id n))
           | Some r \<Rightarrow> demand (map_of (wi_renderers w) r \<noteq> None) (Unknown_Renderer (ln_id n)))
         else Inr ()) (\<lambda>_.
     all_res (\<lambda>code. demand (is_known_code code) (Unknown_Warning (ln_id n) code)) (ln_warnings n))))"

definition validate_resolve :: "wiring \<Rightarrow> decision_dag \<Rightarrow> resolve_node \<Rightarrow> dag_defect + unit" where
  "validate_resolve w dag n =
     (case map_of (wi_resolvers w) (rn_resolver n) of
        None \<Rightarrow> Inl (Unknown_Resolver (rn_id n))
      | Some r \<Rightarrow>
          bind_res (require_target dag (rn_id n) (rn_fork n)) (\<lambda>_.
          bind_res (demand (joins_back (rn_id n) (by_id dag (rn_fork n))) (Fork_Mismatch (rn_id n))) (\<lambda>_.
          bind_res (demand (set (map fst (rn_branches n)) = set (res_results r)) (Result_Mismatch (rn_id n))) (\<lambda>_.
          all_res (\<lambda>(_, target).
            bind_res (require_target dag (rn_id n) target) (\<lambda>_.
            demand (is_result (by_id dag target)) (Branch_Not_Result (rn_id n) target)))
            (rn_branches n)))))"

fun validate_node :: "wiring \<Rightarrow> decision_dag \<Rightarrow> decision_node \<Rightarrow> dag_defect + unit" where
  "validate_node w dag (Check_Node n) = validate_check w dag n"
| "validate_node w dag (Fork_Node n) = validate_fork dag n"
| "validate_node w dag (Leaf_Node n) = validate_leaf w dag n"
| "validate_node w dag (Resolve_Node n) = validate_resolve w dag n"
| "validate_node w dag (Result_Node n) = Inr ()"

section \<open>Exploring the graph\<close>

text \<open>
  The stack loop of \<open>_reachable_leaves\<close> and \<open>_validate_result_reachability\<close>: \<open>stack.pop()\<close> takes
  the head, \<open>stack.extend\<close> puts the last one on top. \<open>None\<close> is the \<open>KeyError\<close> of an unknown id.
\<close>

function explore ::
  "string list \<Rightarrow> (string \<Rightarrow> string list) \<Rightarrow> string list \<Rightarrow> string list \<Rightarrow> string list option" where
  "explore ids expand [] seen = Some seen"
| "explore ids expand (x # stack) seen =
     (if x \<in> set seen then explore ids expand stack seen
      else if x \<notin> set ids then None
      else explore ids expand (rev (expand x) @ stack) (x # seen))"
  by pat_completeness auto

lemma card_unseen: "x \<in> set ids \<Longrightarrow> x \<notin> s \<Longrightarrow> card (set ids - insert x s) < card (set ids - s)"
  by (intro psubset_card_mono) auto

termination explore
proof (relation "measures [\<lambda>(ids, _, _, seen). card (set ids - set seen), \<lambda>(_, _, stack, _). length stack]", goal_cases)
  case (3 ids expand x stack seen)
  then show ?case using card_unseen[of x ids "set seen"] by simp
qed simp_all

definition node_ids :: "decision_dag \<Rightarrow> string list" where
  "node_ids dag = map node_id (dag_nodes dag)"

definition branch_expand :: "decision_dag \<Rightarrow> string \<Rightarrow> string list" where
  "branch_expand dag x =
     (case by_id dag x of Some (Check_Node n) \<Rightarrow> map snd (cn_branches n) | _ \<Rightarrow> [])"

fun leaf_of :: "decision_node option \<Rightarrow> leaf_node option" where
  "leaf_of (Some (Leaf_Node n)) = Some n"
| "leaf_of _ = None"

text \<open>The join counts as seen from the start; the leaves come in the order they are found.\<close>

definition reachable_leaves :: "decision_dag \<Rightarrow> fork_node \<Rightarrow> leaf_node list" where
  "reachable_leaves dag f =
     (case explore (node_ids dag) (branch_expand dag) (rev (map snd (fn_branches f))) [fn_join f] of
        None \<Rightarrow> []
      | Some seen \<Rightarrow> List.map_filter (\<lambda>x. leaf_of (by_id dag x)) (rev (butlast seen)))"

definition validate_convergence :: "decision_dag \<Rightarrow> decision_node \<Rightarrow> dag_defect + unit" where
  "validate_convergence dag node =
     (case node of
        Fork_Node f \<Rightarrow>
          all_res (\<lambda>leaf. demand (ln_next leaf = fn_join f) (Joins_Elsewhere (ln_id leaf) (fn_id f)))
            (reachable_leaves dag f)
      | _ \<Rightarrow> Inr ())"

definition expand_all :: "decision_dag \<Rightarrow> string \<Rightarrow> string list" where
  "expand_all dag x = (case by_id dag x of None \<Rightarrow> [] | Some n \<Rightarrow> successors n)"

definition result_ids :: "decision_dag \<Rightarrow> string list" where
  "result_ids dag = filter (\<lambda>x. is_result (by_id dag x)) (node_ids dag)"

definition validate_result_reachability :: "decision_dag \<Rightarrow> dag_defect + unit" where
  "validate_result_reachability dag =
     (let reachable = (case explore (node_ids dag) (expand_all dag) [dag_root dag] [] of
            None \<Rightarrow> [] | Some seen \<Rightarrow> seen);
          unreachable = filter (\<lambda>x. x \<notin> set reachable) (result_ids dag)
      in demand (unreachable = []) (Unreachable_Results (sort unreachable)))"

section \<open>Cycles\<close>

text \<open>
  The recursion of \<open>_validate_acyclic\<close> with its call stack written out: \<open>Leave x\<close> is what is left of
  the call for \<open>x\<close> after its loop. Visiting and done are the two colours.
\<close>

datatype visit = Enter string | Leave string

function dfs ::
  "string list \<Rightarrow> (string \<Rightarrow> string list) \<Rightarrow> visit list \<Rightarrow> string list \<Rightarrow> string list \<Rightarrow>
     dag_defect + string list" where
  "dfs ids expand [] visiting finished = Inr finished"
| "dfs ids expand (Enter x # todo) visiting finished =
     (if x \<in> set finished then dfs ids expand todo visiting finished
      else if x \<in> set visiting then Inl (Cycle x)
      else if x \<notin> set ids then Inl (Unknown_Target x x)
      else dfs ids expand (map Enter (expand x) @ Leave x # todo) (x # visiting) finished)"
| "dfs ids expand (Leave x # todo) visiting finished =
     dfs ids expand todo (removeAll x visiting) (x # finished)"
  by pat_completeness auto

lemma card_uncoloured:
  "card (set ids - (insert x (v - {x} \<union> f))) \<le> card (set ids - (v \<union> f))"
  by (intro card_mono) auto

termination dfs
proof (relation "measures [\<lambda>(ids, _, _, visiting, finished). card (set ids - (set visiting \<union> set finished)),
    \<lambda>(_, _, todo, _, _). length todo]", goal_cases)
  case (3 ids expand x todo visiting finished)
  then show ?case using card_unseen[of x ids "set visiting \<union> set finished"] by simp
next
  case (4 ids expand x todo visiting finished)
  have "card (set ids - (set (removeAll x visiting) \<union> set (x # finished))) \<le>
      card (set ids - (set visiting \<union> set finished))"
    by (intro card_mono) auto
  then show ?case by auto
qed simp_all

definition validate_acyclic :: "decision_dag \<Rightarrow> dag_defect + unit" where
  "validate_acyclic dag =
     bind_res (dfs (node_ids dag) (expand_all dag) [Enter (dag_root dag)] [] []) (\<lambda>_. Inr ())"

section \<open>Bindings on every path\<close>

fun binding_edges :: "decision_node \<Rightarrow> (string \<times> string) list" where
  "binding_edges (Check_Node n) = cn_branches n"
| "binding_edges (Fork_Node n) = fn_branches n"
| "binding_edges (Leaf_Node n) = [(''join'', ln_next n)]"
| "binding_edges _ = []"

definition produced_by :: "decision_check \<Rightarrow> string \<Rightarrow> binding_kind set" where
  "produced_by c branch = (case map_of (ck_produces c) branch of None \<Rightarrow> {} | Some ks \<Rightarrow> set ks)"

fun produced_bindings :: "wiring \<Rightarrow> decision_node \<Rightarrow> string \<Rightarrow> binding_kind set" where
  "produced_bindings w (Check_Node n) branch =
     (case map_of (wi_checks w) (cn_check n) of None \<Rightarrow> {} | Some c \<Rightarrow> produced_by c branch)"
| "produced_bindings w _ branch = {}"

type_synonym guarantees = "string \<Rightarrow> binding_kind set option"

definition relax_edge ::
  "wiring \<Rightarrow> decision_node \<Rightarrow> binding_kind set \<Rightarrow> string \<times> string \<Rightarrow> guarantees \<times> bool \<Rightarrow> guarantees \<times> bool" where
  "relax_edge w node here = (\<lambda>(branch, target) (incoming, changed).
     let out = here \<union> produced_bindings w node branch;
         merged = (case incoming target of None \<Rightarrow> out | Some prev \<Rightarrow> prev \<inter> out)
     in if incoming target \<noteq> Some merged then (incoming(target := Some merged), True)
        else (incoming, changed))"

definition relax_node :: "wiring \<Rightarrow> decision_node \<Rightarrow> guarantees \<times> bool \<Rightarrow> guarantees \<times> bool" where
  "relax_node w node st =
     (case fst st (node_id node) of
        None \<Rightarrow> st
      | Some here \<Rightarrow> fold (relax_edge w node here) (binding_edges node) st)"

definition sweep :: "wiring \<Rightarrow> decision_node list \<Rightarrow> guarantees \<Rightarrow> guarantees \<times> bool" where
  "sweep w nodes incoming = fold (relax_node w) nodes (incoming, False)"

text \<open>Every change of a sweep makes a set smaller, or an unvisited node visited.\<close>

definition weight :: "binding_kind set option \<Rightarrow> nat" where
  "weight k = (case k of None \<Rightarrow> Suc (card (UNIV :: binding_kind set)) | Some s \<Rightarrow> card s)"

definition edge_targets :: "decision_node list \<Rightarrow> string set" where
  "edge_targets nodes = (\<Union>n \<in> set nodes. snd ` set (binding_edges n))"

definition total_weight :: "string set \<Rightarrow> guarantees \<Rightarrow> nat" where
  "total_weight targets incoming = (\<Sum>x \<in> targets. weight (incoming x))"

definition shrinks :: "string set \<Rightarrow> guarantees \<times> bool \<Rightarrow> guarantees \<times> bool \<Rightarrow> bool" where
  "shrinks targets st st' \<longleftrightarrow>
     st' = st \<or> (snd st' \<and> total_weight targets (fst st') < total_weight targets (fst st))"

lemma shrinks_trans: "shrinks t a b \<Longrightarrow> shrinks t b c \<Longrightarrow> shrinks t a c"
  by (auto simp: shrinks_def)

lemma shrinks_fold:
  "(\<And>x st. x \<in> set xs \<Longrightarrow> shrinks t st (f x st)) \<Longrightarrow> shrinks t st (fold f xs st)"
proof (induction xs arbitrary: st)
  case (Cons x xs)
  have "shrinks t st (f x st)" using Cons.prems by simp
  moreover have "shrinks t (f x st) (fold f xs (f x st))" using Cons.prems by (intro Cons.IH) simp
  ultimately show ?case by (auto intro: shrinks_trans)
qed (simp add: shrinks_def)

lemma weight_merged:
  "k \<noteq> Some (case k of None \<Rightarrow> out | Some prev \<Rightarrow> prev \<inter> out) \<Longrightarrow>
   weight (Some (case k of None \<Rightarrow> out | Some prev \<Rightarrow> prev \<inter> out)) < weight k"
proof (cases k)
  case None
  then show ?thesis by (simp add: weight_def card_mono le_imp_less_Suc)
next
  case (Some prev)
  moreover assume "k \<noteq> Some (case k of None \<Rightarrow> out | Some prev \<Rightarrow> prev \<inter> out)"
  ultimately have "prev \<inter> out \<subset> prev" by auto
  then show ?thesis using Some by (simp add: weight_def psubset_card_mono)
qed

lemma shrinks_relax_edge:
  assumes "finite targets" and "snd edge \<in> targets"
  shows "shrinks targets st (relax_edge w node here edge st)"
proof -
  obtain branch target incoming changed where e: "edge = (branch, target)" "st = (incoming, changed)"
    by fastforce
  let ?merged = "case incoming target of None \<Rightarrow> here \<union> produced_bindings w node branch
      | Some prev \<Rightarrow> prev \<inter> (here \<union> produced_bindings w node branch)"
  show ?thesis
  proof (cases "incoming target = Some ?merged")
    case True
    then show ?thesis by (simp add: e relax_edge_def shrinks_def Let_def)
  next
    case False
    have "total_weight targets (incoming(target := Some ?merged)) < total_weight targets incoming"
      unfolding total_weight_def
      using assms e weight_merged[OF False] by (intro sum_strict_mono_ex1) auto
    with False show ?thesis by (simp add: e relax_edge_def shrinks_def Let_def)
  qed
qed

lemma shrinks_sweep: "shrinks (edge_targets nodes) (incoming, False) (sweep w nodes incoming)"
proof -
  have targets: "finite (edge_targets nodes)" by (simp add: edge_targets_def)
  have "shrinks (edge_targets nodes) st (relax_node w n st)" if "n \<in> set nodes" for n st
  proof (cases "fst st (node_id n)")
    case None
    then show ?thesis by (simp add: relax_node_def shrinks_def)
  next
    case (Some here)
    have "shrinks (edge_targets nodes) st (fold (relax_edge w n here) (binding_edges n) st)"
      using that by (intro shrinks_fold shrinks_relax_edge[OF targets]) (auto simp: edge_targets_def)
    with Some show ?thesis by (simp add: relax_node_def)
  qed
  then show ?thesis unfolding sweep_def by (rule shrinks_fold)
qed

function guaranteed :: "wiring \<Rightarrow> decision_node list \<Rightarrow> guarantees \<Rightarrow> guarantees" where
  "guaranteed w nodes incoming =
     (let (incoming', changed) = sweep w nodes incoming
      in if changed then guaranteed w nodes incoming' else incoming')"
  by pat_completeness auto

termination guaranteed
proof (relation "measure (\<lambda>(_, nodes, incoming). total_weight (edge_targets nodes) incoming)", goal_cases)
  case (2 w nodes incoming st incoming' changed)
  then show ?case using shrinks_sweep[of nodes incoming w] by (cases "sweep w nodes incoming") (auto simp: shrinks_def)
qed simp

declare guaranteed.simps [simp del]

fun requirement :: "wiring \<Rightarrow> decision_node \<Rightarrow> binding_kind set" where
  "requirement w (Check_Node n) =
     (case map_of (wi_checks w) (cn_check n) of None \<Rightarrow> {} | Some c \<Rightarrow> set (ck_requires c))"
| "requirement w (Leaf_Node n) =
     (case Option.bind (ln_render n) (map_of (wi_renderers w)) of None \<Rightarrow> {} | Some r \<Rightarrow> set (ren_requires r))"
| "requirement w _ = {}"

definition guarantees_of :: "wiring \<Rightarrow> decision_dag \<Rightarrow> guarantees" where
  "guarantees_of w dag = guaranteed w (dag_nodes dag) ((\<lambda>_. None)(dag_root dag := Some {}))"

definition validate_bindings :: "wiring \<Rightarrow> decision_dag \<Rightarrow> dag_defect + unit" where
  "validate_bindings w dag =
     (let incoming = guarantees_of w dag
      in all_res (\<lambda>node. demand
           (requirement w node \<subseteq> (case incoming (node_id node) of None \<Rightarrow> {} | Some s \<Rightarrow> s))
           (Missing_Bindings (node_id node))) (dag_nodes dag))"

section \<open>The validator\<close>

definition validate_dag :: "wiring \<Rightarrow> decision_dag \<Rightarrow> dag_defect + unit" where
  "validate_dag w dag =
     (let ids = node_ids dag
      in bind_res (demand (distinct ids)
           (Duplicate_Ids (sort (remdups (filter (\<lambda>i. count_list ids i > 1) ids))))) (\<lambda>_.
         bind_res (demand (by_id dag (dag_root dag) \<noteq> None) (Unknown_Root (dag_root dag))) (\<lambda>_.
         bind_res (all_res (validate_node w dag) (dag_nodes dag)) (\<lambda>_.
         bind_res (all_res (validate_convergence dag) (dag_nodes dag)) (\<lambda>_.
         bind_res (validate_acyclic dag) (\<lambda>_.
         bind_res (validate_bindings w dag) (\<lambda>_.
         validate_result_reachability dag)))))))"

end
