(* ===== verification/Inf_Walk.thy ===== *)
theory Inf_Walk
  imports Inf_Engine "HOL-Library.Monad_Syntax"
begin

text \<open>
  The evaluator of \<open>inference/engine.py\<close>: the walk from the root of a graph through its checks, the
  walk of each strategy of a fork, the resolution, and the candidates and warnings of the result.
  \<open>None\<close> is a walk that does not end; \<open>sha\<close> is the hexadecimal SHA-256.
\<close>

section \<open>One check\<close>

definition lookup_key :: "string \<Rightarrow> (string \<times> 'a) list \<Rightarrow> ree_error + 'a" where
  "lookup_key k d = (case map_of d k of None \<Rightarrow> Inl (Key_Error k) | Some v \<Rightarrow> Inr v)"

definition check_step :: "check_node \<Rightarrow> check_result \<Rightarrow> decision_step" where
  "check_step n r = \<lparr>ds_node_id = cn_id n, ds_kind = Sk_Check, ds_check = Some (cn_check n),
     ds_branch = Some (cr_branch r), ds_observed = Some (cr_observed r), ds_outcome = None,
     ds_bindings = cr_bindings r, ds_evidence = cr_evidence r\<rparr>"

text \<open>The result of a check, the context with its bindings, and the node its branch leads to.\<close>

definition run_check ::
  "wiring \<Rightarrow> check_node \<Rightarrow> decision_context \<Rightarrow> ree_error + check_result \<times> decision_context \<times> string" where
  "run_check w n c =
     bind_res (lookup_key (cn_check n) (wi_checks w)) (\<lambda>check.
     bind_res (ck_evaluate check c) (\<lambda>result.
     bind_res (with_bindings c (cr_bindings result)) (\<lambda>c'.
     bind_res (lookup_key (cr_branch result) (cn_branches n)) (\<lambda>target.
     Inr (result, c', target)))))"

definition check_edge :: "check_node \<Rightarrow> check_result \<Rightarrow> string \<Rightarrow> traversed_edge" where
  "check_edge n r target = \<lparr>te_source = cn_id n, te_branch = cr_branch r, te_target = target\<rparr>"

section \<open>A strategy branch\<close>

type_synonym rendered_leaves = "(string \<times> leaf_node \<times> rendered_script) list"

record branch_walk =
  bw_steps :: "decision_step list"
  bw_edges :: "traversed_edge list"
  bw_warnings :: "inference_warning list"

definition no_walk :: branch_walk where
  "no_walk = \<lparr>bw_steps = [], bw_edges = [], bw_warnings = []\<rparr>"

definition note_check :: "check_node \<Rightarrow> check_result \<Rightarrow> string \<Rightarrow> branch_walk \<Rightarrow> branch_walk" where
  "note_check n r target b = \<lparr>bw_steps = bw_steps b @ [check_step n r],
     bw_edges = bw_edges b @ [check_edge n r target], bw_warnings = bw_warnings b @ cr_warnings r\<rparr>"

definition render_leaf ::
  "wiring \<Rightarrow> leaf_node \<Rightarrow> decision_context \<Rightarrow> script_target \<Rightarrow> rendered_leaves \<Rightarrow> ree_error + rendered_leaves" where
  "render_leaf w n c tgt rendered =
     (case ln_render n of
        Some r \<Rightarrow>
          if viable (ln_outcome n)
          then bind_res (lookup_key r (wi_renderers w)) (\<lambda>renderer.
               bind_res (ren_render renderer c tgt) (\<lambda>script.
               Inr (AList.update (ln_strategy n) (n, script) rendered)))
          else Inr rendered
      | None \<Rightarrow> Inr rendered)"

definition end_branch ::
  "wiring \<Rightarrow> leaf_node \<Rightarrow> decision_context \<Rightarrow> script_target \<Rightarrow> branch_walk \<Rightarrow> rendered_leaves \<Rightarrow>
     ree_error + strategy_outcome \<times> branch_walk \<times> rendered_leaves" where
  "end_branch w n c tgt b rendered =
     bind_res (map_res (\<lambda>code. make_warning code []) (ln_warnings n)) (\<lambda>leaf_warnings.
     bind_res (render_leaf w n c tgt rendered) (\<lambda>rendered.
     Inr (\<lparr>so_strategy = ln_strategy n, so_leaf = ln_id n, so_outcome = ln_outcome n,
            so_bindings = dc_bindings c, so_warnings = bw_warnings b @ leaf_warnings\<rparr>,
          b\<lparr>bw_steps := bw_steps b @ [plain_step (ln_id n) Sk_Leaf (outcome_text (ln_outcome n))],
            bw_edges := bw_edges b @ [\<lparr>te_source = ln_id n, te_branch = ''join'', te_target = ln_next n\<rparr>]\<rparr>,
          rendered)))"

partial_function (option) walk_branch ::
  "wiring \<Rightarrow> decision_dag \<Rightarrow> script_target \<Rightarrow> string \<Rightarrow> decision_context \<Rightarrow> branch_walk \<Rightarrow> rendered_leaves \<Rightarrow>
     (ree_error + strategy_outcome \<times> branch_walk \<times> rendered_leaves) option" where
  "walk_branch w dag tgt current c b rendered =
     (case by_id dag current of
        None \<Rightarrow> Some (Inl (Key_Error current))
      | Some (Check_Node n) \<Rightarrow>
          (case run_check w n c of
             Inl e \<Rightarrow> Some (Inl e)
           | Inr (result, c', target) \<Rightarrow>
               walk_branch w dag tgt target c' (note_check n result target b) rendered)
      | Some (Leaf_Node n) \<Rightarrow> Some (end_branch w n c tgt b rendered)
      | Some _ \<Rightarrow> Some (Inl (Value_Error ''strategy branch reached a non-leaf terminal'')))"

section \<open>A fork\<close>

record walk_state =
  ws_steps :: "decision_step list"
  ws_edges :: "traversed_edge list"
  ws_prefix_warnings :: "inference_warning list"
  ws_rendered :: rendered_leaves
  ws_outcomes :: "(string \<times> strategy_outcome) list"

definition start_state :: walk_state where
  "start_state = \<lparr>ws_steps = [], ws_edges = [], ws_prefix_warnings = [], ws_rendered = [], ws_outcomes = []\<rparr>"

fun walk_strategies ::
  "wiring \<Rightarrow> decision_dag \<Rightarrow> script_target \<Rightarrow> fork_node \<Rightarrow> decision_context \<Rightarrow> string list \<Rightarrow> walk_state \<Rightarrow>
     (ree_error + walk_state) option" where
  "walk_strategies w dag tgt f c [] st = Some (Inr st)"
| "walk_strategies w dag tgt f c (strategy # later) st =
     (case map_of (fn_branches f) strategy of
        None \<Rightarrow> Some (Inl (Key_Error strategy))
      | Some child \<Rightarrow>
          walk_branch w dag tgt child c no_walk (ws_rendered st) \<bind> (\<lambda>r.
          case r of
            Inl e \<Rightarrow> Some (Inl e)
          | Inr (outcome, b, rendered) \<Rightarrow>
              walk_strategies w dag tgt f c later
                (st\<lparr>ws_steps := ws_steps st @ bw_steps b,
                   ws_edges := ws_edges st @
                     \<lparr>te_source = fn_id f, te_branch = strategy, te_target = child\<rparr> # bw_edges b,
                   ws_rendered := rendered,
                   ws_outcomes := AList.update strategy outcome (ws_outcomes st)\<rparr>)))"

definition walk_fork ::
  "wiring \<Rightarrow> decision_dag \<Rightarrow> script_target \<Rightarrow> fork_node \<Rightarrow> decision_context \<Rightarrow> walk_state \<Rightarrow>
     (ree_error + walk_state) option" where
  "walk_fork w dag tgt f c st =
     walk_strategies w dag tgt f c (sort (map fst (fn_branches f)))
       (st\<lparr>ws_steps := ws_steps st @ [plain_step (fn_id f) Sk_Fork
          (''evaluated: '' @ decimal (length (fn_branches f)))]\<rparr>)"

section \<open>Candidates and warnings\<close>

definition short_hash :: "(string \<Rightarrow> string) \<Rightarrow> string \<Rightarrow> string" where
  "short_hash sha data = take 12 (sha data)"

text \<open>\<open>str\<close> of an integer.\<close>

definition int_text :: "int \<Rightarrow> string" where
  "int_text i = (if i < 0 then ''-'' else []) @ decimal (nat \<bar>i\<bar>)"

definition leaf_rule :: "leaf_node \<Rightarrow> string" where
  "leaf_rule n = (case ln_rule n of None \<Rightarrow> ln_strategy n | Some r \<Rightarrow> if r = [] then ln_strategy n else r)"

definition candidate_of ::
  "(string \<Rightarrow> string) \<Rightarrow> result_node \<Rightarrow> script_target \<Rightarrow> leaf_node \<Rightarrow> rendered_script \<Rightarrow> script_candidate" where
  "candidate_of sha result tgt leaf script =
     \<lparr>sc_candidate_id = leaf_rule leaf @ '':'' @ int_text (ln_inference_version leaf) @ '':'' @
        kind_text (tgt_kind tgt) @ '':'' @ short_hash sha (rsc_body script),
      sc_target = tgt, sc_status = tn_status result, sc_application = tn_application result,
      sc_body = Some (rsc_body script), sc_dependencies = rsc_dependencies script,
      sc_evidence = rsc_evidence script, sc_warnings = rsc_warnings script,
      sc_inference_rule = leaf_rule leaf, sc_inference_version = ln_inference_version leaf,
      sc_decision_leaf = ln_id leaf,
      sc_validation = \<lparr>val_status = Not_Run, val_script_digest = Some (digest_bytes sha (rsc_body script)),
        val_source_snapshot_digest = None, val_runtime_digest = None, val_matching_run_id = None\<rparr>\<rparr>"

definition finalize_candidates ::
  "(string \<Rightarrow> string) \<Rightarrow> result_node \<Rightarrow> script_target \<Rightarrow> (string \<times> strategy_outcome) list \<Rightarrow> rendered_leaves \<Rightarrow>
     script_candidate list" where
  "finalize_candidates sha result tgt outcomes rendered =
     (if tn_status result = Cs_Not_Inferred then []
      else List.map_filter (\<lambda>strategy.
        case (map_of outcomes strategy, map_of rendered strategy) of
          (Some outcome, Some (leaf, script)) \<Rightarrow>
            if viable (so_outcome outcome) then Some (candidate_of sha result tgt leaf script) else None
        | _ \<Rightarrow> None) (sort (map fst rendered)))"

definition warning_key :: "inference_warning \<Rightarrow> string \<times> string list" where
  "warning_key v = (iw_code v, iw_affected_paths v)"

fun dedupe_by :: "('a \<Rightarrow> 'k) \<Rightarrow> 'k list \<Rightarrow> 'a list \<Rightarrow> 'a list" where
  "dedupe_by key seen [] = []"
| "dedupe_by key seen (x # xs) =
     (if key x \<in> set seen then dedupe_by key seen xs else x # dedupe_by key (key x # seen) xs)"

definition collect_warnings ::
  "(string \<times> strategy_outcome) list \<Rightarrow> script_candidate list \<Rightarrow> inference_warning list \<Rightarrow> inference_warning list" where
  "collect_warnings outcomes candidates prefix_warnings =
     dedupe_by warning_key []
       (prefix_warnings @
        concat (map (\<lambda>s. case map_of outcomes s of None \<Rightarrow> [] | Some out \<Rightarrow> so_warnings out)
          (sort (map fst outcomes))) @
        concat (map sc_warnings candidates))"

section \<open>The walk\<close>

definition resolve_step :: "resolve_node \<Rightarrow> resolver_result \<Rightarrow> decision_step" where
  "resolve_step n r = (plain_step (rn_id n) Sk_Resolve (rr_result r))\<lparr>ds_observed := Some (rr_observed r)\<rparr>"

definition run_resolver ::
  "wiring \<Rightarrow> resolve_node \<Rightarrow> walk_state \<Rightarrow> ree_error + walk_state \<times> string" where
  "run_resolver w n st =
     bind_res (lookup_key (rn_resolver n) (wi_resolvers w)) (\<lambda>resolver.
     bind_res (res_evaluate resolver (ws_outcomes st)) (\<lambda>r.
     bind_res (lookup_key (rr_result r) (rn_branches n)) (\<lambda>target.
     Inr (st\<lparr>ws_steps := ws_steps st @ [resolve_step n r],
            ws_edges := ws_edges st @ [\<lparr>te_source = rn_id n, te_branch = rr_result r, te_target = target\<rparr>]\<rparr>,
          target))))"

definition end_walk ::
  "(string \<Rightarrow> string) \<Rightarrow> decision_dag \<Rightarrow> script_target \<Rightarrow> result_node \<Rightarrow> walk_state \<Rightarrow> target_inference" where
  "end_walk sha dag tgt n st =
     (let candidates = finalize_candidates sha n tgt (ws_outcomes st) (ws_rendered st)
      in \<lparr>ti_target = tgt, ti_status = tn_status n, ti_application = tn_application n,
          ti_candidates = candidates,
          ti_warnings = collect_warnings (ws_outcomes st) candidates (ws_prefix_warnings st),
          ti_decision = \<lparr>tr_dag = dag_key dag, tr_version = dag_version dag,
            tr_steps = ws_steps st @ [plain_step (tn_id n) Sk_Result (status_text (tn_status n))],
            tr_edges = ws_edges st, tr_result_node = tn_id n\<rparr>\<rparr>)"

definition note_prefix :: "check_node \<Rightarrow> check_result \<Rightarrow> string \<Rightarrow> walk_state \<Rightarrow> walk_state" where
  "note_prefix n r target st = st\<lparr>ws_steps := ws_steps st @ [check_step n r],
     ws_edges := ws_edges st @ [check_edge n r target],
     ws_prefix_warnings := ws_prefix_warnings st @ cr_warnings r\<rparr>"

partial_function (option) walk_from ::
  "(string \<Rightarrow> string) \<Rightarrow> wiring \<Rightarrow> decision_dag \<Rightarrow> script_target \<Rightarrow> string \<Rightarrow> decision_context \<Rightarrow> walk_state \<Rightarrow>
     (ree_error + target_inference) option" where
  "walk_from sha w dag tgt current c st =
     (case by_id dag current of
        None \<Rightarrow> Some (Inl (Key_Error current))
      | Some (Check_Node n) \<Rightarrow>
          (case run_check w n c of
             Inl e \<Rightarrow> Some (Inl e)
           | Inr (result, c', target) \<Rightarrow> walk_from sha w dag tgt target c' (note_prefix n result target st))
      | Some (Fork_Node f) \<Rightarrow>
          walk_fork w dag tgt f c st \<bind> (\<lambda>r.
          case r of
            Inl e \<Rightarrow> Some (Inl e)
          | Inr st' \<Rightarrow> walk_from sha w dag tgt (fn_join f) c st')
      | Some (Resolve_Node n) \<Rightarrow>
          (case run_resolver w n st of
             Inl e \<Rightarrow> Some (Inl e)
           | Inr (st', target) \<Rightarrow> walk_from sha w dag tgt target c st')
      | Some (Result_Node n) \<Rightarrow> Some (Inr (end_walk sha dag tgt n st))
      | Some (Leaf_Node n) \<Rightarrow> Some (Inl (Value_Error ''unwalkable node'')))"

definition evaluate_target ::
  "(string \<Rightarrow> string) \<Rightarrow> wiring \<Rightarrow> decision_dag \<Rightarrow> decision_context \<Rightarrow> script_target \<Rightarrow>
     (ree_error + target_inference) option" where
  "evaluate_target sha w dag c tgt = walk_from sha w dag tgt (dag_root dag) c start_state"

end
