(* ===== verification/Inf_Render.thy ===== *)
theory Inf_Render
  imports Inf_Walk
begin

text \<open>
  The shell renderers of script inference, \<open>inference/renderers/\<close>: quoting and comments, the names of
  the image and of the artifact, the shared pieces of the scaffolds and the six scripts. A script is
  the list of its lines, each closed by a newline. With a lexer of shell words as the reference for
  what quoting is worth.
\<close>

section \<open>Lines\<close>

definition newline :: char where
  "newline = CHR 0x0A"

definition lines_text :: "string list \<Rightarrow> string" where
  "lines_text ls = concat (map (\<lambda>l. l @ [newline]) ls)"

text \<open>The em dash in UTF-8.\<close>

definition em_dash :: string where
  "em_dash = [CHR 0xE2, CHR 0x80, CHR 0x94]"

text \<open>\<open>str.splitlines\<close> at the ASCII line boundaries; a carriage return and a newline are one.\<close>

definition is_line_break :: "char \<Rightarrow> bool" where
  "is_line_break c \<longleftrightarrow> c \<in> {CHR 0x0A, CHR 0x0B, CHR 0x0C, CHR 0x0D, CHR 0x1C, CHR 0x1D, CHR 0x1E}"

fun after_break :: "string \<Rightarrow> string" where
  "after_break (c # d # s) = (if c = CHR 0x0D \<and> d = CHR 0x0A then s else d # s)"
| "after_break s = []"

lemma length_after_break [termination_simp]: "s \<noteq> [] \<Longrightarrow> length (after_break s) < length s"
  by (induction s rule: after_break.induct) auto

function splitlines :: "string \<Rightarrow> string list" where
  "splitlines s =
     (if s = [] then []
      else let line = takeWhile (\<lambda>c. \<not> is_line_break c) s; rest = dropWhile (\<lambda>c. \<not> is_line_break c) s
           in line # splitlines (after_break rest))"
  by pat_completeness auto

termination splitlines
proof (relation "measure length", goal_cases)
  case (2 s line rest)
  then show ?case using length_after_break[of rest] length_dropWhile_le[of "\<lambda>c. \<not> is_line_break c" s]
    by (cases "rest = []") auto
qed simp

declare splitlines.simps [simp del]

section \<open>Quoting\<close>

definition sh_safe :: "char \<Rightarrow> bool" where
  "sh_safe c \<longleftrightarrow> (let n = of_char c :: nat
     in 48 \<le> n \<and> n \<le> 57 \<or> 65 \<le> n \<and> n \<le> 90 \<or> 97 \<le> n \<and> n \<le> 122) \<or> c \<in> set ''_@%+=:,./-''"

fun escape_quotes :: "string \<Rightarrow> string" where
  "escape_quotes [] = []"
| "escape_quotes (c # s) =
     (if c = CHR 0x27 then [CHR 0x27, CHR 0x22, CHR 0x27, CHR 0x22, CHR 0x27] else [c]) @ escape_quotes s"

definition sh_quote :: "string \<Rightarrow> string" where
  "sh_quote value =
     (if value = [] then [CHR 0x27, CHR 0x27]
      else if list_all sh_safe value then value
      else [CHR 0x27] @ escape_quotes value @ [CHR 0x27])"

definition sh_comment :: "string \<Rightarrow> string" where
  "sh_comment value = (if value = [] then value else join_with '' '' (splitlines value))"

section \<open>Runtime constants\<close>

definition docker_runtime_artifact_suffix :: string where
  "docker_runtime_artifact_suffix = ''.repo2ree/artifacts/runtime.tar''"

definition venv_runtime_artifact_suffix :: string where
  "venv_runtime_artifact_suffix = ''.repo2ree/artifacts/runtime-venv.tar.gz''"

text \<open>The text of a relative \<open>PurePosixPath\<close>.\<close>

definition posix_text :: "string list \<Rightarrow> string" where
  "posix_text parts = (if parts = [] then ''.'' else join_with ''/'' parts)"

definition runtime_artifact_path :: "string \<Rightarrow> string \<Rightarrow> string" where
  "runtime_artifact_path project_root ending =
     (if project_root = ''.'' then ending else posix_text (posix_parts project_root @ posix_parts ending))"

definition build_runtime_artifact_path :: "string option \<Rightarrow> string \<Rightarrow> string \<Rightarrow> string" where
  "build_runtime_artifact_path declared_runtime_path project_root default_suffix =
     (let declared = strip (case declared_runtime_path of None \<Rightarrow> [] | Some p \<Rightarrow> p)
      in if declared \<noteq> [] then declared else runtime_artifact_path project_root default_suffix)"

definition tag_lead :: "char \<Rightarrow> bool" where
  "tag_lead c \<longleftrightarrow> (let n = of_char c :: nat in 48 \<le> n \<and> n \<le> 57 \<or> 97 \<le> n \<and> n \<le> 122) \<or> c = CHR ''_''"

definition tag_char :: "char \<Rightarrow> bool" where
  "tag_char c \<longleftrightarrow> tag_lead c \<or> c = CHR ''.'' \<or> c = CHR ''-''"

fun docker_tag :: "string \<Rightarrow> bool" where
  "docker_tag [] \<longleftrightarrow> False"
| "docker_tag (c # s) \<longleftrightarrow> tag_lead c \<and> list_all tag_char s \<and> length s \<le> 127"

text \<open>\<open>re.sub\<close> of every run outside the class by one dash.\<close>

lemma length_dropWhile_less [termination_simp]: "length (dropWhile P s) < Suc (length s)"
  by (simp add: length_dropWhile_le le_imp_less_Suc)

fun fold_runs :: "(char \<Rightarrow> bool) \<Rightarrow> string \<Rightarrow> string" where
  "fold_runs keep [] = []"
| "fold_runs keep (c # s) =
     (if keep c then c # fold_runs keep s else CHR ''-'' # fold_runs keep (dropWhile (\<lambda>d. \<not> keep d) s))"

definition strip_chars :: "char set \<Rightarrow> string \<Rightarrow> string" where
  "strip_chars cs s = rev (dropWhile (\<lambda>c. c \<in> cs) (rev (dropWhile (\<lambda>c. c \<in> cs) s)))"

text \<open>The failed assertion is the \<open>AssertionError\<close> of the source.\<close>

definition slugify_ree_name :: "string \<Rightarrow> ree_error + string" where
  "slugify_ree_name name =
     (let folded = strip_chars {CHR ''-'', CHR ''.''} (fold_runs tag_char (lower (strip name)));
          slug = (if take 128 folded = [] then ''ree'' else take 128 folded)
      in if docker_tag slug then Inr slug
         else Inl (Runtime_Error (''slugified REE name is not a valid Docker tag component: '' @ slug)))"

definition runtime_image_ref :: "string \<Rightarrow> ree_error + string" where
  "runtime_image_ref ree_name = bind_res (slugify_ree_name ree_name) (\<lambda>slug. Inr (''ree-runtime:'' @ slug))"

section \<open>Scaffolds\<close>

definition experiment_log_path :: "string \<Rightarrow> string" where
  "experiment_log_path name = ''results/'' @ experiment_slug name @ ''.log''"

fun example_text :: "command_candidate \<Rightarrow> string" where
  "example_text (Argv_Candidate _ argv _) = ''set -- '' @ join_with '' '' (map sh_quote argv)"
| "example_text (Shell_Candidate _ command shell _) = ''set -- '' @ shell @ '' -c '' @ sh_quote command"

definition candidate_examples_block :: "command_candidate list \<Rightarrow> string \<Rightarrow> string" where
  "candidate_examples_block candidates noun =
     (if candidates = [] then
        ''# No command was detected in the runtime, so none is suggested. Define the '' @ noun @ '' command'' @
        [newline] @ ''# on the 'set --' line below.''
      else join_with [newline]
        ([''# Detected candidate command(s) from the runtime image (review before using):''] @
         map (\<lambda>c. ''#   '' @ example_text c) candidates @
         [''#'', ''# They stay commented because a runtime's own command is not necessarily the '' @ noun @
           '' command.'']))"

definition unconfigured_guard :: "string \<Rightarrow> string \<Rightarrow> string" where
  "unconfigured_guard noun edit_hint = join_with [newline] [
     ''if [ \"$#\" -eq 0 ]; then'',
     ''    echo \"'' @ noun @ '' command is not configured.\" >&2'',
     ''    echo \"'' @ edit_hint @ ''\" >&2'',
     ''    exit '' @ decimal 64,
     ''fi'']"

definition activation_guard :: string where
  "activation_guard = unconfigured_guard ''Activation''
     ''Edit the 'set --' line in this script before running activation.''"

definition experiment_guard :: string where
  "experiment_guard = unconfigured_guard ''Experiment''
     ''Edit the 'set --' line in this script before running the experiment.''"

definition catalog_warnings :: "(string \<times> string list) list \<Rightarrow> ree_error + inference_warning list" where
  "catalog_warnings = map_res (\<lambda>(code, affected). make_warning code affected)"

fun provenance_text :: "contract_provenance \<Rightarrow> string" where
  "provenance_text Inspected_Artifact = ''inspected_artifact''"
| "provenance_text Unchanged_Generated_Build = ''unchanged_generated_build''"

definition stat_digest :: "decision_context \<Rightarrow> string \<Rightarrow> string" where
  "stat_digest c path = (case af_digest (acc_stat (ri_accessor (dc_runtime c)) path) of None \<Rightarrow> [] | Some d \<Rightarrow> d)"

definition source_dependency :: "string \<Rightarrow> string \<Rightarrow> string \<Rightarrow> candidate_dependency" where
  "source_dependency path digest role =
     \<lparr>cdp_kind = Dep_Source, cdp_path = Some path, cdp_digest = digest, cdp_role = role\<rparr>"

definition declaration_dependency :: "string \<Rightarrow> candidate_dependency" where
  "declaration_dependency path =
     \<lparr>cdp_kind = Dep_Runtime_Declaration, cdp_path = Some path, cdp_digest = [], cdp_role = ''runtime''\<rparr>"

definition artifact_dependency :: "decision_context \<Rightarrow> string \<Rightarrow> candidate_dependency" where
  "artifact_dependency c path =
     \<lparr>cdp_kind = Dep_Runtime_Artifact, cdp_path = Some path, cdp_digest = stat_digest c path, cdp_role = ''runtime''\<rparr>"

definition experiment_dependency :: "experiment_binding \<Rightarrow> candidate_dependency" where
  "experiment_dependency x =
     \<lparr>cdp_kind = Dep_Experiment_Declaration, cdp_path = Some (xb_run_script_path x), cdp_digest = [],
       cdp_role = ''experiment''\<rparr>"

definition found_evidence :: "string \<Rightarrow> string \<Rightarrow> string option \<Rightarrow> string \<Rightarrow> inference_evidence" where
  "found_evidence code path digest detail =
     \<lparr>iev_code = code, iev_path = Some path, iev_digest = digest, iev_line = None, iev_detail = detail\<rparr>"

section \<open>Build scripts\<close>

definition docker_build_body :: "string \<Rightarrow> string \<Rightarrow> string \<Rightarrow> string \<Rightarrow> string \<Rightarrow> string \<Rightarrow> string" where
  "docker_build_body dockerfile_path build_context image_tag runtime_artifact digest logical_root = lines_text [
    ''#!/usr/bin/env sh'',
    ''set -eu'',
    [],
    ''# Generated by repo2ree.'',
    ''#'',
    ''# Inference rule: single-project-root-dockerfile-v1'',
    ''# Evidence:'',
    ''#   Dockerfile '' @ sh_comment digest,
    ''#   Logical project root: '' @ sh_comment logical_root,
    ''#   Exactly one Dockerfile at the logical project root'',
    ''#   Build context resolved to the logical project root'',
    ''#'',
    ''# This script has been inferred but not yet validated by execution.'',
    [],
    ''DOCKERFILE='' @ sh_quote dockerfile_path,
    ''BUILD_CONTEXT='' @ sh_quote build_context,
    ''IMAGE_TAG='' @ sh_quote image_tag,
    ''RUNTIME_ARTIFACT='' @ sh_quote runtime_artifact,
    [],
    ''docker build '' @ [CHR 0x5C],
    ''    --file \"$DOCKERFILE\" '' @ [CHR 0x5C],
    ''    --tag \"$IMAGE_TAG\" '' @ [CHR 0x5C],
    ''    \"$BUILD_CONTEXT\"'',
    [],
    ''mkdir -p \"$(dirname \"$RUNTIME_ARTIFACT\")\"'',
    ''docker save '' @ [CHR 0x5C],
    ''    \"$IMAGE_TAG\" '' @ [CHR 0x5C],
    ''    --output \"$RUNTIME_ARTIFACT\"'']"

definition docker_build_render :: "decision_context \<Rightarrow> script_target \<Rightarrow> ree_error + rendered_script" where
  "docker_build_render c tgt =
     (case (bound c Bk_Project_Root, bound c Bk_Dockerfile) of
        (Some (Project_Root home _), Some (Dockerfile_Binding path build_context digest)) \<Rightarrow>
          (let runtime_artifact = build_runtime_artifact_path (ri_declared_runtime_path (dc_runtime c)) home
                 docker_runtime_artifact_suffix
           in bind_res (runtime_image_ref (dc_ree_name c)) (\<lambda>image_tag.
              bind_res (catalog_warnings [(''execution_not_validated'', [])]) (\<lambda>warnings.
              Inr \<lparr>rsc_body = docker_build_body path build_context image_tag runtime_artifact digest home,
                rsc_dependencies = [source_dependency path digest ''dockerfile'', declaration_dependency runtime_artifact],
                rsc_evidence = [found_evidence ''single_project_root_dockerfile'' path (Some digest)
                  ''Exactly one Dockerfile at the logical project root; build context is that root.''],
                rsc_warnings = warnings\<rparr>)))
      | _ \<Rightarrow> Inl (Value_Error ''docker_build_v1 renderer reached without project_root and dockerfile bindings''))"

definition docker_build_renderer :: script_renderer where
  "docker_build_renderer = \<lparr>ren_code = ''docker_build_v1'', ren_requires = [Bk_Project_Root, Bk_Dockerfile],
     ren_render = docker_build_render\<rparr>"

definition pip_build_body :: "string \<Rightarrow> string \<Rightarrow> string \<Rightarrow> string" where
  "pip_build_body requirements_path runtime_artifact digest = lines_text [
    ''#!/usr/bin/env sh'',
    ''set -eu'',
    [],
    ''# Generated by repo2ree.'',
    ''#'',
    ''# Inference rule: root-pip-requirements-v1'',
    ''# Evidence:'',
    ''#   requirements.txt '' @ sh_comment digest,
    ''#'',
    ''# Builds the environment with pip alone '' @ em_dash @ '' no container '' @ em_dash @ '' and packs the virtual'',
    ''# environment as the runtime artifact. The venv is built outside the workspace'',
    ''# (it is snapshot-hashed on every change) and bakes absolute paths, so runnables'',
    ''# restore it to the same location.'',
    ''#'',
    ''# This script has been inferred but not yet validated by execution.'',
    [],
    ''REQUIREMENTS='' @ sh_quote requirements_path,
    ''RUNTIME_ARTIFACT='' @ sh_quote runtime_artifact,
    ''VENV_DIR='' @ sh_quote default_venv_restore_dir,
    [],
    ''python -m venv \"$VENV_DIR\"'',
    ''\"$VENV_DIR/bin/pip\" install --no-cache-dir --requirement \"$REQUIREMENTS\"'',
    [],
    ''mkdir -p \"$(dirname \"$RUNTIME_ARTIFACT\")\"'',
    ''tar -czf \"$RUNTIME_ARTIFACT\" -C \"$(dirname \"$VENV_DIR\")\" \"$(basename \"$VENV_DIR\")\"'']"

definition pip_build_render :: "decision_context \<Rightarrow> script_target \<Rightarrow> ree_error + rendered_script" where
  "pip_build_render c tgt =
     (case (bound c Bk_Project_Root, bound c Bk_Requirements_Project) of
        (Some (Project_Root home _), Some (Requirements_Project path digest)) \<Rightarrow>
          (let runtime_artifact = build_runtime_artifact_path (ri_declared_runtime_path (dc_runtime c)) home
                 venv_runtime_artifact_suffix
           in bind_res (catalog_warnings [(''execution_not_validated'', []), (''pip_environment_strategy'', []),
                (''python_version_unknown'', []), (''dependencies_not_locked'', [path])]) (\<lambda>warnings.
              Inr \<lparr>rsc_body = pip_build_body path runtime_artifact digest,
                rsc_dependencies = [source_dependency path digest ''requirements'', declaration_dependency runtime_artifact],
                rsc_evidence = [found_evidence ''single_root_requirements'' path (Some digest)
                  ''Exactly one requirements.txt at the logical project root.''],
                rsc_warnings = warnings\<rparr>))
      | _ \<Rightarrow> Inl (Value_Error ''pip_venv_build_v1 renderer reached without project_root and requirements bindings''))"

definition pip_build_renderer :: script_renderer where
  "pip_build_renderer = \<lparr>ren_code = ''pip_venv_build_v1'', ren_requires = [Bk_Project_Root, Bk_Requirements_Project],
     ren_render = pip_build_render\<rparr>"

section \<open>Activation scripts\<close>

definition bound_candidates :: "decision_context \<Rightarrow> command_candidate list" where
  "bound_candidates c = (case bound c Bk_Command_Candidates of Some (Candidates_Binding cs) \<Rightarrow> cs | _ \<Rightarrow> [])"

definition docker_evidence :: "docker_contract \<Rightarrow> contract_provenance \<Rightarrow> inference_evidence" where
  "docker_evidence d p = found_evidence ''docker_runtime_contract'' (dco_artifact_path d) None
     (''Docker runtime '' @ dco_image_ref d @ '' (provenance: '' @ provenance_text p @ '').'')"

definition venv_evidence :: "venv_contract \<Rightarrow> contract_provenance \<Rightarrow> inference_evidence" where
  "venv_evidence v p = found_evidence ''venv_runtime_contract'' (vco_artifact_path v) None
     (''Packed venv runtime (provenance: '' @ provenance_text p @ '').'')"

definition docker_activation_body :: "string \<Rightarrow> string \<Rightarrow> string \<Rightarrow> string \<Rightarrow> string \<Rightarrow> string" where
  "docker_activation_body artifact_path image_ref workspace_mount working_directory examples = lines_text [
    ''#!/usr/bin/env sh'',
    ''set -eu'',
    [],
    ''# Generated by repo2ree.'',
    ''#'',
    ''# Inference rule: docker-runtime-activation-v1'',
    ''# The Docker invocation was inferred. The activation command was not.'',
    ''# Review and edit this script before running it.'',
    [],
    ''RUNTIME_ARTIFACT='' @ sh_quote artifact_path,
    ''IMAGE_TAG='' @ sh_quote image_ref,
    [],
    ''# REQUIRED: define a finite command that proves the runtime is usable.'',
    examples,
    ''set --'',
    [],
    activation_guard,
    [],
    ''docker load --input \"$RUNTIME_ARTIFACT\"'',
    [],
    ''docker run --rm '' @ [CHR 0x5C],
    ''    -v \"$(pwd):'' @ workspace_mount @ ''\" '' @ [CHR 0x5C],
    ''    -w '' @ sh_quote working_directory @ '' '' @ [CHR 0x5C],
    ''    \"$IMAGE_TAG\" '' @ [CHR 0x5C],
    ''    \"$@\"'']"

definition docker_activation_render :: "decision_context \<Rightarrow> script_target \<Rightarrow> ree_error + rendered_script" where
  "docker_activation_render c tgt =
     (case bound c Bk_Runtime_Contract of
        Some (Contract_Binding (Docker_Runtime d) p) \<Rightarrow>
          bind_res (catalog_warnings [(''execution_not_validated'', []), (''activation_command_missing'', [])])
            (\<lambda>warnings.
          Inr \<lparr>rsc_body = docker_activation_body (dco_artifact_path d) (dco_image_ref d) (dco_workspace_mount d)
              (dco_working_directory d) (candidate_examples_block (bound_candidates c) ''activation''),
            rsc_dependencies = [artifact_dependency c (dco_artifact_path d)],
            rsc_evidence = [docker_evidence d p], rsc_warnings = warnings\<rparr>)
      | _ \<Rightarrow> Inl (Value_Error ''docker_activation_v1 renderer reached without a docker runtime_contract binding''))"

definition docker_activation_renderer :: script_renderer where
  "docker_activation_renderer = \<lparr>ren_code = ''docker_activation_v1'',
     ren_requires = [Bk_Runtime_Contract, Bk_Command_Candidates], ren_render = docker_activation_render\<rparr>"

definition venv_activation_body :: "string \<Rightarrow> string \<Rightarrow> string \<Rightarrow> string" where
  "venv_activation_body artifact_path venv_restore_dir examples = lines_text [
    ''#!/usr/bin/env sh'',
    ''set -eu'',
    [],
    ''# Generated by repo2ree.'',
    ''#'',
    ''# Inference rule: venv-runtime-activation-v1'',
    ''# The venv restore/run wrapper was inferred. The activation command was not.'',
    ''# Review and edit this script before running it.'',
    [],
    ''RUNTIME_ARTIFACT='' @ sh_quote artifact_path,
    ''VENV_DIR='' @ sh_quote venv_restore_dir,
    [],
    ''# REQUIRED: define a finite command that proves the runtime is usable.'',
    examples,
    ''set --'',
    [],
    activation_guard,
    [],
    ''# Restore the packed virtual environment to the absolute path it was built at.'',
    ''rm -rf \"$VENV_DIR\"'',
    ''mkdir -p \"$(dirname \"$VENV_DIR\")\"'',
    ''tar -xzf \"$RUNTIME_ARTIFACT\" -C \"$(dirname \"$VENV_DIR\")\"'',
    [],
    ''PATH=\"$VENV_DIR/bin:$PATH\"'',
    ''export PATH'',
    ''\"$@\"'']"

definition venv_activation_render :: "decision_context \<Rightarrow> script_target \<Rightarrow> ree_error + rendered_script" where
  "venv_activation_render c tgt =
     (case bound c Bk_Runtime_Contract of
        Some (Contract_Binding (Venv_Runtime v) p) \<Rightarrow>
          bind_res (catalog_warnings [(''execution_not_validated'', []), (''activation_command_missing'', [])])
            (\<lambda>warnings.
          Inr \<lparr>rsc_body = venv_activation_body (vco_artifact_path v) (vco_venv_restore_dir v)
              (candidate_examples_block [] ''activation''),
            rsc_dependencies = [artifact_dependency c (vco_artifact_path v)],
            rsc_evidence = [venv_evidence v p], rsc_warnings = warnings\<rparr>)
      | _ \<Rightarrow> Inl (Value_Error ''venv_activation_v1 renderer reached without a venv runtime_contract binding''))"

definition venv_activation_renderer :: script_renderer where
  "venv_activation_renderer = \<lparr>ren_code = ''venv_activation_v1'',
     ren_requires = [Bk_Runtime_Contract], ren_render = venv_activation_render\<rparr>"

section \<open>Experiment scripts\<close>

definition experiment_warnings :: "string \<Rightarrow> experiment_binding \<Rightarrow> (string \<times> string list) list" where
  "experiment_warnings run_log x =
     [(''execution_not_validated'', []), (''experiment_command_missing'', [])] @
     (if run_log \<notin> set (xb_output_paths x) then [(''experiment_output_declaration_missing'', [run_log])] else [])"

definition docker_experiment_body :: "string \<Rightarrow> string \<Rightarrow> string \<Rightarrow> string \<Rightarrow> string \<Rightarrow> string \<Rightarrow> string" where
  "docker_experiment_body artifact_path image_ref workspace_mount working_directory run_log examples = lines_text [
    ''#!/usr/bin/env sh'',
    ''set -eu'',
    [],
    ''# Generated by repo2ree.'',
    ''#'',
    ''# Inference rule: docker-runtime-experiment-v1'',
    ''# The Docker/runtime plumbing was inferred.'',
    ''# The scientific experiment command was not selected automatically.'',
    [],
    ''RUNTIME_ARTIFACT='' @ sh_quote artifact_path,
    ''IMAGE_TAG='' @ sh_quote image_ref,
    ''RUN_LOG='' @ sh_quote run_log,
    [],
    ''# REQUIRED: define the experiment command whose result you intend to preserve.'',
    examples,
    ''set --'',
    [],
    experiment_guard,
    [],
    ''docker load --input \"$RUNTIME_ARTIFACT\"'',
    [],
    ''mkdir -p \"$(dirname \"$RUN_LOG\")\"'',
    [],
    ''# Redirect instead of piping through tee so the container's exit status remains'',
    ''# the experiment verdict.'',
    ''docker run --rm '' @ [CHR 0x5C],
    ''    -v \"$(pwd):'' @ workspace_mount @ ''\" '' @ [CHR 0x5C],
    ''    -w '' @ sh_quote working_directory @ '' '' @ [CHR 0x5C],
    ''    \"$IMAGE_TAG\" '' @ [CHR 0x5C],
    ''    \"$@\" '' @ [CHR 0x5C],
    ''    >\"$RUN_LOG\"'',
    [],
    ''cat \"$RUN_LOG\"'']"

definition docker_experiment_render :: "decision_context \<Rightarrow> script_target \<Rightarrow> ree_error + rendered_script" where
  "docker_experiment_render c tgt =
     (case bound c Bk_Runtime_Contract of
        Some (Contract_Binding (Docker_Runtime d) p) \<Rightarrow>
          (case bound c Bk_Experiment of
             Some (Experiment_Found x) \<Rightarrow>
               (let run_log = experiment_log_path (xb_name x)
                in bind_res (catalog_warnings (experiment_warnings run_log x)) (\<lambda>warnings.
                   Inr \<lparr>rsc_body = docker_experiment_body (dco_artifact_path d) (dco_image_ref d)
                       (dco_workspace_mount d) (dco_working_directory d) run_log
                       (candidate_examples_block (bound_candidates c) ''experiment''),
                     rsc_dependencies = [artifact_dependency c (dco_artifact_path d), experiment_dependency x],
                     rsc_evidence = [docker_evidence d p], rsc_warnings = warnings\<rparr>))
           | _ \<Rightarrow> Inl (Value_Error ''docker_experiment_v1 renderer reached without an experiment binding''))
      | _ \<Rightarrow> Inl (Value_Error ''docker_experiment_v1 renderer reached without a docker runtime_contract binding''))"

definition docker_experiment_renderer :: script_renderer where
  "docker_experiment_renderer = \<lparr>ren_code = ''docker_experiment_v1'',
     ren_requires = [Bk_Runtime_Contract, Bk_Command_Candidates, Bk_Experiment],
     ren_render = docker_experiment_render\<rparr>"

definition venv_experiment_body :: "string \<Rightarrow> string \<Rightarrow> string \<Rightarrow> string \<Rightarrow> string" where
  "venv_experiment_body artifact_path venv_restore_dir run_log examples = lines_text [
    ''#!/usr/bin/env sh'',
    ''set -eu'',
    [],
    ''# Generated by repo2ree.'',
    ''#'',
    ''# Inference rule: venv-runtime-experiment-v1'',
    ''# The venv restore/run wrapper was inferred.'',
    ''# The scientific experiment command was not selected automatically.'',
    [],
    ''RUNTIME_ARTIFACT='' @ sh_quote artifact_path,
    ''VENV_DIR='' @ sh_quote venv_restore_dir,
    ''RUN_LOG='' @ sh_quote run_log,
    [],
    ''# REQUIRED: define the experiment command whose result you intend to preserve.'',
    examples,
    ''set --'',
    [],
    experiment_guard,
    [],
    ''# Restore the packed virtual environment to the absolute path it was built at.'',
    ''rm -rf \"$VENV_DIR\"'',
    ''mkdir -p \"$(dirname \"$VENV_DIR\")\"'',
    ''tar -xzf \"$RUNTIME_ARTIFACT\" -C \"$(dirname \"$VENV_DIR\")\"'',
    [],
    ''PATH=\"$VENV_DIR/bin:$PATH\"'',
    ''export PATH'',
    [],
    ''mkdir -p \"$(dirname \"$RUN_LOG\")\"'',
    [],
    ''# Redirect instead of piping through tee so the command's exit status remains'',
    ''# the experiment verdict.'',
    ''\"$@\" >\"$RUN_LOG\"'',
    [],
    ''cat \"$RUN_LOG\"'']"

definition venv_experiment_render :: "decision_context \<Rightarrow> script_target \<Rightarrow> ree_error + rendered_script" where
  "venv_experiment_render c tgt =
     (case bound c Bk_Runtime_Contract of
        Some (Contract_Binding (Venv_Runtime v) p) \<Rightarrow>
          (case bound c Bk_Experiment of
             Some (Experiment_Found x) \<Rightarrow>
               (let run_log = experiment_log_path (xb_name x)
                in bind_res (catalog_warnings (experiment_warnings run_log x)) (\<lambda>warnings.
                   Inr \<lparr>rsc_body = venv_experiment_body (vco_artifact_path v) (vco_venv_restore_dir v) run_log
                       (candidate_examples_block [] ''experiment''),
                     rsc_dependencies = [artifact_dependency c (vco_artifact_path v), experiment_dependency x],
                     rsc_evidence = [venv_evidence v p], rsc_warnings = warnings\<rparr>))
           | _ \<Rightarrow> Inl (Value_Error ''venv_experiment_v1 renderer reached without an experiment binding''))
      | _ \<Rightarrow> Inl (Value_Error ''venv_experiment_v1 renderer reached without a venv runtime_contract binding''))"

definition venv_experiment_renderer :: script_renderer where
  "venv_experiment_renderer = \<lparr>ren_code = ''venv_experiment_v1'',
     ren_requires = [Bk_Runtime_Contract, Bk_Experiment], ren_render = venv_experiment_render\<rparr>"

end
