(* ===== verification/Inf_Artifact.thy ===== *)
theory Inf_Artifact
  imports Inf_Render
begin

text \<open>
  The inspection of a built runtime artifact, \<open>inference/artifact_inspection.py\<close>: a saved image in the
  legacy or the OCI layout, a packed virtual environment, or neither. The archive is what \<open>tarfile\<close>
  lists of it; \<open>loads\<close> is \<open>json.loads\<close>, an error of it the exception it raises.
\<close>

section \<open>Members\<close>

definition max_member_bytes :: nat where
  "max_member_bytes = 8 * 1024 * 1024"

definition max_pyvenv_cfg_bytes :: nat where
  "max_pyvenv_cfg_bytes = 64 * 1024"

type_synonym members = "(string \<times> tar_member) list"

text \<open>Of members with one name \<open>getmember\<close> returns the last.\<close>

definition read_member_bytes :: "members \<Rightarrow> string \<Rightarrow> nat \<Rightarrow> string option" where
  "read_member_bytes tar name max_bytes =
     (case map_of (rev tar) name of
        Some (Regular_Member n data) \<Rightarrow> if max_bytes < n then None else Some (take max_bytes data)
      | _ \<Rightarrow> None)"

text \<open>A \<open>ValueError\<close> of the reader is caught, any other exception is not.\<close>

definition read_json_member :: "(string \<Rightarrow> ree_error + json) \<Rightarrow> members \<Rightarrow> string \<Rightarrow> ree_error + json" where
  "read_json_member loads tar name =
     (case read_member_bytes tar name max_member_bytes of
        None \<Rightarrow> Inr JNull
      | Some data \<Rightarrow>
          (case loads data of
             Inl (Value_Error _) \<Rightarrow> Inr JNull
           | r \<Rightarrow> r))"

section \<open>JSON values\<close>

definition json_get :: "(string \<times> json) list \<Rightarrow> string \<Rightarrow> json" where
  "json_get d k = (case map_of d k of None \<Rightarrow> JNull | Some v \<Rightarrow> v)"

fun json_truthy :: "json \<Rightarrow> bool" where
  "json_truthy JNull \<longleftrightarrow> False"
| "json_truthy (JBool b) \<longleftrightarrow> b"
| "json_truthy (JInt i) \<longleftrightarrow> i \<noteq> 0"
| "json_truthy (JFloat r) \<longleftrightarrow> r \<noteq> 0"
| "json_truthy (JStr s) \<longleftrightarrow> s \<noteq> []"
| "json_truthy (JList xs) \<longleftrightarrow> xs \<noteq> []"
| "json_truthy (JObj d) \<longleftrightarrow> d \<noteq> []"

definition json_or :: "json \<Rightarrow> json \<Rightarrow> json" where
  "json_or a b = (if json_truthy a then a else b)"

text \<open>\<open>for x in value\<close>: the characters of a string, the keys of an object.\<close>

fun json_iter :: "json \<Rightarrow> ree_error + json list" where
  "json_iter (JList xs) = Inr xs"
| "json_iter (JStr s) = Inr (map (\<lambda>c. JStr [c]) s)"
| "json_iter (JObj d) = Inr (map (\<lambda>(k, _). JStr k) d)"
| "json_iter _ = Inl (Type_Error ''object is not iterable'')"

fun json_str :: "json \<Rightarrow> string option" where
  "json_str (JStr s) = Some s"
| "json_str _ = None"

section \<open>Commands of an image\<close>

definition image_config_of :: "json \<Rightarrow> (string \<times> json) list option" where
  "image_config_of config =
     (case config of
        JObj d \<Rightarrow> (case json_or (json_get d ''config'') (json_get d ''Config'') of JObj e \<Rightarrow> Some e | _ \<Rightarrow> None)
      | _ \<Rightarrow> None)"

definition nonblank :: "json \<Rightarrow> string option" where
  "nonblank v = (case v of JStr s \<Rightarrow> if strip s \<noteq> [] then Some s else None | _ \<Rightarrow> None)"

text \<open>An argument list counts when all its items are strings.\<close>

definition argv_part :: "json \<Rightarrow> string list" where
  "argv_part v = (case v of
     JList xs \<Rightarrow> if list_all (\<lambda>x. json_str x \<noteq> None) xs then List.map_filter json_str xs else []
   | _ \<Rightarrow> [])"

definition config_command :: "json \<Rightarrow> string list option \<times> string option" where
  "config_command config =
     (case image_config_of config of
        None \<Rightarrow> (None, None)
      | Some image_config \<Rightarrow>
          (let entrypoint = json_get image_config ''Entrypoint''; cmd = json_get image_config ''Cmd''
           in case nonblank entrypoint of
                Some shell \<Rightarrow> (None, Some shell)
              | None \<Rightarrow>
                  (case if entrypoint = JNull then nonblank cmd else None of
                     Some shell \<Rightarrow> (None, Some shell)
                   | None \<Rightarrow>
                       (let parts = argv_part entrypoint @ argv_part cmd
                        in (if parts = [] then None else Some parts, None)))))"

section \<open>Inspections\<close>

datatype artifact_inspection =
    Docker_Archive "string list" "string list option" "string option"
  | Venv_Archive "string option"
  | Unrecognized string

definition dedupe :: "string list \<Rightarrow> string list" where
  "dedupe = dedupe_by (\<lambda>x. x) []"

text \<open>The legacy layout: \<open>manifest.json\<close> names the tags and the configuration.\<close>

definition inspect_docker :: "(string \<Rightarrow> ree_error + json) \<Rightarrow> members \<Rightarrow> ree_error + artifact_inspection" where
  "inspect_docker loads tar =
     bind_res (read_json_member loads tar ''manifest.json'') (\<lambda>manifest.
     case manifest of
       JList (JObj entry # _) \<Rightarrow>
         bind_res (json_iter (json_or (json_get entry ''RepoTags'') (JList []))) (\<lambda>tags.
         let repo_tags = dedupe (List.map_filter nonblank tags)
         in case json_get entry ''Config'' of
              JStr config_name \<Rightarrow>
                bind_res (read_json_member loads tar config_name) (\<lambda>config.
                let (argv, shell) = config_command config in Inr (Docker_Archive repo_tags argv shell))
            | _ \<Rightarrow> Inr (Docker_Archive repo_tags None None))
     | _ \<Rightarrow> Inr (Unrecognized ''docker manifest.json is malformed''))"

section \<open>The OCI layout\<close>

definition oci_image_name_annotations :: "string list" where
  "oci_image_name_annotations = [''io.containerd.image.name'', ''org.opencontainers.image.ref.name'']"

definition max_oci_index_depth :: nat where
  "max_oci_index_depth = 4"

definition oci_ref_name :: "json \<Rightarrow> string option" where
  "oci_ref_name descriptor =
     (case descriptor of
        JObj d \<Rightarrow>
          (case json_get d ''annotations'' of
             JObj annotations \<Rightarrow>
               (case List.map_filter (\<lambda>key. nonblank (json_get annotations key)) oci_image_name_annotations of
                  [] \<Rightarrow> None
                | v # _ \<Rightarrow> Some (strip v))
           | _ \<Rightarrow> None)
      | _ \<Rightarrow> None)"

definition is_alnum :: "char \<Rightarrow> bool" where
  "is_alnum c \<longleftrightarrow> (let n = of_char c :: nat in 48 \<le> n \<and> n \<le> 57 \<or> 65 \<le> n \<and> n \<le> 90 \<or> 97 \<le> n \<and> n \<le> 122)"

definition all_alnum :: "string \<Rightarrow> bool" where
  "all_alnum s \<longleftrightarrow> s \<noteq> [] \<and> list_all is_alnum s"

definition blob_name :: "json \<Rightarrow> string option" where
  "blob_name digest =
     (case digest of
        JStr s \<Rightarrow>
          if CHR '':'' \<notin> set s then None
          else (let algo = takeWhile (\<lambda>c. c \<noteq> CHR '':'') s; hexdigest = drop (length algo + 1) s
                in if all_alnum algo \<and> all_alnum hexdigest
                   then Some (''blobs/'' @ algo @ ''/'' @ hexdigest) else None)
      | _ \<Rightarrow> None)"

definition read_blob_json :: "(string \<Rightarrow> ree_error + json) \<Rightarrow> members \<Rightarrow> json \<Rightarrow> ree_error + json" where
  "read_blob_json loads tar digest =
     (case blob_name digest of None \<Rightarrow> Inr JNull | Some name \<Rightarrow> read_json_member loads tar name)"

text \<open>\<open>left\<close> is how many levels may still be read; the first call may read level zero to the bound.\<close>

fun resolve_oci_image_manifest ::
  "(json \<Rightarrow> ree_error + json) \<Rightarrow> nat \<Rightarrow> json list \<Rightarrow> ree_error + (string \<times> json) list option" where
  "resolve_oci_image_manifest read 0 descriptors = Inr None"
| "resolve_oci_image_manifest read (Suc left) [] = Inr None"
| "resolve_oci_image_manifest read (Suc left) (descriptor # later) =
     (case descriptor of
        JObj d \<Rightarrow>
          (case read (json_get d ''digest'') of
             Inl e \<Rightarrow> Inl e
           | Inr (JObj blob) \<Rightarrow>
               (case json_get blob ''config'' of
                  JObj _ \<Rightarrow> Inr (Some blob)
                | _ \<Rightarrow>
                    (case json_get blob ''manifests'' of
                       JList nested \<Rightarrow>
                         (case resolve_oci_image_manifest read left nested of
                            Inl e \<Rightarrow> Inl e
                          | Inr (Some found) \<Rightarrow> Inr (Some found)
                          | Inr None \<Rightarrow> resolve_oci_image_manifest read (Suc left) later)
                     | _ \<Rightarrow> resolve_oci_image_manifest read (Suc left) later))
           | Inr _ \<Rightarrow> resolve_oci_image_manifest read (Suc left) later)
      | _ \<Rightarrow> resolve_oci_image_manifest read (Suc left) later)"

definition inspect_oci :: "(string \<Rightarrow> ree_error + json) \<Rightarrow> members \<Rightarrow> ree_error + artifact_inspection" where
  "inspect_oci loads tar =
     bind_res (read_json_member loads tar ''index.json'') (\<lambda>index.
     case index of
       JObj d \<Rightarrow>
         (case json_get d ''manifests'' of
            JList (m # ms) \<Rightarrow>
              (let repo_tags = dedupe (List.map_filter oci_ref_name (m # ms))
               in bind_res (resolve_oci_image_manifest (read_blob_json loads tar) (max_oci_index_depth + 1) (m # ms))
                    (\<lambda>image_manifest.
                  case image_manifest of
                    None \<Rightarrow> Inr (Docker_Archive repo_tags None None)
                  | Some blob \<Rightarrow>
                      (case json_get blob ''config'' of
                         JObj config_descriptor \<Rightarrow>
                           bind_res (read_blob_json loads tar (json_get config_descriptor ''digest'')) (\<lambda>config.
                           let (argv, shell) = config_command config in Inr (Docker_Archive repo_tags argv shell))
                       | _ \<Rightarrow> Inr (Docker_Archive repo_tags None None))))
          | _ \<Rightarrow> Inr (Unrecognized ''OCI index.json lists no manifests''))
     | _ \<Rightarrow> Inr (Unrecognized ''OCI index.json is malformed''))"

section \<open>Virtual environments\<close>

definition is_pyvenv_cfg :: "string \<Rightarrow> bool" where
  "is_pyvenv_cfg name \<longleftrightarrow> name = ''pyvenv.cfg'' \<or> suffix ''/pyvenv.cfg'' name"

text \<open>\<open>PurePosixPath(s).name\<close>.\<close>

definition posix_name :: "string list \<Rightarrow> string" where
  "posix_name parts = (if parts = [] then [] else last parts)"

definition pyvenv_command :: "string \<Rightarrow> string option" where
  "pyvenv_command cfg_text =
     (case List.map_filter (\<lambda>line. let key = takeWhile (\<lambda>c. c \<noteq> CHR ''='') line
        in if CHR ''='' \<in> set line \<and> lower (strip key) = ''command''
           then Some (strip (drop (length key + 1) line)) else None) (splitlines cfg_text) of
        [] \<Rightarrow> None | v # _ \<Rightarrow> Some v)"

definition venv_target_from_command :: "string option \<Rightarrow> string option" where
  "venv_target_from_command command =
     (let tokens = split_ws (case command of None \<Rightarrow> [] | Some s \<Rightarrow> s)
      in if ''venv'' \<notin> set tokens then None
         else List.find (\<lambda>t. \<not> prefix ''-'' t) (drop 1 (dropWhile (\<lambda>t. t \<noteq> ''venv'') tokens)))"

text \<open>The bytes of the file are its text, as far as they are ASCII.\<close>

definition venv_restore_dir :: "members \<Rightarrow> string \<Rightarrow> string option" where
  "venv_restore_dir tar cfg_name =
     (let top_dir = posix_name (butlast (posix_parts cfg_name))
      in if top_dir = [] then None
         else case read_member_bytes tar cfg_name max_pyvenv_cfg_bytes of
                None \<Rightarrow> None
              | Some raw \<Rightarrow>
                  (case venv_target_from_command (pyvenv_command raw) of
                     None \<Rightarrow> None
                   | Some dir \<Rightarrow>
                       if \<not> prefix ''/'' dir then None
                       else if posix_name (posix_parts dir) \<noteq> top_dir then None
                       else Some dir))"

section \<open>The inspection\<close>

definition inspect_runtime_artifact ::
  "(string \<Rightarrow> ree_error + json) \<Rightarrow> tar_archive \<Rightarrow> ree_error + artifact_inspection" where
  "inspect_runtime_artifact loads archive =
     (case archive of
        Unreadable exc \<Rightarrow> Inr (Unrecognized (''not a readable archive: '' @ exc))
      | Members tar \<Rightarrow>
          (let names = map fst tar
           in if ''manifest.json'' \<in> set names then inspect_docker loads tar
              else if ''index.json'' \<in> set names then inspect_oci loads tar
              else case List.find is_pyvenv_cfg names of
                     Some cfg_name \<Rightarrow> Inr (Venv_Archive (venv_restore_dir tar cfg_name))
                   | None \<Rightarrow> Inr (Unrecognized ''archive matches no known runtime kind'')))"

section \<open>When the inspection raises\<close>

text \<open>A reader of JSON that refuses what it cannot parse with a \<open>ValueError\<close> and does nothing worse.\<close>

definition refuses_politely :: "(string \<Rightarrow> ree_error + json) \<Rightarrow> bool" where
  "refuses_politely loads \<longleftrightarrow> (\<forall>data e. loads data = Inl e \<longrightarrow> (\<exists>m. e = Value_Error m))"

definition uniterable :: "json \<Rightarrow> bool" where
  "uniterable v \<longleftrightarrow> json_truthy v \<and> (case v of JBool _ \<Rightarrow> True | JInt _ \<Rightarrow> True | JFloat _ \<Rightarrow> True | _ \<Rightarrow> False)"

lemma read_json_Inr: "refuses_politely loads \<Longrightarrow> \<exists>v. read_json_member loads tar name = Inr v"
  by (cases "read_member_bytes tar name max_member_bytes")
    (auto simp: read_json_member_def refuses_politely_def split: sum.split ree_error.split)

lemma read_blob_Inr: "refuses_politely loads \<Longrightarrow> \<exists>v. read_blob_json loads tar digest = Inr v"
  by (simp add: read_blob_json_def read_json_Inr split: option.split)

lemma resolve_manifest_Inr:
  assumes "\<And>d. \<exists>v. read d = Inr v"
  shows "\<exists>r. resolve_oci_image_manifest read left ds = Inr r"
proof (induction left arbitrary: ds)
  case (Suc left)
  then obtain below where below: "\<And>nested. resolve_oci_image_manifest read left nested = Inr (below nested)" by metis
  show ?case
  proof (induction ds)
    case (Cons descriptor later)
    then obtain r where r: "resolve_oci_image_manifest read (Suc left) later = Inr r" by blast
    show ?case
    proof (cases descriptor)
      case (JObj d)
      obtain v where "read (json_get d ''digest'') = Inr v" using assms by blast
      with JObj r below show ?thesis by (simp split: json.split option.split)
    qed (simp_all add: r)
  qed simp
qed simp

lemma inspect_oci_Inr:
  assumes "refuses_politely loads"
  shows "\<exists>i. inspect_oci loads tar = Inr i"
proof -
  obtain index where index: "read_json_member loads tar ''index.json'' = Inr index"
    using read_json_Inr[OF assms] by blast
  have blobs: "\<exists>v. read_blob_json loads tar d = Inr v" for d using read_blob_Inr[OF assms] by blast
  have manifest: "\<exists>r. resolve_oci_image_manifest (read_blob_json loads tar) n ds = Inr r" for n ds
    by (rule resolve_manifest_Inr) (rule blobs)
  have config: "\<exists>i. bind_res (read_blob_json loads tar d) (\<lambda>config.
      let (argv, shell) = config_command config in Inr (Docker_Archive tags argv shell)) = Inr i" for d tags
    using blobs[of d] by (auto simp: case_prod_beta Let_def)
  show ?thesis
  proof (cases "\<exists>d m ms. index = JObj d \<and> json_get d ''manifests'' = JList (m # ms)")
    case True
    then obtain d m ms where d: "index = JObj d" "json_get d ''manifests'' = JList (m # ms)" by blast
    from manifest[of "max_oci_index_depth + 1" "m # ms"] obtain r where
      "resolve_oci_image_manifest (read_blob_json loads tar) (max_oci_index_depth + 1) (m # ms) = Inr r" by blast
    then show ?thesis using config
      by (cases r) (simp_all add: inspect_oci_def index d Let_def split: json.split)
  next
    case False
    then show ?thesis by (auto simp: inspect_oci_def index split: json.split list.split)
  qed
qed

lemma json_iter_Inl: "(\<exists>e. json_iter (json_or v (JList [])) = Inl e) \<longleftrightarrow> uniterable v"
  by (cases v) (auto simp: json_or_def uniterable_def)

lemma inspect_docker_Inl:
  assumes "refuses_politely loads"
  shows "(\<exists>e. inspect_docker loads tar = Inl e) \<longleftrightarrow>
    (\<exists>entry rest. read_json_member loads tar ''manifest.json'' = Inr (JList (JObj entry # rest)) \<and>
      uniterable (json_get entry ''RepoTags''))"
proof -
  obtain v where v: "read_json_member loads tar ''manifest.json'' = Inr v" using read_json_Inr[OF assms] by blast
  show ?thesis
  proof (cases "\<exists>entry rest. v = JList (JObj entry # rest)")
    case True
    then obtain entry rest where entry: "v = JList (JObj entry # rest)" by blast
    have config: "\<exists>i. bind_res (read_json_member loads tar name) (\<lambda>config.
        let (argv, shell) = config_command config in Inr (Docker_Archive tags argv shell)) = Inr i" for name tags
      using read_json_Inr[OF assms, of tar name] by (auto simp: case_prod_beta Let_def)
    show ?thesis
    proof (cases "json_iter (json_or (json_get entry ''RepoTags'') (JList []))")
      case (Inl e)
      with json_iter_Inl[of "json_get entry ''RepoTags''"] show ?thesis by (simp add: inspect_docker_def v entry)
    next
      case (Inr tags)
      have "\<exists>i. inspect_docker loads tar = Inr i"
        using config by (cases "json_get entry ''Config''") (simp_all add: inspect_docker_def v entry Inr Let_def)
      then have "\<nexists>e. inspect_docker loads tar = Inl e" by auto
      with json_iter_Inl[of "json_get entry ''RepoTags''"] Inr show ?thesis by (simp add: v entry)
    qed
  next
    case False
    have "\<nexists>e. inspect_docker loads tar = Inl e"
      using False by (auto simp: inspect_docker_def v split: json.split list.split)
    with False show ?thesis by (auto simp: v)
  qed
qed


text \<open>A reader that knows one document.\<close>

definition one_document :: "json \<Rightarrow> string \<Rightarrow> ree_error + json" where
  "one_document doc data = (if data = ''doc'' then Inr doc else Inl (Value_Error ''no JSON''))"


text \<open>
  A digest of an OCI descriptor cannot escape: the member it names is always a direct child of
  a directory of \<open>blobs/\<close>, whatever the text is, so nothing else of the archive is read through it.
\<close>

theorem blob_names_confined:
  assumes "blob_name digest = Some name"
  shows "\<exists>algo hex. posix_parts name = [''blobs'', algo, hex] \<and> ''..'' \<notin> {algo, hex} \<and>
    name = ''blobs/'' @ algo @ ''/'' @ hex"
proof -
  from assms obtain algo hex where parts: "name = ''blobs/'' @ algo @ ''/'' @ hex" "all_alnum algo" "all_alnum hex"
    by (auto simp: blob_name_def Let_def split: json.splits if_splits)
  have plain: "\<forall>c \<in> set w. \<not> c = CHR ''/''" "w \<noteq> []" "w \<noteq> ''.''" "w \<noteq> ''..''" if "all_alnum w" for w
  proof -
    have "\<not> is_alnum (CHR ''/'')" "\<not> is_alnum (CHR ''.'')" by (simp_all add: is_alnum_def)
    then show "\<forall>c \<in> set w. \<not> c = CHR ''/''" "w \<noteq> []" "w \<noteq> ''.''" "w \<noteq> ''..''"
      using that by (auto simp: all_alnum_def list_all_iff)
  qed
  have "split_on (CHR ''/'') name = [''blobs'', algo, hex]"
    using plain[OF parts(2)] plain[OF parts(3)] split_where_append_sep[of algo "\<lambda>c. c = CHR ''/''" "CHR ''/''" hex]
      split_where_avoid[of hex "\<lambda>c. c = CHR ''/''"]
    unfolding parts(1) split_on_def by simp
  then have "posix_parts name = [''blobs'', algo, hex]"
    using plain[OF parts(2)] plain[OF parts(3)] by (simp add: posix_parts_def)
  with plain[OF parts(2)] plain[OF parts(3)] parts(1) show ?thesis by auto
qed

theorem blob_names_confined_witness:
  "\<exists>algo hex. posix_parts ''blobs/sha256/ab12'' = [''blobs'', algo, hex] \<and> ''..'' \<notin> {algo, hex} \<and>
     ''blobs/sha256/ab12'' = ''blobs/'' @ algo @ ''/'' @ hex"
proof -
  have "blob_name (JStr ''sha256:ab12'') = Some ''blobs/sha256/ab12''" by code_simp
  from blob_names_confined[OF this] show ?thesis .
qed

end
