(* ===== verification/Inf_Facts.thy ===== *)
theory Inf_Facts
  imports Inf_Model
begin

text \<open>
  The facts inference starts from, \<open>inference/repository_facts.py\<close>: the logical root of an extracted tree
  and the scan for Dockerfiles and requirements files. The tree is what the operating system shows of it;
  a file has its bytes, or none when it cannot be read. \<open>sha\<close> is the hexadecimal SHA-256.
\<close>

section \<open>The extracted tree\<close>

text \<open>A link to a file is read like one; a link to a directory is not followed.\<close>

datatype fs_node =
    Plain_File "string option" | Linked_File "string option" | Linked_Directory
  | Directory "(string \<times> fs_node) list" | Closed_Directory

fun is_directory :: "fs_node \<Rightarrow> bool" where
  "is_directory (Directory _) \<longleftrightarrow> True"
| "is_directory Closed_Directory \<longleftrightarrow> True"
| "is_directory Linked_Directory \<longleftrightarrow> True"
| "is_directory _ \<longleftrightarrow> False"

text \<open>The node at a path without links on the way.\<close>

fun node_at :: "fs_node \<Rightarrow> string list \<Rightarrow> fs_node option" where
  "node_at n [] = Some n"
| "node_at (Directory es) (p # ps) = (case map_of es p of None \<Rightarrow> None | Some n \<Rightarrow> node_at n ps)"
| "node_at _ (p # ps) = None"

section \<open>The logical root\<close>

definition ignored_names :: "string list" where
  "ignored_names = [''__MACOSX'', ''.DS_Store'', ''pax_global_header'']"

definition root_markers :: "string list" where
  "root_markers = [''.git'', ''.hg'', ''.repo2ree'', ''Dockerfile'', ''Containerfile'', ''docker-compose.yml'',
     ''compose.yaml'', ''pyproject.toml'', ''setup.py'', ''setup.cfg'', ''requirements.txt'', ''environment.yml'',
     ''environment.yaml'', ''package.json'', ''go.mod'', ''Cargo.toml'', ''pom.xml'', ''build.gradle'']"

definition max_wrapper_depth :: nat where
  "max_wrapper_depth = 8"

fun peel_wrappers :: "nat \<Rightarrow> fs_node \<Rightarrow> string list \<Rightarrow> string list" where
  "peel_wrappers 0 current rel = rel"
| "peel_wrappers (Suc n) (Directory entries) rel =
     (let meaningful = filter (\<lambda>e. fst e \<notin> set ignored_names) entries
      in if list_ex (\<lambda>e. fst e \<in> set root_markers) meaningful then rel
         else case meaningful of
           [(name, child)] \<Rightarrow>
             (case child of
                Directory _ \<Rightarrow> peel_wrappers n child (rel @ [name])
              | Closed_Directory \<Rightarrow> peel_wrappers n child (rel @ [name])
              | _ \<Rightarrow> rel)
         | _ \<Rightarrow> rel)"
| "peel_wrappers (Suc n) _ rel = rel"

text \<open>The failed assertion is the \<open>AssertionError\<close> of the source.\<close>

definition resolve_logical_root :: "fs_node \<Rightarrow> ree_error + string list" where
  "resolve_logical_root tree =
     (let rel = peel_wrappers max_wrapper_depth tree []
      in if rel \<noteq> [] \<and> \<not> (case node_at tree rel of None \<Rightarrow> False | Some n \<Rightarrow> is_directory n)
         then Inl (Runtime_Error ''resolve_logical_root peeled to a non-directory'')
         else Inr rel)"

definition path_text :: "string list \<Rightarrow> string" where
  "path_text parts = (if parts = [] then ''.'' else join_with ''/'' parts)"

section \<open>The scan\<close>

definition skipped_dirs :: "string list" where
  "skipped_dirs = [''.git'', ''.hg'', ''.svn'', ''node_modules'', ''.venv'', ''venv'', ''__pycache__'',
     ''.mypy_cache'', ''.pytest_cache'', ''.tox'', ''.repo2ree'']"

definition is_dockerfile_name :: "string \<Rightarrow> bool" where
  "is_dockerfile_name name \<longleftrightarrow>
     (let l = lower name
      in l \<in> {''dockerfile'', ''containerfile''} \<or> prefix ''dockerfile.'' l \<or> prefix ''containerfile.'' l)"

definition is_requirements_name :: "string \<Rightarrow> bool" where
  "is_requirements_name name \<longleftrightarrow> lower name = ''requirements.txt''"

definition relative_to_project_root :: "string list \<Rightarrow> string list \<Rightarrow> string list option" where
  "relative_to_project_root rel_path logical_root =
     (if prefix logical_root rel_path then Some (drop (length logical_root) rel_path) else None)"

definition fact_of :: "(string \<Rightarrow> string) \<Rightarrow> string list \<Rightarrow> string list \<Rightarrow> string \<Rightarrow> file_fact" where
  "fact_of sha logical_root rel_path content =
     (let project_relative = relative_to_project_root rel_path logical_root
      in \<lparr>ff_path = path_text rel_path,
          ff_project_relative_path = path_text (case project_relative of None \<Rightarrow> rel_path | Some p \<Rightarrow> p),
          ff_digest = digest_bytes sha content,
          ff_at_project_root = (case project_relative of None \<Rightarrow> False | Some p \<Rightarrow> length p = 1)\<rparr>)"

text \<open>What \<open>os.walk\<close> lists among the files of a directory, and what can be read of it.\<close>

fun file_bytes :: "fs_node \<Rightarrow> string option" where
  "file_bytes (Plain_File b) = b"
| "file_bytes (Linked_File b) = b"
| "file_bytes _ = None"

definition scan_files :: "(string \<Rightarrow> bool) \<Rightarrow> string list \<Rightarrow> (string \<times> fs_node) list \<Rightarrow> (string list \<times> string) list" where
  "scan_files wanted here entries = List.map_filter (\<lambda>(name, n).
     if wanted name then map_option (Pair (here @ [name])) (file_bytes n) else None) (sort_key fst entries)"

text \<open>The walk: the files of a directory, then its directories in the order of their names.\<close>

fun scan_tree :: "(string \<Rightarrow> bool) \<Rightarrow> string list \<Rightarrow> fs_node \<Rightarrow> (string list \<times> string) list" where
  "scan_tree wanted here (Directory entries) =
     scan_files wanted here entries @
     concat (map snd (sort_key fst (map (\<lambda>(name, n).
       (name, if name \<in> set skipped_dirs \<or> name \<in> set ignored_names then []
              else scan_tree wanted (here @ [name]) n)) entries)))"
| "scan_tree wanted here _ = []"

definition scan_repository :: "(string \<Rightarrow> string) \<Rightarrow> fs_node \<Rightarrow> ree_error + repository_facts" where
  "scan_repository sha tree =
     (if \<not> is_directory tree then Inl (Value_Error ''repo_path must be an existing directory'')
      else bind_res (resolve_logical_root tree) (\<lambda>logical_root.
        let facts = (\<lambda>wanted. map (\<lambda>(path, content). fact_of sha logical_root path content)
              (scan_tree wanted [] tree))
        in Inr \<lparr>rf_logical_project_root = path_text logical_root,
             rf_dockerfiles = facts is_dockerfile_name,
             rf_requirements_files = facts is_requirements_name\<rparr>))"

section \<open>The root is a directory of the tree\<close>

lemma node_at_append: "node_at n (ps @ qs) = (case node_at n ps of None \<Rightarrow> None | Some m \<Rightarrow> node_at m qs)"
  by (induction n ps rule: node_at.induct) (auto split: option.split)

lemma only_entry:
  assumes "filter P entries = [(name, child)]" and "P (name, child)" and "\<And>e. P e \<longleftrightarrow> Q (fst e)"
  shows "map_of entries name = Some child"
  using assms
proof (induction entries)
  case (Cons e es)
  show ?case
  proof (cases "P e")
    case True
    with Cons.prems show ?thesis by simp
  next
    case False
    with Cons.prems have "fst e \<noteq> name" by (metis fst_conv)
    with Cons False show ?thesis by (cases e) simp
  qed
qed simp

lemma peel_directory:
  "node_at tree rel = Some current \<Longrightarrow> is_directory current \<Longrightarrow>
   \<exists>n. node_at tree (peel_wrappers d current rel) = Some n \<and> is_directory n \<and>
     prefix rel (peel_wrappers d current rel) \<and> length (peel_wrappers d current rel) \<le> length rel + d"
proof (induction d current rel rule: peel_wrappers.induct)
  case (2 d entries rel)
  let ?meaningful = "filter (\<lambda>e. fst e \<notin> set ignored_names) entries"
  show ?case
  proof (cases "list_ex (\<lambda>e. fst e \<in> set root_markers) ?meaningful")
    case True
    with 2(3) show ?thesis by simp
  next
    case False
    show ?thesis
    proof (cases "\<exists>name child. ?meaningful = [(name, child)] \<and> (\<exists>es. child = Directory es \<or> child = Closed_Directory)")
      case True
      then obtain name child where one: "?meaningful = [(name, child)]"
        and child: "(\<exists>es. child = Directory es) \<or> child = Closed_Directory" by blast
      have "(name, child) \<in> set ?meaningful" by (simp add: one)
      then have "map_of entries name = Some child"
        by (intro only_entry[OF one, where Q = "\<lambda>x. x \<notin> set ignored_names"]) simp_all
      with 2(3) have at: "node_at tree (rel @ [name]) = Some child" by (simp add: node_at_append)
      have step: "peel_wrappers (Suc d) (Directory entries) rel = peel_wrappers d child (rel @ [name])"
        using False one child by auto
      from child have dir: "is_directory child" by auto
      have "\<exists>n. node_at tree (peel_wrappers d child (rel @ [name])) = Some n \<and> is_directory n \<and>
          prefix (rel @ [name]) (peel_wrappers d child (rel @ [name])) \<and>
          length (peel_wrappers d child (rel @ [name])) \<le> length (rel @ [name]) + d"
        using child 2(1)[OF refl False one refl refl _ at dir] 2(2)[OF refl False one refl refl _ at dir] by blast
      then show ?thesis unfolding step by (auto dest: append_prefixD)
    next
      case no: False
      have "peel_wrappers (Suc d) (Directory entries) rel = rel"
        using False no by (auto split: list.split fs_node.split)
      with 2(3) show ?thesis by simp
    qed
  qed
qed simp_all

lemma resolve_root_Inr:
  assumes "is_directory tree"
  shows "\<exists>rel n. resolve_logical_root tree = Inr rel \<and> node_at tree rel = Some n \<and> is_directory n \<and>
    length rel \<le> max_wrapper_depth"
  using peel_directory[of tree "[]" tree max_wrapper_depth] assms
  by (auto simp: resolve_logical_root_def Let_def)

text \<open>
  The logical root of a tree is always found: at most eight wrappers are peeled, what is
  left is a directory of the tree, and the assertion that guards this never fails; only a path that is
  not a directory is refused.
\<close>

theorem scan_root_is_directory:
  "(case scan_repository sha tree of
      Inl e \<Rightarrow> \<not> is_directory tree
    | Inr facts \<Rightarrow> \<exists>rel n. rf_logical_project_root facts = path_text rel \<and> length rel \<le> 8 \<and>
        node_at tree rel = Some n \<and> is_directory n)"
proof (cases "is_directory tree")
  case True
  from resolve_root_Inr[OF True] obtain rel n where "resolve_logical_root tree = Inr rel"
    "node_at tree rel = Some n" "is_directory n" "length rel \<le> max_wrapper_depth" by blast
  with True show ?thesis by (auto simp: scan_repository_def Let_def max_wrapper_depth_def)
qed (simp add: scan_repository_def)

section \<open>What the scan finds\<close>

text \<open>The names of a directory are different.\<close>

fun well_named :: "fs_node \<Rightarrow> bool" where
  "well_named (Directory es) \<longleftrightarrow> distinct (map fst es) \<and> list_all (\<lambda>(_, n). well_named n) es"
| "well_named _ \<longleftrightarrow> True"

definition scanned :: "(string \<Rightarrow> bool) \<Rightarrow> fs_node \<Rightarrow> string list \<Rightarrow> string \<Rightarrow> bool" where
  "scanned wanted tree parts content \<longleftrightarrow>
     parts \<noteq> [] \<and> wanted (last parts) \<and>
     (\<forall>d \<in> set (butlast parts). d \<notin> set skipped_dirs \<and> d \<notin> set ignored_names) \<and>
     (\<exists>n. node_at tree parts = Some n \<and> file_bytes n = Some content)"

lemma set_map_filter_iff: "y \<in> set (List.map_filter f xs) \<longleftrightarrow> (\<exists>x \<in> set xs. f x = Some y)"
  by (induction xs) (auto simp: List.map_filter_simps split: option.split)

lemma scan_files_iff:
  "(path, content) \<in> set (scan_files wanted here es) \<longleftrightarrow>
     (\<exists>name n. (name, n) \<in> set es \<and> wanted name \<and> file_bytes n = Some content \<and> path = here @ [name])"
proof -
  have "(case x of (name, n) \<Rightarrow> if wanted name then map_option (Pair (here @ [name])) (file_bytes n) else None)
      = Some (path, content) \<longleftrightarrow>
    wanted (fst x) \<and> file_bytes (snd x) = Some content \<and> path = here @ [fst x]" for x
    by (cases x) auto
  then have "(path, content) \<in> set (scan_files wanted here es) \<longleftrightarrow>
      (\<exists>x \<in> set es. wanted (fst x) \<and> file_bytes (snd x) = Some content \<and> path = here @ [fst x])"
    unfolding scan_files_def set_map_filter_iff set_sort by (rule bex_cong[OF refl])
  then show ?thesis by force
qed

lemma set_sorted_concat:
  "set (concat (map snd (sort_key fst (map (\<lambda>(name, n). (name, g name n)) es)))) =
     (\<Union>(name, n) \<in> set es. set (g name n))"
  by force

lemma node_at_entry:
  "distinct (map fst es) \<Longrightarrow> node_at (Directory es) (name # ps) = Some m \<longleftrightarrow>
     (\<exists>n. (name, n) \<in> set es \<and> node_at n ps = Some m)"
proof -
  assume "distinct (map fst es)"
  then have entry: "map_of es name = Some n \<longleftrightarrow> (name, n) \<in> set es" for n by simp
  have "node_at (Directory es) (name # ps) = Some m \<longleftrightarrow> (\<exists>n. map_of es name = Some n \<and> node_at n ps = Some m)"
    by (simp split: option.split)
  then show ?thesis unfolding entry .
qed

lemma scanned_single:
  "distinct (map fst es) \<Longrightarrow> scanned wanted (Directory es) [name] content \<longleftrightarrow>
     (\<exists>n. (name, n) \<in> set es \<and> wanted name \<and> file_bytes n = Some content)"
  unfolding scanned_def by (simp add: node_at_entry del: node_at.simps(2)) auto

lemma scanned_deeper:
  "distinct (map fst es) \<Longrightarrow> ps \<noteq> [] \<Longrightarrow> scanned wanted (Directory es) (name # ps) content \<longleftrightarrow>
     (\<exists>n. (name, n) \<in> set es \<and> name \<notin> set skipped_dirs \<and> name \<notin> set ignored_names \<and> scanned wanted n ps content)"
  unfolding scanned_def by (simp add: node_at_entry del: node_at.simps(2)) blast

lemma ex_list_split:
  "\<not> Q [] \<Longrightarrow> (\<exists>xs. p = here @ xs \<and> Q xs) \<longleftrightarrow>
     (\<exists>a. p = here @ [a] \<and> Q [a]) \<or> (\<exists>a xs. xs \<noteq> [] \<and> p = here @ a # xs \<and> Q (a # xs))"
proof (intro iffI; elim exE conjE disjE)
  fix xs
  assume "\<not> Q []" and "p = here @ xs" and "Q xs"
  then show "(\<exists>a. p = here @ [a] \<and> Q [a]) \<or> (\<exists>a xs. xs \<noteq> [] \<and> p = here @ a # xs \<and> Q (a # xs))"
    by (cases xs; cases "tl xs") auto
qed blast+

lemma scan_tree_iff:
  "well_named tree \<Longrightarrow> (path, content) \<in> set (scan_tree wanted here tree) \<longleftrightarrow>
     (\<exists>parts. path = here @ parts \<and> scanned wanted tree parts content)"
proof (induction wanted here tree arbitrary: path rule: scan_tree.induct)
  case (1 wanted here entries)
  have distinct: "distinct (map fst entries)" using 1(2) by simp
  have below: "(path, content) \<in> set (scan_tree wanted (here @ [name]) n) \<longleftrightarrow>
      (\<exists>ps. path = here @ name # ps \<and> scanned wanted n ps content)"
    if "(name, n) \<in> set entries" "name \<notin> set skipped_dirs" "name \<notin> set ignored_names" for name n
  proof -
    have "well_named n" using 1(2) that(1) by (auto simp: list_all_iff)
    from 1(1)[OF that(1) refl _ this, of path] that(2,3) show ?thesis by simp
  qed
  have "(path, content) \<in> set (scan_tree wanted here (Directory entries)) \<longleftrightarrow>
      (path, content) \<in> set (scan_files wanted here entries) \<or>
      (\<exists>(name, n) \<in> set entries. name \<notin> set skipped_dirs \<and> name \<notin> set ignored_names \<and>
        (path, content) \<in> set (scan_tree wanted (here @ [name]) n))"
    unfolding scan_tree.simps set_append set_sorted_concat by (simp add: case_prod_beta) blast
  also have "\<dots> \<longleftrightarrow> (\<exists>name. path = here @ [name] \<and> scanned wanted (Directory entries) [name] content) \<or>
      (\<exists>name ps. ps \<noteq> [] \<and> path = here @ name # ps \<and> scanned wanted (Directory entries) (name # ps) content)"
  proof -
    have "(path, content) \<in> set (scan_files wanted here entries) \<longleftrightarrow>
        (\<exists>name. path = here @ [name] \<and> scanned wanted (Directory entries) [name] content)"
      unfolding scan_files_iff scanned_single[OF distinct] by blast
    moreover have "(\<exists>(name, n) \<in> set entries. name \<notin> set skipped_dirs \<and> name \<notin> set ignored_names \<and>
        (path, content) \<in> set (scan_tree wanted (here @ [name]) n)) \<longleftrightarrow>
      (\<exists>name ps. ps \<noteq> [] \<and> path = here @ name # ps \<and> scanned wanted (Directory entries) (name # ps) content)"
      (is "?l = ?r")
    proof
      assume ?l
      then obtain name n where e: "(name, n) \<in> set entries" "name \<notin> set skipped_dirs" "name \<notin> set ignored_names"
        and "(path, content) \<in> set (scan_tree wanted (here @ [name]) n)" by blast
      with below[OF e] obtain ps where ps: "path = here @ name # ps" "scanned wanted n ps content" by blast
      then have "ps \<noteq> []" by (simp add: scanned_def)
      with scanned_deeper[OF distinct this, of wanted name content] e ps show ?r by blast
    next
      assume ?r
      then obtain name ps where ps: "ps \<noteq> []" "path = here @ name # ps"
        "scanned wanted (Directory entries) (name # ps) content" by blast
      with scanned_deeper[OF distinct ps(1), of wanted name content] obtain n where
        e: "(name, n) \<in> set entries" "name \<notin> set skipped_dirs" "name \<notin> set ignored_names"
        and "scanned wanted n ps content" by blast
      with below[OF e] ps(2) e show ?l by blast
    qed
    ultimately show ?thesis by simp
  qed
  also have "\<dots> \<longleftrightarrow> (\<exists>parts. path = here @ parts \<and> scanned wanted (Directory entries) parts content)"
  proof -
    have "parts = [] \<Longrightarrow> \<not> scanned wanted (Directory entries) parts content" for parts by (simp add: scanned_def)
    then have "\<not> scanned wanted (Directory entries) [] content" by simp
    from ex_list_split[of "\<lambda>xs. scanned wanted (Directory entries) xs content", OF this]
    show ?thesis by (rule sym)
  qed
  finally show ?case .
qed (auto simp: scanned_def neq_Nil_conv)

text \<open>
  Property C29. The scan finds exactly the Dockerfiles and requirements files of the source tree: a fact
  is reported for every readable file with such a name below no skipped directory, with the digest of its
  bytes and its place relative to the logical root, and for nothing else. In particular nothing
  below \<open>.repo2ree\<close>, where inference puts its own output, is ever evidence.
\<close>

theorem scan_finds_exactly:
  assumes "well_named tree" and "scan_repository sha tree = Inr facts" and "resolve_logical_root tree = Inr home"
  shows "(f \<in> set (rf_dockerfiles facts) \<longleftrightarrow>
      (\<exists>parts content. scanned is_dockerfile_name tree parts content \<and> f = fact_of sha home parts content)) \<and>
    (f \<in> set (rf_requirements_files facts) \<longleftrightarrow>
      (\<exists>parts content. scanned is_requirements_name tree parts content \<and> f = fact_of sha home parts content))"
proof -
  have found: "f \<in> set (map (\<lambda>(path, content). fact_of sha home path content) (scan_tree wanted [] tree)) \<longleftrightarrow>
      (\<exists>parts content. scanned wanted tree parts content \<and> f = fact_of sha home parts content)" for wanted
  proof -
    have "f \<in> set (map (\<lambda>(path, content). fact_of sha home path content) (scan_tree wanted [] tree)) \<longleftrightarrow>
        (\<exists>path content. (path, content) \<in> set (scan_tree wanted [] tree) \<and> f = fact_of sha home path content)"
      by force
    then show ?thesis by (simp add: scan_tree_iff[OF assms(1)])
  qed
  have "rf_dockerfiles facts = map (\<lambda>(path, content). fact_of sha home path content) (scan_tree is_dockerfile_name [] tree)"
    "rf_requirements_files facts = map (\<lambda>(path, content). fact_of sha home path content) (scan_tree is_requirements_name [] tree)"
    using assms(2,3) by (auto simp: scan_repository_def Let_def split: if_splits)
  then show ?thesis by (simp only: found simp_thms)
qed

definition example_tree :: fs_node where
  "example_tree = Directory [(''paper-main'', Directory [
     (''Dockerfile'', Plain_File (Some ''FROM x'')),
     (''.repo2ree'', Directory [(''Dockerfile'', Plain_File (Some ''FROM y''))]),
     (''sub'', Directory [(''requirements.txt'', Plain_File (Some ''numpy''))])])]"

theorem scan_finds_exactly_witness:
  "\<exists>facts. scan_repository (\<lambda>s. s) example_tree = Inr facts \<and>
     fact_of (\<lambda>s. s) [''paper-main''] [''paper-main'', ''Dockerfile''] ''FROM x'' \<in> set (rf_dockerfiles facts)"
proof -
  have named: "well_named example_tree" by code_simp
  have home: "resolve_logical_root example_tree = Inr [''paper-main'']" by code_simp
  obtain facts where facts: "scan_repository (\<lambda>s. s) example_tree = Inr facts"
    using home by (auto simp: scan_repository_def Let_def example_tree_def simp del: scan_tree.simps)
  have "scanned is_dockerfile_name example_tree [''paper-main'', ''Dockerfile''] ''FROM x''"
  proof -
    have "is_dockerfile_name ''Dockerfile''" by code_simp
    then show ?thesis by (simp add: scanned_def example_tree_def skipped_dirs_def ignored_names_def)
  qed
  with scan_finds_exactly[OF named facts home] facts show ?thesis by blast
qed

end
