(* ===== verification/Inf_Checks.thy ===== *)
theory Inf_Checks
  imports Inf_Artifact Inf_Facts
begin

text \<open>
  The checks of script inference, \<open>inference/checks/\<close>, the resolver of \<open>resolvers.py\<close>, the build graph of
  \<open>decision_graphs/build.py\<close> with its wiring, and the regeneration of the build script,
  \<open>build_regeneration.py\<close>, that one of the checks performs. \<open>sha\<close> is the hexadecimal SHA-256 and
  \<open>loads\<close> is \<open>json.loads\<close>.
\<close>

section \<open>The project root\<close>

definition answered :: "string \<Rightarrow> decision_observation \<Rightarrow> decision_binding list \<Rightarrow> inference_warning list \<Rightarrow> check_result" where
  "answered branch observed bindings warnings = \<lparr>cr_branch = branch, cr_observed = observed,
     cr_bindings = bindings, cr_evidence = [], cr_warnings = warnings\<rparr>"

definition logical_project_root_check :: decision_check where
  "logical_project_root_check = \<lparr>ck_code = ''logical_project_root'', ck_branches = [''root'', ''wrapper''],
     ck_requires = [],
     ck_produces = [(''root'', [Bk_Project_Root]), (''wrapper'', [Bk_Project_Root])],
     ck_evaluate = (\<lambda>c.
       let resolved = rf_logical_project_root (dc_facts c); is_root = (resolved = ''.'')
       in Inr (answered (if is_root then ''root'' else ''wrapper'')
            (Logical_Root_Seen resolved (if is_root then 0 else int (length (split_on (CHR ''/'') resolved))))
            [Project_Root resolved (if is_root then From_Root else From_Wrapper)] []))\<rparr>"

section \<open>Dockerfiles and requirements\<close>

definition with_project_root ::
  "decision_context \<Rightarrow> string \<Rightarrow> (string \<Rightarrow> ree_error + check_result) \<Rightarrow> ree_error + check_result" where
  "with_project_root c problem go =
     (case bound c Bk_Project_Root of Some (Project_Root path _) \<Rightarrow> go path | _ \<Rightarrow> Inl (Value_Error problem))"

definition dockerfiles_at_project_root_check :: decision_check where
  "dockerfiles_at_project_root_check = \<lparr>ck_code = ''dockerfiles_at_project_root'',
     ck_branches = [''none'', ''exactly_one'', ''more_than_one''], ck_requires = [Bk_Project_Root],
     ck_produces = [(''none'', []), (''exactly_one'', [Bk_Dockerfile]), (''more_than_one'', [])],
     ck_evaluate = (\<lambda>c. with_project_root c ''dockerfile check reached without a project_root binding'' (\<lambda>home.
       let at_root = filter ff_at_project_root (rf_dockerfiles (dc_facts c));
           observed = Path_Matches_Seen (int (length at_root)) (map ff_path at_root)
       in case at_root of
            [] \<Rightarrow> Inr (answered ''none'' observed [] [])
          | [only] \<Rightarrow> Inr (answered ''exactly_one'' observed
              [Dockerfile_Binding (ff_path only) (if home = ''.'' then ''.'' else home) (ff_digest only)] [])
          | _ \<Rightarrow> Inr (answered ''more_than_one'' observed [] [])))\<rparr>"

definition nested_dockerfiles_check :: decision_check where
  "nested_dockerfiles_check = \<lparr>ck_code = ''nested_dockerfiles'', ck_branches = [''none'', ''one_or_more''],
     ck_requires = [Bk_Project_Root], ck_produces = [(''none'', []), (''one_or_more'', [])],
     ck_evaluate = (\<lambda>c.
       let nested = filter (\<lambda>d. \<not> ff_at_project_root d) (rf_dockerfiles (dc_facts c))
       in Inr (answered (if nested = [] then ''none'' else ''one_or_more'')
            (Path_Matches_Seen (int (length nested)) (map ff_path nested)) [] []))\<rparr>"

definition requirements_at_project_root_check :: decision_check where
  "requirements_at_project_root_check = \<lparr>ck_code = ''requirements_at_project_root'',
     ck_branches = [''none'', ''exactly_one''], ck_requires = [Bk_Project_Root],
     ck_produces = [(''none'', []), (''exactly_one'', [Bk_Requirements_Project])],
     ck_evaluate = (\<lambda>c. with_project_root c ''python check reached without a project_root binding'' (\<lambda>_.
       let at_root = filter ff_at_project_root (rf_requirements_files (dc_facts c));
           observed = Path_Matches_Seen (int (length at_root)) (map ff_path at_root)
       in case at_root of
            [] \<Rightarrow> Inr (answered ''none'' observed [] [])
          | only # _ \<Rightarrow> Inr (answered ''exactly_one'' observed
              [Requirements_Project (ff_path only) (ff_digest only)] [])))\<rparr>"

section \<open>Score-free resolution\<close>

definition score_free_evaluate :: "(string \<times> strategy_outcome) list \<Rightarrow> ree_error + resolver_result" where
  "score_free_evaluate outcomes =
     (let ordered = List.map_filter (map_of outcomes) (sort (map fst outcomes));
          observed = Outcomes_Seen (map (\<lambda>x. (so_strategy x, so_outcome x, so_leaf x)) ordered);
          completes = filter (\<lambda>x. so_outcome x = Lo_Complete) ordered;
          viables = filter (\<lambda>x. viable (so_outcome x)) ordered
      in Inr \<lparr>rr_result =
           (if length completes = 1 \<and> length viables = 1 then ''complete''
            else if viables \<noteq> [] then ''needs_input'' else ''not_inferred''),
         rr_observed = observed\<rparr>)"

definition score_free_resolver :: strategy_resolver where
  "score_free_resolver = \<lparr>res_code = ''score_free_viability_v1'',
     res_results = [''complete'', ''needs_input'', ''not_inferred''], res_evaluate = score_free_evaluate\<rparr>"

section \<open>The build graph\<close>

definition docker_build_rule :: string where
  "docker_build_rule = ''single-project-root-dockerfile-v1''"

definition pip_build_rule :: string where
  "pip_build_rule = ''root-pip-requirements-v1''"

definition strategy_leaf :: "string \<Rightarrow> string \<Rightarrow> leaf_outcome \<Rightarrow> string \<Rightarrow> leaf_node" where
  "strategy_leaf leaf_id strategy outcome following = \<lparr>ln_id = leaf_id, ln_strategy = strategy, ln_outcome = outcome,
     ln_rule = None, ln_inference_version = 1, ln_warnings = [], ln_render = None, ln_next = following\<rparr>"

definition build_nodes :: "decision_node list" where
  "build_nodes = [
     Check_Node \<lparr>cn_id = ''project-root'', cn_check = ''logical_project_root'',
       cn_branches = [(''root'', ''runtime-strategies''), (''wrapper'', ''runtime-strategies'')]\<rparr>,
     Fork_Node \<lparr>fn_id = ''runtime-strategies'',
       fn_branches = [(''dockerfile'', ''dockerfiles-at-root''), (''pip'', ''requirements-at-root'')],
       fn_join = ''resolve-runtime-strategies''\<rparr>,
     Check_Node \<lparr>cn_id = ''dockerfiles-at-root'', cn_check = ''dockerfiles_at_project_root'',
       cn_branches = [(''none'', ''nested-dockerfiles''), (''exactly_one'', ''dockerfile-complete''),
         (''more_than_one'', ''dockerfile-multiple'')]\<rparr>,
     Check_Node \<lparr>cn_id = ''nested-dockerfiles'', cn_check = ''nested_dockerfiles'',
       cn_branches = [(''none'', ''dockerfile-not-applicable''), (''one_or_more'', ''dockerfile-ambiguous'')]\<rparr>,
     Leaf_Node ((strategy_leaf ''dockerfile-complete'' ''dockerfile'' Lo_Complete ''resolve-runtime-strategies'')
       \<lparr>ln_rule := Some docker_build_rule, ln_render := Some ''docker_build_v1''\<rparr>),
     Leaf_Node ((strategy_leaf ''dockerfile-multiple'' ''dockerfile'' Lo_Blocked ''resolve-runtime-strategies'')
       \<lparr>ln_rule := Some docker_build_rule, ln_warnings := [''multiple_dockerfiles'']\<rparr>),
     Leaf_Node ((strategy_leaf ''dockerfile-ambiguous'' ''dockerfile'' Lo_Blocked ''resolve-runtime-strategies'')
       \<lparr>ln_rule := Some docker_build_rule, ln_warnings := [''ambiguous_build_context'']\<rparr>),
     Leaf_Node (strategy_leaf ''dockerfile-not-applicable'' ''dockerfile'' Lo_Not_Applicable ''resolve-runtime-strategies''),
     Check_Node \<lparr>cn_id = ''requirements-at-root'', cn_check = ''requirements_at_project_root'',
       cn_branches = [(''none'', ''pip-not-applicable''), (''exactly_one'', ''pip-candidate'')]\<rparr>,
     Leaf_Node ((strategy_leaf ''pip-candidate'' ''pip'' Lo_Candidate ''resolve-runtime-strategies'')
       \<lparr>ln_rule := Some pip_build_rule, ln_render := Some ''pip_venv_build_v1''\<rparr>),
     Leaf_Node (strategy_leaf ''pip-not-applicable'' ''pip'' Lo_Not_Applicable ''resolve-runtime-strategies''),
     Resolve_Node \<lparr>rn_id = ''resolve-runtime-strategies'', rn_fork = ''runtime-strategies'',
       rn_resolver = ''score_free_viability_v1'',
       rn_branches = [(''complete'', ''build-complete''), (''needs_input'', ''build-needs-input''),
         (''not_inferred'', ''build-not-inferred'')]\<rparr>,
     Result_Node \<lparr>tn_id = ''build-complete'', tn_status = Cs_Complete, tn_application = Automatic_Allowed\<rparr>,
     Result_Node \<lparr>tn_id = ''build-needs-input'', tn_status = Cs_Needs_Input, tn_application = Confirmation_Required\<rparr>,
     Result_Node \<lparr>tn_id = ''build-not-inferred'', tn_status = Cs_Not_Inferred, tn_application = Unavailable\<rparr>]"

definition build_dag :: decision_dag where
  "build_dag = \<lparr>dag_key = ''build-inference'', dag_version = 1, dag_root = ''project-root'', dag_nodes = build_nodes\<rparr>"

definition build_checks :: "(string \<times> decision_check) list" where
  "build_checks = map (\<lambda>check. (ck_code check, check))
     [logical_project_root_check, dockerfiles_at_project_root_check, nested_dockerfiles_check,
      requirements_at_project_root_check]"

definition build_resolvers :: "(string \<times> strategy_resolver) list" where
  "build_resolvers = map (\<lambda>resolver. (res_code resolver, resolver)) [score_free_resolver]"

definition build_renderers :: "(string \<times> script_renderer) list" where
  "build_renderers = map (\<lambda>renderer. (ren_code renderer, renderer)) [docker_build_renderer, pip_build_renderer]"

definition build_wiring :: wiring where
  "build_wiring = \<lparr>wi_checks = build_checks, wi_resolvers = build_resolvers, wi_renderers = build_renderers\<rparr>"

section \<open>Regenerating the build script\<close>

record expected_build =
  eb_body :: string
  eb_contract :: runtime_contract

definition docker_contract_at :: "string \<Rightarrow> string \<Rightarrow> runtime_contract" where
  "docker_contract_at path image_ref = Docker_Runtime \<lparr>dco_artifact_path = path, dco_image_ref = image_ref,
     dco_workspace_mount = ''/workspace'', dco_working_directory = ''/workspace''\<rparr>"

definition venv_contract_at :: "string \<Rightarrow> string \<Rightarrow> runtime_contract" where
  "venv_contract_at path restore_dir = Venv_Runtime \<lparr>vco_artifact_path = path, vco_venv_restore_dir = restore_dir,
     vco_interpreter = ''python''\<rparr>"

definition contract_for :: "string \<Rightarrow> string \<Rightarrow> string \<Rightarrow> ree_error + runtime_contract option" where
  "contract_for rule ree_name path =
     (if rule = docker_build_rule
      then bind_res (runtime_image_ref ree_name) (\<lambda>image_ref. Inr (Some (docker_contract_at path image_ref)))
      else if rule = pip_build_rule then Inr (Some (venv_contract_at path default_venv_restore_dir))
      else Inr None)"

fun expected_from :: "string \<Rightarrow> string \<Rightarrow> script_candidate list \<Rightarrow> ree_error + expected_build list" where
  "expected_from ree_name path [] = Inr []"
| "expected_from ree_name path (candidate # later) =
     bind_res (contract_for (sc_inference_rule candidate) ree_name path) (\<lambda>contract.
     bind_res (expected_from ree_name path later) (\<lambda>rest.
     Inr (case (contract, sc_body candidate) of
            (Some x, Some body) \<Rightarrow> if body \<noteq> [] then \<lparr>eb_body = body, eb_contract = x\<rparr> # rest else rest
          | _ \<Rightarrow> rest)))"

definition regeneration_context :: "decision_context \<Rightarrow> string \<Rightarrow> decision_context" where
  "regeneration_context c path = \<lparr>dc_facts = dc_facts c, dc_policy = dc_policy c, dc_ree_name = dc_ree_name c,
     dc_runtime = (dc_runtime c)\<lparr>ri_declared_runtime_path := Some path\<rparr>, dc_requested_experiment = [],
     dc_bindings = []\<rparr>"

definition build_target :: script_target where
  "build_target = \<lparr>tgt_kind = Build_Target, tgt_experiment_name = None, tgt_path = reserved_build_script\<rparr>"

text \<open>A walk that does not end has no value to go on with; the one of the build graph always ends.\<close>

definition expected_builds_for_runtime ::
  "(string \<Rightarrow> string) \<Rightarrow> decision_context \<Rightarrow> string \<Rightarrow> ree_error + expected_build list" where
  "expected_builds_for_runtime sha c path =
     (case evaluate_target sha build_wiring build_dag (regeneration_context c path) build_target of
        None \<Rightarrow> Inl (Runtime_Error ''does not end'')
      | Some r \<Rightarrow> bind_res r (\<lambda>result. expected_from (dc_ree_name c) path (ti_candidates result)))"

section \<open>The runtime contract\<close>

definition py_escape :: "char \<Rightarrow> char \<Rightarrow> string" where
  "py_escape q c =
     (let n = of_char c :: nat; hex = (\<lambda>i. ''0123456789abcdef'' ! i)
      in if c = q \<or> c = CHR 0x5C then [CHR 0x5C, c]
         else if c = CHR 0x0A then [CHR 0x5C, CHR ''n'']
         else if c = CHR 0x0D then [CHR 0x5C, CHR ''r'']
         else if c = CHR 0x09 then [CHR 0x5C, CHR ''t'']
         else if n < 32 \<or> n = 127 then [CHR 0x5C, CHR ''x'', hex (n div 16), hex (n mod 16)]
         else [c])"

text \<open>\<open>repr\<close> of an ASCII string.\<close>

definition py_repr :: "string \<Rightarrow> string" where
  "py_repr s = (let q = (if CHR 0x27 \<in> set s \<and> CHR 0x22 \<notin> set s then CHR 0x22 else CHR 0x27)
     in [q] @ concat (map (py_escape q) s) @ [q])"

definition declared_path :: "decision_context \<Rightarrow> string option" where
  "declared_path c = (case ri_declared_runtime_path (dc_runtime c) of
     Some p \<Rightarrow> if p = [] then None else Some p | None \<Rightarrow> None)"

definition within_project_root :: "string \<Rightarrow> string \<Rightarrow> bool" where
  "within_project_root declared project_root \<longleftrightarrow>
     (case validate_relative_path declared of
        Inl _ \<Rightarrow> False
      | Inr _ \<Rightarrow> project_root = ''.'' \<or> prefix (posix_parts project_root) (posix_parts declared))"

definition contract_seen :: "string \<Rightarrow> string \<Rightarrow> decision_observation" where
  "contract_seen result detail = Contract_Seen result None None detail"

definition declared_runtime_path_check :: decision_check where
  "declared_runtime_path_check = \<lparr>ck_code = ''declared_runtime_path'',
     ck_branches = [''absent'', ''outside_root'', ''valid''], ck_requires = [Bk_Project_Root],
     ck_produces = [(''absent'', []), (''outside_root'', []), (''valid'', [Bk_Runtime_Declaration])],
     ck_evaluate = (\<lambda>c. with_project_root c ''declared_runtime_path check reached without a project_root binding''
       (\<lambda>home. case declared_path c of
          None \<Rightarrow>
            bind_res (make_warning ''runtime_declaration_missing'' []) (\<lambda>v.
            Inr (answered ''absent'' (contract_seen ''absent'' ''no runtime declared on the REE'') [] [v]))
        | Some declared \<Rightarrow>
            if \<not> within_project_root declared home then
              bind_res (make_warning ''runtime_outside_project_root'' [declared]) (\<lambda>v.
              Inr (answered ''outside_root'' (contract_seen ''outside_root''
                (''declared runtime '' @ py_repr declared @ '' escapes the project root'')) [] [v]))
            else Inr (answered ''valid'' (contract_seen ''valid'' declared)
              [Runtime_Declaration declared (af_digest (acc_stat (ri_accessor (dc_runtime c)) declared))] [])))\<rparr>"

definition with_declaration ::
  "decision_context \<Rightarrow> (string \<Rightarrow> ree_error + check_result) \<Rightarrow> ree_error + check_result" where
  "with_declaration c go = (case bound c Bk_Runtime_Declaration of
     Some (Runtime_Declaration path _) \<Rightarrow> go path
   | _ \<Rightarrow> Inl (Value_Error ''runtime-artifact check reached without a runtime_declaration binding''))"

definition is_regular :: "artifact_file \<Rightarrow> bool" where
  "is_regular f \<longleftrightarrow> af_exists f \<and> af_is_file f"

definition runtime_artifact_state_check :: decision_check where
  "runtime_artifact_state_check = \<lparr>ck_code = ''runtime_artifact_state'',
     ck_branches = [''regular_file'', ''missing''], ck_requires = [Bk_Runtime_Declaration],
     ck_produces = [(''regular_file'', []), (''missing'', [])],
     ck_evaluate = (\<lambda>c. with_declaration c (\<lambda>path.
       let branch = (if is_regular (acc_stat (ri_accessor (dc_runtime c)) path) then ''regular_file'' else ''missing'')
       in Inr (answered branch (contract_seen branch path) [] [])))\<rparr>"

definition invalid_artifact :: "string \<Rightarrow> string \<Rightarrow> ree_error + check_result" where
  "invalid_artifact path reason =
     bind_res (make_warning ''runtime_archive_invalid'' [path]) (\<lambda>v.
     Inr (answered ''invalid'' (contract_seen ''invalid'' reason) [] [v]))"

definition docker_inspected ::
  "string \<Rightarrow> string list \<Rightarrow> string list option \<Rightarrow> string option \<Rightarrow> ree_error + check_result" where
  "docker_inspected path refs argv shell =
     (case refs of
        [] \<Rightarrow>
          bind_res (make_warning ''runtime_image_ref_missing'' [path]) (\<lambda>v.
          Inr (answered ''docker_no_ref'' (Contract_Seen ''docker_no_ref'' (Some ''docker_archive'') None
            ''no usable RepoTags'') [] [v]))
      | [ref] \<Rightarrow>
          Inr (answered ''docker_single_ref'' (Contract_Seen ''docker_single_ref'' (Some ''docker_archive'')
            (Some ''inspected_artifact'') ref)
            [Contract_Binding (docker_contract_at path ref) Inspected_Artifact, Image_Command argv shell] [])
      | _ \<Rightarrow>
          bind_res (make_warning ''multiple_runtime_images'' [path]) (\<lambda>v.
          Inr (answered ''docker_multiple_refs'' (Contract_Seen ''docker_multiple_refs'' (Some ''docker_archive'') None
            (join_with '', '' refs)) []
            [v\<lparr>iw_details := Some [(''image_refs'', JList (map JStr refs))]\<rparr>])))"

definition venv_inspected :: "string \<Rightarrow> string option \<Rightarrow> ree_error + check_result" where
  "venv_inspected path restore_dir =
     (let dir = (case restore_dir of None \<Rightarrow> default_venv_restore_dir
            | Some d \<Rightarrow> if d = [] then default_venv_restore_dir else d);
          observed = Contract_Seen ''venv'' (Some ''venv_archive'') (Some ''inspected_artifact'')
            (''restore to '' @ dir @ (if restore_dir = None then '' (assumed default)'' else []))
      in bind_res (if restore_dir = None then catalog_warnings [(''venv_restore_dir_assumed'', [path])] else Inr [])
           (\<lambda>warnings.
         Inr (answered ''venv'' observed [Contract_Binding (venv_contract_at path dir) Inspected_Artifact] warnings)))"

definition inspect_runtime_artifact_check :: "(string \<Rightarrow> ree_error + json) \<Rightarrow> decision_check" where
  "inspect_runtime_artifact_check loads = \<lparr>ck_code = ''inspect_runtime_artifact'',
     ck_branches = [''docker_single_ref'', ''docker_multiple_refs'', ''docker_no_ref'', ''venv'', ''invalid''],
     ck_requires = [Bk_Runtime_Declaration],
     ck_produces = [(''docker_single_ref'', [Bk_Runtime_Contract, Bk_Image_Command]), (''docker_multiple_refs'', []),
       (''docker_no_ref'', []), (''venv'', [Bk_Runtime_Contract]), (''invalid'', [])],
     ck_evaluate = (\<lambda>c. with_declaration c (\<lambda>path.
       case acc_open (ri_accessor (dc_runtime c)) path of
         None \<Rightarrow> invalid_artifact path ''runtime artifact unreadable''
       | Some archive \<Rightarrow>
           bind_res (inspect_runtime_artifact loads archive) (\<lambda>inspection.
           case inspection of
             Venv_Archive restore_dir \<Rightarrow> venv_inspected path restore_dir
           | Docker_Archive refs argv shell \<Rightarrow> docker_inspected path refs argv shell
           | Unrecognized reason \<Rightarrow> invalid_artifact path reason)))\<rparr>"

fun runtime_kind :: "runtime_contract \<Rightarrow> string" where
  "runtime_kind (Docker_Runtime _) = ''docker_archive''"
| "runtime_kind (Venv_Runtime _) = ''venv_archive''"

definition written_build_matches :: "(string \<Rightarrow> string) \<Rightarrow> decision_context \<Rightarrow> string \<Rightarrow> bool" where
  "written_build_matches sha c expected_body =
     (let written = acc_stat (ri_accessor (dc_runtime c)) reserved_build_script
      in is_regular written \<and> af_digest written = Some (digest_bytes sha expected_body))"

definition unchanged_generated_build_check :: "(string \<Rightarrow> string) \<Rightarrow> decision_check" where
  "unchanged_generated_build_check sha = \<lparr>ck_code = ''unchanged_generated_build'',
     ck_branches = [''matched'', ''unmatched''], ck_requires = [Bk_Runtime_Declaration],
     ck_produces = [(''matched'', [Bk_Runtime_Contract]), (''unmatched'', [])],
     ck_evaluate = (\<lambda>c. with_declaration c (\<lambda>path.
       bind_res (expected_builds_for_runtime sha c path) (\<lambda>expected.
       case List.find (\<lambda>b. written_build_matches sha c (eb_body b)) expected of
         Some b \<Rightarrow>
           Inr (answered ''matched'' (Contract_Seen ''matched'' (Some (runtime_kind (eb_contract b)))
             (Some ''unchanged_generated_build'') path)
             [Contract_Binding (eb_contract b) Unchanged_Generated_Build] [])
       | None \<Rightarrow>
           bind_res (catalog_warnings [(''runtime_artifact_missing'', [path]), (''runtime_not_resolved'', [])])
             (\<lambda>warnings. Inr (answered ''unmatched'' (contract_seen ''unmatched'' path) [] warnings)))))\<rparr>"

definition runtime_contract_kind_check :: decision_check where
  "runtime_contract_kind_check = \<lparr>ck_code = ''runtime_contract_kind'', ck_branches = [''docker'', ''venv''],
     ck_requires = [Bk_Runtime_Contract], ck_produces = [(''docker'', []), (''venv'', [])],
     ck_evaluate = (\<lambda>c. case bound c Bk_Runtime_Contract of
       Some (Contract_Binding x p) \<Rightarrow>
         (let branch = (if runtime_kind x = ''docker_archive'' then ''docker'' else ''venv'')
          in Inr (answered branch (Contract_Seen branch (Some (runtime_kind x)) (Some (provenance_text p)) []) [] []))
     | _ \<Rightarrow> Inl (Value_Error ''runtime_contract_kind check reached without a runtime_contract binding''))\<rparr>"

section \<open>Commands of the image\<close>

definition long_running_hints :: "string list" where
  "long_running_hints =
     [''serve'', ''server'', ''runserver'', ''gunicorn'', ''uvicorn'', ''daemon'', ''http.server'']"

definition looks_long_running :: "string \<Rightarrow> bool" where
  "looks_long_running text1 \<longleftrightarrow> list_ex (\<lambda>hint. sublist hint (lower text1)) long_running_hints"

definition candidate_id :: "(string \<Rightarrow> string) \<Rightarrow> string \<Rightarrow> string \<Rightarrow> string" where
  "candidate_id sha kind text1 = kind @ '':'' @ short_hash sha text1"

definition candidates_from_binding ::
  "(string \<Rightarrow> string) \<Rightarrow> decision_binding option \<Rightarrow> command_candidate list \<times> (string \<times> string list) list" where
  "candidates_from_binding sha b =
     (case b of
        Some (Image_Command argv shell) \<Rightarrow>
          (case argv of
             Some (a # as) \<Rightarrow>
               (let text1 = join_with '' '' (a # as)
                in ([Argv_Candidate (candidate_id sha ''argv'' text1) (a # as) ''docker_config''],
                    if looks_long_running text1 then [(''possibly_long_running'', [])] else []))
           | _ \<Rightarrow>
               (case shell of
                  Some (s # ss) \<Rightarrow>
                    ([Shell_Candidate (candidate_id sha ''shell'' (s # ss)) (s # ss) ''sh'' ''docker_config''],
                     (''shell_required_in_runtime'', []) #
                     (if looks_long_running (s # ss) then [(''possibly_long_running'', [])] else []))
                | _ \<Rightarrow> ([], [])))
      | _ \<Rightarrow> ([], []))"

definition docker_config_commands_check :: "(string \<Rightarrow> string) \<Rightarrow> decision_check" where
  "docker_config_commands_check sha = \<lparr>ck_code = ''docker_config_commands'',
     ck_branches = [''candidates'', ''none''], ck_requires = [Bk_Runtime_Contract],
     ck_produces = [(''candidates'', [Bk_Command_Candidates]), (''none'', [Bk_Command_Candidates])],
     ck_evaluate = (\<lambda>c.
       let (candidates, codes) = candidates_from_binding sha (bound c Bk_Image_Command)
       in bind_res (catalog_warnings codes) (\<lambda>warnings.
          Inr (answered (if candidates = [] then ''none'' else ''candidates'')
            (Commands_Seen (int (length candidates)) (map candidate_source candidates))
            [Candidates_Binding candidates] warnings)))\<rparr>"

section \<open>The requested experiment\<close>

definition experiment_binding_of :: "experiment_definition \<Rightarrow> experiment_binding" where
  "experiment_binding_of e = \<lparr>xb_name = exp_name e, xb_run_script_path = exp_run_script_path e,
     xb_verify_script_path = (case exp_verify_script_path e of Some p \<Rightarrow> if p = [] then None else Some p | None \<Rightarrow> None),
     xb_output_paths = exp_output_paths e\<rparr>"

definition requested_experiment_check :: decision_check where
  "requested_experiment_check = \<lparr>ck_code = ''requested_experiment'', ck_branches = [''absent'', ''found''],
     ck_requires = [], ck_produces = [(''absent'', []), (''found'', [Bk_Experiment])],
     ck_evaluate = (\<lambda>c.
       let name = dc_requested_experiment c
       in case if name = [] then None else declared_experiment (dc_runtime c) name of
            None \<Rightarrow>
              bind_res (make_warning ''experiment_not_declared'' []) (\<lambda>v.
              Inr (answered ''absent'' (Experiment_Gate_Seen ''absent'' name False) [] [v]))
          | Some e \<Rightarrow>
              Inr (answered ''found'' (Experiment_Gate_Seen ''found'' name True)
                [Experiment_Found (experiment_binding_of e)] []))\<rparr>"

end
