(* ===== verification/Inf_Graphs.thy ===== *)
theory Inf_Graphs
  imports Inf_Checks
begin

text \<open>
  The graphs of the run scripts, \<open>decision_graphs/\<close>, the registry that wires the three graphs, and
  \<open>infer_scripts\<close> of \<open>inference.py\<close>: one scan, one walk per requested target, one report.
\<close>

section \<open>The shared subgraph\<close>

definition run_check_node :: "string \<Rightarrow> string \<Rightarrow> (string \<times> string) list \<Rightarrow> decision_node" where
  "run_check_node node check branches = Check_Node \<lparr>cn_id = node, cn_check = check, cn_branches = branches\<rparr>"

definition run_result_node :: "string \<Rightarrow> candidate_status \<Rightarrow> application_policy \<Rightarrow> decision_node" where
  "run_result_node node status application =
     Result_Node \<lparr>tn_id = node, tn_status = status, tn_application = application\<rparr>"

definition runtime_contract_and_command_nodes ::
  "string \<Rightarrow> string \<Rightarrow> string \<Rightarrow> string \<Rightarrow> decision_node list" where
  "runtime_contract_and_command_nodes docker_rule docker_render venv_rule venv_render = [
     run_check_node ''declared-runtime'' ''declared_runtime_path''
       [(''absent'', ''run-not-inferred''), (''outside_root'', ''run-not-inferred''), (''valid'', ''artifact-state'')],
     run_check_node ''artifact-state'' ''runtime_artifact_state''
       [(''regular_file'', ''inspect-artifact''), (''missing'', ''unchanged-build'')],
     run_check_node ''inspect-artifact'' ''inspect_runtime_artifact''
       [(''docker_single_ref'', ''runtime-command''), (''venv'', ''runtime-command''),
        (''docker_multiple_refs'', ''run-not-inferred''), (''docker_no_ref'', ''run-not-inferred''),
        (''invalid'', ''run-not-inferred'')],
     run_check_node ''unchanged-build'' ''unchanged_generated_build''
       [(''matched'', ''runtime-command''), (''unmatched'', ''run-not-inferred'')],
     Fork_Node \<lparr>fn_id = ''runtime-command'', fn_branches = [(''docker'', ''docker-kind''), (''venv'', ''venv-kind'')],
       fn_join = ''resolve-runtime-command''\<rparr>,
     run_check_node ''docker-kind'' ''runtime_contract_kind''
       [(''docker'', ''docker-config''), (''venv'', ''docker-not-applicable'')],
     run_check_node ''docker-config'' ''docker_config_commands''
       [(''candidates'', ''docker-command''), (''none'', ''docker-command'')],
     Leaf_Node ((strategy_leaf ''docker-command'' ''docker'' Lo_Candidate ''resolve-runtime-command'')
       \<lparr>ln_rule := Some docker_rule, ln_render := Some docker_render\<rparr>),
     Leaf_Node (strategy_leaf ''docker-not-applicable'' ''docker'' Lo_Not_Applicable ''resolve-runtime-command''),
     run_check_node ''venv-kind'' ''runtime_contract_kind''
       [(''venv'', ''venv-command''), (''docker'', ''venv-not-applicable'')],
     Leaf_Node ((strategy_leaf ''venv-command'' ''venv'' Lo_Candidate ''resolve-runtime-command'')
       \<lparr>ln_rule := Some venv_rule, ln_render := Some venv_render\<rparr>),
     Leaf_Node (strategy_leaf ''venv-not-applicable'' ''venv'' Lo_Not_Applicable ''resolve-runtime-command''),
     Resolve_Node \<lparr>rn_id = ''resolve-runtime-command'', rn_fork = ''runtime-command'',
       rn_resolver = ''score_free_viability_v1'',
       rn_branches = [(''complete'', ''run-complete''), (''needs_input'', ''run-needs-input''),
         (''not_inferred'', ''run-not-inferred'')]\<rparr>,
     run_result_node ''run-complete'' Cs_Complete Automatic_Allowed,
     run_result_node ''run-needs-input'' Cs_Needs_Input Confirmation_Required,
     run_result_node ''run-not-inferred'' Cs_Not_Inferred Unavailable]"

definition root_check_node :: decision_node where
  "root_check_node = run_check_node ''project-root'' ''logical_project_root''
     [(''root'', ''declared-runtime''), (''wrapper'', ''declared-runtime'')]"

definition activation_run_dag :: decision_dag where
  "activation_run_dag = \<lparr>dag_key = ''activation-run-inference'', dag_version = 1, dag_root = ''project-root'',
     dag_nodes = root_check_node #
       runtime_contract_and_command_nodes ''docker-runtime-activation-v1'' ''docker_activation_v1''
         ''venv-runtime-activation-v1'' ''venv_activation_v1''\<rparr>"

definition experiment_run_dag :: decision_dag where
  "experiment_run_dag = \<lparr>dag_key = ''experiment-run-inference'', dag_version = 1, dag_root = ''requested-experiment'',
     dag_nodes = run_check_node ''requested-experiment'' ''requested_experiment''
         [(''absent'', ''run-not-inferred''), (''found'', ''project-root'')] #
       root_check_node #
       runtime_contract_and_command_nodes ''docker-runtime-experiment-v1'' ''docker_experiment_v1''
         ''venv-runtime-experiment-v1'' ''venv_experiment_v1''\<rparr>"

section \<open>The registry\<close>

definition registry_checks :: "(string \<Rightarrow> string) \<Rightarrow> (string \<Rightarrow> ree_error + json) \<Rightarrow> (string \<times> decision_check) list" where
  "registry_checks sha loads = build_checks @ map (\<lambda>check. (ck_code check, check))
     [declared_runtime_path_check, runtime_artifact_state_check, inspect_runtime_artifact_check loads,
      unchanged_generated_build_check sha, runtime_contract_kind_check, docker_config_commands_check sha,
      requested_experiment_check]"

definition registry_renderers :: "(string \<times> script_renderer) list" where
  "registry_renderers = build_renderers @ map (\<lambda>renderer. (ren_code renderer, renderer))
     [docker_activation_renderer, venv_activation_renderer, docker_experiment_renderer, venv_experiment_renderer]"

definition registry :: "(string \<Rightarrow> string) \<Rightarrow> (string \<Rightarrow> ree_error + json) \<Rightarrow> wiring" where
  "registry sha loads = \<lparr>wi_checks = registry_checks sha loads, wi_resolvers = build_resolvers,
     wi_renderers = registry_renderers\<rparr>"

definition decision_dags :: "(string \<times> decision_dag) list" where
  "decision_dags = map (\<lambda>d. (dag_key d, d)) [build_dag, activation_run_dag, experiment_run_dag]"

fun dag_for_target_kind :: "target_kind \<Rightarrow> string option" where
  "dag_for_target_kind Build_Target = Some (dag_key build_dag)"
| "dag_for_target_kind Activation_Run = Some (dag_key activation_run_dag)"
| "dag_for_target_kind Experiment_Run = Some (dag_key experiment_run_dag)"
| "dag_for_target_kind _ = None"

definition validate_all :: "(string \<Rightarrow> string) \<Rightarrow> (string \<Rightarrow> ree_error + json) \<Rightarrow> dag_defect + unit" where
  "validate_all sha loads = all_res (\<lambda>(_, dag). validate_dag (registry sha loads) dag) decision_dags"

section \<open>Inference\<close>

record inference_report =
  ir_schema_version :: int
  ir_source_snapshot_digest :: "string option"
  ir_engine_name :: string
  ir_engine_version :: string
  ir_results :: "target_inference list"
  ir_dags :: "decision_dag list"

definition unsupported_result :: "script_target \<Rightarrow> target_inference" where
  "unsupported_result tgt = \<lparr>ti_target = tgt, ti_status = Cs_Not_Inferred, ti_application = Unavailable,
     ti_candidates = [], ti_warnings = [],
     ti_decision = \<lparr>tr_dag = [], tr_version = 0, tr_steps = [], tr_edges = [], tr_result_node = []\<rparr>\<rparr>"

definition target_context :: "decision_context \<Rightarrow> script_target \<Rightarrow> decision_context" where
  "target_context c tgt = (case tgt_experiment_name tgt of
     Some (n # ns) \<Rightarrow> c\<lparr>dc_requested_experiment := n # ns\<rparr> | _ \<Rightarrow> c)"

text \<open>The results in the order of the selectors, and the graphs used, each once.\<close>

fun infer_targets ::
  "(string \<Rightarrow> string) \<Rightarrow> (string \<Rightarrow> ree_error + json) \<Rightarrow> decision_context \<Rightarrow> script_selector list \<Rightarrow>
     target_inference list \<Rightarrow> (string \<times> decision_dag) list \<Rightarrow>
     (ree_error + target_inference list \<times> (string \<times> decision_dag) list) option" where
  "infer_targets sha loads c [] results used = Some (Inr (results, used))"
| "infer_targets sha loads c (selector # later) results used =
     (case resolve_target selector of
        Inl e \<Rightarrow> Some (Inl e)
      | Inr tgt \<Rightarrow>
          (case dag_for_target_kind (tgt_kind tgt) of
             None \<Rightarrow> infer_targets sha loads c later (results @ [unsupported_result tgt]) used
           | Some key \<Rightarrow>
               (case map_of decision_dags key of
                  None \<Rightarrow> Some (Inl (Key_Error key))
                | Some dag \<Rightarrow>
                    (case evaluate_target sha (registry sha loads) dag (target_context c tgt) tgt of
                       None \<Rightarrow> None
                     | Some (Inl e) \<Rightarrow> Some (Inl e)
                     | Some (Inr result) \<Rightarrow>
                         infer_targets sha loads c later (results @ [result]) (AList.update (dag_key dag) dag used)))))"

definition infer_scripts ::
  "(string \<Rightarrow> string) \<Rightarrow> (string \<Rightarrow> ree_error + json) \<Rightarrow> fs_node \<Rightarrow> script_selector list \<Rightarrow> ree_definition option \<Rightarrow>
     inference_policy option \<Rightarrow> runtime_inputs option \<Rightarrow> string option \<Rightarrow> (ree_error + inference_report) option" where
  "infer_scripts sha loads upstream selectors def policy inputs snapshot_digest =
     (case scan_repository sha upstream of
        Inl e \<Rightarrow> Some (Inl e)
      | Inr facts \<Rightarrow>
          (let base = \<lparr>dc_facts = facts, dc_policy = (case policy of None \<Rightarrow> default_policy | Some p \<Rightarrow> p),
                 dc_ree_name = (case def of None \<Rightarrow> [] | Some d \<Rightarrow> def_name d),
                 dc_runtime = (case inputs of None \<Rightarrow> no_runtime_inputs | Some i \<Rightarrow> i),
                 dc_requested_experiment = [], dc_bindings = []\<rparr>
           in case infer_targets sha loads base selectors [] [] of
                None \<Rightarrow> None
              | Some (Inl e) \<Rightarrow> Some (Inl e)
              | Some (Inr (results, used)) \<Rightarrow>
                  Some (Inr \<lparr>ir_schema_version = 1, ir_source_snapshot_digest = snapshot_digest,
                    ir_engine_name = ''repo2ree-script-inference'', ir_engine_version = ''1'', ir_results = results, ir_dags = map snd used\<rparr>)))"

end
