(* ===== verification/Inf_Sound.thy ===== *)
theory Inf_Sound
  imports Inf_Walk
begin

text \<open>
  What the validator of decision graphs is worth: a graph it accepts has no cycle a walk could follow,
  and its declared bindings are there when they are needed. Together with the nesting of forks, which
  it does not check, this makes every walk end with a result.
\<close>

section \<open>Accepted graphs\<close>

lemma by_id_iff:
  "distinct (node_ids dag) \<Longrightarrow> by_id dag x = Some n \<longleftrightarrow> n \<in> set (dag_nodes dag) \<and> node_id n = x"
  unfolding by_id_def node_ids_def
  by (subst map_of_eq_Some_iff) (auto simp: rev_map[symmetric] comp_def distinct_map inj_on_def)

lemma by_id_node: "by_id dag x = Some n \<Longrightarrow> n \<in> set (dag_nodes dag) \<and> node_id n = x"
  unfolding by_id_def by (drule map_of_SomeD) auto

lemma by_id_known: "by_id dag x \<noteq> None \<longleftrightarrow> x \<in> set (node_ids dag)"
  unfolding by_id_def node_ids_def by (simp add: map_of_eq_None_iff image_image)

lemma accepted_parts:
  assumes "validate_dag w dag = Inr u"
  shows "distinct (node_ids dag)" and "by_id dag (dag_root dag) \<noteq> None"
    and "by_id dag x = Some n \<Longrightarrow> validate_node w dag n = Inr ()"
    and "by_id dag x = Some n \<Longrightarrow> validate_convergence dag n = Inr ()"
    and "validate_acyclic dag = Inr ()" and "validate_bindings w dag = Inr ()"
    and "validate_result_reachability dag = Inr ()"
  using assms by_id_node[of dag x n] by (auto simp: validate_dag_def Let_def)

lemma branches_checked:
  assumes "all_res (\<lambda>(_, target). bind_res (require_target dag source target) (\<lambda>_.
      demand (ok target) (defect target))) branches = Inr u"
    and "(b, t) \<in> set branches"
  shows "by_id dag t \<noteq> None \<and> ok t"
proof -
  from assms have "bind_res (require_target dag source t) (\<lambda>_. demand (ok t) (defect t)) = Inr ()" by force
  then show ?thesis by (auto simp: require_target_def)
qed

lemma accepted_check:
  assumes "validate_dag w dag = Inr u" and "by_id dag x = Some (Check_Node n)"
  obtains ck where "map_of (wi_checks w) (cn_check n) = Some ck"
    and "set (map fst (cn_branches n)) = set (ck_branches ck)"
    and "\<And>b t. (b, t) \<in> set (cn_branches n) \<Longrightarrow> by_id dag t \<noteq> None"
proof -
  have "validate_check w dag n = Inr ()" using accepted_parts(3)[OF assms] by simp
  then obtain ck where "map_of (wi_checks w) (cn_check n) = Some ck"
    "set (map fst (cn_branches n)) = set (ck_branches ck)"
    "all_res (\<lambda>(_, target). bind_res (require_target dag (cn_id n) target) (\<lambda>_.
      demand (\<not> short_circuits (by_id dag target)) (Short_Circuit (cn_id n) target))) (cn_branches n) = Inr ()"
    unfolding validate_check_def by (auto simp del: all_res_Inr split: option.splits)
  with branches_checked[OF this(3)] that show thesis by blast
qed

lemma accepted_fork:
  assumes "validate_dag w dag = Inr u" and "by_id dag x = Some (Fork_Node f)"
  shows "\<And>b t. (b, t) \<in> set (fn_branches f) \<Longrightarrow> by_id dag t \<noteq> None"
    and "\<exists>n. by_id dag (fn_join f) = Some (Resolve_Node n)"
proof -
  have v: "validate_fork dag f = Inr ()" using accepted_parts(3)[OF assms] by simp
  show "\<And>b t. (b, t) \<in> set (fn_branches f) \<Longrightarrow> by_id dag t \<noteq> None"
    using v unfolding validate_fork_def require_target_def by auto
  have "is_resolve (by_id dag (fn_join f))"
    using v unfolding validate_fork_def require_target_def by auto
  then show "\<exists>n. by_id dag (fn_join f) = Some (Resolve_Node n)"
    by (cases "by_id dag (fn_join f)" rule: is_resolve.cases) auto
qed

lemma accepted_leaf:
  assumes "validate_dag w dag = Inr u" and "by_id dag x = Some (Leaf_Node n)"
  shows "\<And>code. code \<in> set (ln_warnings n) \<Longrightarrow> is_known_code code"
    and "viable (ln_outcome n) \<Longrightarrow> ln_render n = Some r \<Longrightarrow> map_of (wi_renderers w) r \<noteq> None"
proof -
  have v: "validate_leaf w dag n = Inr ()" using accepted_parts(3)[OF assms] by simp
  show "\<And>code. code \<in> set (ln_warnings n) \<Longrightarrow> is_known_code code"
    using v unfolding validate_leaf_def by auto
  show "viable (ln_outcome n) \<Longrightarrow> ln_render n = Some r \<Longrightarrow> map_of (wi_renderers w) r \<noteq> None"
    using v unfolding validate_leaf_def by auto
qed

lemma accepted_resolve:
  assumes "validate_dag w dag = Inr u" and "by_id dag x = Some (Resolve_Node n)"
  obtains rs where "map_of (wi_resolvers w) (rn_resolver n) = Some rs"
    and "set (map fst (rn_branches n)) = set (res_results rs)"
    and "\<And>b t. (b, t) \<in> set (rn_branches n) \<Longrightarrow> \<exists>m. by_id dag t = Some (Result_Node m)"
proof -
  have v: "validate_resolve w dag n = Inr ()" using accepted_parts(3)[OF assms] by simp
  then obtain rs where rs: "map_of (wi_resolvers w) (rn_resolver n) = Some rs"
    "set (map fst (rn_branches n)) = set (res_results rs)"
    "all_res (\<lambda>(_, target). bind_res (require_target dag (rn_id n) target) (\<lambda>_.
      demand (is_result (by_id dag target)) (Branch_Not_Result (rn_id n) target))) (rn_branches n) = Inr ()"
    unfolding validate_resolve_def by (auto simp del: all_res_Inr split: option.splits)
  have "\<exists>m. by_id dag t = Some (Result_Node m)" if "(b, t) \<in> set (rn_branches n)" for b t
    using branches_checked[OF rs(3) that] by (cases "by_id dag t" rule: is_result.cases) auto
  with rs(1,2) that show thesis by blast
qed

section \<open>No cycle\<close>

text \<open>The finished nodes of a search, the last first: the successors of each finished before it.\<close>

fun ordered :: "(string \<Rightarrow> string list) \<Rightarrow> string list \<Rightarrow> bool" where
  "ordered expand [] \<longleftrightarrow> True"
| "ordered expand (x # xs) \<longleftrightarrow> set (expand x) \<subseteq> set xs \<and> ordered expand xs"

definition pending :: "(string \<Rightarrow> string list) \<Rightarrow> visit list \<Rightarrow> string list \<Rightarrow> bool" where
  "pending expand todo finished \<longleftrightarrow> (\<forall>before x after. todo = before @ Leave x # after \<longrightarrow>
     (\<forall>y \<in> set (expand x). y \<in> set finished \<or> Enter y \<in> set before \<or> Leave y \<in> set before))"

lemma pendingI:
  "(\<And>before x after y. todo = before @ Leave x # after \<Longrightarrow> y \<in> set (expand x) \<Longrightarrow>
     y \<in> set finished \<or> Enter y \<in> set before \<or> Leave y \<in> set before) \<Longrightarrow> pending expand todo finished"
  unfolding pending_def by blast

lemma pendingD:
  "pending expand todo finished \<Longrightarrow> todo = before @ Leave x # after \<Longrightarrow> y \<in> set (expand x) \<Longrightarrow>
   y \<in> set finished \<or> Enter y \<in> set before \<or> Leave y \<in> set before"
  unfolding pending_def by blast

lemma pending_skip:
  assumes "pending expand (Enter x # todo) finished" and "x \<in> set finished"
  shows "pending expand todo finished"
proof (rule pendingI)
  fix before z after y
  assume a: "todo = before @ Leave z # after" "y \<in> set (expand z)"
  from pendingD[OF assms(1), of "Enter x # before" z after y] a assms(2)
  show "y \<in> set finished \<or> Enter y \<in> set before \<or> Leave y \<in> set before" by auto
qed

lemma enter_split:
  "map Enter xs @ Leave x # todo = before @ Leave z # after \<Longrightarrow>
   before = map Enter xs \<and> z = x \<or> (\<exists>rest. before = map Enter xs @ Leave x # rest \<and> todo = rest @ Leave z # after)"
proof (induction xs arbitrary: before)
  case Nil
  then show ?case by (cases before) auto
next
  case (Cons y ys)
  then show ?case by (cases before) auto
qed

lemma pending_enter:
  assumes "pending expand (Enter x # todo) finished"
  shows "pending expand (map Enter (expand x) @ Leave x # todo) finished"
proof (rule pendingI)
  fix before z after y
  assume a: "map Enter (expand x) @ Leave x # todo = before @ Leave z # after" "y \<in> set (expand z)"
  then consider "before = map Enter (expand x)" "z = x"
    | rest where "before = map Enter (expand x) @ Leave x # rest" "todo = rest @ Leave z # after"
    using enter_split[OF a(1)] by blast
  then show "y \<in> set finished \<or> Enter y \<in> set before \<or> Leave y \<in> set before"
  proof cases
    case 1
    with a(2) show ?thesis by simp
  next
    case 2
    from pendingD[OF assms, of "Enter x # rest" z after y] 2 a(2) show ?thesis by auto
  qed
qed

lemma pending_leave:
  assumes "pending expand (Leave x # todo) finished"
  shows "pending expand todo (x # finished)"
proof (rule pendingI)
  fix before z after y
  assume a: "todo = before @ Leave z # after" "y \<in> set (expand z)"
  from pendingD[OF assms, of "Leave x # before" z after y] a
  show "y \<in> set (x # finished) \<or> Enter y \<in> set before \<or> Leave y \<in> set before" by auto
qed

lemma dfs_ordered:
  "dfs ids expand todo visiting finished = Inr done' \<Longrightarrow> ordered expand finished \<Longrightarrow>
   pending expand todo finished \<Longrightarrow>
   ordered expand done' \<and> set finished \<subseteq> set done' \<and> (\<forall>x. Enter x \<in> set todo \<longrightarrow> x \<in> set done') \<and>
   (\<forall>x. Leave x \<in> set todo \<longrightarrow> x \<in> set done')"
proof (induction ids expand todo visiting finished rule: dfs.induct)
  case (1 ids expand visiting finished)
  then show ?case by simp
next
  case (2 ids expand x todo visiting finished)
  show ?case
  proof (cases "x \<in> set finished")
    case True
    from 2(1)[OF True] 2(3-5) pending_skip[OF 2(5) True] True show ?thesis by auto
  next
    case False
    with 2(3) have "x \<notin> set visiting" "x \<in> set ids" by (auto split: if_splits)
    from 2(2)[OF False this(1)] this False 2(3-5) pending_enter[OF 2(5)] show ?thesis by auto
  qed
next
  case (3 ids expand x todo visiting finished)
  have "ordered expand (x # finished)"
    using pendingD[OF 3(4), of "[]" x todo] 3(3) by auto
  from 3(1)[OF _ this pending_leave[OF 3(4)]] 3(2) show ?case by auto
qed

lemma accepted_order:
  assumes "validate_dag w dag = Inr u"
  obtains order where "ordered (expand_all dag) order" and "dag_root dag \<in> set order"
proof -
  from accepted_parts(5)[OF assms] obtain order where
    "dfs (node_ids dag) (expand_all dag) [Enter (dag_root dag)] [] [] = Inr order"
    unfolding validate_acyclic_def by auto
  from dfs_ordered[OF this] that show thesis by (auto simp: pending_def Cons_eq_append_conv)
qed

lemma expand_node: "by_id dag x = Some n \<Longrightarrow> expand_all dag x = successors n"
  by (simp add: expand_all_def)

section \<open>Walks end\<close>

lemma ordered_down: "ordered expand order \<Longrightarrow> x \<in> set order \<Longrightarrow> set (expand x) \<subseteq> set order"
  by (induction order) auto

lemma run_check_target: "run_check w n c = Inr (r, c', t) \<Longrightarrow> t \<in> set (map snd (cn_branches n))"
  by (force simp: run_check_def lookup_key_def split: option.splits dest: map_of_SomeD)

lemma run_resolver_target: "run_resolver w n st = Inr (st', t) \<Longrightarrow> t \<in> set (map snd (rn_branches n))"
  by (force simp: run_resolver_def lookup_key_def split: option.splits dest: map_of_SomeD)

lemma branch_terminates:
  "ordered (expand_all dag) order \<Longrightarrow> x \<in> set order \<Longrightarrow> \<exists>r. walk_branch w dag tgt x c b rendered = Some r"
proof (induction order arbitrary: x c b)
  case (Cons y order)
  show ?case
  proof (cases "x = y")
    case True
    have step: "\<exists>r. walk_branch w dag tgt t c' b' rendered = Some r"
      if "by_id dag x = Some (Check_Node n)" "run_check w n c = Inr (r, c', t)" for n r c' t b'
      using Cons.prems(1) True expand_node[OF that(1)] run_check_target[OF that(2)] by (intro Cons.IH) auto
    show ?thesis
      by (subst walk_branch.simps) (auto split: option.split decision_node.split sum.split intro: step)
  next
    case False
    with Cons show ?thesis by simp
  qed
qed simp

lemma strategies_terminate:
  assumes "ordered (expand_all dag) order" and "x \<in> set order" and "by_id dag x = Some (Fork_Node f)"
  shows "\<exists>r. walk_strategies w dag tgt f c ss st = Some r"
proof (induction ss arbitrary: st)
  case (Cons s ss)
  show ?case
  proof (cases "map_of (fn_branches f) s")
    case (Some child)
    have "child \<in> set order"
      using ordered_down[OF assms(1,2)] expand_node[OF assms(3)] map_of_SomeD[OF Some] by force
    from branch_terminates[OF assms(1) this] obtain r where
      "walk_branch w dag tgt child c no_walk (ws_rendered st) = Some r" by blast
    with Some Cons show ?thesis by (cases r) auto
  qed simp
qed simp

lemma walk_terminates:
  "ordered (expand_all dag) order \<Longrightarrow> x \<in> set order \<Longrightarrow> \<exists>r. walk_from sha w dag tgt x c st = Some r"
proof (induction order arbitrary: x c st)
  case (Cons y order)
  show ?case
  proof (cases "x = y")
    case True
    have down: "\<exists>r. walk_from sha w dag tgt t c' st' = Some r"
      if "by_id dag x = Some node" "t \<in> set (successors node)" for node t c' st'
      using Cons.prems(1) True expand_node[OF that(1)] that(2) by (intro Cons.IH) auto
    have fork: "\<exists>r. walk_fork w dag tgt f c st = Some r" if "by_id dag x = Some (Fork_Node f)" for f
      unfolding walk_fork_def by (rule strategies_terminate[OF Cons.prems that])
    show ?thesis
    proof (cases "by_id dag x")
      case (Some node)
      show ?thesis
      proof (cases node)
        case (Check_Node n)
        then show ?thesis using down[OF Some] run_check_target[of w n c] Some
          by (subst walk_from.simps) (auto split: sum.split)
      next
        case (Fork_Node f)
        with fork Some obtain r where "walk_fork w dag tgt f c st = Some r" by blast
        then show ?thesis using down[OF Some, of "fn_join f"] Some Fork_Node
          by (subst walk_from.simps) (auto split: sum.split)
      next
        case (Resolve_Node n)
        then show ?thesis using down[OF Some] run_resolver_target[of w n st] Some
          by (subst walk_from.simps) (auto split: sum.split)
      qed (use Some in \<open>subst walk_from.simps, simp\<close>)+
    qed (subst walk_from.simps, simp)
  next
    case False
    with Cons show ?thesis by simp
  qed
qed simp

lemma accepted_walk_terminates:
  assumes "validate_dag w dag = Inr u"
  shows "\<exists>r. evaluate_target sha w' dag c tgt = Some r"
proof -
  from accepted_order[OF assms] obtain order where
    "ordered (expand_all dag) order" "dag_root dag \<in> set order" by blast
  from walk_terminates[OF this] show ?thesis by (simp add: evaluate_target_def)
qed

section \<open>Nesting\<close>

text \<open>The nodes a strategy branch can walk on, and those in front of a fork.\<close>

inductive in_branch :: "decision_dag \<Rightarrow> string \<Rightarrow> bool" for dag where
  Branch_Start: "by_id dag x = Some (Fork_Node f) \<Longrightarrow> (b, t) \<in> set (fn_branches f) \<Longrightarrow> in_branch dag t"
| Branch_On: "in_branch dag x \<Longrightarrow> by_id dag x = Some (Check_Node n) \<Longrightarrow> (b, t) \<in> set (cn_branches n) \<Longrightarrow>
    in_branch dag t"

inductive in_prefix :: "decision_dag \<Rightarrow> string \<Rightarrow> bool" for dag where
  Prefix_Start: "in_prefix dag (dag_root dag)"
| Prefix_On: "in_prefix dag x \<Longrightarrow> by_id dag x = Some (Check_Node n) \<Longrightarrow> (b, t) \<in> set (cn_branches n) \<Longrightarrow>
    in_prefix dag t"

fun checks_or_leaf :: "decision_node option \<Rightarrow> bool" where
  "checks_or_leaf (Some (Check_Node _)) \<longleftrightarrow> True"
| "checks_or_leaf (Some (Leaf_Node _)) \<longleftrightarrow> True"
| "checks_or_leaf _ \<longleftrightarrow> False"

fun fork_targets :: "decision_node \<Rightarrow> string list" where
  "fork_targets (Fork_Node f) = map snd (fn_branches f)"
| "fork_targets _ = []"

definition well_nested :: "decision_dag \<Rightarrow> bool" where
  "well_nested dag \<longleftrightarrow>
     (case (explore (node_ids dag) (branch_expand dag) (concat (map fork_targets (dag_nodes dag))) [],
            explore (node_ids dag) (branch_expand dag) [dag_root dag] []) of
        (Some inner, Some front) \<Rightarrow>
          list_all (\<lambda>x. checks_or_leaf (by_id dag x)) inner \<and>
          list_all (\<lambda>x. leaf_of (by_id dag x) = None) front
      | _ \<Rightarrow> False)"

lemma explore_closed:
  "explore ids expand stack seen = Some seen' \<Longrightarrow>
   set stack \<subseteq> set seen' \<and> set seen \<subseteq> set seen' \<and> (\<forall>x \<in> set seen'. x \<in> set seen \<or> set (expand x) \<subseteq> set seen')"
proof (induction ids expand stack seen rule: explore.induct)
  case (2 ids expand x stack seen)
  show ?case
  proof (cases "x \<in> set seen")
    case True
    with 2(1)[OF True] 2(3) show ?thesis by auto
  next
    case False
    with 2(3) have "x \<in> set ids" by (auto split: if_splits)
    with 2(2)[OF False] 2(3) False show ?thesis by auto
  qed
qed simp

lemma explore_step:
  "explore ids expand stack [] = Some seen \<Longrightarrow> x \<in> set seen \<Longrightarrow> t \<in> set (expand x) \<Longrightarrow> t \<in> set seen"
  by (drule explore_closed) auto

lemma branch_expand_check: "by_id dag x = Some (Check_Node n) \<Longrightarrow> branch_expand dag x = map snd (cn_branches n)"
  by (simp add: branch_expand_def)

lemma nested_branch:
  assumes "well_nested dag" and "in_branch dag x"
  shows "checks_or_leaf (by_id dag x)"
proof -
  from assms(1) obtain bs where bs: "explore (node_ids dag) (branch_expand dag)
      (concat (map fork_targets (dag_nodes dag))) [] = Some bs"
    "list_all (\<lambda>x. checks_or_leaf (by_id dag x)) bs"
    unfolding well_nested_def by (auto split: option.splits)
  note closed = explore_closed[OF bs(1)]
  from assms(2) have "x \<in> set bs"
  proof induction
    case (Branch_Start x f b t)
    from by_id_node[OF Branch_Start(1)] Branch_Start(2)
    have "t \<in> set (concat (map fork_targets (dag_nodes dag)))" by force
    with closed show ?case by blast
  next
    case (Branch_On x n b t)
    from Branch_On(3) have "t \<in> set (branch_expand dag x)"
      by (simp add: branch_expand_check[OF Branch_On(2)] image_iff) (metis snd_conv)
    with Branch_On.IH show ?case by (rule explore_step[OF bs(1)])
  qed
  with bs(2) show ?thesis by (simp add: list_all_iff)
qed

lemma nested_prefix:
  assumes "well_nested dag" and "in_prefix dag x"
  shows "leaf_of (by_id dag x) = None"
proof -
  from assms(1) obtain ps where ps: "explore (node_ids dag) (branch_expand dag) [dag_root dag] [] = Some ps"
    "list_all (\<lambda>x. leaf_of (by_id dag x) = None) ps"
    unfolding well_nested_def by (auto split: option.splits)
  note closed = explore_closed[OF ps(1)]
  from assms(2) have "x \<in> set ps"
  proof induction
    case Prefix_Start
    from closed show ?case by simp
  next
    case (Prefix_On x n b t)
    from Prefix_On(3) have "t \<in> set (branch_expand dag x)"
      by (simp add: branch_expand_check[OF Prefix_On(2)] image_iff) (metis snd_conv)
    with Prefix_On.IH show ?case by (rule explore_step[OF ps(1)])
  qed
  with ps(2) show ?thesis by (simp add: list_all_iff)
qed

section \<open>Walks of an annotated graph\<close>

text \<open>
  A graph annotated at every node with what the context fulfils there; the checks, the resolvers and
  the renderers are called within their contracts.
\<close>

locale annotated_walk =
  fixes w :: wiring and dag :: decision_dag and inv :: "string \<Rightarrow> decision_context \<Rightarrow> bool"
    and tgt :: script_target
  assumes accepted: "validate_dag w dag = Inr ()"
    and nested: "well_nested dag"
    and check_ok: "by_id dag x = Some (Check_Node n) \<Longrightarrow> map_of (wi_checks w) (cn_check n) = Some ck \<Longrightarrow>
      inv x c \<Longrightarrow> \<exists>r. ck_evaluate ck c = Inr r \<and> cr_branch r \<in> set (ck_branches ck) \<and>
        distinct (map kind_of (cr_bindings r)) \<and> kind_of ` set (cr_bindings r) \<inter> kinds c = {} \<and>
        (\<forall>t. map_of (cn_branches n) (cr_branch r) = Some t \<longrightarrow>
          inv t (c\<lparr>dc_bindings := dc_bindings c @ cr_bindings r\<rparr>))"
    and fork_ok: "by_id dag x = Some (Fork_Node f) \<Longrightarrow> (b, t) \<in> set (fn_branches f) \<Longrightarrow> inv x c \<Longrightarrow> inv t c"
    and resolver_ok: "by_id dag x = Some (Resolve_Node m) \<Longrightarrow> map_of (wi_resolvers w) (rn_resolver m) = Some rs \<Longrightarrow>
      \<exists>r. res_evaluate rs outcomes = Inr r \<and> rr_result r \<in> set (res_results rs)"
    and leaf_ok: "by_id dag x = Some (Leaf_Node l) \<Longrightarrow> viable (ln_outcome l) \<Longrightarrow> ln_render l = Some rc \<Longrightarrow>
      map_of (wi_renderers w) rc = Some rd \<Longrightarrow> inv x c \<Longrightarrow> \<exists>s. ren_render rd c tgt = Inr s"
begin

lemma check_runs:
  assumes "by_id dag x = Some (Check_Node n)" and "inv x c"
  obtains r c' t where "run_check w n c = Inr (r, c', t)" and "(cr_branch r, t) \<in> set (cn_branches n)"
    and "inv t c'" and "by_id dag t \<noteq> None"
proof -
  from accepted_check[OF accepted assms(1)] obtain ck where ck: "map_of (wi_checks w) (cn_check n) = Some ck"
    "set (map fst (cn_branches n)) = set (ck_branches ck)"
    "\<And>b t. (b, t) \<in> set (cn_branches n) \<Longrightarrow> by_id dag t \<noteq> None" by blast
  from check_ok[OF assms(1) ck(1) assms(2)] obtain r where r: "ck_evaluate ck c = Inr r"
    "cr_branch r \<in> set (ck_branches ck)" "distinct (map kind_of (cr_bindings r))"
    "kind_of ` set (cr_bindings r) \<inter> kinds c = {}"
    "\<forall>t. map_of (cn_branches n) (cr_branch r) = Some t \<longrightarrow>
      inv t (c\<lparr>dc_bindings := dc_bindings c @ cr_bindings r\<rparr>)" by blast
  have "map_of (cn_branches n) (cr_branch r) \<noteq> None"
    using r(2) ck(2) by (simp add: map_of_eq_None_iff)
  then obtain t where t: "map_of (cn_branches n) (cr_branch r) = Some t" by blast
  let ?c = "c\<lparr>dc_bindings := dc_bindings c @ cr_bindings r\<rparr>"
  have "with_bindings c (cr_bindings r) = Inr ?c" using r(3,4) by (simp add: with_bindings_Inr)
  then have "run_check w n c = Inr (r, ?c, t)"
    by (simp add: run_check_def lookup_key_def ck(1) r(1) t)
  moreover have "(cr_branch r, t) \<in> set (cn_branches n)" using t by (rule map_of_SomeD)
  ultimately show thesis using that r(5) t ck(3) by blast
qed

lemma leaf_ends:
  assumes "by_id dag x = Some (Leaf_Node n)" and "inv x c"
  shows "\<exists>res. end_branch w n c tgt b rendered = Inr res"
proof -
  obtain ws where ws: "map_res (\<lambda>code. make_warning code []) (ln_warnings n) = Inr ws"
    using map_res_Inr[of "ln_warnings n" "\<lambda>code. make_warning code []"]
      make_warning_Inr accepted_leaf(1)[OF accepted assms(1)] by blast
  have "\<exists>rendered'. render_leaf w n c tgt rendered = Inr rendered'"
  proof (cases "ln_render n")
    case (Some r)
    show ?thesis
    proof (cases "viable (ln_outcome n)")
      case True
      then obtain rd where rd: "map_of (wi_renderers w) r = Some rd"
        using accepted_leaf(2)[OF accepted assms(1) _ Some] by blast
      from leaf_ok[OF assms(1) True Some rd assms(2)] show ?thesis
        using Some True rd by (auto simp: render_leaf_def lookup_key_def)
    qed (simp add: render_leaf_def Some)
  qed (simp add: render_leaf_def)
  with ws show ?thesis by (auto simp: end_branch_def)
qed

lemma branch_ends:
  "ordered (expand_all dag) order \<Longrightarrow> x \<in> set order \<Longrightarrow> in_branch dag x \<Longrightarrow> inv x c \<Longrightarrow>
   \<exists>res. walk_branch w dag tgt x c b rendered = Some (Inr res)"
proof (induction order arbitrary: x c b)
  case (Cons y order)
  have "checks_or_leaf (by_id dag x)" using nested Cons.prems(3) by (rule nested_branch)
  then consider (check) n where "by_id dag x = Some (Check_Node n)"
    | (leaf) n where "by_id dag x = Some (Leaf_Node n)"
    by (cases "by_id dag x" rule: checks_or_leaf.cases) auto
  then show ?case
  proof cases
    case check
    from check_runs[OF check Cons.prems(4)] obtain r c' t where
      r: "run_check w n c = Inr (r, c', t)" "(cr_branch r, t) \<in> set (cn_branches n)" "inv t c'" by blast
    show ?thesis
    proof (cases "x = y")
      case True
      have "t \<in> set order"
        using Cons.prems(1) True expand_node[OF check] r(2) by force
      from Cons.IH[OF _ this Branch_On[OF Cons.prems(3) check r(2)] r(3)] Cons.prems(1)
      show ?thesis by (subst walk_branch.simps) (simp add: check r(1))
    next
      case False
      then show ?thesis using Cons.IH Cons.prems by simp
    qed
  next
    case leaf
    from leaf_ends[OF leaf Cons.prems(4)] show ?thesis by (subst walk_branch.simps) (simp add: leaf)
  qed
qed simp

lemma strategies_end:
  assumes "ordered (expand_all dag) order" and "x \<in> set order" and "by_id dag x = Some (Fork_Node f)"
    and "inv x c"
  shows "set ss \<subseteq> fst ` set (fn_branches f) \<Longrightarrow> \<exists>st'. walk_strategies w dag tgt f c ss st = Some (Inr st')"
proof (induction ss arbitrary: st)
  case (Cons s ss)
  then obtain child where child: "map_of (fn_branches f) s = Some child"
    by (metis list.set_intros(1) map_of_eq_None_iff option.exhaust subsetD)
  then have branch: "(s, child) \<in> set (fn_branches f)" by (rule map_of_SomeD)
  have "child \<in> set order" using ordered_down[OF assms(1,2)] branch expand_node[OF assms(3)] by force
  from branch_ends[OF assms(1) this Branch_Start[OF assms(3) branch] fork_ok[OF assms(3) branch assms(4)]]
  obtain res where "walk_branch w dag tgt child c no_walk (ws_rendered st) = Some (Inr res)" by blast
  with Cons child show ?case by (cases res) simp
qed simp

lemma result_walk:
  "by_id dag x = Some (Result_Node m) \<Longrightarrow> walk_from sha w dag tgt x c st = Some (Inr (end_walk sha dag tgt m st))"
  by (subst walk_from.simps) simp

lemma resolve_walk:
  assumes "by_id dag x = Some (Resolve_Node n)"
  shows "\<exists>m st'. by_id dag (tn_id m) = Some (Result_Node m) \<and>
    walk_from sha w dag tgt x c st = Some (Inr (end_walk sha dag tgt m st'))"
proof -
  from accepted_resolve[OF accepted assms] obtain rs where
    rs: "map_of (wi_resolvers w) (rn_resolver n) = Some rs"
      "set (map fst (rn_branches n)) = set (res_results rs)"
      "\<And>b t. (b, t) \<in> set (rn_branches n) \<Longrightarrow> \<exists>m. by_id dag t = Some (Result_Node m)" by blast
  from resolver_ok[OF assms rs(1)] obtain r where r: "res_evaluate rs (ws_outcomes st) = Inr r"
    "rr_result r \<in> set (res_results rs)" by blast
  have "map_of (rn_branches n) (rr_result r) \<noteq> None" using r(2) rs(2) by (simp add: map_of_eq_None_iff)
  then obtain t where t: "map_of (rn_branches n) (rr_result r) = Some t" by blast
  from rs(3)[OF map_of_SomeD[OF t]] obtain m where m: "by_id dag t = Some (Result_Node m)" by blast
  then have "t = tn_id m" using by_id_node[OF m] by simp
  moreover obtain st' where "run_resolver w n st = Inr (st', t)"
    by (auto simp: run_resolver_def lookup_key_def rs(1) r(1) t)
  then have "walk_from sha w dag tgt x c st = walk_from sha w dag tgt t c st'"
    by (subst walk_from.simps) (simp add: assms)
  ultimately show ?thesis using result_walk[OF m] m by auto
qed

lemma walk_ends:
  "ordered (expand_all dag) order \<Longrightarrow> x \<in> set order \<Longrightarrow> in_prefix dag x \<Longrightarrow> inv x c \<Longrightarrow>
   by_id dag x \<noteq> None \<Longrightarrow>
   \<exists>m st'. by_id dag (tn_id m) = Some (Result_Node m) \<and>
     walk_from sha w dag tgt x c st = Some (Inr (end_walk sha dag tgt m st'))"
proof (induction order arbitrary: x c st)
  case (Cons y order)
  show ?case
  proof (cases "x = y")
    case False
    then show ?thesis using Cons.IH Cons.prems by simp
  next
    case True
    from Cons.prems(5) obtain node where node: "by_id dag x = Some node" by blast
    have down: "set (successors node) \<subseteq> set order"
      using Cons.prems(1) True expand_node[OF node] by simp
    show ?thesis
    proof (cases node)
      case (Check_Node n)
      note check = node[unfolded Check_Node]
      from check_runs[OF check Cons.prems(4)] obtain r c' t where
        r: "run_check w n c = Inr (r, c', t)" "(cr_branch r, t) \<in> set (cn_branches n)" "inv t c'"
          "by_id dag t \<noteq> None" by blast
      have "t \<in> set order" using down r(2) Check_Node by force
      from Cons.IH[OF _ this Prefix_On[OF Cons.prems(3) check r(2)] r(3,4), of "note_prefix n r t st"] Cons.prems(1)
      show ?thesis by (subst walk_from.simps) (simp add: check r(1))
    next
      case (Fork_Node f)
      note fork = node[unfolded Fork_Node]
      have "set (sort (map fst (fn_branches f))) \<subseteq> fst ` set (fn_branches f)" by simp
      from strategies_end[OF Cons.prems(1,2) fork Cons.prems(4) this] obtain st' where
        st': "walk_fork w dag tgt f c st = Some (Inr st')" unfolding walk_fork_def by blast
      from accepted_fork(2)[OF accepted fork] obtain n where "by_id dag (fn_join f) = Some (Resolve_Node n)"
        by blast
      from resolve_walk[OF this, of sha c st'] show ?thesis
        by (subst walk_from.simps) (simp add: fork st')
    next
      case (Leaf_Node n)
      then show ?thesis using nested_prefix[OF nested Cons.prems(3)] node by simp
    next
      case (Resolve_Node n)
      then show ?thesis using resolve_walk node by blast
    next
      case (Result_Node m)
      then show ?thesis using result_walk node by_id_node[OF node] by auto
    qed
  qed
qed simp

text \<open>Every walk ends, at a result node of the graph.\<close>

theorem evaluation_ends:
  assumes "inv (dag_root dag) c"
  shows "\<exists>m st. Result_Node m \<in> set (dag_nodes dag) \<and>
    evaluate_target sha w dag c tgt = Some (Inr (end_walk sha dag tgt m st))"
proof -
  from accepted_order[OF accepted] obtain order where
    order: "ordered (expand_all dag) order" "dag_root dag \<in> set order" by blast
  from walk_ends[OF order Prefix_Start assms accepted_parts(2)[OF accepted]] by_id_node
  show ?thesis unfolding evaluate_target_def by blast
qed

end

end
