(* ===== verification/Inf_Typed.thy ===== *)
theory Inf_Typed
  imports Inf_Sound
begin

text \<open>
  The bindings a graph declares, followed along its edges: the loop of \<open>_validate_bindings\<close> ends in a
  solution of the dataflow equations, so a walk has at every node the kinds the validator counted on.
  With checks, renderers and resolvers that keep to their declarations, and no kind bound twice on a
  walk, evaluation of an accepted graph ends with a result.
\<close>

section \<open>The fixpoint solves its equations\<close>

text \<open>What a walk has at a node, plus what the branch produces, is at least what its target is promised.\<close>

definition covers :: "wiring \<Rightarrow> decision_node \<Rightarrow> guarantees \<Rightarrow> string \<times> string \<Rightarrow> bool" where
  "covers w node incoming edge \<longleftrightarrow> (\<forall>here. incoming (node_id node) = Some here \<longrightarrow>
     (\<exists>s. incoming (snd edge) = Some s \<and> s \<subseteq> here \<union> produced_bindings w node (fst edge)))"

lemma fold_flag:
  "(\<And>x st. x \<in> set xs \<Longrightarrow> snd st \<Longrightarrow> snd (f x st)) \<Longrightarrow> snd st \<Longrightarrow> snd (fold f xs st)"
  by (induction xs arbitrary: st) auto

lemma fold_unchanged:
  assumes "\<And>x st. x \<in> set xs \<Longrightarrow> snd st \<Longrightarrow> snd (f x st)"
    and "\<And>x st. x \<in> set xs \<Longrightarrow> \<not> snd (f x st) \<Longrightarrow> f x st = st"
  shows "\<not> snd (fold f xs st) \<Longrightarrow> fold f xs st = st \<and> (\<forall>x \<in> set xs. f x st = st)"
  using assms
proof (induction xs arbitrary: st)
  case (Cons x xs)
  have "\<not> snd (f x st)"
  proof
    assume changed: "snd (f x st)"
    have "snd (fold f xs (f x st))"
      by (rule fold_flag[OF _ changed]) (rule Cons.prems(2), simp_all)
    with Cons.prems(1) show False by simp
  qed
  then have same: "f x st = st" by (intro Cons.prems(3)) simp_all
  have "\<not> snd (fold f xs st)" using Cons.prems(1) by (simp add: same)
  then have "fold f xs st = st \<and> (\<forall>y \<in> set xs. f y st = st)"
    by (rule Cons.IH) (rule Cons.prems(2), simp_all, rule Cons.prems(3), simp_all)
  then show ?case by (simp add: same)
qed simp

lemma relax_edge_flag: "snd st \<Longrightarrow> snd (relax_edge w node here edge st)"
  by (cases edge; cases st) (simp add: relax_edge_def Let_def)

lemma relax_edge_unchanged: "\<not> snd (relax_edge w node here edge st) \<Longrightarrow> relax_edge w node here edge st = st"
  by (cases edge; cases st) (auto simp: relax_edge_def Let_def split: if_splits)

lemma relax_edge_covers:
  assumes "relax_edge w node here edge (incoming, False) = (incoming, False)"
  shows "\<exists>s. incoming (snd edge) = Some s \<and> s \<subseteq> here \<union> produced_bindings w node (fst edge)"
  using assms by (cases edge) (auto simp: relax_edge_def Let_def split: if_splits option.splits)

lemma relax_node_flag: "snd st \<Longrightarrow> snd (relax_node w node st)"
  unfolding relax_node_def by (auto intro: fold_flag relax_edge_flag split: option.split)

lemma relax_node_unchanged:
  assumes "\<not> snd (relax_node w node st)"
  shows "relax_node w node st = st"
proof (cases "fst st (node_id node)")
  case (Some here)
  with assms fold_unchanged[of "binding_edges node" "relax_edge w node here" st]
    relax_edge_flag relax_edge_unchanged show ?thesis by (simp add: relax_node_def)
qed (simp add: relax_node_def)

lemma relax_node_covers:
  assumes "relax_node w node (incoming, False) = (incoming, False)" and "edge \<in> set (binding_edges node)"
  shows "covers w node incoming edge"
  unfolding covers_def
proof (intro allI impI)
  fix here
  assume here: "incoming (node_id node) = Some here"
  let ?f = "relax_edge w node here"
  have "fold ?f (binding_edges node) (incoming, False) = (incoming, False)"
    using assms(1) here by (simp add: relax_node_def)
  then have "\<not> snd (fold ?f (binding_edges node) (incoming, False))" by simp
  from fold_unchanged[OF _ _ this] relax_edge_flag relax_edge_unchanged
  have "\<forall>e \<in> set (binding_edges node). ?f e (incoming, False) = (incoming, False)" by blast
  with assms(2) have "?f edge (incoming, False) = (incoming, False)" by blast
  then show "\<exists>s. incoming (snd edge) = Some s \<and> s \<subseteq> here \<union> produced_bindings w node (fst edge)"
    by (rule relax_edge_covers)
qed

lemma sweep_covers:
  assumes "sweep w nodes incoming = (incoming', False)" and "node \<in> set nodes"
    and "edge \<in> set (binding_edges node)"
  shows "covers w node incoming' edge"
proof -
  from assms(1) have "\<not> snd (fold (relax_node w) nodes (incoming, False))" by (simp add: sweep_def)
  from fold_unchanged[OF _ _ this] relax_node_flag relax_node_unchanged
  have "fold (relax_node w) nodes (incoming, False) = (incoming, False)"
    "\<forall>n \<in> set nodes. relax_node w n (incoming, False) = (incoming, False)" by blast+
  with assms show ?thesis by (auto simp: sweep_def intro: relax_node_covers)
qed

lemma guaranteed_covers:
  "node \<in> set nodes \<Longrightarrow> edge \<in> set (binding_edges node) \<Longrightarrow> covers w node (guaranteed w nodes incoming) edge"
proof (induction w nodes incoming rule: guaranteed.induct)
  case (1 w nodes incoming)
  obtain incoming' changed where sweep: "sweep w nodes incoming = (incoming', changed)" by fastforce
  show ?case
  proof (cases changed)
    case True
    with 1 sweep show ?thesis by (subst guaranteed.simps) simp
  next
    case False
    with sweep_covers[of w nodes incoming incoming'] sweep 1 show ?thesis by (subst guaranteed.simps) simp
  qed
qed

section \<open>The root is promised nothing\<close>

lemma fold_keeps: "(\<And>x st. x \<in> set xs \<Longrightarrow> P st \<Longrightarrow> P (f x st)) \<Longrightarrow> P st \<Longrightarrow> P (fold f xs st)"
  by (induction xs arbitrary: st) auto

lemma sweep_keeps_empty:
  assumes "incoming x = Some {}"
  shows "fst (sweep w nodes incoming) x = Some {}"
proof -
  let ?P = "\<lambda>st. fst st x = Some {}"
  have edge: "?P (relax_edge w node here e st)" if "?P st" for node here e st
    using that by (cases e; cases st) (auto simp: relax_edge_def Let_def)
  have node: "?P (relax_node w n st)" if "?P st" for n st
  proof (cases "fst st (node_id n)")
    case (Some here)
    have "?P (fold (relax_edge w n here) (binding_edges n) st)"
      by (rule fold_keeps[where P = ?P]) (rule edge, assumption, rule that)
    with Some show ?thesis by (simp add: relax_node_def)
  qed (simp add: relax_node_def that)
  show ?thesis unfolding sweep_def
    by (rule fold_keeps[where P = ?P]) (rule node, assumption, simp add: assms)
qed

lemma guaranteed_root: "incoming x = Some {} \<Longrightarrow> guaranteed w nodes incoming x = Some {}"
proof (induction w nodes incoming rule: guaranteed.induct)
  case (1 w nodes incoming)
  obtain incoming' changed where sweep: "sweep w nodes incoming = (incoming', changed)" by fastforce
  from sweep_keeps_empty[of incoming x w nodes] 1(2) sweep have "incoming' x = Some {}" by simp
  with 1(1)[OF sweep[symmetric] refl] sweep show ?case by (subst guaranteed.simps) simp
qed

lemma promised_root: "guarantees_of w dag (dag_root dag) = Some {}"
  unfolding guarantees_of_def by (rule guaranteed_root) simp

lemma promised_edge:
  assumes "by_id dag x = Some node" and "(b, t) \<in> set (binding_edges node)"
    and "guarantees_of w dag x = Some here"
  obtains s where "guarantees_of w dag t = Some s" and "s \<subseteq> here \<union> produced_bindings w node b"
proof -
  from by_id_node[OF assms(1)] have "node \<in> set (dag_nodes dag)" "node_id node = x" by auto
  with guaranteed_covers[OF this(1) assms(2), of w] assms(3) that
  show thesis by (auto simp: guarantees_of_def covers_def)
qed

lemma accepted_requirement:
  assumes "validate_dag w dag = Inr u" and "by_id dag x = Some node" and "guarantees_of w dag x = Some here"
  shows "requirement w node \<subseteq> here"
proof -
  from by_id_node[OF assms(2)] have "node \<in> set (dag_nodes dag)" "node_id node = x" by auto
  with accepted_parts(6)[OF assms(1)] assms(3) show ?thesis by (fastforce simp: validate_bindings_def Let_def)
qed

section \<open>What a walk can still bind\<close>

definition walk_expand :: "decision_dag \<Rightarrow> string \<Rightarrow> string list" where
  "walk_expand dag x = (case by_id dag x of
     Some (Check_Node n) \<Rightarrow> map snd (cn_branches n) | Some (Fork_Node f) \<Rightarrow> map snd (fn_branches f) | _ \<Rightarrow> [])"

definition produced_at :: "wiring \<Rightarrow> decision_node option \<Rightarrow> binding_kind set" where
  "produced_at w node = (case node of None \<Rightarrow> {}
     | Some n \<Rightarrow> (\<Union>edge \<in> set (binding_edges n). produced_bindings w n (fst edge)))"

definition future :: "wiring \<Rightarrow> decision_dag \<Rightarrow> string \<Rightarrow> binding_kind set" where
  "future w dag x = (case explore (node_ids dag) (walk_expand dag) [x] [] of None \<Rightarrow> UNIV
     | Some below \<Rightarrow> (\<Union>y \<in> set below. produced_at w (by_id dag y)))"

definition no_rebinding :: "wiring \<Rightarrow> decision_dag \<Rightarrow> bool" where
  "no_rebinding w dag \<longleftrightarrow> (\<forall>n \<in> set (dag_nodes dag). \<forall>edge \<in> set (binding_edges n).
     if produced_bindings w n (fst edge) = {} then True
     else produced_bindings w n (fst edge) \<inter> future w dag (snd edge) = {})"

lemma future_self: "by_id dag x = Some node \<Longrightarrow> produced_at w (Some node) \<subseteq> future w dag x"
proof -
  assume node: "by_id dag x = Some node"
  show ?thesis
  proof (cases "explore (node_ids dag) (walk_expand dag) [x] []")
    case (Some below)
    from explore_closed[OF Some] have "x \<in> set below" by simp
    with Some node show ?thesis by (force simp: future_def)
  qed (simp add: future_def)
qed

text \<open>What is reached from a successor is reached from the node.\<close>

lemma explore_least:
  "explore ids expand stack seen = Some seen' \<Longrightarrow> set stack \<subseteq> upper \<Longrightarrow> set seen \<subseteq> upper \<Longrightarrow>
   (\<And>x. x \<in> upper \<Longrightarrow> set (expand x) \<subseteq> upper) \<Longrightarrow> set seen' \<subseteq> upper"
proof (induction ids expand stack seen rule: explore.induct)
  case (2 ids expand x stack seen)
  show ?case
  proof (cases "x \<in> set seen")
    case True
    show ?thesis by (rule 2(1)[OF True]) (use 2(3-6) True in auto)
  next
    case False
    with 2(3) have x: "\<not> x \<notin> set ids" by (auto split: if_splits)
    with 2(3) False have "explore ids expand (rev (expand x) @ stack) (x # seen) = Some seen'" by simp
    moreover have "set (rev (expand x) @ stack) \<subseteq> upper" using 2(4) 2(6)[of x] by auto
    moreover have "set (x # seen) \<subseteq> upper" using 2(4,5) by auto
    ultimately show ?thesis by (rule 2(2)[OF False x]) (rule 2(6))
  qed
qed simp

lemma explore_total:
  "set stack \<subseteq> set ids \<Longrightarrow> (\<And>x. x \<in> set ids \<Longrightarrow> set (expand x) \<subseteq> set ids) \<Longrightarrow>
   \<exists>seen'. explore ids expand stack seen = Some seen'"
proof (induction ids expand stack seen rule: explore.induct)
  case (2 ids expand x stack seen)
  have x: "x \<in> set ids" using 2(3) by simp
  show ?case
  proof (cases "x \<in> set seen")
    case True
    have "\<exists>seen'. explore ids expand stack seen = Some seen'"
      by (rule 2(1)[OF True]) (use 2(3) in simp, rule 2(4))
    with True show ?thesis by simp
  next
    case False
    have "\<exists>seen'. explore ids expand (rev (expand x) @ stack) (x # seen) = Some seen'"
      by (rule 2(2)[OF False]) (use x 2(3) 2(4)[OF x] in simp_all, rule 2(4))
    with False x show ?thesis by simp
  qed
qed simp

lemma future_on:
  assumes "\<And>y. y \<in> set (node_ids dag) \<Longrightarrow> set (walk_expand dag y) \<subseteq> set (node_ids dag)"
    and "t \<in> set (walk_expand dag x)" and "x \<in> set (node_ids dag)"
  shows "future w dag t \<subseteq> future w dag x"
proof -
  let ?ids = "node_ids dag" and ?ex = "walk_expand dag"
  from explore_total[of "[x]" ?ids ?ex "[]"] assms(1,3) obtain below where
    below: "explore ?ids ?ex [x] [] = Some below" by auto
  have t: "t \<in> set ?ids" using assms by blast
  from explore_total[of "[t]" ?ids ?ex "[]"] assms(1) t obtain under where
    under: "explore ?ids ?ex [t] [] = Some under" by auto
  from explore_closed[OF below] assms(2) have closed: "t \<in> set below" "\<And>y. y \<in> set below \<Longrightarrow> set (?ex y) \<subseteq> set below"
    by auto
  from explore_least[OF under, of "set below"] closed have "set under \<subseteq> set below" by auto
  with below under show ?thesis by (auto simp: future_def)
qed

section \<open>Contracts\<close>

text \<open>
  With the kinds it requires a check returns one of its branches and binds, once each, the kinds the
  branch declares; a resolver returns one of its results; a renderer renders.
\<close>

definition honours_at :: "decision_check \<Rightarrow> decision_context \<Rightarrow> bool" where
  "honours_at ck c \<longleftrightarrow> (\<exists>r. ck_evaluate ck c = Inr r \<and> cr_branch r \<in> set (ck_branches ck) \<and>
     kind_of ` set (cr_bindings r) = produced_by ck (cr_branch r) \<and> distinct (map kind_of (cr_bindings r)))"

definition check_honours :: "decision_check \<Rightarrow> bool" where
  "check_honours ck \<longleftrightarrow> (\<forall>c. set (ck_requires ck) \<subseteq> kinds c \<longrightarrow> honours_at ck c)"

definition resolver_honours :: "strategy_resolver \<Rightarrow> bool" where
  "resolver_honours rs \<longleftrightarrow> (\<forall>outcomes. \<exists>r. res_evaluate rs outcomes = Inr r \<and> rr_result r \<in> set (res_results rs))"

definition renderer_honours :: "script_target \<Rightarrow> script_renderer \<Rightarrow> bool" where
  "renderer_honours tgt rd \<longleftrightarrow> (\<forall>c. set (ren_requires rd) \<subseteq> kinds c \<longrightarrow> (\<exists>s. ren_render rd c tgt = Inr s))"

text \<open>
  A graph wired to such parts; \<open>extra\<close> is what the walk knows of the context at a node beyond the kinds
  bound so far: the contracts need to hold only where it does.
\<close>

locale typed_graph =
  fixes w :: wiring and dag :: decision_dag and tgt :: script_target
    and extra :: "string \<Rightarrow> decision_context \<Rightarrow> bool"
  assumes accepted: "validate_dag w dag = Inr ()"
    and nested: "well_nested dag"
    and fresh: "no_rebinding w dag"
    and checks: "by_id dag x = Some (Check_Node n) \<Longrightarrow> map_of (wi_checks w) (cn_check n) = Some ck \<Longrightarrow>
      extra x c \<Longrightarrow> set (ck_requires ck) \<subseteq> kinds c \<Longrightarrow> honours_at ck c"
    and resolvers: "map_of (wi_resolvers w) name' = Some rs \<Longrightarrow> resolver_honours rs"
    and extra_check: "by_id dag x = Some (Check_Node n) \<Longrightarrow> map_of (wi_checks w) (cn_check n) = Some ck \<Longrightarrow>
      extra x c \<Longrightarrow> set (ck_requires ck) \<subseteq> kinds c \<Longrightarrow> ck_evaluate ck c = Inr r \<Longrightarrow>
      map_of (cn_branches n) (cr_branch r) = Some t \<Longrightarrow> extra t (c\<lparr>dc_bindings := dc_bindings c @ cr_bindings r\<rparr>)"
    and extra_fork: "by_id dag x = Some (Fork_Node f) \<Longrightarrow> (b, t) \<in> set (fn_branches f) \<Longrightarrow> extra x c \<Longrightarrow> extra t c"
    and renderers: "by_id dag x = Some (Leaf_Node l) \<Longrightarrow> viable (ln_outcome l) \<Longrightarrow> ln_render l = Some rc \<Longrightarrow>
      map_of (wi_renderers w) rc = Some rd \<Longrightarrow> extra x c \<Longrightarrow> set (ren_requires rd) \<subseteq> kinds c \<Longrightarrow>
      \<exists>s. ren_render rd c tgt = Inr s"
begin

definition typed_at :: "string \<Rightarrow> decision_context \<Rightarrow> bool" where
  "typed_at x c \<longleftrightarrow> (\<exists>s. guarantees_of w dag x = Some s \<and> s \<subseteq> kinds c) \<and>
     future w dag x \<inter> kinds c = {} \<and> extra x c"

lemma targets_known: "y \<in> set (node_ids dag) \<Longrightarrow> set (walk_expand dag y) \<subseteq> set (node_ids dag)"
proof
  fix t
  assume "y \<in> set (node_ids dag)" and t: "t \<in> set (walk_expand dag y)"
  from t have "by_id dag t \<noteq> None"
  proof (cases "by_id dag y")
    case (Some node)
    show ?thesis
    proof (cases node)
      case (Check_Node n)
      with t Some obtain b where "(b, t) \<in> set (cn_branches n)" by (auto simp: walk_expand_def)
      with accepted_check[OF accepted Some[unfolded Check_Node]] show ?thesis by blast
    next
      case (Fork_Node f)
      with t Some obtain b where "(b, t) \<in> set (fn_branches f)" by (auto simp: walk_expand_def)
      with accepted_fork(1)[OF accepted Some[unfolded Fork_Node]] show ?thesis by blast
    qed (use t Some in \<open>simp_all add: walk_expand_def\<close>)
  qed (simp add: walk_expand_def)
  then show "t \<in> set (node_ids dag)" using by_id_known[of dag t] by simp
qed

lemma fresh_edge:
  assumes "by_id dag x = Some node" and "edge \<in> set (binding_edges node)"
  shows "produced_bindings w node (fst edge) \<inter> future w dag (snd edge) = {}"
proof -
  have "node \<in> set (dag_nodes dag)" using by_id_node[OF assms(1)] by blast
  with fresh assms(2) have "if produced_bindings w node (fst edge) = {} then True
      else produced_bindings w node (fst edge) \<inter> future w dag (snd edge) = {}" unfolding no_rebinding_def by blast
  then show ?thesis by (auto split: if_splits)
qed

lemma typed_check:
  assumes "by_id dag x = Some (Check_Node n)" and "map_of (wi_checks w) (cn_check n) = Some ck" and "typed_at x c"
  shows "\<exists>r. ck_evaluate ck c = Inr r \<and> cr_branch r \<in> set (ck_branches ck) \<and>
    distinct (map kind_of (cr_bindings r)) \<and> kind_of ` set (cr_bindings r) \<inter> kinds c = {} \<and>
    (\<forall>t. map_of (cn_branches n) (cr_branch r) = Some t \<longrightarrow>
      typed_at t (c\<lparr>dc_bindings := dc_bindings c @ cr_bindings r\<rparr>))"
proof -
  from assms(3) obtain here where here: "guarantees_of w dag x = Some here" "here \<subseteq> kinds c"
    "future w dag x \<inter> kinds c = {}" "extra x c" by (auto simp: typed_at_def)
  have needs: "set (ck_requires ck) \<subseteq> kinds c"
    using accepted_requirement[OF accepted assms(1) here(1)] here(2) by (simp add: assms(2))
  from checks[OF assms(1,2) here(4) needs, unfolded honours_at_def] obtain r where
    r: "ck_evaluate ck c = Inr r" "cr_branch r \<in> set (ck_branches ck)"
      "kind_of ` set (cr_bindings r) = produced_by ck (cr_branch r)" "distinct (map kind_of (cr_bindings r))" by blast
  have produced: "produced_bindings w (Check_Node n) (cr_branch r) = produced_by ck (cr_branch r)"
    by (simp add: assms(2))
  from accepted_check[OF accepted assms(1)] obtain ck' where ck':
    "map_of (wi_checks w) (cn_check n) = Some ck'" "set (map fst (cn_branches n)) = set (ck_branches ck')"
    "\<And>b t. (b, t) \<in> set (cn_branches n) \<Longrightarrow> by_id dag t \<noteq> None" by blast
  from ck'(1,2) assms(2) r(2) have "cr_branch r \<in> fst ` set (cn_branches n)" by simp
  then obtain t0 where t0: "(cr_branch r, t0) \<in> set (cn_branches n)" by (metis imageE surjective_pairing)
  then have "produced_by ck (cr_branch r) \<subseteq> produced_at w (Some (Check_Node n))"
    using UN_upper[OF t0, of "\<lambda>e. produced_bindings w (Check_Node n) (fst e)"] produced
    by (simp add: produced_at_def del: produced_bindings.simps)
  with future_self[OF assms(1), of w] here(3) r(3)
  have disjoint: "kind_of ` set (cr_bindings r) \<inter> kinds c = {}" by blast
  have "typed_at t (c\<lparr>dc_bindings := dc_bindings c @ cr_bindings r\<rparr>)"
    if t: "map_of (cn_branches n) (cr_branch r) = Some t" for t
  proof -
    from map_of_SomeD[OF t] have edge: "(cr_branch r, t) \<in> set (binding_edges (Check_Node n))" by simp
    from promised_edge[OF assms(1) edge here(1)] obtain s where
      s: "guarantees_of w dag t = Some s" "s \<subseteq> here \<union> produced_by ck (cr_branch r)" unfolding produced by blast
    from edge have "t \<in> set (walk_expand dag x)" using assms(1) by (force simp: walk_expand_def)
    moreover have "x \<in> set (node_ids dag)" using assms(1) by_id_known[of dag x] by simp
    ultimately have "future w dag t \<subseteq> future w dag x" using future_on targets_known by blast
    moreover have "produced_by ck (cr_branch r) \<inter> future w dag t = {}"
      using fresh_edge[OF assms(1) edge] produced by simp
    moreover have "extra t (c\<lparr>dc_bindings := dc_bindings c @ cr_bindings r\<rparr>)"
      by (rule extra_check[OF assms(1,2) here(4) needs r(1) t])
    ultimately show ?thesis using s here(2,3) r(3) unfolding typed_at_def kinds_with by blast
  qed
  with r disjoint show ?thesis by blast
qed

lemma typed_fork:
  assumes "by_id dag x = Some (Fork_Node f)" and "(b, t) \<in> set (fn_branches f)" and "typed_at x c"
  shows "typed_at t c"
proof -
  from assms(3) obtain here where here: "guarantees_of w dag x = Some here" "here \<subseteq> kinds c"
    "future w dag x \<inter> kinds c = {}" "extra x c" by (auto simp: typed_at_def)
  from promised_edge[OF assms(1), of b t w here] assms(2) here(1) obtain s where
    "guarantees_of w dag t = Some s" "s \<subseteq> here" by auto
  moreover have "t \<in> set (walk_expand dag x)" using assms(1,2) by (force simp: walk_expand_def)
  moreover have "x \<in> set (node_ids dag)" using assms(1) by_id_known[of dag x] by simp
  ultimately show ?thesis
    using here future_on[of dag t x w] targets_known extra_fork[OF assms(1,2)] unfolding typed_at_def by blast
qed

lemma typed_leaf:
  assumes "by_id dag x = Some (Leaf_Node l)" and "viable (ln_outcome l)" and "ln_render l = Some rc"
    and "map_of (wi_renderers w) rc = Some rd" and "typed_at x c"
  shows "\<exists>s. ren_render rd c tgt = Inr s"
proof -
  from assms(5) obtain here where here: "guarantees_of w dag x = Some here" "here \<subseteq> kinds c" "extra x c"
    by (auto simp: typed_at_def)
  have "set (ren_requires rd) \<subseteq> kinds c"
    using accepted_requirement[OF accepted assms(1) here(1)] here(2) assms(3,4) by auto
  then show ?thesis by (rule renderers[OF assms(1-4) here(3)])
qed

end

sublocale typed_graph \<subseteq> walk: annotated_walk w dag typed_at tgt
proof
  show "\<exists>r. res_evaluate rs outcomes = Inr r \<and> rr_result r \<in> set (res_results rs)"
    if "map_of (wi_resolvers w) (rn_resolver m) = Some rs" for m rs outcomes
    using resolvers[OF that] by (simp add: resolver_honours_def)
qed (fact accepted nested typed_check typed_fork typed_leaf)+

context typed_graph
begin

theorem typed_evaluation_ends:
  assumes "dc_bindings c = []" and "extra (dag_root dag) c"
  shows "\<exists>m st. Result_Node m \<in> set (dag_nodes dag) \<and>
    evaluate_target sha w dag c tgt = Some (Inr (end_walk sha dag tgt m st))"
  by (rule walk.evaluation_ends) (simp add: typed_at_def promised_root assms kinds_def)

end

lemma honest_wiring_ends:
  assumes "validate_dag w dag = Inr ()" and "well_nested dag" and "no_rebinding w dag"
    and "\<forall>x \<in> set (wi_checks w). check_honours (snd x)"
    and "\<forall>x \<in> set (wi_resolvers w). resolver_honours (snd x)"
    and "\<forall>x \<in> set (wi_renderers w). renderer_honours tgt (snd x)"
    and "dc_bindings c = []"
  shows "\<exists>m st. Result_Node m \<in> set (dag_nodes dag) \<and>
    evaluate_target sha w dag c tgt = Some (Inr (end_walk sha dag tgt m st))"
proof -
  have "typed_graph w dag tgt (\<lambda>_ _. True)"
  proof (unfold_locales, goal_cases)
    case (4 x n ck c)
    with assms(4) map_of_SomeD[OF 4(2)] show ?case by (fastforce simp: check_honours_def)
  next
    case (5 name' rs)
    with assms(5) map_of_SomeD[OF 5] show ?case by fastforce
  next
    case (8 x l rc rd c)
    with assms(6) map_of_SomeD[OF 8(4)] show ?case by (fastforce simp: renderer_honours_def)
  qed (fact assms TrueI)+
  from typed_graph.typed_evaluation_ends[OF this assms(7)] show ?thesis by simp
qed

end
