(* ===== verification/Inf_Accepted.thy ===== *)
theory Inf_Accepted
  imports Inf_Graphs Inf_Typed
begin

text \<open>
  The startup validation of \<open>registry.py\<close>, evaluated: the three deployed graphs are accepted in the
  deployed wiring, their forks are nested and no walk of them binds a kind twice. The validator reads
  declarations only, so it is evaluated on the wiring without the code of its parts.
\<close>

section \<open>A wiring without its code\<close>

definition mute_check :: "decision_context \<Rightarrow> ree_error + check_result" where
  "mute_check c = Inl (Key_Error [])"

definition mute_resolver :: "(string \<times> strategy_outcome) list \<Rightarrow> ree_error + resolver_result" where
  "mute_resolver outcomes = Inl (Key_Error [])"

definition mute_renderer :: "decision_context \<Rightarrow> script_target \<Rightarrow> ree_error + rendered_script" where
  "mute_renderer c tgt = Inl (Key_Error [])"

definition muted :: "wiring \<Rightarrow> wiring" where
  "muted w = \<lparr>wi_checks = map (\<lambda>(k, c). (k, c\<lparr>ck_evaluate := mute_check\<rparr>)) (wi_checks w),
     wi_resolvers = map (\<lambda>(k, r). (k, r\<lparr>res_evaluate := mute_resolver\<rparr>)) (wi_resolvers w),
     wi_renderers = map (\<lambda>(k, r). (k, r\<lparr>ren_render := mute_renderer\<rparr>)) (wi_renderers w)\<rparr>"

lemma muted_lookup [simp]:
  "map_of (wi_checks (muted w)) k = map_option (\<lambda>c. c\<lparr>ck_evaluate := mute_check\<rparr>) (map_of (wi_checks w) k)"
  "map_of (wi_resolvers (muted w)) k = map_option (\<lambda>r. r\<lparr>res_evaluate := mute_resolver\<rparr>) (map_of (wi_resolvers w) k)"
  "map_of (wi_renderers (muted w)) k = map_option (\<lambda>r. r\<lparr>ren_render := mute_renderer\<rparr>) (map_of (wi_renderers w) k)"
  by (simp_all add: muted_def map_of_map)

lemma muted_validate_node: "validate_node (muted w) dag node = validate_node w dag node"
  by (cases node) (simp_all add: validate_check_def validate_leaf_def validate_resolve_def split: option.split)

lemma muted_produced: "produced_bindings (muted w) node branch = produced_bindings w node branch"
  by (cases node) (simp_all add: produced_by_def split: option.split)

lemma muted_requirement: "requirement (muted w) node = requirement w node"
proof (cases node)
  case (Leaf_Node n)
  then show ?thesis
    by (cases "ln_render n"; cases "map_of (wi_renderers w) (the (ln_render n))") simp_all
qed (simp_all split: option.split)

lemma muted_relax: "relax_node (muted w) = relax_node w"
proof -
  have "relax_edge (muted w) = relax_edge w" by (intro ext) (simp add: relax_edge_def muted_produced)
  then show ?thesis by (intro ext) (simp add: relax_node_def split: option.split)
qed

lemma muted_sweep: "sweep (muted w) nodes incoming = sweep w nodes incoming"
  by (simp add: sweep_def muted_relax)

lemma muted_guaranteed: "guaranteed (muted w) nodes incoming = guaranteed w nodes incoming"
proof (induction w nodes incoming rule: guaranteed.induct)
  case (1 w nodes incoming)
  then show ?case
    by (subst (1 2) guaranteed.simps) (simp add: muted_sweep split: prod.split)
qed

lemma validate_muted: "validate_dag (muted w) dag = validate_dag w dag"
  by (simp add: validate_dag_def validate_bindings_def guarantees_of_def muted_guaranteed
      muted_requirement muted_validate_node[abs_def] cong: if_cong)

lemma muted_future: "future (muted w) dag x = future w dag x"
proof -
  have "produced_at (muted w) node = produced_at w node" for node
    by (simp add: produced_at_def muted_produced split: option.split)
  then show ?thesis by (simp add: future_def del: explore.simps split: option.split)
qed

lemma no_rebinding_muted: "no_rebinding (muted w) dag = no_rebinding w dag"
  by (simp add: no_rebinding_def muted_produced muted_future)

definition registry_declarations :: wiring where
  "registry_declarations = muted (registry (\<lambda>x. x) (\<lambda>_. Inl (Key_Error [])))"

definition build_declarations :: wiring where
  "build_declarations = muted build_wiring"

lemmas declaration_defs = muted_def registry_def registry_checks_def registry_renderers_def build_checks_def
  build_resolvers_def build_renderers_def logical_project_root_check_def dockerfiles_at_project_root_check_def
  nested_dockerfiles_check_def requirements_at_project_root_check_def declared_runtime_path_check_def
  runtime_artifact_state_check_def inspect_runtime_artifact_check_def unchanged_generated_build_check_def
  runtime_contract_kind_check_def docker_config_commands_check_def requested_experiment_check_def
  score_free_resolver_def docker_build_renderer_def pip_build_renderer_def docker_activation_renderer_def
  venv_activation_renderer_def docker_experiment_renderer_def venv_experiment_renderer_def

lemma registry_muted: "muted (registry sha loads) = registry_declarations"
  by (simp add: registry_declarations_def declaration_defs)

lemma build_muted: "muted build_wiring = build_declarations"
  by (simp add: build_declarations_def build_wiring_def)

lemmas registry_code [code] = registry_declarations_def[unfolded declaration_defs, simplified]
lemmas build_code [code] = build_declarations_def[unfolded declaration_defs build_wiring_def, simplified]

section \<open>The deployed graphs\<close>

lemma build_dag_accepted: "validate_dag build_wiring build_dag = Inr ()"
  unfolding validate_muted[symmetric, of build_wiring] build_muted by code_simp

lemma build_dag_nested: "well_nested build_dag"
  by code_simp

lemma build_dag_fresh: "no_rebinding build_wiring build_dag"
  unfolding no_rebinding_muted[symmetric, of build_wiring] build_muted by code_simp

lemma activation_dag_accepted: "validate_dag (registry sha loads) activation_run_dag = Inr ()"
  unfolding validate_muted[symmetric, of "registry sha loads"] registry_muted by code_simp

lemma activation_dag_nested: "well_nested activation_run_dag"
  by code_simp

lemma activation_dag_fresh: "no_rebinding (registry sha loads) activation_run_dag"
  unfolding no_rebinding_muted[symmetric, of "registry sha loads"] registry_muted by code_simp

lemma experiment_dag_accepted: "validate_dag (registry sha loads) experiment_run_dag = Inr ()"
  unfolding validate_muted[symmetric, of "registry sha loads"] registry_muted by code_simp

lemma experiment_dag_nested: "well_nested experiment_run_dag"
  by code_simp

lemma experiment_dag_fresh: "no_rebinding (registry sha loads) experiment_run_dag"
  unfolding no_rebinding_muted[symmetric, of "registry sha loads"] registry_muted by code_simp

lemma build_dag_registered: "validate_dag (registry sha loads) build_dag = Inr ()"
  unfolding validate_muted[symmetric, of "registry sha loads"] registry_muted by code_simp

lemma build_dag_registered_fresh: "no_rebinding (registry sha loads) build_dag"
  unfolding no_rebinding_muted[symmetric, of "registry sha loads"] registry_muted by code_simp

end
