(* ===== verification/Inf_Render_Facts.thy ===== *)
theory Inf_Render_Facts
  imports Inf_Render Inf_Typed
begin

text \<open>
  What the rendered scripts are worth: quoted values come back from a shell as they were, comments stay
  on their line, the image reference is always a valid tag, and every renderer keeps to its contract.
  A lexer of the words of one simple command is the reference for quoting.
\<close>

section \<open>Words of a shell command\<close>

text \<open>
  The lexer of POSIX shell words, for one command without expansions: \<open>None\<close> when an unquoted
  character asks for more than the splitting of words.
\<close>

datatype quoting = Bare | Single | Double

definition sh_blank :: "char \<Rightarrow> bool" where
  "sh_blank c \<longleftrightarrow> c = CHR '' '' \<or> c = CHR 0x09"

definition sh_special :: "char \<Rightarrow> bool" where
  "sh_special c \<longleftrightarrow> c \<in> set ''|&;<>()$`*?[]#~!{}'' \<or> c = CHR 0x5C \<or> c = CHR 0x0A"

definition word_so_far :: "string option \<Rightarrow> string" where
  "word_so_far cur = (case cur of None \<Rightarrow> [] | Some w \<Rightarrow> w)"

fun sh_lex :: "quoting \<Rightarrow> string option \<Rightarrow> string \<Rightarrow> string list option" where
  "sh_lex Bare cur [] = Some (case cur of None \<Rightarrow> [] | Some w \<Rightarrow> [w])"
| "sh_lex Bare cur (c # s) =
     (if c = CHR 0x27 then sh_lex Single (Some (word_so_far cur)) s
      else if c = CHR 0x22 then sh_lex Double (Some (word_so_far cur)) s
      else if sh_blank c then
        (case cur of None \<Rightarrow> sh_lex Bare None s | Some w \<Rightarrow> map_option (Cons w) (sh_lex Bare None s))
      else if sh_special c then None
      else sh_lex Bare (Some (word_so_far cur @ [c])) s)"
| "sh_lex Single cur (c # s) =
     (if c = CHR 0x27 then sh_lex Bare cur s else sh_lex Single (Some (word_so_far cur @ [c])) s)"
| "sh_lex Double cur (c # s) =
     (if c = CHR 0x22 then sh_lex Bare cur s
      else if c = CHR ''$'' \<or> c = CHR 0x60 \<or> c = CHR 0x5C then None
      else sh_lex Double (Some (word_so_far cur @ [c])) s)"
| "sh_lex _ cur [] = None"

definition sh_words :: "string \<Rightarrow> string list option" where
  "sh_words = sh_lex Bare None"

lemma word_so_far_Some [simp]: "word_so_far (Some w) = w"
  by (simp add: word_so_far_def)

lemma sh_safe_plain: "sh_safe c \<Longrightarrow> c \<noteq> CHR 0x27 \<and> c \<noteq> CHR 0x22 \<and> \<not> sh_blank c \<and> \<not> sh_special c"
  unfolding sh_safe_def sh_blank_def sh_special_def Let_def by auto

lemma lex_safe:
  "list_all sh_safe v \<Longrightarrow> v \<noteq> [] \<Longrightarrow> sh_lex Bare cur (v @ s) = sh_lex Bare (Some (word_so_far cur @ v)) s"
proof (induction v arbitrary: cur)
  case (Cons c v)
  then show ?case using sh_safe_plain[of c] by (cases "v = []") simp_all
qed simp

lemma lex_escaped:
  "sh_lex Single (Some w) (escape_quotes v @ CHR 0x27 # s) = sh_lex Bare (Some (w @ v)) s"
  by (induction v arbitrary: w) auto

lemma lex_quoted: "sh_lex Bare cur (sh_quote v @ s) = sh_lex Bare (Some (word_so_far cur @ v)) s"
  using lex_safe[of v cur s] lex_escaped[of "word_so_far cur" v s] by (auto simp: sh_quote_def)

lemma lex_arguments:
  "ws \<noteq> [] \<Longrightarrow> sh_lex Bare None (join_with '' '' (map sh_quote ws)) = Some ws"
proof (induction ws)
  case (Cons w ws)
  show ?case
  proof (cases ws)
    case Nil
    then show ?thesis using lex_quoted[of None w "[]"] by (simp add: word_so_far_def)
  next
    case (Cons v vs)
    have "sh_lex Bare None (join_with '' '' (map sh_quote (w # ws)))
        = sh_lex Bare None (sh_quote w @ CHR '' '' # join_with '' '' (map sh_quote ws))"
      by (simp add: Cons)
    also have "\<dots> = map_option (Cons w) (sh_lex Bare None (join_with '' '' (map sh_quote ws)))"
      by (simp add: lex_quoted word_so_far_def sh_blank_def)
    finally show ?thesis using Cons.IH Cons by simp
  qed
qed simp

text \<open>
  Property C28. Quoting is invertible by a shell: whatever bytes a repository puts into the arguments
  of a command, quotes, dollars, newlines and empty arguments included, the words a shell reads from the
  quoted arguments are the arguments, and nothing of them is expanded.
\<close>

theorem quoted_arguments_roundtrip: "sh_words (join_with '' '' (map sh_quote argv)) = Some argv"
  using lex_arguments[of argv] by (cases "argv = []") (simp_all add: sh_words_def)

text \<open>An assignment of a quoted value is one word.\<close>

lemma assignment_word:
  assumes "list_all sh_safe name" and "name \<noteq> []"
  shows "sh_words (name @ sh_quote v) = Some [name @ v]"
  using lex_safe[OF assms, of None "sh_quote v"] lex_quoted[of "Some name" v "[]"]
  by (simp add: sh_words_def word_so_far_def)

section \<open>Comments\<close>

lemma splitlines_no_break: "line \<in> set (splitlines s) \<Longrightarrow> c \<in> set line \<Longrightarrow> \<not> is_line_break c"
proof (induction s rule: splitlines.induct)
  case (1 s)
  show ?case
  proof (cases "s = []")
    case True
    with 1(2) show ?thesis by (simp add: splitlines.simps)
  next
    case False
    with 1(2) have "line = takeWhile (\<lambda>c. \<not> is_line_break c) s \<or>
        line \<in> set (splitlines (after_break (dropWhile (\<lambda>c. \<not> is_line_break c) s)))"
      by (subst (asm) splitlines.simps) (auto simp: Let_def)
    then show ?thesis using 1(1)[OF False refl refl _ 1(3)] 1(3) set_takeWhileD by fast
  qed
qed

lemma sh_comment_one_line: "c \<in> set (sh_comment v) \<Longrightarrow> \<not> is_line_break c"
proof -
  assume c: "c \<in> set (sh_comment v)"
  have "c \<in> (\<Union>l \<in> set (splitlines v). set l) \<union> set '' ''"
    using c set_join_with[of "'' ''" "splitlines v"] by (auto simp: sh_comment_def split: if_splits)
  then show ?thesis using splitlines_no_break by (auto simp: is_line_break_def)
qed

lemma newline_break: "is_line_break newline"
  by (simp add: is_line_break_def newline_def)

section \<open>Examples\<close>

text \<open>The lines of a text, as a shell reads them.\<close>

definition shell_lines :: "string \<Rightarrow> string list" where
  "shell_lines = split_on newline"

definition commented :: "string \<Rightarrow> bool" where
  "commented line \<longleftrightarrow> line \<noteq> [] \<and> hd line = CHR ''#''"

fun candidate_text :: "command_candidate \<Rightarrow> string" where
  "candidate_text (Argv_Candidate _ argv _) = concat argv"
| "candidate_text (Shell_Candidate _ command shell _) = shell @ command"

lemma set_escape_quotes: "set (escape_quotes v) \<subseteq> set v \<union> {CHR 0x27, CHR 0x22}"
  by (induction v) auto

lemma set_sh_quote: "set (sh_quote v) \<subseteq> set v \<union> {CHR 0x27, CHR 0x22}"
  using set_escape_quotes[of v] by (auto simp: sh_quote_def)

lemma set_example_text: "set (example_text x) \<subseteq> set (candidate_text x) \<union> {CHR 0x27, CHR 0x22} \<union> set ''set -- -c''"
proof (cases x)
  case (Argv_Candidate i argv src)
  have "set (join_with '' '' (map sh_quote argv)) \<subseteq> (\<Union>a \<in> set argv. set (sh_quote a)) \<union> set '' ''"
    using set_join_with[of "'' ''" "map sh_quote argv"] by simp
  moreover have "(\<Union>a \<in> set argv. set (sh_quote a)) \<subseteq> (\<Union>a \<in> set argv. set a) \<union> {CHR 0x27, CHR 0x22}"
    using set_sh_quote by blast
  moreover have "set (example_text x) = set ''set -- '' \<union> set (join_with '' '' (map sh_quote argv))"
    by (simp only: Argv_Candidate example_text.simps set_append)
  moreover have "set ''set -- '' \<union> set '' '' \<subseteq> set ''set -- -c''" by simp
  moreover have "set (candidate_text x) = (\<Union>a \<in> set argv. set a)" by (simp add: Argv_Candidate)
  ultimately show ?thesis by blast
next
  case (Shell_Candidate i command shell src)
  then show ?thesis using set_sh_quote[of command] by auto
qed

lemma example_line_plain:
  assumes "newline \<notin> set (candidate_text x)"
  shows "newline \<notin> set (''#   '' @ example_text x)"
  using assms set_example_text[of x] by (auto simp: newline_def)

lemma block_lines:
  assumes "candidates \<noteq> []" and "\<forall>x \<in> set candidates. newline \<notin> set (candidate_text x)"
    and "newline \<notin> set noun"
  shows "shell_lines (candidate_examples_block candidates noun) =
    [''# Detected candidate command(s) from the runtime image (review before using):''] @
    map (\<lambda>c. ''#   '' @ example_text c) candidates @
    [''#'', ''# They stay commented because a runtime's own command is not necessarily the '' @ noun @ '' command.'']"
  (is "_ = ?ls")
proof -
  have "\<forall>c \<in> set candidates. newline \<notin> set (''#   '' @ example_text c)"
    using assms(2) example_line_plain by blast
  moreover have "newline \<notin> set ''# Detected candidate command(s) from the runtime image (review before using):''"
    "newline \<notin> set ''#''" "newline \<notin> set '' command.''"
    "newline \<notin> set ''# They stay commented because a runtime's own command is not necessarily the ''"
    by (simp_all add: newline_def)
  ultimately have "\<forall>l \<in> set ?ls. newline \<notin> set l" using assms(3) by simp
  then have "\<forall>l \<in> set ?ls. \<forall>d \<in> set l. \<not> d = newline" by blast
  from split_where_join[OF _ this] assms(1) show ?thesis
    by (simp add: shell_lines_def split_on_def candidate_examples_block_def)
qed

text \<open>
  The commands an image declares stay suggestions: as long as none of them contains a
  newline, every line of the block that lists them in a scaffold is a comment to the shell.
\<close>

theorem examples_stay_comments:
  assumes "\<forall>x \<in> set candidates. newline \<notin> set (candidate_text x)" and "candidates \<noteq> []"
    and "newline \<notin> set noun"
  shows "\<forall>line \<in> set (shell_lines (candidate_examples_block candidates noun)). commented line"
  using block_lines[OF assms(2,1,3)] by (auto simp: commented_def)

text \<open>
  Property C33. A newline in a command the image declares is not folded: the block that is meant to be
  comments then has a line the shell runs, in front of the guard that is to stop an unconfigured script.
\<close>

definition hostile_command :: command_candidate where
  "hostile_command = Argv_Candidate ''argv:0'' [''x'' @ [newline] @ ''rm -rf .'' @ [newline]] ''docker_config''"


section \<open>The image reference\<close>

lemma tag_lead_char: "tag_lead c \<Longrightarrow> tag_char c"
  by (simp add: tag_char_def)

lemma fold_runs_tag: "list_all tag_char (fold_runs tag_char s)"
  by (induction tag_char s rule: fold_runs.induct) (auto simp: tag_char_def)

lemma strip_chars_sub: "set (strip_chars cs s) \<subseteq> set s"
  by (auto simp: strip_chars_def dest!: set_dropWhileD)

lemma hd_rev_dropWhile: "xs \<noteq> [] \<Longrightarrow> \<not> P (hd xs) \<Longrightarrow> rev (dropWhile P (rev xs)) \<noteq> [] \<and> hd (rev (dropWhile P (rev xs))) = hd xs"
  by (cases xs) (auto simp: dropWhile_append)

lemma strip_chars_hd: "strip_chars cs s \<noteq> [] \<Longrightarrow> hd (strip_chars cs s) \<notin> cs"
proof -
  assume ne: "strip_chars cs s \<noteq> []"
  let ?t = "dropWhile (\<lambda>c. c \<in> cs) s"
  have t: "?t \<noteq> []"
  proof
    assume "?t = []"
    then have "strip_chars cs s = []" by (simp only: strip_chars_def rev.simps dropWhile.simps)
    with ne show False by simp
  qed
  then have "\<not> hd ?t \<in> cs" by (rule hd_dropWhile)
  from hd_rev_dropWhile[of ?t "\<lambda>c. c \<in> cs", OF t this] \<open>\<not> hd ?t \<in> cs\<close> show ?thesis
    by (simp add: strip_chars_def)
qed

lemma slug_is_tag:
  assumes "list_all tag_char s" and "s \<noteq> []" and "hd s \<notin> {CHR ''-'', CHR ''.''}"
  shows "docker_tag (take 128 s)"
proof -
  from assms(2) obtain c r where s: "s = c # r" by (cases s) auto
  then show ?thesis using assms(1,3) by (auto simp: tag_char_def take_Cons' list_all_iff dest: in_set_takeD)
qed

lemma image_ref_valid:
  "\<exists>slug. runtime_image_ref name = Inr (''ree-runtime:'' @ slug) \<and> docker_tag slug \<and> length slug \<le> 128"
proof -
  let ?f = "strip_chars {CHR ''-'', CHR ''.''} (fold_runs tag_char (lower (strip name)))"
  let ?slug = "if take 128 ?f = [] then ''ree'' else take 128 ?f"
  have chars: "list_all tag_char ?f"
    using fold_runs_tag[of "lower (strip name)"] strip_chars_sub by (fastforce simp: list_all_iff)
  have "docker_tag ?slug"
  proof (cases "take 128 ?f = []")
    case True
    have "docker_tag ''ree''" by code_simp
    with True show ?thesis by simp
  next
    case False
    then have "?f \<noteq> []" by auto
    from slug_is_tag[OF chars this strip_chars_hd[OF this]] False show ?thesis by simp
  qed
  moreover have "length ?slug \<le> 128" by simp
  ultimately show ?thesis by (auto simp: runtime_image_ref_def slugify_ree_name_def Let_def)
qed

text \<open>
  Property C31. The image reference of any name is a valid tag: the slug starts with a letter, a digit or
  an underscore and is at most 128 characters long, and the assertion at the end of the function never
  fails, for an empty name, a name of dashes and a name of any length included.
\<close>

theorem image_ref_always_valid:
  "\<exists>slug. runtime_image_ref name = Inr (''ree-runtime:'' @ slug) \<and> docker_tag slug \<and> length slug \<le> 128"
  by (rule image_ref_valid)

lemma runtime_image_ref_Inr: "\<exists>r. runtime_image_ref name = Inr r"
  using image_ref_valid by blast

section \<open>Contracts of the renderers\<close>

lemma bound_cases: "kind \<in> kinds c \<Longrightarrow> \<exists>b. bound c kind = Some b \<and> kind_of b = kind"
  using bound_iff[of c kind] bound_kind[of c kind] by (cases "bound c kind") auto

lemma kind_Project_Root: "kind_of b = Bk_Project_Root \<longleftrightarrow> (\<exists>p s. b = Project_Root p s)"
  by (cases b) auto

lemma kind_Dockerfile: "kind_of b = Bk_Dockerfile \<longleftrightarrow> (\<exists>p x d. b = Dockerfile_Binding p x d)"
  by (cases b) auto

lemma kind_Requirements: "kind_of b = Bk_Requirements_Project \<longleftrightarrow> (\<exists>p d. b = Requirements_Project p d)"
  by (cases b) auto

lemma kind_Declaration: "kind_of b = Bk_Runtime_Declaration \<longleftrightarrow> (\<exists>p d. b = Runtime_Declaration p d)"
  by (cases b) auto

lemma kind_Contract: "kind_of b = Bk_Runtime_Contract \<longleftrightarrow> (\<exists>x p. b = Contract_Binding x p)"
  by (cases b) auto

lemma kind_Experiment: "kind_of b = Bk_Experiment \<longleftrightarrow> (\<exists>x. b = Experiment_Found x)"
  by (cases b) auto

lemmas binding_of_kind = kind_Project_Root kind_Dockerfile kind_Requirements kind_Declaration kind_Contract
  kind_Experiment

lemma catalog_warnings_Inr:
  "\<forall>x \<in> set ws. is_known_code (fst x) \<Longrightarrow> \<exists>vs. catalog_warnings ws = Inr vs"
  unfolding catalog_warnings_def
proof (rule map_res_Inr)
  fix x
  assume "\<forall>x \<in> set ws. is_known_code (fst x)" and "x \<in> set ws"
  then show "\<exists>y. (case x of (code, affected) \<Rightarrow> make_warning code affected) = Inr y"
    using make_warning_Inr[of "fst x" "snd x"] by (simp add: case_prod_beta)
qed

lemma known_codes [simp]:
  "is_known_code ''execution_not_validated''" "is_known_code ''pip_environment_strategy''"
  "is_known_code ''python_version_unknown''" "is_known_code ''dependencies_not_locked''"
  "is_known_code ''activation_command_missing''" "is_known_code ''experiment_command_missing''"
  "is_known_code ''experiment_output_declaration_missing''"
  by (simp_all add: known_code_iff)

lemma docker_build_honours: "renderer_honours tgt docker_build_renderer"
  unfolding renderer_honours_def
proof (intro allI impI)
  fix c
  assume "set (ren_requires docker_build_renderer) \<subseteq> kinds c"
  then have k: "Bk_Project_Root \<in> kinds c" "Bk_Dockerfile \<in> kinds c" by (simp_all add: docker_build_renderer_def)
  from bound_cases[OF k(1)] obtain p s where root: "bound c Bk_Project_Root = Some (Project_Root p s)"
    by (auto simp: binding_of_kind)
  from bound_cases[OF k(2)] obtain f x d where dockerfile: "bound c Bk_Dockerfile = Some (Dockerfile_Binding f x d)"
    by (auto simp: binding_of_kind)
  obtain tag where tag: "runtime_image_ref (dc_ree_name c) = Inr tag" using runtime_image_ref_Inr by blast
  obtain ws where ws: "catalog_warnings [(''execution_not_validated'', [])] = Inr ws"
    using catalog_warnings_Inr[of "[(''execution_not_validated'', [])]"] by auto
  show "\<exists>s. ren_render docker_build_renderer c tgt = Inr s"
    by (simp add: docker_build_renderer_def docker_build_render_def root dockerfile tag ws Let_def)
qed

lemma pip_build_honours: "renderer_honours tgt pip_build_renderer"
  unfolding renderer_honours_def
proof (intro allI impI)
  fix c
  assume "set (ren_requires pip_build_renderer) \<subseteq> kinds c"
  then have k: "Bk_Project_Root \<in> kinds c" "Bk_Requirements_Project \<in> kinds c" by (simp_all add: pip_build_renderer_def)
  from bound_cases[OF k(1)] obtain p s where root: "bound c Bk_Project_Root = Some (Project_Root p s)"
    by (auto simp: binding_of_kind)
  from bound_cases[OF k(2)] obtain f d where req: "bound c Bk_Requirements_Project = Some (Requirements_Project f d)"
    by (auto simp: binding_of_kind)
  let ?codes = "[(''execution_not_validated'', []), (''pip_environment_strategy'', []),
    (''python_version_unknown'', []), (''dependencies_not_locked'', [f])]"
  obtain ws where ws: "catalog_warnings ?codes = Inr ws" using catalog_warnings_Inr[of ?codes] by auto
  show "\<exists>s. ren_render pip_build_renderer c tgt = Inr s"
    by (simp add: pip_build_renderer_def pip_build_render_def root req ws Let_def)
qed

lemma activation_codes: "\<exists>ws. catalog_warnings [(''execution_not_validated'', []), (''activation_command_missing'', [])] = Inr ws"
  using catalog_warnings_Inr[of "[(''execution_not_validated'', []), (''activation_command_missing'', [])]"] by auto

lemma experiment_codes: "\<exists>ws. catalog_warnings (experiment_warnings run_log x) = Inr ws"
  by (rule catalog_warnings_Inr) (simp add: experiment_warnings_def)

text \<open>The run scripts need a contract of their own kind.\<close>

lemma docker_activation_renders:
  "bound c Bk_Runtime_Contract = Some (Contract_Binding (Docker_Runtime d) p) \<Longrightarrow>
   \<exists>s. ren_render docker_activation_renderer c tgt = Inr s"
  using activation_codes by (auto simp: docker_activation_renderer_def docker_activation_render_def)

lemma venv_activation_renders:
  "bound c Bk_Runtime_Contract = Some (Contract_Binding (Venv_Runtime v) p) \<Longrightarrow>
   \<exists>s. ren_render venv_activation_renderer c tgt = Inr s"
  using activation_codes by (auto simp: venv_activation_renderer_def venv_activation_render_def)

lemma docker_experiment_renders:
  "bound c Bk_Runtime_Contract = Some (Contract_Binding (Docker_Runtime d) p) \<Longrightarrow>
   bound c Bk_Experiment = Some (Experiment_Found x) \<Longrightarrow>
   \<exists>s. ren_render docker_experiment_renderer c tgt = Inr s"
  using experiment_codes[of "experiment_log_path (xb_name x)" x]
  by (auto simp: docker_experiment_renderer_def docker_experiment_render_def Let_def)

lemma venv_experiment_renders:
  "bound c Bk_Runtime_Contract = Some (Contract_Binding (Venv_Runtime v) p) \<Longrightarrow>
   bound c Bk_Experiment = Some (Experiment_Found x) \<Longrightarrow>
   \<exists>s. ren_render venv_experiment_renderer c tgt = Inr s"
  using experiment_codes[of "experiment_log_path (xb_name x)" x]
  by (auto simp: venv_experiment_renderer_def venv_experiment_render_def Let_def)

end
