(* ===== verification/Inf_Graph_Facts.thy ===== *)
theory Inf_Graph_Facts
  imports Inf_Accepted Inf_Render_Facts
begin

text \<open>
  Inference as deployed: the three graphs of the registry are accepted, the checks, the resolver and the
  renderers keep to their declarations, and so every requested script gets a result. What the build graph
  answers is a function of the files of the repository alone.
\<close>

section \<open>Contracts of the build checks\<close>

lemma honours_case:
  "honours_at ck c \<longleftrightarrow> (case ck_evaluate ck c of Inl _ \<Rightarrow> False
     | Inr r \<Rightarrow> cr_branch r \<in> set (ck_branches ck) \<and> kind_of ` set (cr_bindings r) = produced_by ck (cr_branch r) \<and>
         distinct (map kind_of (cr_bindings r)))"
  by (auto simp: honours_at_def split: sum.split)

lemmas check_defs = honours_case answered_def produced_by_def Let_def

lemma root_bound: "Bk_Project_Root \<in> kinds c \<Longrightarrow> \<exists>p s. bound c Bk_Project_Root = Some (Project_Root p s)"
  using bound_cases[of Bk_Project_Root c] by (auto simp: binding_of_kind)

lemma logical_project_root_honours: "honours_at logical_project_root_check c"
  by (simp add: check_defs logical_project_root_check_def)

lemma dockerfiles_honours:
  assumes "Bk_Project_Root \<in> kinds c"
  shows "honours_at dockerfiles_at_project_root_check c"
proof -
  from root_bound[OF assms] obtain p s where "bound c Bk_Project_Root = Some (Project_Root p s)" by blast
  then show ?thesis
    by (simp add: check_defs dockerfiles_at_project_root_check_def with_project_root_def split: list.split)
qed

lemma nested_dockerfiles_honours: "honours_at nested_dockerfiles_check c"
  by (simp add: check_defs nested_dockerfiles_check_def)

lemma requirements_honours:
  assumes "Bk_Project_Root \<in> kinds c"
  shows "honours_at requirements_at_project_root_check c"
proof -
  from root_bound[OF assms] obtain p s where "bound c Bk_Project_Root = Some (Project_Root p s)" by blast
  then show ?thesis
    by (simp add: check_defs requirements_at_project_root_check_def with_project_root_def split: list.split)
qed

lemma build_checks_honour: "\<forall>x \<in> set build_checks. check_honours (snd x)"
  using logical_project_root_honours dockerfiles_honours nested_dockerfiles_honours requirements_honours
  by (simp add: build_checks_def check_honours_def dockerfiles_at_project_root_check_def
    requirements_at_project_root_check_def)

lemma score_free_honours: "resolver_honours score_free_resolver"
  by (simp add: resolver_honours_def score_free_resolver_def score_free_evaluate_def Let_def)

lemma build_resolvers_honour: "\<forall>x \<in> set build_resolvers. resolver_honours (snd x)"
  by (simp add: build_resolvers_def score_free_honours)

lemma build_renderers_honour: "\<forall>x \<in> set build_renderers. renderer_honours tgt (snd x)"
  by (simp add: build_renderers_def docker_build_honours pip_build_honours)

section \<open>The build graph\<close>

text \<open>
  Property C27. Evaluating an accepted graph always ends, with a result or with an exception: whatever the
  checks, resolvers and renderers answer, and even in a wiring other than the one it was validated
  with, the walk visits nodes in a topological order of the graph and cannot go round.
\<close>

theorem accepted_graph_walk_ends:
  assumes "validate_dag w dag = Inr ()"
  shows "evaluate_target sha w' dag c tgt \<noteq> None"
  using accepted_walk_terminates[OF assms] by auto

theorem accepted_graph_walk_ends_witness:
  "evaluate_target (\<lambda>s. s) build_wiring build_dag
     \<lparr>dc_facts = \<lparr>rf_logical_project_root = ''.'', rf_dockerfiles = [], rf_requirements_files = []\<rparr>,
      dc_policy = default_policy, dc_ree_name = [], dc_runtime = no_runtime_inputs,
      dc_requested_experiment = [], dc_bindings = []\<rparr> build_target \<noteq> None"
  by (rule accepted_graph_walk_ends[OF build_dag_accepted])


lemma build_wiring_parts [simp]:
  "wi_checks build_wiring = build_checks" "wi_resolvers build_wiring = build_resolvers"
  "wi_renderers build_wiring = build_renderers"
  by (simp_all add: build_wiring_def)


lemma build_evaluates:
  "dc_bindings c = [] \<Longrightarrow> \<exists>m st. Result_Node m \<in> set (dag_nodes build_dag) \<and>
     evaluate_target sha build_wiring build_dag c tgt = Some (Inr (end_walk sha build_dag tgt m st))"
  by (rule honest_wiring_ends[OF build_dag_accepted build_dag_nested build_dag_fresh])
    (simp_all add: build_checks_honour build_resolvers_honour build_renderers_honour)

section \<open>Contracts of the run checks\<close>

lemma contract_for_Inr: "\<exists>x. contract_for rule name path = Inr x"
  using runtime_image_ref_Inr[of name] by (auto simp: contract_for_def)

lemma expected_from_Inr: "\<exists>es. expected_from name path cs = Inr es"
proof (induction cs)
  case (Cons x cs)
  from contract_for_Inr[of "sc_inference_rule x" name path] Cons show ?case by auto
qed simp

lemma expected_builds_Inr: "\<exists>es. expected_builds_for_runtime sha c path = Inr es"
proof -
  have "dc_bindings (regeneration_context c path) = []" by (simp add: regeneration_context_def)
  from build_evaluates[OF this, of sha build_target] obtain m st where
    "evaluate_target sha build_wiring build_dag (regeneration_context c path) build_target
      = Some (Inr (end_walk sha build_dag build_target m st))" by blast
  then show ?thesis using expected_from_Inr by (simp add: expected_builds_for_runtime_def)
qed

lemma run_codes [simp]:
  "is_known_code ''runtime_declaration_missing''" "is_known_code ''runtime_outside_project_root''"
  "is_known_code ''runtime_archive_invalid''" "is_known_code ''runtime_image_ref_missing''"
  "is_known_code ''multiple_runtime_images''" "is_known_code ''venv_restore_dir_assumed''"
  "is_known_code ''runtime_artifact_missing''" "is_known_code ''runtime_not_resolved''"
  "is_known_code ''possibly_long_running''" "is_known_code ''shell_required_in_runtime''"
  "is_known_code ''experiment_not_declared''"
  by (simp_all add: known_code_iff)

lemma declaration_bound:
  "Bk_Runtime_Declaration \<in> kinds c \<Longrightarrow> \<exists>p d. bound c Bk_Runtime_Declaration = Some (Runtime_Declaration p d)"
  using bound_cases[of Bk_Runtime_Declaration c] by (auto simp: binding_of_kind)

lemma contract_bound:
  "Bk_Runtime_Contract \<in> kinds c \<Longrightarrow> \<exists>x p. bound c Bk_Runtime_Contract = Some (Contract_Binding x p)"
  using bound_cases[of Bk_Runtime_Contract c] by (auto simp: binding_of_kind)

lemma declared_runtime_path_honours:
  assumes "Bk_Project_Root \<in> kinds c"
  shows "honours_at declared_runtime_path_check c"
proof -
  from root_bound[OF assms] obtain p s where root: "bound c Bk_Project_Root = Some (Project_Root p s)" by blast
  obtain v1 where v1: "make_warning ''runtime_declaration_missing'' [] = Inr v1" using make_warning_Inr by fastforce
  show ?thesis
  proof (cases "declared_path c")
    case None
    with root v1 show ?thesis by (simp add: check_defs declared_runtime_path_check_def with_project_root_def)
  next
    case (Some d)
    obtain v2 where "make_warning ''runtime_outside_project_root'' [d] = Inr v2" using make_warning_Inr by fastforce
    with Some root show ?thesis
      by (cases "within_project_root d p")
        (simp_all add: check_defs declared_runtime_path_check_def with_project_root_def)
  qed
qed

lemma runtime_artifact_state_honours:
  assumes "Bk_Runtime_Declaration \<in> kinds c"
  shows "honours_at runtime_artifact_state_check c"
  using declaration_bound[OF assms]
  by (auto simp: check_defs runtime_artifact_state_check_def with_declaration_def)

lemma invalid_artifact_honours:
  "\<exists>r. invalid_artifact path reason = Inr r \<and> cr_branch r = ''invalid'' \<and> cr_bindings r = []"
  using make_warning_Inr[of "''runtime_archive_invalid''" "[path]"]
  by (auto simp: invalid_artifact_def answered_def)

text \<open>The runtime artifacts a walk can open are inspected without an exception.\<close>

definition inspectable :: "(string \<Rightarrow> ree_error + json) \<Rightarrow> decision_context \<Rightarrow> bool" where
  "inspectable loads c \<longleftrightarrow> (\<forall>path archive. acc_open (ri_accessor (dc_runtime c)) path = Some archive \<longrightarrow>
     (\<exists>i. inspect_runtime_artifact loads archive = Inr i))"

lemma docker_inspected_honours:
  "\<exists>r. docker_inspected path refs argv shell = Inr r \<and>
     (cr_branch r = ''docker_single_ref'' \<and> map kind_of (cr_bindings r) = [Bk_Runtime_Contract, Bk_Image_Command] \<or>
      cr_branch r \<in> {''docker_no_ref'', ''docker_multiple_refs''} \<and> cr_bindings r = [])"
  using make_warning_Inr[of "''runtime_image_ref_missing''" "[path]"]
    make_warning_Inr[of "''multiple_runtime_images''" "[path]"]
  by (auto simp: docker_inspected_def answered_def split: list.split)

lemma venv_inspected_honours:
  "\<exists>r. venv_inspected path dir = Inr r \<and> cr_branch r = ''venv'' \<and> map kind_of (cr_bindings r) = [Bk_Runtime_Contract]"
  using catalog_warnings_Inr[of "[(''venv_restore_dir_assumed'', [path])]"]
  by (auto simp: venv_inspected_def answered_def Let_def)

lemma inspect_honours:
  assumes "Bk_Runtime_Declaration \<in> kinds c" and "inspectable loads c"
  shows "honours_at (inspect_runtime_artifact_check loads) c"
proof -
  from declaration_bound[OF assms(1)] obtain p d where
    b: "bound c Bk_Runtime_Declaration = Some (Runtime_Declaration p d)" by blast
  show ?thesis
  proof (cases "acc_open (ri_accessor (dc_runtime c)) p")
    case None
    with b invalid_artifact_honours[of p "''runtime artifact unreadable''"] show ?thesis
      by (auto simp: honours_case produced_by_def inspect_runtime_artifact_check_def with_declaration_def)
  next
    case (Some archive)
    with assms(2) obtain i where i: "inspect_runtime_artifact loads archive = Inr i"
      unfolding inspectable_def by blast
    show ?thesis
    proof (cases i)
      case (Docker_Archive refs argv shell)
      with b Some i docker_inspected_honours[of p refs argv shell] show ?thesis
        by (auto simp: honours_case produced_by_def inspect_runtime_artifact_check_def with_declaration_def)
    next
      case (Venv_Archive dir)
      with b Some i venv_inspected_honours[of p dir] show ?thesis
        by (auto simp: honours_case produced_by_def inspect_runtime_artifact_check_def with_declaration_def)
    next
      case (Unrecognized reason)
      with b Some i invalid_artifact_honours[of p reason] show ?thesis
        by (auto simp: honours_case produced_by_def inspect_runtime_artifact_check_def with_declaration_def)
    qed
  qed
qed

lemma unchanged_build_honours:
  assumes "Bk_Runtime_Declaration \<in> kinds c"
  shows "honours_at (unchanged_generated_build_check sha) c"
proof -
  from declaration_bound[OF assms] obtain p d where
    b: "bound c Bk_Runtime_Declaration = Some (Runtime_Declaration p d)" by blast
  from expected_builds_Inr[of sha c p] obtain es where es: "expected_builds_for_runtime sha c p = Inr es" by blast
  let ?codes = "[(''runtime_artifact_missing'', [p]), (''runtime_not_resolved'', [])]"
  obtain ws where "catalog_warnings ?codes = Inr ws" using catalog_warnings_Inr[of ?codes] by auto
  with b es show ?thesis
    by (simp add: check_defs unchanged_generated_build_check_def with_declaration_def split: option.split)
qed

lemma contract_kind_honours:
  assumes "Bk_Runtime_Contract \<in> kinds c"
  shows "honours_at runtime_contract_kind_check c"
  using contract_bound[OF assms] by (auto simp: check_defs runtime_contract_kind_check_def)

lemma candidate_codes_known: "\<forall>x \<in> set (snd (candidates_from_binding sha b)). is_known_code (fst x)"
  by (auto simp: candidates_from_binding_def Let_def split: option.splits decision_binding.splits list.splits if_splits)

lemma docker_config_honours: "honours_at (docker_config_commands_check sha) c"
proof -
  obtain cs codes where cs: "candidates_from_binding sha (bound c Bk_Image_Command) = (cs, codes)" by fastforce
  with candidate_codes_known[of sha "bound c Bk_Image_Command"] catalog_warnings_Inr[of codes]
  obtain ws where "catalog_warnings codes = Inr ws" by auto
  with cs show ?thesis by (simp add: check_defs docker_config_commands_check_def)
qed

lemma requested_experiment_honours: "honours_at requested_experiment_check c"
  using make_warning_Inr[of "''experiment_not_declared''" "[]"]
  by (auto simp: check_defs requested_experiment_check_def split: option.split)

section \<open>The run graphs\<close>

lemma registry_parts [simp]:
  "wi_checks (registry sha loads) = registry_checks sha loads" "wi_resolvers (registry sha loads) = build_resolvers"
  "wi_renderers (registry sha loads) = registry_renderers"
  by (simp_all add: registry_def)

lemma registry_honours:
  assumes "map_of (registry_checks sha loads) name = Some ck" and "inspectable loads c"
    and "set (ck_requires ck) \<subseteq> kinds c"
  shows "honours_at ck c"
proof -
  from map_of_SomeD[OF assms(1)] have "(name, ck) \<in> set (registry_checks sha loads)" .
  then have "ck \<in> snd ` set build_checks \<or> ck \<in> {declared_runtime_path_check, runtime_artifact_state_check,
      inspect_runtime_artifact_check loads, unchanged_generated_build_check sha, runtime_contract_kind_check,
      docker_config_commands_check sha, requested_experiment_check}"
    by (force simp: registry_checks_def)
  then show ?thesis
  proof
    assume "ck \<in> snd ` set build_checks"
    with build_checks_honour assms(3) show ?thesis by (auto simp: check_honours_def)
  next
    assume "ck \<in> {declared_runtime_path_check, runtime_artifact_state_check,
      inspect_runtime_artifact_check loads, unchanged_generated_build_check sha, runtime_contract_kind_check,
      docker_config_commands_check sha, requested_experiment_check}"
    with assms(3) declared_runtime_path_honours[of c] runtime_artifact_state_honours[of c]
      inspect_honours[OF _ assms(2)] unchanged_build_honours[of c sha] contract_kind_honours[of c]
      docker_config_honours[of sha c] requested_experiment_honours[of c]
    show ?thesis
      by (auto simp: declared_runtime_path_check_def[THEN arg_cong[where f = ck_requires]]
        runtime_artifact_state_check_def[THEN arg_cong[where f = ck_requires]]
        inspect_runtime_artifact_check_def[THEN arg_cong[where f = ck_requires]]
        unchanged_generated_build_check_def[THEN arg_cong[where f = ck_requires]]
        runtime_contract_kind_check_def[THEN arg_cong[where f = ck_requires]])
  qed
qed

text \<open>What a walk knows of the contract once a branch has asked for its kind.\<close>

definition run_extra :: "(string \<Rightarrow> ree_error + json) \<Rightarrow> string \<Rightarrow> decision_context \<Rightarrow> bool" where
  "run_extra loads x c \<longleftrightarrow> inspectable loads c \<and>
     (x \<in> {''docker-config'', ''docker-command''} \<longrightarrow>
       (\<exists>d p. bound c Bk_Runtime_Contract = Some (Contract_Binding (Docker_Runtime d) p))) \<and>
     (x = ''venv-command'' \<longrightarrow>
       (\<exists>v p. bound c Bk_Runtime_Contract = Some (Contract_Binding (Venv_Runtime v) p)))"

definition run_dags :: "decision_dag set" where
  "run_dags = {activation_run_dag, experiment_run_dag}"

definition target_cases :: "check_node \<Rightarrow> string \<Rightarrow> string \<Rightarrow> bool" where
  "target_cases n b t \<longleftrightarrow> t \<notin> {''docker-config'', ''docker-command'', ''venv-command''} \<or>
     t = ''docker-config'' \<and> cn_check n = ''runtime_contract_kind'' \<and> b = ''docker'' \<or>
     t = ''docker-command'' \<and> cn_id n = ''docker-config'' \<and> cn_check n = ''docker_config_commands'' \<or>
     t = ''venv-command'' \<and> cn_check n = ''runtime_contract_kind'' \<and> b = ''venv''"

definition leaf_cases :: "leaf_node \<Rightarrow> string \<Rightarrow> bool" where
  "leaf_cases l r \<longleftrightarrow>
     ln_id l = ''docker-command'' \<and> r \<in> {''docker_activation_v1'', ''docker_experiment_v1''} \<or>
     ln_id l = ''venv-command'' \<and> r \<in> {''venv_activation_v1'', ''venv_experiment_v1''}"

fun node_cases :: "decision_node \<Rightarrow> bool" where
  "node_cases (Check_Node n) \<longleftrightarrow> list_all (\<lambda>e. target_cases n (fst e) (snd e)) (cn_branches n)"
| "node_cases (Fork_Node f) \<longleftrightarrow>
     list_all (\<lambda>(b, t). t \<notin> {''docker-config'', ''docker-command'', ''venv-command''}) (fn_branches f)"
| "node_cases (Leaf_Node l) \<longleftrightarrow> (case ln_render l of None \<Rightarrow> True | Some r \<Rightarrow> leaf_cases l r)"
| "node_cases _ \<longleftrightarrow> True"

lemma activation_cases: "list_all node_cases (dag_nodes activation_run_dag)"
  by code_simp

lemma experiment_cases: "list_all node_cases (dag_nodes experiment_run_dag)"
  by code_simp

lemma activation_is_run: "activation_run_dag \<in> run_dags" and experiment_is_run: "experiment_run_dag \<in> run_dags"
  by (simp_all add: run_dags_def)

lemma run_cases: "dag \<in> run_dags \<Longrightarrow> by_id dag x = Some node \<Longrightarrow> node_cases node"
  using activation_cases experiment_cases by_id_node[of dag x node] by (auto simp: run_dags_def list_all_iff)

lemma find_first: "List.find P xs = Some b \<Longrightarrow> List.find P (xs @ ys) = Some b"
  by (induction xs) (auto split: if_splits)

lemma bound_keeps: "bound c k = Some b \<Longrightarrow> bound (c\<lparr>dc_bindings := dc_bindings c @ bs\<rparr>) k = Some b"
  by (simp add: bound_def find_first)

lemma kind_check_branch:
  assumes "ck_evaluate runtime_contract_kind_check c = Inr r"
  shows "cr_bindings r = [] \<and>
    (cr_branch r = ''docker'' \<longrightarrow> (\<exists>d p. bound c Bk_Runtime_Contract = Some (Contract_Binding (Docker_Runtime d) p))) \<and>
    (cr_branch r = ''venv'' \<longrightarrow> (\<exists>v p. bound c Bk_Runtime_Contract = Some (Contract_Binding (Venv_Runtime v) p)))"
proof -
  from assms obtain x p where b: "bound c Bk_Runtime_Contract = Some (Contract_Binding x p)"
    by (auto simp: runtime_contract_kind_check_def split: option.splits decision_binding.splits)
  with assms show ?thesis
    by (cases x) (auto simp: runtime_contract_kind_check_def answered_def Let_def)
qed

lemma check_codes:
  "ck_code logical_project_root_check = ''logical_project_root''"
  "ck_code dockerfiles_at_project_root_check = ''dockerfiles_at_project_root''"
  "ck_code nested_dockerfiles_check = ''nested_dockerfiles''"
  "ck_code requirements_at_project_root_check = ''requirements_at_project_root''"
  "ck_code declared_runtime_path_check = ''declared_runtime_path''"
  "ck_code runtime_artifact_state_check = ''runtime_artifact_state''"
  "ck_code (inspect_runtime_artifact_check loads) = ''inspect_runtime_artifact''"
  "ck_code (unchanged_generated_build_check sha) = ''unchanged_generated_build''"
  "ck_code runtime_contract_kind_check = ''runtime_contract_kind''"
  by (simp_all add: logical_project_root_check_def dockerfiles_at_project_root_check_def
    nested_dockerfiles_check_def requirements_at_project_root_check_def declared_runtime_path_check_def
    runtime_artifact_state_check_def inspect_runtime_artifact_check_def unchanged_generated_build_check_def
    runtime_contract_kind_check_def)

lemma registry_lookup:
  "map_of (registry_checks sha loads) ''runtime_contract_kind'' = Some runtime_contract_kind_check"
  by (simp add: registry_checks_def build_checks_def check_codes)

lemma run_extra_check:
  assumes "dag \<in> run_dags" and "by_id dag x = Some (Check_Node n)"
    and "map_of (registry_checks sha loads) (cn_check n) = Some ck" and "run_extra loads x c"
    and "ck_evaluate ck c = Inr r" and "map_of (cn_branches n) (cr_branch r) = Some t"
  shows "run_extra loads t (c\<lparr>dc_bindings := dc_bindings c @ cr_bindings r\<rparr>)"
proof -
  let ?c = "c\<lparr>dc_bindings := dc_bindings c @ cr_bindings r\<rparr>"
  have ok: "inspectable loads ?c" using assms(4) by (simp add: run_extra_def inspectable_def)
  have "\<forall>x \<in> set (cn_branches n). target_cases n (fst x) (snd x)"
    using run_cases[OF assms(1,2)] by (simp only: node_cases.simps list_all_iff)
  from bspec[OF this map_of_SomeD[OF assms(6)]] have "target_cases n (cr_branch r) t" by simp
  then consider (plain) "t \<notin> {''docker-config'', ''docker-command'', ''venv-command''}"
    | (docker) "t = ''docker-config''" "cn_check n = ''runtime_contract_kind''" "cr_branch r = ''docker''"
    | (command) "t = ''docker-command''" "cn_id n = ''docker-config''"
    | (venv) "t = ''venv-command''" "cn_check n = ''runtime_contract_kind''" "cr_branch r = ''venv''"
    unfolding target_cases_def by (elim disjE conjE) iprover+
  moreover have kind: "?c = c \<and>
      (cr_branch r = ''docker'' \<longrightarrow> (\<exists>d p. bound c Bk_Runtime_Contract = Some (Contract_Binding (Docker_Runtime d) p))) \<and>
      (cr_branch r = ''venv'' \<longrightarrow> (\<exists>v p. bound c Bk_Runtime_Contract = Some (Contract_Binding (Venv_Runtime v) p)))"
    if "cn_check n = ''runtime_contract_kind''"
  proof -
    from that assms(3) registry_lookup[of sha loads] have "ck = runtime_contract_kind_check" by simp
    with assms(5) have "ck_evaluate runtime_contract_kind_check c = Inr r" by simp
    from kind_check_branch[OF this] show ?thesis by simp
  qed
  ultimately show ?thesis
  proof cases
    case plain
    with ok show ?thesis by (simp add: run_extra_def)
  next
    case docker
    from kind docker(2,3) show ?thesis using ok docker(1) by (simp add: run_extra_def)
  next
    case command
    with by_id_node[OF assms(2)] have "x = ''docker-config''" by simp
    with assms(4) command ok bound_keeps show ?thesis by (fastforce simp: run_extra_def)
  next
    case venv
    from kind venv(2,3) show ?thesis using ok venv(1) by (simp add: run_extra_def)
  qed
qed

lemma run_extra_fork:
  assumes "dag \<in> run_dags" and "by_id dag x = Some (Fork_Node f)" and "(b, t) \<in> set (fn_branches f)"
    and "run_extra loads x c"
  shows "run_extra loads t c"
  using run_cases[OF assms(1,2)] assms(3,4) by (auto simp: list_all_iff run_extra_def)

lemma renderer_lookup:
  "map_of registry_renderers ''docker_activation_v1'' = Some docker_activation_renderer"
  "map_of registry_renderers ''docker_experiment_v1'' = Some docker_experiment_renderer"
  "map_of registry_renderers ''venv_activation_v1'' = Some venv_activation_renderer"
  "map_of registry_renderers ''venv_experiment_v1'' = Some venv_experiment_renderer"
  by (simp_all add: registry_renderers_def build_renderers_def docker_build_renderer_def pip_build_renderer_def
    docker_activation_renderer_def docker_experiment_renderer_def venv_activation_renderer_def
    venv_experiment_renderer_def)

lemma experiment_bound: "Bk_Experiment \<in> kinds c \<Longrightarrow> \<exists>x. bound c Bk_Experiment = Some (Experiment_Found x)"
  using bound_cases[of Bk_Experiment c] by (auto simp: binding_of_kind)

lemma run_renders:
  assumes "dag \<in> run_dags" and "by_id dag x = Some (Leaf_Node l)" and "ln_render l = Some rc"
    and "map_of registry_renderers rc = Some rd" and "run_extra loads x c" and "set (ren_requires rd) \<subseteq> kinds c"
  shows "\<exists>s. ren_render rd c tgt = Inr s"
proof -
  have cases: "leaf_cases l rc" using run_cases[OF assms(1,2)] assms(3) by simp
  have x: "x = ln_id l" using by_id_node[OF assms(2)] by simp
  from cases consider (da) "x = ''docker-command''" "rd = docker_activation_renderer"
    | (de) "x = ''docker-command''" "rd = docker_experiment_renderer"
    | (va) "x = ''venv-command''" "rd = venv_activation_renderer"
    | (ve) "x = ''venv-command''" "rd = venv_experiment_renderer"
    using assms(4) renderer_lookup x by (auto simp: leaf_cases_def)
  then show ?thesis
  proof cases
    case da
    with assms(5) docker_activation_renders[of c] show ?thesis by (auto simp: run_extra_def)
  next
    case de
    with assms(6) experiment_bound[of c] have "\<exists>x. bound c Bk_Experiment = Some (Experiment_Found x)"
      by (simp add: docker_experiment_renderer_def)
    with de assms(5) docker_experiment_renders[of c] show ?thesis by (auto simp: run_extra_def)
  next
    case va
    with assms(5) venv_activation_renders[of c] show ?thesis by (auto simp: run_extra_def)
  next
    case ve
    with assms(6) experiment_bound[of c] have "\<exists>x. bound c Bk_Experiment = Some (Experiment_Found x)"
      by (simp add: venv_experiment_renderer_def)
    with ve assms(5) venv_experiment_renders[of c] show ?thesis by (auto simp: run_extra_def)
  qed
qed

section \<open>The deployed graphs\<close>

interpretation build_graph: typed_graph build_wiring build_dag tgt "\<lambda>_ _. True" for tgt
proof (unfold_locales, goal_cases)
  case (4 x n ck c)
  with build_checks_honour map_of_SomeD[OF 4(2)] show ?case by (fastforce simp: check_honours_def)
next
  case (5 name' rs)
  with build_resolvers_honour map_of_SomeD[OF 5] show ?case by fastforce
next
  case (8 x l rc rd c)
  with build_renderers_honour[of tgt] map_of_SomeD[OF 8(4)] show ?case by (fastforce simp: renderer_honours_def)
qed (fact build_dag_accepted build_dag_nested build_dag_fresh TrueI)+

lemma resolver_lookup: "map_of build_resolvers name = Some rs \<Longrightarrow> resolver_honours rs"
  using build_resolvers_honour by (fastforce dest: map_of_SomeD)

interpretation activation_graph: typed_graph "registry sha loads" activation_run_dag tgt "run_extra loads"
  for sha loads tgt
proof (unfold_locales, goal_cases)
  case (4 x n ck c)
  then show ?case by (intro registry_honours) (auto simp: run_extra_def)
next
  case (5 name' rs)
  then show ?case by (intro resolver_lookup) simp
next
  case (6 x n ck c r t)
  from 6(2) have "map_of (registry_checks sha loads) (cn_check n) = Some ck" by (simp only: registry_parts)
  from run_extra_check[OF activation_is_run 6(1) this 6(3,5,6)] show ?case .
next
  case (7 x f b t c)
  from run_extra_fork[OF activation_is_run 7] show ?case .
next
  case (8 x l rc rd c)
  from 8(4) have "map_of registry_renderers rc = Some rd" by (simp only: registry_parts)
  from run_renders[OF activation_is_run 8(1,3) this 8(5,6)] show ?case .
qed (fact activation_dag_accepted activation_dag_nested activation_dag_fresh)+

interpretation experiment_graph: typed_graph "registry sha loads" experiment_run_dag tgt "run_extra loads"
  for sha loads tgt
proof (unfold_locales, goal_cases)
  case (4 x n ck c)
  then show ?case by (intro registry_honours) (auto simp: run_extra_def)
next
  case (5 name' rs)
  then show ?case by (intro resolver_lookup) simp
next
  case (6 x n ck c r t)
  from 6(2) have "map_of (registry_checks sha loads) (cn_check n) = Some ck" by (simp only: registry_parts)
  from run_extra_check[OF experiment_is_run 6(1) this 6(3,5,6)] show ?case .
next
  case (7 x f b t c)
  from run_extra_fork[OF experiment_is_run 7] show ?case .
next
  case (8 x l rc rd c)
  from 8(4) have "map_of registry_renderers rc = Some rd" by (simp only: registry_parts)
  from run_renders[OF experiment_is_run 8(1,3) this 8(5,6)] show ?case .
qed (fact experiment_dag_accepted experiment_dag_nested experiment_dag_fresh)+

end
