(* ===== verification/Inf_Build.thy ===== *)
theory Inf_Build
  imports Inf_Graph_Facts
begin

text \<open>
  What the build graph answers, as a function of the repository: the walk of the build graph evaluated for
  every shape of the facts.
\<close>

abbreviation root_node :: check_node where
  "root_node \<equiv> \<lparr>cn_id = ''project-root'', cn_check = ''logical_project_root'',
     cn_branches = [(''root'', ''runtime-strategies''), (''wrapper'', ''runtime-strategies'')]\<rparr>"

abbreviation strategies_fork :: fork_node where
  "strategies_fork \<equiv> \<lparr>fn_id = ''runtime-strategies'',
     fn_branches = [(''dockerfile'', ''dockerfiles-at-root''), (''pip'', ''requirements-at-root'')],
     fn_join = ''resolve-runtime-strategies''\<rparr>"

abbreviation dockerfiles_node :: check_node where
  "dockerfiles_node \<equiv> \<lparr>cn_id = ''dockerfiles-at-root'', cn_check = ''dockerfiles_at_project_root'',
     cn_branches = [(''none'', ''nested-dockerfiles''), (''exactly_one'', ''dockerfile-complete''),
       (''more_than_one'', ''dockerfile-multiple'')]\<rparr>"

abbreviation nested_node :: check_node where
  "nested_node \<equiv> \<lparr>cn_id = ''nested-dockerfiles'', cn_check = ''nested_dockerfiles'',
     cn_branches = [(''none'', ''dockerfile-not-applicable''), (''one_or_more'', ''dockerfile-ambiguous'')]\<rparr>"

abbreviation requirements_node :: check_node where
  "requirements_node \<equiv> \<lparr>cn_id = ''requirements-at-root'', cn_check = ''requirements_at_project_root'',
     cn_branches = [(''none'', ''pip-not-applicable''), (''exactly_one'', ''pip-candidate'')]\<rparr>"

lemma build_lookup:
  "by_id build_dag ''project-root'' = Some (Check_Node root_node)"
  "by_id build_dag ''runtime-strategies'' = Some (Fork_Node strategies_fork)"
  "by_id build_dag ''dockerfiles-at-root'' = Some (Check_Node dockerfiles_node)"
  "by_id build_dag ''nested-dockerfiles'' = Some (Check_Node nested_node)"
  "by_id build_dag ''requirements-at-root'' = Some (Check_Node requirements_node)"
  by code_simp+

lemma build_leaves:
  "by_id build_dag ''dockerfile-complete'' = Some (Leaf_Node ((strategy_leaf ''dockerfile-complete'' ''dockerfile''
     Lo_Complete ''resolve-runtime-strategies'')\<lparr>ln_rule := Some docker_build_rule, ln_render := Some ''docker_build_v1''\<rparr>))"
  "by_id build_dag ''dockerfile-multiple'' = Some (Leaf_Node ((strategy_leaf ''dockerfile-multiple'' ''dockerfile''
     Lo_Blocked ''resolve-runtime-strategies'')\<lparr>ln_rule := Some docker_build_rule, ln_warnings := [''multiple_dockerfiles'']\<rparr>))"
  "by_id build_dag ''dockerfile-ambiguous'' = Some (Leaf_Node ((strategy_leaf ''dockerfile-ambiguous'' ''dockerfile''
     Lo_Blocked ''resolve-runtime-strategies'')\<lparr>ln_rule := Some docker_build_rule, ln_warnings := [''ambiguous_build_context'']\<rparr>))"
  "by_id build_dag ''dockerfile-not-applicable'' = Some (Leaf_Node (strategy_leaf ''dockerfile-not-applicable'' ''dockerfile''
     Lo_Not_Applicable ''resolve-runtime-strategies''))"
  "by_id build_dag ''pip-candidate'' = Some (Leaf_Node ((strategy_leaf ''pip-candidate'' ''pip'' Lo_Candidate
     ''resolve-runtime-strategies'')\<lparr>ln_rule := Some pip_build_rule, ln_render := Some ''pip_venv_build_v1''\<rparr>))"
  "by_id build_dag ''pip-not-applicable'' = Some (Leaf_Node (strategy_leaf ''pip-not-applicable'' ''pip''
     Lo_Not_Applicable ''resolve-runtime-strategies''))"
  by code_simp+

lemma build_resolve:
  "by_id build_dag ''resolve-runtime-strategies'' = Some (Resolve_Node \<lparr>rn_id = ''resolve-runtime-strategies'',
     rn_fork = ''runtime-strategies'', rn_resolver = ''score_free_viability_v1'',
     rn_branches = [(''complete'', ''build-complete''), (''needs_input'', ''build-needs-input''),
       (''not_inferred'', ''build-not-inferred'')]\<rparr>)"
  "by_id build_dag ''build-complete'' = Some (Result_Node \<lparr>tn_id = ''build-complete'', tn_status = Cs_Complete,
     tn_application = Automatic_Allowed\<rparr>)"
  "by_id build_dag ''build-needs-input'' = Some (Result_Node \<lparr>tn_id = ''build-needs-input'', tn_status = Cs_Needs_Input,
     tn_application = Confirmation_Required\<rparr>)"
  "by_id build_dag ''build-not-inferred'' = Some (Result_Node \<lparr>tn_id = ''build-not-inferred'', tn_status = Cs_Not_Inferred,
     tn_application = Unavailable\<rparr>)"
  by code_simp+

lemma build_check_lookup:
  "map_of build_checks ''logical_project_root'' = Some logical_project_root_check"
  "map_of build_checks ''dockerfiles_at_project_root'' = Some dockerfiles_at_project_root_check"
  "map_of build_checks ''nested_dockerfiles'' = Some nested_dockerfiles_check"
  "map_of build_checks ''requirements_at_project_root'' = Some requirements_at_project_root_check"
  by (simp_all add: build_checks_def check_codes)

lemma build_renderer_lookup:
  "map_of build_renderers ''docker_build_v1'' = Some docker_build_renderer"
  "map_of build_renderers ''pip_venv_build_v1'' = Some pip_build_renderer"
  by (simp_all add: build_renderers_def docker_build_renderer_def pip_build_renderer_def)

section \<open>The two branches\<close>

definition docker_outcome :: "repository_facts \<Rightarrow> leaf_outcome" where
  "docker_outcome facts = (case filter ff_at_project_root (rf_dockerfiles facts) of
     [] \<Rightarrow> if filter (\<lambda>d. \<not> ff_at_project_root d) (rf_dockerfiles facts) = [] then Lo_Not_Applicable else Lo_Blocked
   | [_] \<Rightarrow> Lo_Complete
   | _ \<Rightarrow> Lo_Blocked)"

definition pip_outcome :: "repository_facts \<Rightarrow> leaf_outcome" where
  "pip_outcome facts =
     (if filter ff_at_project_root (rf_requirements_files facts) = [] then Lo_Not_Applicable else Lo_Candidate)"

lemma end_branch_outcome:
  assumes "\<forall>code \<in> set (ln_warnings n). is_known_code code"
    and "viable (ln_outcome n) \<Longrightarrow> \<exists>r rd. ln_render n = Some r \<and> map_of (wi_renderers w) r = Some rd \<and>
      (\<exists>s. ren_render rd c tgt = Inr s)"
  shows "\<exists>out b' rendered'. end_branch w n c tgt b rendered = Inr (out, b', rendered') \<and> so_outcome out = ln_outcome n"
proof -
  obtain ws where ws: "map_res (\<lambda>code. make_warning code []) (ln_warnings n) = Inr ws"
    using map_res_Inr[of "ln_warnings n" "\<lambda>code. make_warning code []"] make_warning_Inr assms(1) by blast
  have "\<exists>rendered'. render_leaf w n c tgt rendered = Inr rendered'"
  proof (cases "viable (ln_outcome n)")
    case True
    from assms(2)[OF this] obtain r rd s where "ln_render n = Some r" "map_of (wi_renderers w) r = Some rd"
      "ren_render rd c tgt = Inr s" by blast
    with True show ?thesis by (simp add: render_leaf_def lookup_key_def)
  qed (simp add: render_leaf_def split: option.split)
  with ws show ?thesis by (auto simp: end_branch_def)
qed

lemma build_codes [simp]: "is_known_code ''multiple_dockerfiles''" "is_known_code ''ambiguous_build_context''"
  by (simp_all add: known_code_iff)

lemma leaf_walk:
  assumes "by_id build_dag x = Some (Leaf_Node n)" and "\<forall>code \<in> set (ln_warnings n). is_known_code code"
    and "viable (ln_outcome n) \<Longrightarrow> \<exists>r rd. ln_render n = Some r \<and> map_of build_renderers r = Some rd \<and>
      (\<exists>s. ren_render rd c tgt = Inr s)"
  shows "\<exists>out b' rendered'. walk_branch build_wiring build_dag tgt x c b rendered = Some (Inr (out, b', rendered')) \<and>
    so_outcome out = ln_outcome n"
proof -
  from end_branch_outcome[of n build_wiring c tgt b rendered] assms(2,3) obtain out b' rendered' where
    "end_branch build_wiring n c tgt b rendered = Inr (out, b', rendered')" "so_outcome out = ln_outcome n" by auto
  then show ?thesis by (subst walk_branch.simps) (simp add: assms(1))
qed

lemma strategy_leaf_simps [simp]:
  "ln_outcome (strategy_leaf i st out nxt) = out" "ln_warnings (strategy_leaf i st out nxt) = []"
  "ln_render (strategy_leaf i st out nxt) = None"
  by (simp_all add: strategy_leaf_def)

lemma branch_step:
  assumes "by_id dag x = Some (Check_Node n)" and "run_check w n c = Inr (r, c', t)"
  shows "walk_branch w dag tgt x c b rendered = walk_branch w dag tgt t c' (note_check n r t b) rendered"
  using assms by (subst walk_branch.simps) simp

lemmas run_build_check = run_check_def lookup_key_def build_check_lookup with_project_root_def answered_def
  with_bindings_def

lemma docker_branch:
  assumes "dc_bindings c = [Project_Root p src]"
  shows "\<exists>out b' rendered'. walk_branch build_wiring build_dag tgt ''dockerfiles-at-root'' c b rendered
      = Some (Inr (out, b', rendered')) \<and> so_outcome out = docker_outcome (dc_facts c)"
proof -
  have root: "bound c Bk_Project_Root = Some (Project_Root p src)" by (simp add: bound_def assms)
  let ?at = "filter ff_at_project_root (rf_dockerfiles (dc_facts c))"
  note first = branch_step[OF build_lookup(3), of build_wiring c]
  consider (none) "?at = []" | (one) d where "?at = [d]" | (more) d e ds where "?at = d # e # ds"
    by (metis list.exhaust)
  then show ?thesis
  proof cases
    case none
    have "\<exists>r. run_check build_wiring dockerfiles_node c = Inr (r, c, ''nested-dockerfiles'')"
      by (simp add: run_build_check dockerfiles_at_project_root_check_def root none)
    then obtain r where r: "walk_branch build_wiring build_dag tgt ''dockerfiles-at-root'' c b rendered =
        walk_branch build_wiring build_dag tgt ''nested-dockerfiles'' c (note_check dockerfiles_node r ''nested-dockerfiles'' b) rendered"
      using first by blast
    let ?nested = "filter (\<lambda>d. \<not> ff_at_project_root d) (rf_dockerfiles (dc_facts c)) = []"
    let ?leaf = "if ?nested then ''dockerfile-not-applicable'' else ''dockerfile-ambiguous''"
    have "\<exists>r. run_check build_wiring nested_node c
        = Inr (r, c, ?leaf)"
      by (simp add: run_build_check nested_dockerfiles_check_def Let_def)
    then obtain r2 where r2: "walk_branch build_wiring build_dag tgt ''nested-dockerfiles'' c b2 rendered =
        walk_branch build_wiring build_dag tgt ?leaf c (note_check nested_node r2 ?leaf b2) rendered" for b2
      using branch_step[OF build_lookup(4), of build_wiring c] by blast
    have out: "docker_outcome (dc_facts c) = (if ?nested then Lo_Not_Applicable else Lo_Blocked)"
      by (simp add: docker_outcome_def none)
    show ?thesis unfolding r r2 out
      using leaf_walk[OF build_leaves(4)] leaf_walk[OF build_leaves(3)] by (cases ?nested) (simp_all add: viable_def)
  next
    case one
    let ?c = "c\<lparr>dc_bindings := [Project_Root p src, Dockerfile_Binding (ff_path d) (if p = ''.'' then ''.'' else p) (ff_digest d)]\<rparr>"
    have "\<exists>r. run_check build_wiring dockerfiles_node c = Inr (r, ?c, ''dockerfile-complete'')"
      by (simp add: run_build_check dockerfiles_at_project_root_check_def root one assms)
    then obtain r where r: "walk_branch build_wiring build_dag tgt ''dockerfiles-at-root'' c b rendered =
        walk_branch build_wiring build_dag tgt ''dockerfile-complete'' ?c (note_check dockerfiles_node r ''dockerfile-complete'' b) rendered"
      using first by blast
    have renders: "\<exists>s. ren_render docker_build_renderer ?c tgt = Inr s"
      using docker_build_honours[of tgt]
      by (simp add: renderer_honours_def kinds_def docker_build_renderer_def)
    have out: "docker_outcome (dc_facts c) = Lo_Complete" by (simp add: docker_outcome_def one)
    show ?thesis unfolding r out
      using leaf_walk[OF build_leaves(1), of ?c] renders by (simp add: build_renderer_lookup)
  next
    case more
    have "\<exists>r. run_check build_wiring dockerfiles_node c = Inr (r, c, ''dockerfile-multiple'')"
      by (simp add: run_build_check dockerfiles_at_project_root_check_def root more)
    then obtain r where r: "walk_branch build_wiring build_dag tgt ''dockerfiles-at-root'' c b rendered =
        walk_branch build_wiring build_dag tgt ''dockerfile-multiple'' c (note_check dockerfiles_node r ''dockerfile-multiple'' b) rendered"
      using first by blast
    have out: "docker_outcome (dc_facts c) = Lo_Blocked" by (simp add: docker_outcome_def more)
    show ?thesis unfolding r out
      using leaf_walk[OF build_leaves(2), of c] by (simp add: viable_def)
  qed
qed

lemma pip_branch:
  assumes "dc_bindings c = [Project_Root p src]"
  shows "\<exists>out b' rendered'. walk_branch build_wiring build_dag tgt ''requirements-at-root'' c b rendered
      = Some (Inr (out, b', rendered')) \<and> so_outcome out = pip_outcome (dc_facts c)"
proof -
  have root: "bound c Bk_Project_Root = Some (Project_Root p src)" by (simp add: bound_def assms)
  let ?at = "filter ff_at_project_root (rf_requirements_files (dc_facts c))"
  note first = branch_step[OF build_lookup(5), of build_wiring c]
  show ?thesis
  proof (cases ?at)
    case Nil
    have "\<exists>r. run_check build_wiring requirements_node c = Inr (r, c, ''pip-not-applicable'')"
      by (simp add: run_build_check requirements_at_project_root_check_def root Nil)
    then obtain r where r: "walk_branch build_wiring build_dag tgt ''requirements-at-root'' c b rendered =
        walk_branch build_wiring build_dag tgt ''pip-not-applicable'' c (note_check requirements_node r ''pip-not-applicable'' b) rendered"
      using first by blast
    have out: "pip_outcome (dc_facts c) = Lo_Not_Applicable" by (simp add: pip_outcome_def Nil)
    show ?thesis unfolding r out using leaf_walk[OF build_leaves(6), of c] by (simp add: viable_def)
  next
    case (Cons d ds)
    let ?c = "c\<lparr>dc_bindings := [Project_Root p src, Requirements_Project (ff_path d) (ff_digest d)]\<rparr>"
    have "\<exists>r. run_check build_wiring requirements_node c = Inr (r, ?c, ''pip-candidate'')"
      by (simp add: run_build_check requirements_at_project_root_check_def root Cons assms)
    then obtain r where r: "walk_branch build_wiring build_dag tgt ''requirements-at-root'' c b rendered =
        walk_branch build_wiring build_dag tgt ''pip-candidate'' ?c (note_check requirements_node r ''pip-candidate'' b) rendered"
      using first by blast
    have renders: "\<exists>s. ren_render pip_build_renderer ?c tgt = Inr s"
      using pip_build_honours[of tgt] by (simp add: renderer_honours_def kinds_def pip_build_renderer_def)
    have out: "pip_outcome (dc_facts c) = Lo_Candidate" by (simp add: pip_outcome_def Cons)
    show ?thesis unfolding r out
      using leaf_walk[OF build_leaves(5), of ?c] renders by (simp add: build_renderer_lookup)
  qed
qed

section \<open>The answer\<close>

definition build_status :: "leaf_outcome \<Rightarrow> leaf_outcome \<Rightarrow> candidate_status" where
  "build_status docker pip =
     (if docker = Lo_Complete \<and> pip = Lo_Not_Applicable then Cs_Complete
      else if docker = Lo_Complete \<or> pip = Lo_Candidate then Cs_Needs_Input else Cs_Not_Inferred)"

lemma build_fork:
  assumes "dc_bindings c = [Project_Root p src]" and "ws_outcomes st = []"
  shows "\<exists>st' o1 o2. walk_fork build_wiring build_dag tgt strategies_fork c st = Some (Inr st') \<and>
    ws_outcomes st' = [(''dockerfile'', o1), (''pip'', o2)] \<and>
    so_outcome o1 = docker_outcome (dc_facts c) \<and> so_outcome o2 = pip_outcome (dc_facts c)"
proof -
  have order: "sort (map fst (fn_branches strategies_fork)) = [''dockerfile'', ''pip'']" by code_simp
  let ?st = "st\<lparr>ws_steps := ws_steps st @ [plain_step (fn_id strategies_fork) Sk_Fork
      (''evaluated: '' @ decimal (length (fn_branches strategies_fork)))]\<rparr>"
  from docker_branch[OF assms(1), of tgt no_walk "ws_rendered ?st"] obtain o1 b1 r1 where
    d: "walk_branch build_wiring build_dag tgt ''dockerfiles-at-root'' c no_walk (ws_rendered ?st) = Some (Inr (o1, b1, r1))"
      "so_outcome o1 = docker_outcome (dc_facts c)" by blast
  from pip_branch[OF assms(1), of tgt no_walk r1] obtain o2 b2 r2 where
    p: "walk_branch build_wiring build_dag tgt ''requirements-at-root'' c no_walk r1 = Some (Inr (o2, b2, r2))"
      "so_outcome o2 = pip_outcome (dc_facts c)" by blast
  show ?thesis unfolding walk_fork_def order using d p assms(2) by simp
qed

lemma resolved_status:
  assumes "so_outcome o1 = docker_outcome facts" and "so_outcome o2 = pip_outcome facts"
  shows "\<exists>rr. score_free_evaluate [(''dockerfile'', o1), (''pip'', o2)] = Inr rr \<and>
    rr_result rr = (case build_status (docker_outcome facts) (pip_outcome facts) of Cs_Complete \<Rightarrow> ''complete''
      | Cs_Needs_Input \<Rightarrow> ''needs_input'' | Cs_Not_Inferred \<Rightarrow> ''not_inferred'')"
proof -
  have order: "sort [''dockerfile'', ''pip''] = [''dockerfile'', ''pip'']" by code_simp
  have "docker_outcome facts \<in> {Lo_Complete, Lo_Blocked, Lo_Not_Applicable}"
    by (auto simp: docker_outcome_def split: list.split)
  moreover have "pip_outcome facts \<in> {Lo_Candidate, Lo_Not_Applicable}" by (simp add: pip_outcome_def)
  ultimately show ?thesis
    by (auto simp: score_free_evaluate_def order assms build_status_def viable_def List.map_filter_simps Let_def)
qed

text \<open>
  Property C26. What inference answers for the build script is a function of where the Dockerfiles and
  requirements files are: complete exactly when the logical root has one Dockerfile and no requirements
  file; an open decision when it has one Dockerfile and a requirements file, or a requirements file
  and anything but one Dockerfile; and otherwise nothing. It never depends on the content of the files,
  on the policy or on what the author has declared.
\<close>

theorem build_answer:
  assumes "dc_bindings c = []"
  shows "\<exists>result. evaluate_target sha build_wiring build_dag c tgt = Some (Inr result) \<and>
    ti_status result =
      (let dockerfiles = length (filter ff_at_project_root (rf_dockerfiles (dc_facts c)));
           requirements = length (filter ff_at_project_root (rf_requirements_files (dc_facts c)))
       in if dockerfiles = 1 \<and> requirements = 0 then Cs_Complete
          else if dockerfiles = 1 \<or> requirements \<noteq> 0 then Cs_Needs_Input else Cs_Not_Inferred)"
proof -
  let ?p = "rf_logical_project_root (dc_facts c)"
  let ?c = "c\<lparr>dc_bindings := [Project_Root ?p (if ?p = ''.'' then From_Root else From_Wrapper)]\<rparr>"
  have "\<exists>r. run_check build_wiring root_node c = Inr (r, ?c, ''runtime-strategies'')"
    by (simp add: run_build_check logical_project_root_check_def assms Let_def)
  then obtain r where r: "run_check build_wiring root_node c = Inr (r, ?c, ''runtime-strategies'')" by blast
  let ?st = "note_prefix root_node r ''runtime-strategies'' start_state"
  have "ws_outcomes ?st = []" by (simp add: note_prefix_def start_state_def)
  from build_fork[of ?c, OF _ this, of _ _ tgt] obtain st' o1 o2 where
    f: "walk_fork build_wiring build_dag tgt strategies_fork ?c ?st = Some (Inr st')"
      "ws_outcomes st' = [(''dockerfile'', o1), (''pip'', o2)]"
      "so_outcome o1 = docker_outcome (dc_facts c)" "so_outcome o2 = pip_outcome (dc_facts c)" by auto
  let ?status = "build_status (docker_outcome (dc_facts c)) (pip_outcome (dc_facts c))"
  from resolved_status[OF f(3,4)] obtain rr where
    rr: "score_free_evaluate (ws_outcomes st') = Inr rr" "rr_result rr = (case ?status of Cs_Complete \<Rightarrow> ''complete''
      | Cs_Needs_Input \<Rightarrow> ''needs_input'' | Cs_Not_Inferred \<Rightarrow> ''not_inferred'')" unfolding f(2) by blast
  have walk: "evaluate_target sha build_wiring build_dag c tgt =
      walk_from sha build_wiring build_dag tgt ''resolve-runtime-strategies'' ?c st'"
    unfolding evaluate_target_def
    by (subst walk_from.simps) (simp add: build_dag_def[THEN arg_cong[where f = dag_root]] build_lookup r
      walk_from.simps[of _ _ _ _ "''runtime-strategies''"] f(1))
  have answer: "\<exists>result. walk_from sha build_wiring build_dag tgt ''resolve-runtime-strategies'' ?c st' = Some (Inr result) \<and>
      ti_status result = ?status"
  proof (cases ?status)
    case Cs_Complete
    with rr show ?thesis
      by (simp add: walk_from.simps[of _ _ _ _ "''resolve-runtime-strategies''"] build_resolve run_resolver_def
        lookup_key_def build_resolvers_def score_free_resolver_def walk_from.simps[of _ _ _ _ "''build-complete''"]
        end_walk_def Let_def)
  next
    case Cs_Needs_Input
    with rr show ?thesis
      by (simp add: walk_from.simps[of _ _ _ _ "''resolve-runtime-strategies''"] build_resolve run_resolver_def
        lookup_key_def build_resolvers_def score_free_resolver_def walk_from.simps[of _ _ _ _ "''build-needs-input''"]
        end_walk_def Let_def)
  next
    case Cs_Not_Inferred
    with rr show ?thesis
      by (simp add: walk_from.simps[of _ _ _ _ "''resolve-runtime-strategies''"] build_resolve run_resolver_def
        lookup_key_def build_resolvers_def score_free_resolver_def walk_from.simps[of _ _ _ _ "''build-not-inferred''"]
        end_walk_def Let_def)
  qed
  let ?d = "filter ff_at_project_root (rf_dockerfiles (dc_facts c))"
    and ?r = "filter ff_at_project_root (rf_requirements_files (dc_facts c))"
  have "?status = (if length ?d = 1 \<and> length ?r = 0 then Cs_Complete
      else if length ?d = 1 \<or> length ?r \<noteq> 0 then Cs_Needs_Input else Cs_Not_Inferred)"
    by (cases ?d; cases "tl ?d"; cases ?r) (simp_all add: build_status_def docker_outcome_def pip_outcome_def)
  then show ?thesis using answer unfolding walk Let_def by simp
qed

theorem build_answer_witness:
  "\<exists>result. evaluate_target (\<lambda>s. s) build_wiring build_dag
      \<lparr>dc_facts = \<lparr>rf_logical_project_root = ''.'', rf_dockerfiles =
          [\<lparr>ff_path = ''Dockerfile'', ff_project_relative_path = ''Dockerfile'', ff_digest = ''d'', ff_at_project_root = True\<rparr>],
         rf_requirements_files = []\<rparr>,
       dc_policy = default_policy, dc_ree_name = ''paper'', dc_runtime = no_runtime_inputs,
       dc_requested_experiment = [], dc_bindings = []\<rparr> build_target = Some (Inr result) \<and>
     ti_status result = Cs_Complete"
  using build_answer[of "\<lparr>dc_facts = \<lparr>rf_logical_project_root = ''.'', rf_dockerfiles =
          [\<lparr>ff_path = ''Dockerfile'', ff_project_relative_path = ''Dockerfile'', ff_digest = ''d'', ff_at_project_root = True\<rparr>],
         rf_requirements_files = []\<rparr>,
       dc_policy = default_policy, dc_ree_name = ''paper'', dc_runtime = no_runtime_inputs,
       dc_requested_experiment = [], dc_bindings = []\<rparr>" "\<lambda>s. s" build_target]
  by simp

section \<open>Inference returns\<close>

definition build_leaf :: "decision_node \<Rightarrow> bool" where
  "build_leaf n = (case n of
     Leaf_Node l \<Rightarrow> ln_render l \<in> {None, Some ''docker_build_v1'', Some ''pip_venv_build_v1''} | _ \<Rightarrow> True)"

lemma build_leaf_cases: "list_all build_leaf (dag_nodes build_dag)"
  by code_simp

lemma build_renderers_registered:
  "map_of registry_renderers ''docker_build_v1'' = Some docker_build_renderer"
  "map_of registry_renderers ''pip_venv_build_v1'' = Some pip_build_renderer"
  by (simp_all add: registry_renderers_def build_renderer_lookup map_add_Some_iff)

interpretation registered_build: typed_graph "registry sha loads" build_dag tgt "\<lambda>_. inspectable loads"
  for sha loads tgt
proof (unfold_locales, goal_cases)
  case (4 x n ck c)
  then show ?case by (intro registry_honours) auto
next
  case (5 name' rs)
  then show ?case by (intro resolver_lookup) simp
next
  case (6 x n ck c r t)
  then show ?case by (simp add: inspectable_def)
next
  case (8 x l rc rd c)
  from by_id_node[OF 8(1)] build_leaf_cases have "build_leaf (Leaf_Node l)" by (auto simp: list_all_iff)
  with 8(3) have "rc = ''docker_build_v1'' \<or> rc = ''pip_venv_build_v1''" by (simp add: build_leaf_def)
  with 8(4) build_renderers_registered have "rd = docker_build_renderer \<or> rd = pip_build_renderer" by auto
  with docker_build_honours[of tgt] pip_build_honours[of tgt] 8(6) show ?case
    by (auto simp: renderer_honours_def)
qed (fact build_dag_registered build_dag_nested build_dag_registered_fresh)+

lemma run_graph_answers:
  assumes "dag_for_target_kind (tgt_kind tgt) = Some key" and "dc_bindings c = []" and "inspectable loads c"
  shows "\<exists>dag m st. map_of decision_dags key = Some dag \<and>
    evaluate_target sha (registry sha loads) dag c tgt = Some (Inr (end_walk sha dag tgt m st))"
proof -
  have dags: "map_of decision_dags (dag_key build_dag) = Some build_dag"
    "map_of decision_dags (dag_key activation_run_dag) = Some activation_run_dag"
    "map_of decision_dags (dag_key experiment_run_dag) = Some experiment_run_dag"
    by (simp_all add: decision_dags_def build_dag_def activation_run_dag_def experiment_run_dag_def)
  have start: "run_extra loads (dag_root activation_run_dag) c" "run_extra loads (dag_root experiment_run_dag) c"
    using assms(3) by (simp_all add: run_extra_def activation_run_dag_def experiment_run_dag_def)
  show ?thesis
  proof (cases "tgt_kind tgt")
    case Build_Target
    from registered_build.typed_evaluation_ends[OF assms(2,3)] dags(1) assms(1) Build_Target
    show ?thesis by fastforce
  next
    case Activation_Run
    from activation_graph.typed_evaluation_ends[OF assms(2) start(1)] dags(2) assms(1) Activation_Run
    show ?thesis by fastforce
  next
    case Experiment_Run
    from experiment_graph.typed_evaluation_ends[OF assms(2) start(2)] dags(3) assms(1) Experiment_Run
    show ?thesis by fastforce
  qed (use assms(1) in simp_all)
qed

lemma targets_answer:
  assumes "dc_bindings c = []" and "inspectable loads c"
  shows "\<forall>s \<in> set selectors. \<exists>t. resolve_target s = Inr t \<Longrightarrow>
    \<exists>new used'. infer_targets sha loads c selectors results used = Some (Inr (results @ new, used')) \<and>
      map (\<lambda>r. Inr (ti_target r)) new = map resolve_target selectors"
proof (induction selectors arbitrary: results used)
  case (Cons s selectors)
  then obtain tgt where tgt: "resolve_target s = Inr tgt" by auto
  show ?case
  proof (cases "dag_for_target_kind (tgt_kind tgt)")
    case None
    from Cons.IH[of "results @ [unsupported_result tgt]" used] Cons.prems obtain new used' where
      "infer_targets sha loads c selectors (results @ [unsupported_result tgt]) used
        = Some (Inr ((results @ [unsupported_result tgt]) @ new, used'))"
      "map (\<lambda>r. Inr (ti_target r)) new = map resolve_target selectors" by auto
    with None tgt show ?thesis
      by (intro exI[of _ "unsupported_result tgt # new"] exI[of _ used']) (simp add: unsupported_result_def)
  next
    case (Some key)
    let ?c = "target_context c tgt"
    have ok: "dc_bindings ?c = []" "inspectable loads ?c"
      using assms by (auto simp: target_context_def inspectable_def split: option.split list.split)
    from run_graph_answers[OF Some ok, of sha] obtain dag m st where
      dag: "map_of decision_dags key = Some dag"
        "evaluate_target sha (registry sha loads) dag ?c tgt = Some (Inr (end_walk sha dag tgt m st))" by blast
    let ?r = "end_walk sha dag tgt m st"
    from Cons.IH[of "results @ [?r]" "AList.update (dag_key dag) dag used"] Cons.prems obtain new used' where
      "infer_targets sha loads c selectors (results @ [?r]) (AList.update (dag_key dag) dag used)
        = Some (Inr ((results @ [?r]) @ new, used'))"
      "map (\<lambda>r. Inr (ti_target r)) new = map resolve_target selectors" by auto
    with Some tgt dag show ?thesis
      by (intro exI[of _ "?r # new"] exI[of _ used']) (simp add: end_walk_def Let_def)
  qed
qed simp

text \<open>
  Property C25. Inference returns: over a readable tree, for selectors that name a target, and when the
  runtime artifacts it opens can be inspected, it ends without an exception and reports one result per
  selector, for the target the selector names and in the order asked for.
\<close>

theorem inference_returns:
  assumes "is_directory upstream" and "\<forall>s \<in> set selectors. \<exists>t. resolve_target s = Inr t"
    and "\<forall>path archive. acc_open (ri_accessor inputs) path = Some archive \<longrightarrow>
      (\<exists>i. inspect_runtime_artifact loads archive = Inr i)"
  shows "\<exists>report. infer_scripts sha loads upstream selectors def policy (Some inputs) snapshot = Some (Inr report) \<and>
    map (\<lambda>r. Inr (ti_target r)) (ir_results report) = map resolve_target selectors"
proof -
  from resolve_root_Inr[OF assms(1)] obtain home where "resolve_logical_root upstream = Inr home" by blast
  with assms(1) obtain facts where facts: "scan_repository sha upstream = Inr facts"
    by (simp add: scan_repository_def Let_def)
  let ?c = "\<lparr>dc_facts = facts, dc_policy = (case policy of None \<Rightarrow> default_policy | Some p \<Rightarrow> p),
    dc_ree_name = (case def of None \<Rightarrow> [] | Some d \<Rightarrow> def_name d), dc_runtime = inputs,
    dc_requested_experiment = [], dc_bindings = []\<rparr>"
  have "inspectable loads ?c" using assms(3) by (simp add: inspectable_def)
  from targets_answer[OF _ this assms(2), of sha "[]" "[]"] obtain new used where
    "infer_targets sha loads ?c selectors [] [] = Some (Inr (new, used))"
    "map (\<lambda>r. Inr (ti_target r)) new = map resolve_target selectors" by auto
  with facts show ?thesis by (simp add: infer_scripts_def Let_def)
qed

theorem inference_returns_witness:
  "\<exists>report. infer_scripts (\<lambda>s. s) (one_document JNull) (Directory [])
      [\<lparr>sel_kind = Build_Target, sel_experiment_name = None\<rparr>] None None (Some no_runtime_inputs) None = Some (Inr report) \<and>
    map (\<lambda>r. Inr (ti_target r)) (ir_results report) = map resolve_target [\<lparr>sel_kind = Build_Target, sel_experiment_name = None\<rparr>]"
  by (rule inference_returns) (simp_all add: resolve_target_def no_runtime_inputs_def null_accessor_def Let_def)

end
