(* ===== verification/Inf_Gap.thy ===== *)
theory Inf_Gap
  imports Inf_Build
begin

text \<open>
  What the startup validation does not see: a graph it accepts, in the deployed wiring, whose walk raises.
\<close>

text \<open>A strategy branch whose check may go straight to the result.\<close>

definition escaping_dag :: decision_dag where
  "escaping_dag = \<lparr>dag_key = ''escaping'', dag_version = 1, dag_root = ''project-root'', dag_nodes = [
     Check_Node \<lparr>cn_id = ''project-root'', cn_check = ''logical_project_root'',
       cn_branches = [(''root'', ''strategies''), (''wrapper'', ''strategies'')]\<rparr>,
     Fork_Node \<lparr>fn_id = ''strategies'', fn_branches = [(''only'', ''nested'')], fn_join = ''resolve''\<rparr>,
     Check_Node \<lparr>cn_id = ''nested'', cn_check = ''nested_dockerfiles'',
       cn_branches = [(''none'', ''not-inferred''), (''one_or_more'', ''ambiguous'')]\<rparr>,
     Leaf_Node (strategy_leaf ''ambiguous'' ''only'' Lo_Blocked ''resolve''),
     Resolve_Node \<lparr>rn_id = ''resolve'', rn_fork = ''strategies'', rn_resolver = ''score_free_viability_v1'',
       rn_branches = [(''complete'', ''complete''), (''needs_input'', ''needs-input''), (''not_inferred'', ''not-inferred'')]\<rparr>,
     Result_Node \<lparr>tn_id = ''complete'', tn_status = Cs_Complete, tn_application = Automatic_Allowed\<rparr>,
     Result_Node \<lparr>tn_id = ''needs-input'', tn_status = Cs_Needs_Input, tn_application = Confirmation_Required\<rparr>,
     Result_Node \<lparr>tn_id = ''not-inferred'', tn_status = Cs_Not_Inferred, tn_application = Unavailable\<rparr>]\<rparr>"

definition empty_repository :: decision_context where
  "empty_repository = \<lparr>dc_facts = \<lparr>rf_logical_project_root = ''.'', rf_dockerfiles = [], rf_requirements_files = []\<rparr>,
     dc_policy = default_policy, dc_ree_name = [], dc_runtime = no_runtime_inputs, dc_requested_experiment = [],
     dc_bindings = []\<rparr>"

lemma escaping_lookup:
  "by_id escaping_dag ''project-root'' = Some (Check_Node \<lparr>cn_id = ''project-root'', cn_check = ''logical_project_root'',
       cn_branches = [(''root'', ''strategies''), (''wrapper'', ''strategies'')]\<rparr>)"
  "by_id escaping_dag ''strategies'' = Some (Fork_Node \<lparr>fn_id = ''strategies'', fn_branches = [(''only'', ''nested'')], fn_join = ''resolve''\<rparr>)"
  "by_id escaping_dag ''nested'' = Some (Check_Node \<lparr>cn_id = ''nested'', cn_check = ''nested_dockerfiles'',
       cn_branches = [(''none'', ''not-inferred''), (''one_or_more'', ''ambiguous'')]\<rparr>)"
  "by_id escaping_dag ''not-inferred'' = Some (Result_Node \<lparr>tn_id = ''not-inferred'', tn_status = Cs_Not_Inferred,
       tn_application = Unavailable\<rparr>)"
  by code_simp+


end
