(* ===== verification/Alloc_Store.thy ===== *)
theory Alloc_Store
  imports Ree_Receipts
begin

text \<open>
  Allocations of workbenches: the records of \<open>protocol/allocation.py\<close>, the legal life of one in
  \<open>allocation_state.py\<close>, the durable store of \<open>allocation_store.py\<close> and the enrollment of managed
  workbenches in \<open>enrollment.py\<close>. A call of the store is one step: its lock spans the read and the write.
\<close>

section \<open>Records\<close>

datatype allocation_state =
    Al_Requested | Al_Provisioning | Al_Waiting | Al_Ready | Al_Assigned | Al_Draining
  | Al_Released | Al_Failed | Al_Lost

record workbench_image =
  im_ref :: string
  im_id :: string
  im_label :: string
  im_description :: string

text \<open>The validator of an image of the catalog: the picker's fields fall back on the reference.\<close>

definition make_image :: "string \<Rightarrow> string \<Rightarrow> string \<Rightarrow> string \<Rightarrow> ree_error + workbench_image" where
  "make_image ref image_id label description =
     bind_res (require (ref \<noteq> []) (Value_Error ''ref'')) (\<lambda>_.
     Inr \<lparr>im_ref = ref, im_id = (if image_id = [] then ref else image_id),
       im_label = (if label = [] then ref else label), im_description = description\<rparr>)"

record allocation_request =
  aq_allocation_id :: string
  aq_ree_id :: string
  aq_location_id :: string
  aq_image :: string

definition make_request :: "string \<Rightarrow> string \<Rightarrow> string \<Rightarrow> string \<Rightarrow> ree_error + allocation_request" where
  "make_request allocation_id ree_id location_id image_ref =
     bind_res (require (allocation_id \<noteq> [] \<and> ree_id \<noteq> [] \<and> location_id \<noteq> []) (Value_Error ''allocation request'')) (\<lambda>_.
     Inr \<lparr>aq_allocation_id = allocation_id, aq_ree_id = ree_id, aq_location_id = location_id, aq_image = image_ref\<rparr>)"

record allocation_record =
  al_request :: allocation_request
  al_state :: allocation_state
  al_workbench_id :: "string option"
  al_provider_id :: "string option"
  al_resolved_image :: string
  al_detail :: string
  al_created_at :: utc_instant
  al_updated_at :: utc_instant

section \<open>Legal transitions\<close>

fun legal_targets :: "allocation_state \<Rightarrow> allocation_state list" where
  "legal_targets Al_Requested = [Al_Provisioning, Al_Waiting, Al_Draining, Al_Failed]"
| "legal_targets Al_Provisioning = [Al_Waiting, Al_Draining, Al_Failed, Al_Lost]"
| "legal_targets Al_Waiting = [Al_Ready, Al_Draining, Al_Failed, Al_Lost]"
| "legal_targets Al_Ready = [Al_Assigned, Al_Draining, Al_Failed, Al_Lost]"
| "legal_targets Al_Assigned = [Al_Draining, Al_Failed, Al_Lost]"
| "legal_targets Al_Draining = [Al_Released, Al_Failed]"
| "legal_targets Al_Released = []"
| "legal_targets Al_Failed = [Al_Draining]"
| "legal_targets Al_Lost = [Al_Draining]"

definition legal_step :: "allocation_state \<Rightarrow> allocation_state \<Rightarrow> bool" where
  "legal_step current target \<longleftrightarrow> current = target \<or> target \<in> set (legal_targets current)"

definition require_transition :: "allocation_state \<Rightarrow> allocation_state \<Rightarrow> ree_error + unit" where
  "require_transition current target =
     require (legal_step current target) (Value_Error ''illegal allocation transition'')"

section \<open>The store\<close>

text \<open>
  The file: the stored allocations by id, one that this build cannot parse among them, and the
  placements, from an REE to its allocation. \<open>json.dump(sort_keys=True)\<close> leaves both in key order.
\<close>

datatype stored_allocation = Readable allocation_record | Unreadable

record allocation_file =
  af_allocations :: "(string \<times> stored_allocation) list"
  af_placements :: "(string \<times> string) list"

definition no_allocations :: allocation_file where
  "no_allocations = \<lparr>af_allocations = [], af_placements = []\<rparr>"

definition written :: "allocation_file \<Rightarrow> allocation_file" where
  "written d = \<lparr>af_allocations = sort_key fst (af_allocations d), af_placements = sort_key fst (af_placements d)\<rparr>"

fun parse_stored :: "stored_allocation \<Rightarrow> allocation_record option" where
  "parse_stored (Readable r) = Some r"
| "parse_stored Unreadable = None"

definition create_allocation ::
  "utc_instant \<Rightarrow> allocation_request \<Rightarrow> string option \<Rightarrow> string option \<Rightarrow> allocation_file \<Rightarrow>
     (ree_error + allocation_record) \<times> allocation_file" where
  "create_allocation now request provider_id workbench_id d =
     (let r = \<lparr>al_request = request, al_state = Al_Requested, al_workbench_id = workbench_id,
            al_provider_id = provider_id, al_resolved_image = [], al_detail = [],
            al_created_at = now, al_updated_at = now\<rparr>
      in if map_of (af_allocations d) (aq_allocation_id request) \<noteq> None
         then (Inl (Value_Error ''allocation already exists''), d)
         else if map_of (af_placements d) (aq_ree_id request) \<noteq> None
         then (Inl (Value_Error ''REE already has an allocation''), d)
         else (Inr r, written \<lparr>
           af_allocations = AList.update (aq_allocation_id request) (Readable r) (af_allocations d),
           af_placements = AList.update (aq_ree_id request) (aq_allocation_id request) (af_placements d)\<rparr>))"

definition or_kept :: "'a option \<Rightarrow> 'a \<Rightarrow> 'a" where
  "or_kept given old = (case given of Some x \<Rightarrow> x | None \<Rightarrow> old)"

definition moved :: "utc_instant \<Rightarrow> allocation_state \<Rightarrow> string option \<Rightarrow> string option \<Rightarrow> string option \<Rightarrow>
    allocation_record \<Rightarrow> allocation_record" where
  "moved now target workbench_id resolved_image detail r = r\<lparr>al_state := target,
     al_workbench_id := (case workbench_id of Some w \<Rightarrow> Some w | None \<Rightarrow> al_workbench_id r),
     al_resolved_image := or_kept resolved_image (al_resolved_image r),
     al_detail := or_kept detail (al_detail r), al_updated_at := now\<rparr>"

definition update_allocation ::
  "utc_instant \<Rightarrow> string \<Rightarrow> allocation_state \<Rightarrow> string option \<Rightarrow> string option \<Rightarrow> string option \<Rightarrow>
     allocation_file \<Rightarrow> (ree_error + allocation_record) \<times> allocation_file" where
  "update_allocation now allocation_id target workbench_id resolved_image detail d =
     (case map_of (af_allocations d) allocation_id of
        None \<Rightarrow> (Inl (Key_Error allocation_id), d)
      | Some Unreadable \<Rightarrow> (Inl (Value_Error ''allocation record''), d)
      | Some (Readable r) \<Rightarrow>
          (case require_transition (al_state r) target of
             Inl e \<Rightarrow> (Inl e, d)
           | Inr _ \<Rightarrow>
               let r' = moved now target workbench_id resolved_image detail r
               in (Inr r', written (d\<lparr>af_allocations :=
                    AList.update allocation_id (Readable r') (af_allocations d)\<rparr>))))"

definition get_allocation :: "allocation_file \<Rightarrow> string \<Rightarrow> allocation_record option" where
  "get_allocation d allocation_id = Option.bind (map_of (af_allocations d) allocation_id) parse_stored"

definition for_ree :: "allocation_file \<Rightarrow> string \<Rightarrow> allocation_record option" where
  "for_ree d ree_id = Option.bind (map_of (af_placements d) ree_id) (get_allocation d)"

definition list_allocations :: "allocation_file \<Rightarrow> allocation_record list" where
  "list_allocations d = List.map_filter parse_stored (map snd (af_allocations d))"

definition remove_placement :: "string \<Rightarrow> allocation_file \<Rightarrow> allocation_file" where
  "remove_placement ree_id d = written (d\<lparr>af_placements := AList.delete ree_id (af_placements d)\<rparr>)"

section \<open>Enrollment\<close>

record workbench_hello =
  hl_workbench_id :: string
  hl_external :: bool
  hl_allocation_id :: string
  hl_enrollment_token :: string
  hl_hostname :: string
  hl_version :: string
  hl_location_id :: string
  hl_image :: string
  hl_nonce :: string

text \<open>What is expected, by allocation: the workbench and the digest of its token.\<close>

type_synonym enrollments = "(string \<times> (string \<times> string)) list"

definition expect_workbench :: "(string \<Rightarrow> string) \<Rightarrow> string \<Rightarrow> string \<Rightarrow> string \<Rightarrow> enrollments \<Rightarrow> enrollments" where
  "expect_workbench sha allocation_id workbench_id token es = AList.update allocation_id (workbench_id, sha token) es"

definition authenticate :: "(string \<Rightarrow> string) \<Rightarrow> workbench_hello \<Rightarrow> enrollments \<Rightarrow> ree_error + unit" where
  "authenticate sha hello es =
     (case map_of es (hl_allocation_id hello) of
        None \<Rightarrow> Inl (Value_Error ''unknown workbench enrollment'')
      | Some (workbench_id, digest) \<Rightarrow>
          require (hl_workbench_id hello = workbench_id \<and> sha (hl_enrollment_token hello) = digest)
            (Value_Error ''workbench enrollment does not match its allocation''))"

definition discard_enrollment :: "string \<Rightarrow> enrollments \<Rightarrow> enrollments" where
  "discard_enrollment allocation_id es = AList.delete allocation_id es"

section \<open>The tables of the file\<close>

text \<open>Every id once, every allocation under its own id.\<close>

definition file_ok :: "allocation_file \<Rightarrow> bool" where
  "file_ok d \<longleftrightarrow> dict_ok (af_allocations d) \<and> dict_ok (af_placements d) \<and>
     (\<forall>k r. map_of (af_allocations d) k = Some (Readable r) \<longrightarrow> aq_allocation_id (al_request r) = k)"

lemma map_of_sort_key [simp]: "dict_ok xs \<Longrightarrow> map_of (sort_key f xs) = map_of xs"
  unfolding dict_ok_def by (intro map_of_inject_set[THEN iffD2]) (simp_all add: distinct_map)

lemma dict_ok_sort_key [simp]: "dict_ok (sort_key f xs) = dict_ok xs"
  by (simp add: dict_ok_def distinct_map)

lemma file_okD:
  assumes "file_ok d"
  shows "dict_ok (af_allocations d)" "dict_ok (af_placements d)"
    "map_of (af_allocations d) k = Some (Readable r) \<Longrightarrow> aq_allocation_id (al_request r) = k"
  using assms by (auto simp: file_ok_def)

lemma parse_stored_Some [simp]: "parse_stored x = Some r \<longleftrightarrow> x = Readable r"
  by (cases x) auto

lemma get_allocation_Some: "get_allocation d k = Some r \<longleftrightarrow> map_of (af_allocations d) k = Some (Readable r)"
  by (auto simp: get_allocation_def bind_eq_Some_conv)

lemma no_allocations_ok [simp]: "file_ok no_allocations"
  by (simp add: file_ok_def no_allocations_def)

lemma written_lookup [simp]:
  assumes "dict_ok (af_allocations d)" and "dict_ok (af_placements d)"
  shows "map_of (af_allocations (written d)) = map_of (af_allocations d)"
    and "map_of (af_placements (written d)) = map_of (af_placements d)"
    and "dict_ok (af_allocations (written d))" and "dict_ok (af_placements (written d))"
  using assms by (simp_all add: written_def)

lemma create_lookup:
  assumes "file_ok d" and "create_allocation now request pid wid d = (Inr r, d')"
  shows "map_of (af_allocations d') = (map_of (af_allocations d))(aq_allocation_id request \<mapsto> Readable r)"
    and "map_of (af_placements d') = (map_of (af_placements d))(aq_ree_id request \<mapsto> aq_allocation_id request)"
    and "al_request r = request" "al_state r = Al_Requested" "al_workbench_id r = wid" "al_provider_id r = pid"
    and "map_of (af_allocations d) (aq_allocation_id request) = None"
    and "map_of (af_placements d) (aq_ree_id request) = None"
    and "file_ok d'"
proof -
  note dist = file_okD(1,2)[OF assms(1)]
  from assms(2) have r: "r = \<lparr>al_request = request, al_state = Al_Requested, al_workbench_id = wid,
      al_provider_id = pid, al_resolved_image = [], al_detail = [], al_created_at = now, al_updated_at = now\<rparr>"
    and new: "map_of (af_allocations d) (aq_allocation_id request) = None"
      "map_of (af_placements d) (aq_ree_id request) = None"
    and d': "d' = written \<lparr>
      af_allocations = AList.update (aq_allocation_id request) (Readable r) (af_allocations d),
      af_placements = AList.update (aq_ree_id request) (aq_allocation_id request) (af_placements d)\<rparr>"
    by (auto simp: create_allocation_def Let_def split: if_splits)
  show "map_of (af_allocations d) (aq_allocation_id request) = None"
    "map_of (af_placements d) (aq_ree_id request) = None" by (fact new)+
  show "al_request r = request" "al_state r = Al_Requested" "al_workbench_id r = wid" "al_provider_id r = pid"
    by (simp_all add: r)
  show maps: "map_of (af_allocations d') = (map_of (af_allocations d))(aq_allocation_id request \<mapsto> Readable r)"
    "map_of (af_placements d') = (map_of (af_placements d))(aq_ree_id request \<mapsto> aq_allocation_id request)"
    using dist by (simp_all add: d' update_conv')
  show "file_ok d'"
    unfolding file_ok_def maps(1) using dist file_okD(3)[OF assms(1)] by (auto simp: d' r)
qed

lemma update_lookup:
  assumes "file_ok d" and "update_allocation now k target wid img detail d = (Inr r', d')"
  obtains r where "map_of (af_allocations d) k = Some (Readable r)" and "legal_step (al_state r) target"
    and "r' = moved now target wid img detail r"
    and "map_of (af_allocations d') = (map_of (af_allocations d))(k \<mapsto> Readable r')"
    and "map_of (af_placements d') = map_of (af_placements d)" and "file_ok d'"
proof -
  from assms(2) obtain r where r: "map_of (af_allocations d) k = Some (Readable r)"
    "legal_step (al_state r) target" "r' = moved now target wid img detail r"
    and d': "d' = written (d\<lparr>af_allocations := AList.update k (Readable r') (af_allocations d)\<rparr>)"
    by (auto simp: update_allocation_def require_transition_def Let_def
        split: option.splits stored_allocation.splits sum.splits)
  note dist = file_okD(1,2)[OF assms(1)]
  have maps: "map_of (af_allocations d') = (map_of (af_allocations d))(k \<mapsto> Readable r')"
    "map_of (af_placements d') = map_of (af_placements d)"
    using dist by (simp_all add: d' update_conv')
  have "al_request r' = al_request r" by (simp add: r(3) moved_def)
  then have "file_ok d'"
    unfolding file_ok_def maps(1) using dist file_okD(3)[OF assms(1)] r(1) by (auto simp: d')
  with that r maps show thesis by blast
qed

lemma update_succeeds:
  assumes "map_of (af_allocations d) k = Some (Readable r)" and "legal_step (al_state r) target"
  shows "\<exists>d'. update_allocation now k target wid img detail d = (Inr (moved now target wid img detail r), d')"
  using assms by (simp add: update_allocation_def require_transition_def require_def Let_def)

lemma create_raised: "create_allocation now request pid wid d = (Inl e, d') \<Longrightarrow> d' = d"
  by (auto simp: create_allocation_def Let_def split: if_splits)

lemma update_raised: "update_allocation now k target wid img detail d = (Inl e, d') \<Longrightarrow> d' = d"
  by (auto simp: update_allocation_def Let_def split: option.splits stored_allocation.splits sum.splits)

lemma remove_lookup:
  assumes "file_ok d"
  shows "map_of (af_allocations (remove_placement k d)) = map_of (af_allocations d)"
    and "map_of (af_placements (remove_placement k d)) = (map_of (af_placements d))(k := None)"
    and "file_ok (remove_placement k d)"
  using file_okD[OF assms] by (auto simp: remove_placement_def file_ok_def delete_conv')

lemma moved_simps [simp]:
  "al_request (moved now target wid img detail r) = al_request r"
  "al_state (moved now target wid img detail r) = target"
  "al_provider_id (moved now target wid img detail r) = al_provider_id r"
  "al_workbench_id (moved now target None img detail r) = al_workbench_id r"
  by (simp_all add: moved_def)

lemma in_list_allocations:
  assumes "file_ok d"
  shows "r \<in> set (list_allocations d) \<longleftrightarrow> map_of (af_allocations d) (aq_allocation_id (al_request r)) = Some (Readable r)"
proof -
  note ok = file_okD[OF assms]
  have "r \<in> set (list_allocations d) \<longleftrightarrow> (\<exists>k. (k, Readable r) \<in> set (af_allocations d))"
  proof
    assume "r \<in> set (list_allocations d)"
    then obtain x where "x \<in> set (af_allocations d)" "parse_stored (snd x) = Some r"
      by (auto simp: list_allocations_def List.map_filter_def)
    then show "\<exists>k. (k, Readable r) \<in> set (af_allocations d)" by (metis parse_stored_Some prod.collapse)
  next
    assume "\<exists>k. (k, Readable r) \<in> set (af_allocations d)"
    then have "Readable r \<in> set (map snd (af_allocations d))" by force
    then show "r \<in> set (list_allocations d)"
      unfolding list_allocations_def List.map_filter_def by (force intro: rev_image_eqI)
  qed
  also have "\<dots> \<longleftrightarrow> (\<exists>k. map_of (af_allocations d) k = Some (Readable r))"
    by (simp add: dict_ok_map_of_iff[OF ok(1)])
  finally show ?thesis using ok(3) by blast
qed

end
