(* ===== verification/Alloc_Links.thy ===== *)
theory Alloc_Links
  imports Alloc_Store Ree_Result
begin

text \<open>
  The two sides the control plane talks to: the registries of dialed-in workbenches and providers
  (\<open>workbench_link.py\<close>, \<open>provider_link.py\<close>), the frames of a reply and what their consumers make of them,
  and the locations the API offers (\<open>control/compute.py\<close>). Sockets are the arguments: a reply is the frames
  that arrive before the other side falls silent.
\<close>

section \<open>Frames\<close>

datatype frame =
    Log_Frame string string string
  | Span_Frame string
  | Ref_Frame string string
  | Result_Frame action_result
  | Done_Frame
  | Unavailable_Frame string
  | Error_Frame string
  | Running_Frame bool
  | Status_Frame allocation_state string
  | Chunk_Frame string
  | Transfer_Frame string

text \<open>\<open>Status_Frame\<close> keeps the two fields that are read: the state and the resolved image.\<close>

fun terminal_frame :: "frame \<Rightarrow> bool" where
  "terminal_frame (Log_Frame _ _ _) = False"
| "terminal_frame (Span_Frame _) = False"
| "terminal_frame (Chunk_Frame _) = False"
| "terminal_frame _ = True"

text \<open>The frames a consumer sees, and the exception its iteration ends with, if any.\<close>

type_synonym reply = "frame list \<times> ree_error option"

fun pending_frames :: "frame list \<Rightarrow> reply" where
  "pending_frames [] = ([], Some (Unavailable_Error ''workbench stopped responding''))"
| "pending_frames (f # fs) =
     (if terminal_frame f then ([f], None) else (let (seen, e) = pending_frames fs in (f # seen, e)))"

definition request_reply :: "bool \<Rightarrow> frame list \<Rightarrow> reply" where
  "request_reply down arrivals =
     (if down then ([], Some (Unavailable_Error ''workbench connection closed'')) else pending_frames arrivals)"

fun raise_for_terminal_error :: "frame \<Rightarrow> ree_error + unit" where
  "raise_for_terminal_error (Unavailable_Frame detail) = Inl (Unavailable_Error detail)"
| "raise_for_terminal_error (Error_Frame detail) = Inl (Runtime_Error detail)"
| "raise_for_terminal_error _ = Inr ()"

fun ends_with :: "ree_error option \<Rightarrow> ree_error + unit" where
  "ends_with None = Inr ()"
| "ends_with (Some e) = Inl e"

fun drain_void :: "reply \<Rightarrow> ree_error + unit" where
  "drain_void ([], e) = ends_with e"
| "drain_void (f # fs, e) = bind_res (raise_for_terminal_error f) (\<lambda>_. drain_void (fs, e))"

text \<open>\<open>exec_query\<close>: the chunks up to \<open>done\<close>, decoded (a chunk frame carries its bytes).\<close>

fun exec_query :: "reply \<Rightarrow> ree_error + string" where
  "exec_query ([], e) = bind_res (ends_with e)
     (\<lambda>_. Inl (Runtime_Error ''workbench exec_query ended without a result''))"
| "exec_query (f # fs, e) =
     (case f of
        Chunk_Frame bytes \<Rightarrow> bind_res (exec_query (fs, e)) (\<lambda>rest. Inr (bytes @ rest))
      | Done_Frame \<Rightarrow> Inr []
      | _ \<Rightarrow> bind_res (raise_for_terminal_error f) (\<lambda>_. exec_query (fs, e)))"

text \<open>The liveness of a provider's allocation: its first status decides, an error means no.\<close>

fun running_of :: "frame list \<Rightarrow> bool" where
  "running_of [] = False"
| "running_of (Status_Frame state image_ref # fs) = (state \<notin> {Al_Lost, Al_Released, Al_Failed})"
| "running_of (Error_Frame _ # fs) = False"
| "running_of (Unavailable_Frame _ # fs) = False"
| "running_of (_ # fs) = running_of fs"

section \<open>Connected workbenches\<close>

text \<open>A connection is an object: \<open>cx_serial\<close> is its identity.\<close>

record bench_connection =
  cx_serial :: nat
  cx_hello :: "workbench_hello option"

record bench_registry =
  br_benches :: "(string \<times> bench_connection) list"
  br_connected_at :: "(string \<times> utc_instant) list"

definition no_benches :: bench_registry where
  "no_benches = \<lparr>br_benches = [], br_connected_at = []\<rparr>"

text \<open>The last writer wins; the connection it displaces is to be closed.\<close>

definition register_bench ::
  "utc_instant \<Rightarrow> string \<Rightarrow> bench_connection \<Rightarrow> bench_registry \<Rightarrow> bench_connection option \<times> bench_registry" where
  "register_bench now workbench_id conn reg =
     (let displaced = (case map_of (br_benches reg) workbench_id of
            Some old \<Rightarrow> if cx_serial old \<noteq> cx_serial conn then Some old else None | None \<Rightarrow> None)
      in (displaced, \<lparr>br_benches = AList.update workbench_id conn (br_benches reg),
           br_connected_at = AList.update workbench_id now (br_connected_at reg)\<rparr>))"

definition unregister_bench :: "string \<Rightarrow> bench_connection \<Rightarrow> bench_registry \<Rightarrow> bench_registry" where
  "unregister_bench workbench_id conn reg =
     (if map_option cx_serial (map_of (br_benches reg) workbench_id) = Some (cx_serial conn)
      then \<lparr>br_benches = AList.delete workbench_id (br_benches reg),
        br_connected_at = AList.delete workbench_id (br_connected_at reg)\<rparr>
      else reg)"

definition or_else :: "string \<Rightarrow> string \<Rightarrow> string" where
  "or_else s fallback = (if s = [] then fallback else s)"

text \<open>\<open>_workbench_allocated\<close> of the composition root.\<close>

definition workbench_allocated :: "allocation_file \<Rightarrow> string \<Rightarrow> bool" where
  "workbench_allocated d workbench_id \<longleftrightarrow>
     list_ex (\<lambda>r. al_workbench_id r = Some workbench_id \<and> al_state r \<notin> {Al_Released, Al_Failed, Al_Lost})
       (list_allocations d)"

definition claimable :: "(string \<Rightarrow> bool) \<Rightarrow> bench_registry \<Rightarrow> string \<Rightarrow> string \<Rightarrow> bool" where
  "claimable allocated reg wanted candidate \<longleftrightarrow>
     (case Option.bind (map_of (br_benches reg) candidate) cx_hello of
        None \<Rightarrow> False
      | Some hello \<Rightarrow> hl_external hello \<and> or_else (hl_location_id hello) candidate = wanted \<and> \<not> allocated candidate)"

definition claim_bench :: "(string \<Rightarrow> bool) \<Rightarrow> bench_registry \<Rightarrow> string \<Rightarrow> ree_error + string" where
  "claim_bench allocated reg wanted =
     (case List.find (claimable allocated reg wanted) (if wanted \<noteq> [] then [wanted] else map fst (br_benches reg)) of
        Some candidate \<Rightarrow> Inr candidate
      | None \<Rightarrow> Inl (Unavailable_Error ''no idle external workbench is connected''))"

definition resolve_bench :: "bench_registry \<Rightarrow> string \<Rightarrow> ree_error + string" where
  "resolve_bench reg workbench_id =
     (if workbench_id \<noteq> []
      then bind_res (require (map_of (br_benches reg) workbench_id \<noteq> None)
             (Unavailable_Error ''workbench not connected'')) (\<lambda>_. Inr workbench_id)
      else (case br_benches reg of
          (first, _) # _ \<Rightarrow> Inr first
        | [] \<Rightarrow> Inl (Unavailable_Error ''no workbench service connected'')))"

definition is_connected :: "bench_registry \<Rightarrow> string \<Rightarrow> bool" where
  "is_connected reg workbench_id = (case resolve_bench reg workbench_id of Inl _ \<Rightarrow> False | Inr _ \<Rightarrow> True)"

text \<open>\<open>WsWorkbenchClient.reserve_external\<close>: claim, then look at the location of the bench again.\<close>

definition location_of_bench :: "bench_registry \<Rightarrow> string \<Rightarrow> string" where
  "location_of_bench reg workbench_id =
     (case Option.bind (map_of (br_benches reg) workbench_id) cx_hello of
        Some hello \<Rightarrow> or_else (hl_location_id hello) workbench_id | None \<Rightarrow> workbench_id)"

definition reserve_bench :: "(string \<Rightarrow> bool) \<Rightarrow> bench_registry \<Rightarrow> string \<Rightarrow> ree_error + string" where
  "reserve_bench allocated reg location_id =
     bind_res (claim_bench allocated reg location_id) (\<lambda>workbench_id.
     bind_res (resolve_bench reg workbench_id) (\<lambda>bench.
     bind_res (require (location_of_bench reg bench = location_id)
       (Unavailable_Error ''compute location is unavailable'')) (\<lambda>_. Inr workbench_id)))"

section \<open>Views of the fleet\<close>

record workbench_info =
  wf_workbench_id :: string
  wf_external :: bool
  wf_available :: bool
  wf_hostname :: string
  wf_version :: string
  wf_location_id :: string
  wf_image :: string
  wf_connected_at :: utc_instant

definition info_of :: "(string \<Rightarrow> bool) \<Rightarrow> bench_registry \<Rightarrow> string \<times> bench_connection \<Rightarrow> workbench_info" where
  "info_of allocated reg = (\<lambda>(workbench_id, conn).
     let since = (case map_of (br_connected_at reg) workbench_id of Some t \<Rightarrow> t | None \<Rightarrow> 0)
     in case cx_hello conn of
          Some hello \<Rightarrow>
            \<lparr>wf_workbench_id = workbench_id, wf_external = hl_external hello,
             wf_available = (hl_external hello \<and> \<not> allocated workbench_id), wf_hostname = hl_hostname hello,
             wf_version = hl_version hello, wf_location_id = or_else (hl_location_id hello) workbench_id,
             wf_image = hl_image hello, wf_connected_at = since\<rparr>
        | None \<Rightarrow>
            \<lparr>wf_workbench_id = workbench_id, wf_external = False, wf_available = False, wf_hostname = [],
             wf_version = [], wf_location_id = workbench_id, wf_image = [], wf_connected_at = since\<rparr>)"

definition list_workbenches :: "(string \<Rightarrow> bool) \<Rightarrow> bench_registry \<Rightarrow> workbench_info list" where
  "list_workbenches allocated reg =
     sort_key (\<lambda>i. [wf_hostname i, wf_workbench_id i]) (map (info_of allocated reg) (br_benches reg))"

record provider_hello =
  ph_hostname :: string
  ph_version :: string
  ph_location_id :: string
  ph_location_label :: string
  ph_images :: "workbench_image list"
  ph_accepts_custom_image :: bool

record provider_info =
  pv_provider_id :: string
  pv_hostname :: string
  pv_version :: string
  pv_location_id :: string
  pv_location_label :: string
  pv_images :: "workbench_image list"
  pv_accepts_custom_image :: bool

definition provider_info_of :: "string \<times> provider_hello option \<Rightarrow> provider_info" where
  "provider_info_of = (\<lambda>(provider_id, hello). case hello of
     Some h \<Rightarrow> \<lparr>pv_provider_id = provider_id, pv_hostname = ph_hostname h, pv_version = ph_version h,
       pv_location_id = ph_location_id h, pv_location_label = ph_location_label h, pv_images = ph_images h,
       pv_accepts_custom_image = ph_accepts_custom_image h\<rparr>
   | None \<Rightarrow> \<lparr>pv_provider_id = provider_id, pv_hostname = [], pv_version = [], pv_location_id = [],
       pv_location_label = [], pv_images = [], pv_accepts_custom_image = False\<rparr>)"

definition list_providers :: "(string \<times> provider_hello option) list \<Rightarrow> provider_info list" where
  "list_providers providers =
     sort_key (\<lambda>i. [pv_hostname i, pv_provider_id i]) (map provider_info_of providers)"

definition resolve_location ::
  "(string \<times> provider_hello option) list \<Rightarrow> string \<Rightarrow> string \<Rightarrow> ree_error + string \<times> string" where
  "resolve_location providers location_id image_ref =
     (case filter (\<lambda>i. pv_location_id i = location_id) (list_providers providers) of
        [info] \<Rightarrow>
          (let wanted = strip image_ref
           in if wanted = []
              then (case pv_images info of
                  [] \<Rightarrow> Inl (Unavailable_Error ''compute location offers no images'')
                | first # _ \<Rightarrow> Inr (pv_provider_id info, im_ref first))
              else if wanted \<notin> im_ref ` set (pv_images info) \<and> \<not> pv_accepts_custom_image info
              then Inl (Unavailable_Error ''compute location does not offer the image and refuses custom images'')
              else Inr (pv_provider_id info, wanted))
      | _ \<Rightarrow> Inl (Unavailable_Error ''compute location is not available''))"

record compute_location =
  cl_id :: string
  cl_label :: string
  cl_provider_managed :: bool
  cl_available :: bool
  cl_images :: "workbench_image list"
  cl_accepts_custom_image :: bool

text \<open>A location without an id or a label is refused by its model: the whole listing raises.\<close>

definition make_location :: "compute_location \<Rightarrow> ree_error + compute_location" where
  "make_location l = bind_res (require (cl_id l \<noteq> [] \<and> cl_label l \<noteq> []) (Value_Error ''compute location'')) (\<lambda>_. Inr l)"

fun make_all :: "compute_location list \<Rightarrow> ree_error + compute_location list" where
  "make_all [] = Inr []"
| "make_all (l # ls) = bind_res (make_location l) (\<lambda>x. bind_res (make_all ls) (\<lambda>xs. Inr (x # xs)))"

definition provider_location :: "provider_info \<Rightarrow> compute_location" where
  "provider_location p = \<lparr>cl_id = pv_location_id p, cl_label = pv_location_label p, cl_provider_managed = True,
     cl_available = True, cl_images = pv_images p, cl_accepts_custom_image = pv_accepts_custom_image p\<rparr>"

definition external_location :: "workbench_info \<Rightarrow> compute_location" where
  "external_location b = \<lparr>cl_id = wf_location_id b, cl_label = or_else (wf_hostname b) (wf_location_id b),
     cl_provider_managed = False, cl_available = wf_available b, cl_images = [], cl_accepts_custom_image = False\<rparr>"

definition list_compute_locations ::
  "(string \<Rightarrow> bool) \<Rightarrow> (string \<times> provider_hello option) list \<Rightarrow> bench_registry \<Rightarrow> ree_error + compute_location list" where
  "list_compute_locations allocated providers reg =
     bind_res (make_all (map provider_location (list_providers providers) @
       map external_location (filter wf_external (list_workbenches allocated reg))))
     (\<lambda>locations. Inr (sort_key (\<lambda>l. [cl_label l, cl_id l]) locations))"

section \<open>What the registry promises\<close>

text \<open>A displaced socket that tears down late does not evict the one that took its place.\<close>

lemma late_unregister_keeps_successor:
  assumes "register_bench now b new reg = (Some old, reg')"
  shows "unregister_bench b old reg' = reg'" and "map_of (br_benches reg') b = Some new"
  using assms by (auto simp: register_bench_def unregister_bench_def Let_def update_conv' split: option.splits if_splits)

lemma claim_bench_Inr:
  assumes "wanted \<noteq> []"
  shows "claim_bench allocated reg wanted = Inr w \<longleftrightarrow> w = wanted \<and> claimable allocated reg wanted w"
  using assms by (auto simp: claim_bench_def)

lemma claimable_known: "claimable allocated reg wanted b \<Longrightarrow> map_of (br_benches reg) b \<noteq> None"
  by (cases "map_of (br_benches reg) b") (simp_all add: claimable_def)

lemma reserve_bench_Inr:
  assumes "wanted \<noteq> []"
  shows "reserve_bench allocated reg wanted = Inr w \<longleftrightarrow> w = wanted \<and> claimable allocated reg wanted w"
proof -
  have "location_of_bench reg wanted = wanted" if "claimable allocated reg wanted wanted"
    using that by (auto simp: claimable_def location_of_bench_def split: option.splits)
  with assms show ?thesis
    by (auto simp: reserve_bench_def claim_bench_Inr resolve_bench_def require_def dest: claimable_known)
qed

lemma listed_bench:
  assumes "dict_ok (br_benches reg)"
  shows "(\<exists>i \<in> set (list_workbenches allocated reg). wf_workbench_id i = b \<and> wf_available i \<and> wf_location_id i = l) \<longleftrightarrow>
    claimable allocated reg l b"
proof -
  have "(\<exists>i \<in> set (list_workbenches allocated reg). wf_workbench_id i = b \<and> wf_available i \<and> wf_location_id i = l) \<longleftrightarrow>
      (\<exists>conn. (b, conn) \<in> set (br_benches reg) \<and> wf_available (info_of allocated reg (b, conn)) \<and>
        wf_location_id (info_of allocated reg (b, conn)) = l)"
    by (force simp: list_workbenches_def info_of_def Let_def split: option.splits)
  also have "\<dots> \<longleftrightarrow> claimable allocated reg l b"
  proof (cases "map_of (br_benches reg) b")
    case (Some conn)
    then show ?thesis
      by (cases "cx_hello conn")
        (auto simp: dict_ok_map_of_iff[OF assms, symmetric] claimable_def info_of_def Let_def)
  qed (simp add: dict_ok_map_of_iff[OF assms, symmetric] claimable_def)
  finally show ?thesis .
qed

text \<open>
  Property C40. Of the external locations the API offers as available, exactly those can be reserved that
  bear the id of their workbench. A workbench that reports a location of its own is offered under that
  name and refused under it, because the claim looks the location up among the workbench ids.
\<close>

theorem reservable_iff_named_by_bench:
  assumes "dict_ok (br_benches reg)" and "l \<noteq> []"
  shows "(\<exists>w. reserve_bench allocated reg l = Inr w) \<longleftrightarrow>
    (\<exists>i \<in> set (list_workbenches allocated reg). wf_available i \<and> wf_location_id i = l \<and> wf_workbench_id i = l)"
  using listed_bench[OF assms(1), of allocated l l] by (auto simp: reserve_bench_Inr[OF assms(2)])

definition demo_hello :: "string \<Rightarrow> string \<Rightarrow> workbench_hello" where
  "demo_hello b location = \<lparr>hl_workbench_id = b, hl_external = True, hl_allocation_id = [], hl_enrollment_token = [],
     hl_hostname = ''host'', hl_version = ''1'', hl_location_id = location, hl_image = [], hl_nonce = []\<rparr>"

definition demo_benches :: bench_registry where
  "demo_benches = \<lparr>br_benches = [(''bench'', \<lparr>cx_serial = 0, cx_hello = Some (demo_hello ''bench'' ''lab'')\<rparr>)],
     br_connected_at = [(''bench'', 0)]\<rparr>"

theorem reservable_iff_named_by_bench_witness:
  "(\<nexists>w. reserve_bench (\<lambda>_. False) demo_benches ''lab'' = Inr w) \<and>
   map wf_location_id (filter wf_available (list_workbenches (\<lambda>_. False) demo_benches)) = [''lab'']"
proof -
  have "dict_ok (br_benches demo_benches)" by (simp add: demo_benches_def dict_ok_def)
  from reservable_iff_named_by_bench[OF this, of "''lab''" "\<lambda>_. False"] show ?thesis
    by (simp add: demo_benches_def list_workbenches_def info_of_def demo_hello_def or_else_def)
qed

end
