(* ===== verification/Alloc_Manager.thy ===== *)
theory Alloc_Manager
  imports Alloc_Links
begin

text \<open>
  The workbench manager of the control plane, \<open>supervisor/manager.py\<close>, over the allocation store and the
  enrollments: obtaining a bench from a provider, reserving an external one, tearing one down, finding the
  bench of an REE and dispatching to it, with the API's use of them (\<open>control/rees.py\<close>,
  \<open>workbench/commands.py\<close>). What the provider and the bench answer is an argument. Spans, metrics and
  the log lines of the process are dropped; the lock of an REE makes an operation on it one step.
\<close>

section \<open>The state and its operations\<close>

text \<open>
  Besides the file and the enrollments, what leaves the process: the lines given to the log sink and the
  allocations the provider was asked to release.
\<close>

record control =
  ct_file :: allocation_file
  ct_enrolled :: enrollments
  ct_log :: "(string \<times> string \<times> string) list"
  ct_released :: "string list"

definition fresh_control :: "allocation_file \<Rightarrow> control" where
  "fresh_control d = \<lparr>ct_file = d, ct_enrolled = [], ct_log = [], ct_released = []\<rparr>"

type_synonym 'a operation = "control \<Rightarrow> (ree_error + 'a) \<times> control"

definition pure_op :: "'a \<Rightarrow> 'a operation" where
  "pure_op x c = (Inr x, c)"

definition answer :: "ree_error + 'a \<Rightarrow> 'a operation" where
  "answer r c = (r, c)"

definition then_op :: "'a operation \<Rightarrow> ('a \<Rightarrow> 'b operation) \<Rightarrow> 'b operation" where
  "then_op m f c = (case m c of (Inl e, c') \<Rightarrow> (Inl e, c') | (Inr x, c') \<Rightarrow> f x c')"

text \<open>\<open>except BaseException as exc: \<dots>; raise\<close>: what the handler raises itself goes first.\<close>

definition rescue :: "'a operation \<Rightarrow> (ree_error \<Rightarrow> unit operation) \<Rightarrow> 'a operation" where
  "rescue m h c =
     (case m c of
        (Inr x, c') \<Rightarrow> (Inr x, c')
      | (Inl e, c') \<Rightarrow> (case h e c' of (Inl e', c'') \<Rightarrow> (Inl e', c'') | (Inr _, c'') \<Rightarrow> (Inl e, c'')))"

definition on_file :: "(allocation_file \<Rightarrow> (ree_error + 'a) \<times> allocation_file) \<Rightarrow> 'a operation" where
  "on_file f c = (let (r, d) = f (ct_file c) in (r, c\<lparr>ct_file := d\<rparr>))"

definition on_enrolled :: "(enrollments \<Rightarrow> enrollments) \<Rightarrow> unit operation" where
  "on_enrolled f c = (Inr (), c\<lparr>ct_enrolled := f (ct_enrolled c)\<rparr>)"

text \<open>The clock as the store reads it: an operation stores each state at most once.\<close>

type_synonym clock = "allocation_state \<Rightarrow> utc_instant"

definition advance :: "clock \<Rightarrow> string \<Rightarrow> allocation_state \<Rightarrow> string option \<Rightarrow> string option \<Rightarrow> allocation_record operation" where
  "advance now allocation_id target resolved_image detail =
     on_file (update_allocation (now target) allocation_id target None resolved_image detail)"

section \<open>Handles\<close>

record bench_handle =
  bh_ree_id :: string
  bh_workbench_id :: string
  bh_allocation_id :: string
  bh_provider_id :: string
  bh_provider_managed :: bool
  bh_location_id :: string
  bh_image :: string

definition text_or_empty :: "string option \<Rightarrow> string" where
  "text_or_empty s = (case s of None \<Rightarrow> [] | Some t \<Rightarrow> t)"

definition handle_of :: "allocation_record \<Rightarrow> bench_handle" where
  "handle_of r = \<lparr>bh_ree_id = aq_ree_id (al_request r), bh_workbench_id = text_or_empty (al_workbench_id r),
     bh_allocation_id = aq_allocation_id (al_request r), bh_provider_id = text_or_empty (al_provider_id r),
     bh_provider_managed = (text_or_empty (al_provider_id r) \<noteq> []),
     bh_location_id = aq_location_id (al_request r),
     bh_image = or_else (al_resolved_image r) (aq_image (al_request r))\<rparr>"

section \<open>Obtaining a bench\<close>

text \<open>
  What the other sides answer during one operation: the providers that are connected, the replies of the
  provider and of the bench, whether the bench dials in, and how an exception is shown.
\<close>

record other_sides =
  os_providers :: "(string \<times> provider_hello option) list"
  os_ensure :: reply
  os_dialed :: "ree_error + unit"
  os_assign :: reply
  os_init :: reply
  os_drain :: reply
  os_release :: reply
  os_shown :: "ree_error \<Rightarrow> string"

text \<open>\<open>_consume_lifecycle\<close>: log lines go to the sink, the last status counts, an error frame raises.\<close>

fun consume_lifecycle :: "string option \<Rightarrow> reply \<Rightarrow> string operation" where
  "consume_lifecycle status ([], e) =
     then_op (answer (ends_with e)) (\<lambda>_. answer (case status of
       Some resolved_image \<Rightarrow> Inr resolved_image
     | None \<Rightarrow> Inl (Runtime_Error ''provider ensure ended without allocation status'')))"
| "consume_lifecycle status (f # fs, e) =
     (case f of
        Log_Frame stream level message \<Rightarrow>
          (\<lambda>c. consume_lifecycle status (fs, e) (c\<lparr>ct_log := ct_log c @ [(stream, level, message)]\<rparr>))
      | Status_Frame _ resolved_image \<Rightarrow> consume_lifecycle (Some resolved_image) (fs, e)
      | _ \<Rightarrow> then_op (answer (raise_for_terminal_error f)) (\<lambda>_. consume_lifecycle status (fs, e)))"

definition assign_and_initialise ::
  "clock \<Rightarrow> allocation_request \<Rightarrow> other_sides \<Rightarrow> bench_handle operation" where
  "assign_and_initialise now request sides =
     then_op (advance now (aq_allocation_id request) Al_Ready None None) (\<lambda>_.
     then_op (answer (drain_void (os_assign sides))) (\<lambda>_.
     then_op (answer (drain_void (os_init sides))) (\<lambda>_.
     then_op (advance now (aq_allocation_id request) Al_Assigned None None) (\<lambda>r.
     pure_op (handle_of r)))))"

text \<open>\<open>if record and record.state != FAILED: update(FAILED)\<close>.\<close>

definition mark_failed :: "clock \<Rightarrow> string \<Rightarrow> string \<Rightarrow> unit operation" where
  "mark_failed now allocation_id detail c =
     (case get_allocation (ct_file c) allocation_id of
        None \<Rightarrow> (Inr (), c)
      | Some r \<Rightarrow>
          if al_state r = Al_Failed then (Inr (), c)
          else then_op (advance now allocation_id Al_Failed None (Some detail)) (\<lambda>_. pure_op ()) c)"

definition ask_release :: "string \<Rightarrow> other_sides \<Rightarrow> unit operation" where
  "ask_release allocation_id sides c =
     (drain_void (os_release sides), c\<lparr>ct_released := ct_released c @ [allocation_id]\<rparr>)"

fun best_effort :: "ree_error + unit \<Rightarrow> ree_error + unit" where
  "best_effort (Inl (Unavailable_Error _)) = Inr ()"
| "best_effort (Inl (Runtime_Error _)) = Inr ()"
| "best_effort r = r"

definition release_best_effort :: "string \<Rightarrow> other_sides \<Rightarrow> unit operation" where
  "release_best_effort allocation_id sides c =
     (let (r, c') = ask_release allocation_id sides c in (best_effort r, c'))"

text \<open>The ids an operation mints: the allocation's, the workbench's and the enrollment token.\<close>

record minted =
  mi_allocation_id :: string
  mi_workbench_id :: string
  mi_token :: string

text \<open>The body of the \<open>try\<close> and its handler.\<close>

definition bring_up :: "clock \<Rightarrow> allocation_request \<Rightarrow> other_sides \<Rightarrow> bench_handle operation" where
  "bring_up now request sides =
     then_op (consume_lifecycle None (os_ensure sides)) (\<lambda>arrived.
     then_op (advance now (aq_allocation_id request) Al_Waiting (if arrived = [] then None else Some arrived) None) (\<lambda>_.
     then_op (answer (os_dialed sides)) (\<lambda>_.
     assign_and_initialise now request sides)))"

definition give_up :: "clock \<Rightarrow> string \<Rightarrow> other_sides \<Rightarrow> ree_error \<Rightarrow> unit operation" where
  "give_up now allocation_id sides e =
     then_op (on_enrolled (discard_enrollment allocation_id)) (\<lambda>_.
     then_op (mark_failed now allocation_id (os_shown sides e)) (\<lambda>_.
     release_best_effort allocation_id sides))"

definition provision ::
  "(string \<Rightarrow> string) \<Rightarrow> clock \<Rightarrow> minted \<Rightarrow> string \<Rightarrow> string \<Rightarrow> string \<Rightarrow> other_sides \<Rightarrow> bench_handle operation" where
  "provision sha now ids ree_id location_id image_ref sides =
     then_op (answer (resolve_location (os_providers sides) location_id image_ref)) (\<lambda>(provider_id, resolved).
     then_op (answer (make_request (mi_allocation_id ids) ree_id location_id resolved)) (\<lambda>request.
     then_op (on_file (create_allocation (now Al_Requested) request (Some provider_id) (Some (mi_workbench_id ids)))) (\<lambda>_.
     then_op (advance now (mi_allocation_id ids) Al_Provisioning None None) (\<lambda>_.
     then_op (on_enrolled (expect_workbench sha (mi_allocation_id ids) (mi_workbench_id ids) (mi_token ids))) (\<lambda>_.
     rescue (bring_up now request sides) (give_up now (mi_allocation_id ids) sides))))))"

text \<open>
  \<open>reserve_external\<close>: the claim finds an idle bench, and what follows records it. The lock held is the
  one of the REE, so another REE's reservation may come between the two.
\<close>

definition claim_external :: "bench_registry \<Rightarrow> string \<Rightarrow> string operation" where
  "claim_external reg location_id c =
     (reserve_bench (workbench_allocated (ct_file c)) reg location_id, c)"

definition reserve_claimed ::
  "clock \<Rightarrow> string \<Rightarrow> string \<Rightarrow> string \<Rightarrow> string \<Rightarrow> other_sides \<Rightarrow> bench_handle operation" where
  "reserve_claimed now allocation_id ree_id location_id workbench_id sides =
     then_op (answer (make_request allocation_id ree_id location_id [])) (\<lambda>request.
     then_op (on_file (create_allocation (now Al_Requested) request None (Some workbench_id))) (\<lambda>_.
     then_op (advance now allocation_id Al_Waiting None None) (\<lambda>_.
     rescue (assign_and_initialise now request sides)
       (\<lambda>e. mark_failed now allocation_id (os_shown sides e)))))"

definition reserve_external ::
  "clock \<Rightarrow> string \<Rightarrow> string \<Rightarrow> string \<Rightarrow> bench_registry \<Rightarrow> other_sides \<Rightarrow> bench_handle operation" where
  "reserve_external now allocation_id ree_id location_id reg sides =
     then_op (claim_external reg location_id) (\<lambda>workbench_id.
     reserve_claimed now allocation_id ree_id location_id workbench_id sides)"

section \<open>Giving it back\<close>

fun suppress_unavailable :: "ree_error + unit \<Rightarrow> ree_error + unit" where
  "suppress_unavailable (Inl (Unavailable_Error _)) = Inr ()"
| "suppress_unavailable r = r"

definition teardown :: "clock \<Rightarrow> bench_handle \<Rightarrow> other_sides \<Rightarrow> unit operation" where
  "teardown now h sides =
     then_op (answer (suppress_unavailable (drain_void (os_drain sides)))) (\<lambda>_.
     then_op (advance now (bh_allocation_id h) Al_Draining None None) (\<lambda>_.
     then_op (if bh_provider_managed h
         then then_op (ask_release (bh_allocation_id h) sides) (\<lambda>_.
           on_enrolled (discard_enrollment (bh_allocation_id h)))
         else pure_op ()) (\<lambda>_.
     then_op (advance now (bh_allocation_id h) Al_Released None None) (\<lambda>_ c.
       (Inr (), c\<lparr>ct_file := remove_placement (bh_ree_id h) (ct_file c)\<rparr>)))))"

section \<open>Finding the bench of an REE\<close>

definition is_registered :: "control \<Rightarrow> string \<Rightarrow> bool" where
  "is_registered c ree_id =
     (case for_ree (ct_file c) ree_id of None \<Rightarrow> False | Some r \<Rightarrow> al_state r = Al_Assigned)"

text \<open>
  Liveness: \<open>inspect\<close> is what the provider sends back on an inspection of an allocation (nothing when the
  provider is away), an external bench is alive while it is connected.
\<close>

definition bench_running :: "(string \<Rightarrow> string \<Rightarrow> frame list) \<Rightarrow> bench_registry \<Rightarrow> bench_handle \<Rightarrow> bool" where
  "bench_running inspect reg h =
     (if bh_provider_managed h then running_of (fst (pending_frames (inspect (bh_provider_id h) (bh_allocation_id h))))
      else is_connected reg (bh_workbench_id h))"

definition lookup_bench ::
  "(string \<Rightarrow> string \<Rightarrow> frame list) \<Rightarrow> bench_registry \<Rightarrow> control \<Rightarrow> string \<Rightarrow> bench_handle option" where
  "lookup_bench inspect reg c ree_id =
     (case for_ree (ct_file c) ree_id of
        None \<Rightarrow> None
      | Some r \<Rightarrow>
          if al_state r \<noteq> Al_Assigned then None
          else if bench_running inspect reg (handle_of r) then Some (handle_of r) else None)"

text \<open>Every reachable bench with its manifest; one that cannot be asked is left out.\<close>

definition list_all_manifests ::
  "(string \<Rightarrow> string \<Rightarrow> frame list) \<Rightarrow> bench_registry \<Rightarrow> (bench_handle \<Rightarrow> ree_error + 'd) \<Rightarrow> control \<Rightarrow>
     (bench_handle \<times> 'd) list" where
  "list_all_manifests inspect reg manifest c =
     List.map_filter (\<lambda>r.
       let h = handle_of r
       in if al_state r = Al_Assigned \<and> bench_running inspect reg h
          then (case manifest h of Inl _ \<Rightarrow> None | Inr d \<Rightarrow> Some (h, d)) else None)
       (list_allocations (ct_file c))"

section \<open>Dispatching an action\<close>

text \<open>The lines and the spans that are passed on, and how the dispatch ends.\<close>

record dispatched =
  dp_log :: "(string \<times> string \<times> string) list"
  dp_spans :: "string list"
  dp_end :: "ree_error + action_result option"

fun consume_action :: "action_result option \<Rightarrow> reply \<Rightarrow> dispatched" where
  "consume_action result ([], e) =
     \<lparr>dp_log = [], dp_spans = [], dp_end = bind_res (ends_with e) (\<lambda>_. Inr result)\<rparr>"
| "consume_action result (f # fs, e) =
     (case f of
        Log_Frame stream level message \<Rightarrow>
          (let d = consume_action result (fs, e) in d\<lparr>dp_log := (stream, level, message) # dp_log d\<rparr>)
      | Span_Frame payload \<Rightarrow>
          (let d = consume_action result (fs, e) in d\<lparr>dp_spans := payload # dp_spans d\<rparr>)
      | Result_Frame a \<Rightarrow> consume_action (Some a) (fs, e)
      | Unavailable_Frame detail \<Rightarrow> \<lparr>dp_log = [], dp_spans = [], dp_end = Inl (Unavailable_Error detail)\<rparr>
      | Error_Frame detail \<Rightarrow> \<lparr>dp_log = [], dp_spans = [], dp_end = Inl (Runtime_Error detail)\<rparr>
      | _ \<Rightarrow> consume_action result (fs, e))"

definition dispatch_action :: "bool \<Rightarrow> string \<Rightarrow> reply \<Rightarrow> dispatched" where
  "dispatch_action has_sink operation r =
     (let d = consume_action None r
      in d\<lparr>dp_spans := (if has_sink then dp_spans d else []),
           dp_end := bind_res (dp_end d) (\<lambda>result. Inr (Some (case result of
             Some a \<Rightarrow> a
           | None \<Rightarrow> failed_with Cat_Internal (operation @ '' ended without a result'') Org_Supervisor 1 True None [])))\<rparr>)"

section \<open>The API's use of the manager\<close>

datatype api_error = Not_Found | Service_Unavailable | Teardown_Failed

definition require_handle ::
  "(string \<Rightarrow> string \<Rightarrow> frame list) \<Rightarrow> bench_registry \<Rightarrow> control \<Rightarrow> string \<Rightarrow> api_error + bench_handle" where
  "require_handle inspect reg c ree_id =
     (case lookup_bench inspect reg c ree_id of
        Some h \<Rightarrow> Inr h
      | None \<Rightarrow> Inl (if is_registered c ree_id then Service_Unavailable else Not_Found))"

definition delete_ree ::
  "clock \<Rightarrow> (string \<Rightarrow> string \<Rightarrow> frame list) \<Rightarrow> bench_registry \<Rightarrow> string \<Rightarrow> other_sides \<Rightarrow> control \<Rightarrow>
     (api_error + unit) \<times> control" where
  "delete_ree now inspect reg ree_id sides c =
     (case require_handle inspect reg c ree_id of
        Inl e \<Rightarrow> (Inl e, c)
      | Inr h \<Rightarrow>
          (case teardown now h sides c of
             (Inl _, c') \<Rightarrow> (Inl Teardown_Failed, c')
           | (Inr _, c') \<Rightarrow> (Inr (), c')))"

text \<open>
  The runner of a provisioning run: \<open>canceled\<close> is the flag before and after the bench is obtained, and
  \<open>document\<close> what the bench then answers about its REE (a failure to answer ends the run as an exception).
\<close>

definition noted :: "string \<Rightarrow> string \<Rightarrow> control \<Rightarrow> control" where
  "noted level message c = c\<lparr>ct_log := ct_log c @ [(''system'', level, message)]\<rparr>"

definition provisioning_run ::
  "(string \<Rightarrow> string) \<Rightarrow> clock \<Rightarrow> minted \<Rightarrow> string \<Rightarrow> string \<Rightarrow> string \<Rightarrow> bench_registry \<Rightarrow> other_sides \<Rightarrow>
     bool \<times> bool \<Rightarrow> (bench_handle \<Rightarrow> ree_error + json) \<Rightarrow> action_result operation" where
  "provisioning_run sha now ids ree_id location_id image_ref reg sides canceled document c =
     (if fst canceled then (Inr action_canceled, noted ''warn'' ''Provisioning canceled before it started'' c)
      else
        (case if list_ex (\<lambda>p. pv_location_id p = location_id) (list_providers (os_providers sides))
              then provision sha now ids ree_id location_id image_ref sides c
              else reserve_external now (mi_allocation_id ids) ree_id location_id reg sides c of
           (Inl e, c') \<Rightarrow>
             (let message = ''Workbench provisioning failed: '' @ os_shown sides e
              in (Inr (failed_with Cat_Unavailable message Org_Supervisor 1 True None []), noted ''error'' message c'))
         | (Inr h, c') \<Rightarrow>
             if snd canceled
             then (bind_res (document h) (\<lambda>ree. Inr (action_canceled\<lparr>ar_outputs := [(''ree'', ree)]\<rparr>)),
               noted ''warn'' ''Provisioning canceled after workbench startup'' c')
             else (bind_res (document h) (\<lambda>ree. Inr (action_succeeded [(''ree'', ree)])), c')))"

end
