(* ===== verification/Alloc_Facts.thy ===== *)
theory Alloc_Facts
  imports Alloc_Manager
begin

text \<open>
  What the manager keeps of the allocations: every operation leaves an allocation settled, a live allocation
  is placed and has its bench for itself, and no operation asks the store for an illegal transition. The
  operations are followed by a small calculus of how an operation ends.
\<close>

section \<open>How an operation ends\<close>

definition op_ends ::
  "'a operation \<Rightarrow> control \<Rightarrow> ('a \<Rightarrow> control \<Rightarrow> bool) \<Rightarrow> (ree_error \<Rightarrow> control \<Rightarrow> bool) \<Rightarrow> bool" where
  "op_ends m c P Q \<longleftrightarrow> (case m c of (Inl e, c') \<Rightarrow> Q e c' | (Inr x, c') \<Rightarrow> P x c')"

named_theorems ends \<open>how composed operations end\<close>

lemma op_ends_pure [ends]: "op_ends (pure_op x) c P Q \<longleftrightarrow> P x c"
  by (simp add: op_ends_def pure_op_def)

lemma op_ends_answer [ends]: "op_ends (answer r) c P Q \<longleftrightarrow> (case r of Inl e \<Rightarrow> Q e c | Inr x \<Rightarrow> P x c)"
  by (simp add: op_ends_def answer_def split: sum.split)

lemma op_ends_then [ends]: "op_ends (then_op m f) c P Q \<longleftrightarrow> op_ends m c (\<lambda>x c'. op_ends (f x) c' P Q) Q"
  by (simp add: op_ends_def then_op_def split: prod.split sum.split)

lemma op_ends_rescue [ends]:
  "op_ends (rescue m h) c P Q \<longleftrightarrow> op_ends m c P (\<lambda>e c'. op_ends (h e) c' (\<lambda>_ c''. Q e c'') Q)"
  by (simp add: op_ends_def rescue_def split: prod.split sum.split)

lemma op_ends_enrolled [ends]:
  "op_ends (on_enrolled f) c P Q \<longleftrightarrow> P () (c\<lparr>ct_enrolled := f (ct_enrolled c)\<rparr>)"
  by (simp add: op_ends_def on_enrolled_def)

lemma op_ends_weaken:
  assumes "op_ends m c P Q" and "\<And>x c'. P x c' \<Longrightarrow> P' x c'" and "\<And>e c'. Q e c' \<Longrightarrow> Q' e c'"
  shows "op_ends m c P' Q'"
  using assms by (auto simp: op_ends_def split: prod.splits sum.splits)

lemma op_endsD:
  assumes "op_ends m c P Q" and "m c = (r, c')"
  shows "case r of Inl e \<Rightarrow> Q e c' | Inr x \<Rightarrow> P x c'"
  using assms by (simp add: op_ends_def split: sum.splits)

text \<open>The replies of the other sides change neither the file nor the enrollments.\<close>

lemma consume_lifecycle_keeps:
  "op_ends (consume_lifecycle status r) c
     (\<lambda>_ c'. ct_file c' = ct_file c \<and> ct_enrolled c' = ct_enrolled c \<and> ct_released c' = ct_released c)
     (\<lambda>_ c'. ct_file c' = ct_file c \<and> ct_enrolled c' = ct_enrolled c \<and> ct_released c' = ct_released c)"
proof (induction status r arbitrary: c rule: consume_lifecycle.induct)
  case (1 status e)
  then show ?case by (auto simp: ends split: option.split sum.split)
next
  case (2 status f fs e)
  show ?case
  proof (cases f)
    case (Log_Frame stream level message)
    with 2(1)[OF Log_Frame, of "c\<lparr>ct_log := ct_log c @ [(stream, level, message)]\<rparr>"] show ?thesis
      by (simp add: op_ends_def)
  next
    case (Status_Frame state resolved)
    with 2 show ?thesis by simp
  qed (use 2 in \<open>auto simp: ends\<close>)
qed

section \<open>One allocation in hand\<close>

text \<open>
  Between its creation and the end of its operation an allocation is the only change to the file:
  \<open>holding c0 request w p s c\<close> says that \<open>c\<close> is \<open>c0\<close> with the request's allocation in state \<open>s\<close> on bench \<open>w\<close>.
\<close>

definition holding ::
  "control \<Rightarrow> allocation_request \<Rightarrow> string \<Rightarrow> string option \<Rightarrow> allocation_state \<Rightarrow> control \<Rightarrow> bool" where
  "holding c0 request w p s c \<longleftrightarrow> file_ok (ct_file c) \<and>
     (\<exists>r. al_request r = request \<and> al_workbench_id r = Some w \<and> al_provider_id r = p \<and> al_state r = s \<and>
       map_of (af_allocations (ct_file c)) =
         (map_of (af_allocations (ct_file c0)))(aq_allocation_id request \<mapsto> Readable r) \<and>
       map_of (af_placements (ct_file c)) =
         (map_of (af_placements (ct_file c0)))(aq_ree_id request \<mapsto> aq_allocation_id request))"

lemma holding_same_file: "ct_file c' = ct_file c \<Longrightarrow> holding c0 request w p s c' = holding c0 request w p s c"
  by (simp add: holding_def)

lemma create_ends:
  assumes "file_ok (ct_file c)"
  shows "op_ends (on_file (create_allocation now request p (Some w))) c
    (\<lambda>_ c'. holding c request w p Al_Requested c' \<and> ct_enrolled c' = ct_enrolled c \<and>
      map_of (af_allocations (ct_file c)) (aq_allocation_id request) = None \<and>
      map_of (af_placements (ct_file c)) (aq_ree_id request) = None)
    (\<lambda>_ c'. c' = c)"
proof -
  obtain r d where m: "create_allocation now request p (Some w) (ct_file c) = (r, d)" by fastforce
  show ?thesis
  proof (cases r)
    case (Inl e)
    with m create_raised[of now request p "Some w" "ct_file c" e d] show ?thesis
      by (simp add: op_ends_def on_file_def)
  next
    case (Inr a)
    note look = create_lookup[OF assms m[unfolded Inr]]
    have "holding c request w p Al_Requested (c\<lparr>ct_file := d\<rparr>)"
      unfolding holding_def using look by (intro conjI exI[of _ a]) simp_all
    with m Inr look show ?thesis by (simp add: op_ends_def on_file_def)
  qed
qed

lemma advance_ends:
  assumes "holding c0 request w p s c" and "legal_step s t"
  shows "op_ends (advance now (aq_allocation_id request) t img detail) c
    (\<lambda>r c'. holding c0 request w p t c' \<and> al_request r = request \<and> al_workbench_id r = Some w \<and>
      al_provider_id r = p \<and> ct_enrolled c' = ct_enrolled c) Q"
proof -
  from assms(1) obtain r where r: "file_ok (ct_file c)" "al_request r = request" "al_workbench_id r = Some w"
    "al_provider_id r = p" "al_state r = s"
    "map_of (af_allocations (ct_file c)) = (map_of (af_allocations (ct_file c0)))(aq_allocation_id request \<mapsto> Readable r)"
    "map_of (af_placements (ct_file c)) =
      (map_of (af_placements (ct_file c0)))(aq_ree_id request \<mapsto> aq_allocation_id request)"
    by (auto simp: holding_def)
  let ?u = "update_allocation (now t) (aq_allocation_id request) t None img detail"
  from update_succeeds[of "ct_file c" "aq_allocation_id request" r t] r assms(2)
  obtain d where u: "?u (ct_file c) = (Inr (moved (now t) t None img detail r), d)" by fastforce
  from update_lookup[OF r(1) u] r
  have d: "map_of (af_allocations d) = (map_of (af_allocations (ct_file c0)))
      (aq_allocation_id request \<mapsto> Readable (moved (now t) t None img detail r))"
    "map_of (af_placements d) = (map_of (af_placements (ct_file c0)))(aq_ree_id request \<mapsto> aq_allocation_id request)"
    "file_ok d" by auto
  have "holding c0 request w p t (c\<lparr>ct_file := d\<rparr>)"
    unfolding holding_def using d r by (intro conjI exI[of _ "moved (now t) t None img detail r"]) simp_all
  with u r show ?thesis by (simp add: op_ends_def advance_def on_file_def)
qed

lemma advance_holds:
  assumes "holding c0 request w p s c" and "legal_step s t"
  shows "op_ends (advance now (aq_allocation_id request) t img detail) c
    (\<lambda>_ c'. holding c0 request w p t c' \<and> ct_enrolled c' = ct_enrolled c) Q"
  by (rule op_ends_weaken[OF advance_ends[OF assms, where Q = Q]]) simp_all

lemma mark_failed_ends:
  assumes "holding c0 request w p s c" and "s \<in> {Al_Provisioning, Al_Waiting, Al_Ready}"
  shows "op_ends (mark_failed now (aq_allocation_id request) detail) c
    (\<lambda>_ c'. holding c0 request w p Al_Failed c' \<and> ct_enrolled c' = ct_enrolled c) Q"
proof -
  from assms(1) obtain r where r: "get_allocation (ct_file c) (aq_allocation_id request) = Some r" "al_state r = s"
    by (auto simp: holding_def get_allocation_Some)
  have "legal_step s Al_Failed" using assms(2) by (auto simp: legal_step_def)
  from advance_ends[OF assms(1) this, of now None "Some detail" Q] r assms(2) show ?thesis
    unfolding mark_failed_def op_ends_def by (auto simp: then_op_def pure_op_def split: prod.splits sum.splits)
qed

section \<open>How the operations of the manager end\<close>

lemma assign_ends:
  assumes "holding c0 request w p Al_Waiting c"
  shows "op_ends (assign_and_initialise now request sides) c
    (\<lambda>h c'. holding c0 request w p Al_Assigned c' \<and> ct_enrolled c' = ct_enrolled c \<and>
      bh_allocation_id h = aq_allocation_id request \<and> bh_workbench_id h = w)
    (\<lambda>_ c'. holding c0 request w p Al_Ready c' \<and> ct_enrolled c' = ct_enrolled c)"
proof -
  let ?P = "\<lambda>h c'. holding c0 request w p Al_Assigned c' \<and> ct_enrolled c' = ct_enrolled c \<and>
      bh_allocation_id h = aq_allocation_id request \<and> bh_workbench_id h = w"
  let ?Q = "\<lambda>_ :: ree_error. \<lambda>c'. holding c0 request w p Al_Ready c' \<and> ct_enrolled c' = ct_enrolled c"
  have last: "op_ends (then_op (advance now (aq_allocation_id request) Al_Assigned None None) (\<lambda>r. pure_op (handle_of r)))
      c' ?P ?Q" if "holding c0 request w p Al_Ready c'" "ct_enrolled c' = ct_enrolled c" for c'
    unfolding ends
    by (rule op_ends_weaken[OF advance_ends[OF that(1)]])
      (use that in \<open>auto simp: legal_step_def handle_of_def text_or_empty_def\<close>)
  show ?thesis
    unfolding assign_and_initialise_def op_ends_then[of "advance now (aq_allocation_id request) Al_Ready None None"]
    by (rule op_ends_weaken[OF advance_holds[OF assms]])
      (auto simp: legal_step_def op_ends_then[of "answer _"] op_ends_answer intro: last split: sum.split)
qed

text \<open>A new allocation of an REE that had none, in a final state of its operation.\<close>

definition obtained :: "control \<Rightarrow> string \<Rightarrow> string \<Rightarrow> string \<Rightarrow> allocation_state \<Rightarrow> control \<Rightarrow> bool" where
  "obtained c k ree_id w s c' \<longleftrightarrow>
     (\<exists>request p. aq_allocation_id request = k \<and> aq_ree_id request = ree_id \<and> holding c request w p s c' \<and>
       map_of (af_allocations (ct_file c)) k = None \<and> map_of (af_placements (ct_file c)) ree_id = None)"

lemma obtainedI:
  assumes "aq_allocation_id request = k" and "aq_ree_id request = ree_id" and "holding c request w p s c'"
    and "map_of (af_allocations (ct_file c)) k = None" and "map_of (af_placements (ct_file c)) ree_id = None"
  shows "obtained c k ree_id w s c'"
  using assms unfolding obtained_def by blast

lemma release_best_effort_file: "ct_file (snd (release_best_effort k sides c)) = ct_file c"
  by (simp add: release_best_effort_def ask_release_def)

lemma op_ends_release [ends]:
  assumes "\<And>c'. ct_file c' = ct_file c \<Longrightarrow> R c'"
  shows "op_ends (release_best_effort k sides) c (\<lambda>_. R) (\<lambda>_. R)"
  using assms[OF release_best_effort_file[of k sides c]]
  by (cases "release_best_effort k sides c") (simp add: op_ends_def split: sum.split)

lemma make_request_Inr:
  "make_request k ree_id location_id image_ref = Inr request \<Longrightarrow> aq_allocation_id request = k \<and> aq_ree_id request = ree_id"
  by (auto simp: make_request_def)

lemma give_up_ends:
  assumes "holding c0 request w p s c" and "s \<in> {Al_Provisioning, Al_Waiting, Al_Ready}"
  shows "op_ends (give_up now (aq_allocation_id request) sides e) c
    (\<lambda>_. holding c0 request w p Al_Failed) (\<lambda>_. holding c0 request w p Al_Failed)"
proof -
  have "holding c0 request w p s (c\<lparr>ct_enrolled := discard_enrollment (aq_allocation_id request) (ct_enrolled c)\<rparr>)"
    using assms(1) by (simp add: holding_def)
  note mark = mark_failed_ends[OF this assms(2)]
  show ?thesis
    unfolding give_up_def op_ends_then op_ends_enrolled
    by (rule op_ends_weaken[OF mark], rule op_ends_release, simp add: holding_same_file[THEN iffD2], assumption)
qed

lemma bring_up_ends:
  assumes "holding c0 request w p Al_Provisioning c"
  shows "op_ends (bring_up now request sides) c
    (\<lambda>h c'. holding c0 request w p Al_Assigned c' \<and>
      bh_allocation_id h = aq_allocation_id request \<and> bh_workbench_id h = w)
    (\<lambda>_ c'. \<exists>s. s \<in> {Al_Provisioning, Al_Waiting, Al_Ready} \<and> holding c0 request w p s c')"
    (is "op_ends _ c ?P ?Q")
proof -
  have dialed: "op_ends (then_op (answer (os_dialed sides)) (\<lambda>_. assign_and_initialise now request sides)) c2 ?P ?Q"
    if "holding c0 request w p Al_Waiting c2" for c2
    unfolding op_ends_then op_ends_answer using that
    by (auto split: sum.split intro!: op_ends_weaken[OF assign_ends[OF that]])
  have arrived: "op_ends (then_op (advance now (aq_allocation_id request) Al_Waiting img None) (\<lambda>_.
      then_op (answer (os_dialed sides)) (\<lambda>_. assign_and_initialise now request sides))) c1 ?P ?Q"
    if "holding c0 request w p Al_Provisioning c1" for c1 img
    unfolding op_ends_then[of "advance _ _ _ _ _"]
    by (rule op_ends_weaken[OF advance_holds[OF that]])
      (simp add: legal_step_def, erule dialed[OF conjunct1], assumption)
  show ?thesis
    unfolding bring_up_def op_ends_then[of "consume_lifecycle _ _"]
  proof (rule op_ends_weaken[OF consume_lifecycle_keeps])
    fix c1 :: control and e :: ree_error
    assume "ct_file c1 = ct_file c \<and> ct_enrolled c1 = ct_enrolled c \<and> ct_released c1 = ct_released c"
    then have "holding c0 request w p Al_Provisioning c1" using assms by (simp add: holding_def)
    then show "?Q e c1" by blast
  qed (rule arrived, rule holding_same_file[THEN iffD2, OF _ assms], elim conjE, assumption)
qed

lemma provision_ends:
  assumes "file_ok (ct_file c)"
  shows "op_ends (provision sha now ids ree_id location_id image_ref sides) c
    (\<lambda>h c'. obtained c (mi_allocation_id ids) ree_id (mi_workbench_id ids) Al_Assigned c' \<and>
      bh_allocation_id h = mi_allocation_id ids \<and> bh_workbench_id h = mi_workbench_id ids)
    (\<lambda>_ c'. ct_file c' = ct_file c \<or> obtained c (mi_allocation_id ids) ree_id (mi_workbench_id ids) Al_Failed c')"
    (is "op_ends _ c ?P ?Q")
proof -
  let ?k = "mi_allocation_id ids" and ?w = "mi_workbench_id ids"
  have enrolled: "op_ends (then_op (advance now ?k Al_Provisioning None None) (\<lambda>_.
      then_op (on_enrolled (expect_workbench sha ?k ?w (mi_token ids))) (\<lambda>_.
      rescue (bring_up now request sides) (give_up now ?k sides)))) c1 ?P ?Q"
    if request: "aq_allocation_id request = ?k" "aq_ree_id request = ree_id"
      and fresh: "map_of (af_allocations (ct_file c)) ?k = None" "map_of (af_placements (ct_file c)) ree_id = None"
      and h: "holding c request ?w p Al_Requested c1" for request p c1
  proof -
    have given_up: "op_ends (give_up now ?k sides e) c2 (\<lambda>_. ?Q e) ?Q"
      if "holding c request ?w p s c2" and "s \<in> {Al_Provisioning, Al_Waiting, Al_Ready}" for s c2 e
      by (rule op_ends_weaken[OF give_up_ends[OF that, unfolded request]])
        (auto intro!: obtainedI[OF request _ fresh])
    have "op_ends (rescue (bring_up now request sides) (give_up now ?k sides)) c2 ?P ?Q"
      if h2: "holding c request ?w p Al_Provisioning c2" for c2
      unfolding op_ends_rescue
      by (rule op_ends_weaken[OF bring_up_ends[OF h2]])
        (auto intro!: obtainedI[OF request _ fresh] intro: given_up simp: request)
    then show ?thesis
      unfolding op_ends_then op_ends_enrolled
      by (intro op_ends_weaken[OF advance_holds[OF h, unfolded request]])
        (auto simp: legal_step_def holding_def)
  qed
  have created: "op_ends (then_op (on_file (create_allocation (now Al_Requested) request (Some p) (Some ?w))) (\<lambda>_.
      then_op (advance now ?k Al_Provisioning None None) (\<lambda>_.
      then_op (on_enrolled (expect_workbench sha ?k ?w (mi_token ids))) (\<lambda>_.
      rescue (bring_up now request sides) (give_up now ?k sides))))) c ?P ?Q"
    if made: "make_request ?k ree_id location_id resolved = Inr request" for request p resolved
  proof -
    from make_request_Inr[OF made]
    have request: "aq_allocation_id request = ?k" "aq_ree_id request = ree_id" by auto
    show ?thesis
      unfolding op_ends_then[of "on_file _"]
      by (rule op_ends_weaken[OF create_ends[OF assms]]) (auto intro!: enrolled[OF request] simp: request)
  qed
  show ?thesis
    unfolding provision_def op_ends_then[of "answer _"] op_ends_answer
    by (auto intro!: created simp: op_ends_then[of "answer _"] op_ends_answer split: sum.split)
qed

lemma reserve_claimed_ends:
  assumes "file_ok (ct_file c)"
  shows "op_ends (reserve_claimed now k ree_id location_id w sides) c
    (\<lambda>h c'. obtained c k ree_id w Al_Assigned c' \<and> bh_allocation_id h = k \<and> bh_workbench_id h = w)
    (\<lambda>_ c'. ct_file c' = ct_file c \<or> obtained c k ree_id w Al_Failed c')"
    (is "op_ends _ c ?P ?Q")
proof -
  have recorded: "op_ends (then_op (advance now k Al_Waiting None None) (\<lambda>_.
      rescue (assign_and_initialise now request sides) (\<lambda>e. mark_failed now k (os_shown sides e)))) c1 ?P ?Q"
    if request: "aq_allocation_id request = k" "aq_ree_id request = ree_id"
      and fresh: "map_of (af_allocations (ct_file c)) k = None" "map_of (af_placements (ct_file c)) ree_id = None"
      and h: "holding c request w p Al_Requested c1" for request p c1
  proof -
    have marked: "op_ends (mark_failed now k detail) c2 (\<lambda>_. ?Q e) ?Q"
      if "holding c request w p Al_Ready c2" for c2 detail e
      by (rule op_ends_weaken[OF mark_failed_ends[OF that, unfolded request]])
        (auto intro!: obtainedI[OF request _ fresh])
    have "op_ends (rescue (assign_and_initialise now request sides) (\<lambda>e. mark_failed now k (os_shown sides e))) c2 ?P ?Q"
      if h2: "holding c request w p Al_Waiting c2" for c2
      unfolding op_ends_rescue
      by (rule op_ends_weaken[OF assign_ends[OF h2]])
        (auto intro!: obtainedI[OF request _ fresh] intro: marked simp: request)
    then show ?thesis
      unfolding op_ends_then
      by (intro op_ends_weaken[OF advance_holds[OF h, unfolded request]]) (auto simp: legal_step_def)
  qed
  have created: "op_ends (then_op (on_file (create_allocation (now Al_Requested) request None (Some w))) (\<lambda>_.
      then_op (advance now k Al_Waiting None None) (\<lambda>_.
      rescue (assign_and_initialise now request sides) (\<lambda>e. mark_failed now k (os_shown sides e))))) c ?P ?Q"
    if made: "make_request k ree_id location_id resolved = Inr request" for request resolved
  proof -
    from make_request_Inr[OF made]
    have request: "aq_allocation_id request = k" "aq_ree_id request = ree_id" by auto
    show ?thesis
      unfolding op_ends_then[of "on_file _"]
      by (rule op_ends_weaken[OF create_ends[OF assms]]) (auto intro!: recorded[OF request] simp: request)
  qed
  show ?thesis
    unfolding reserve_claimed_def op_ends_then[of "answer _"] op_ends_answer
    by (auto intro!: created split: sum.split)
qed

lemma reserve_external_ends:
  assumes "file_ok (ct_file c)"
  shows "op_ends (reserve_external now k ree_id location_id reg sides) c
    (\<lambda>h c'. reserve_bench (workbench_allocated (ct_file c)) reg location_id = Inr (bh_workbench_id h) \<and>
      obtained c k ree_id (bh_workbench_id h) Al_Assigned c')
    (\<lambda>_ c'. ct_file c' = ct_file c \<or>
      (\<exists>w. reserve_bench (workbench_allocated (ct_file c)) reg location_id = Inr w \<and> obtained c k ree_id w Al_Failed c'))"
proof (cases "reserve_bench (workbench_allocated (ct_file c)) reg location_id")
  case (Inl e)
  then show ?thesis by (simp add: reserve_external_def claim_external_def op_ends_def then_op_def)
next
  case (Inr w)
  have "op_ends (reserve_external now k ree_id location_id reg sides) c P Q =
      op_ends (reserve_claimed now k ree_id location_id w sides) c P Q" for P Q
    using Inr by (simp add: reserve_external_def claim_external_def op_ends_def then_op_def)
  then show ?thesis
    by (auto intro!: op_ends_weaken[OF reserve_claimed_ends[OF assms]] simp: Inr)
qed

lemma op_ends_ask [ends]:
  "op_ends (ask_release k sides) c P Q \<longleftrightarrow>
    (case drain_void (os_release sides) of
       Inl e \<Rightarrow> Q e (c\<lparr>ct_released := ct_released c @ [k]\<rparr>)
     | Inr x \<Rightarrow> P x (c\<lparr>ct_released := ct_released c @ [k]\<rparr>))"
  by (simp add: op_ends_def ask_release_def split: sum.split)

text \<open>An allocation that is placed is in hand already.\<close>

lemma holding_placed:
  assumes "file_ok (ct_file c)" and "map_of (af_allocations (ct_file c)) k = Some (Readable r)"
    and "map_of (af_placements (ct_file c)) (aq_ree_id (al_request r)) = Some k" and "al_workbench_id r = Some w"
  shows "holding c (al_request r) w (al_provider_id r) (al_state r) c"
    and "aq_allocation_id (al_request r) = k"
proof -
  show k: "aq_allocation_id (al_request r) = k" by (rule file_okD(3)[OF assms(1,2)])
  show "holding c (al_request r) w (al_provider_id r) (al_state r) c"
    unfolding holding_def k using assms by (intro conjI exI[of _ r]) auto
qed

lemma teardown_ends:
  assumes "file_ok (ct_file c)" and "map_of (af_allocations (ct_file c)) k = Some (Readable r)"
    and "map_of (af_placements (ct_file c)) (aq_ree_id (al_request r)) = Some k" and "al_workbench_id r = Some w"
    and "al_state r = Al_Assigned"
  shows "op_ends (teardown now (handle_of r) sides) c
    (\<lambda>_ c'. \<exists>d. holding c (al_request r) w (al_provider_id r) Al_Released (c\<lparr>ct_file := d\<rparr>) \<and>
      ct_file c' = remove_placement (aq_ree_id (al_request r)) d)
    (\<lambda>_ c'. ct_file c' = ct_file c \<or> holding c (al_request r) w (al_provider_id r) Al_Draining c')"
    (is "op_ends _ c ?P ?Q")
proof -
  let ?h = "handle_of r"
  note h = holding_placed[OF assms(1-4)]
  have ids: "bh_allocation_id ?h = aq_allocation_id (al_request r)" "bh_ree_id ?h = aq_ree_id (al_request r)"
    by (simp_all add: handle_of_def)
  have last: "op_ends (then_op (advance now (bh_allocation_id ?h) Al_Released None None) (\<lambda>_ c.
      (Inr (), c\<lparr>ct_file := remove_placement (bh_ree_id ?h) (ct_file c)\<rparr>))) c2 ?P ?Q"
    if "holding c (al_request r) w (al_provider_id r) Al_Draining c2" for c2
    unfolding op_ends_then ids
  proof (rule op_ends_weaken[OF advance_holds[OF that]])
    fix x c3
    assume "holding c (al_request r) w (al_provider_id r) Al_Released c3 \<and> ct_enrolled c3 = ct_enrolled c2"
    then have "holding c (al_request r) w (al_provider_id r) Al_Released (c\<lparr>ct_file := ct_file c3\<rparr>)"
      by (simp add: holding_def)
    then show "op_ends (\<lambda>c. (Inr (), c\<lparr>ct_file := remove_placement (aq_ree_id (al_request r)) (ct_file c)\<rparr>))
        c3 ?P ?Q"
      by (auto simp: op_ends_def)
  qed (simp_all add: legal_step_def)
  let ?released = "then_op (advance now (bh_allocation_id ?h) Al_Released None None) (\<lambda>_ c.
      (Inr (), c\<lparr>ct_file := remove_placement (bh_ree_id ?h) (ct_file c)\<rparr>))"
  have middle: "op_ends (then_op (if bh_provider_managed ?h
         then then_op (ask_release (bh_allocation_id ?h) sides) (\<lambda>_.
           on_enrolled (discard_enrollment (bh_allocation_id ?h)))
         else pure_op ()) (\<lambda>_. ?released)) c2 ?P ?Q"
    if h2: "holding c (al_request r) w (al_provider_id r) Al_Draining c2" for c2
  proof (cases "bh_provider_managed ?h")
    case True
    show ?thesis
      unfolding if_P[OF True] op_ends_then[of "then_op _ _"] op_ends_then[of "ask_release _ _"] op_ends_ask
        op_ends_enrolled
      by (auto intro!: last disjI2 holding_same_file[THEN iffD2, OF _ h2] split: sum.split)
  next
    case False
    show ?thesis
      unfolding if_not_P[OF False] op_ends_then[of "pure_op _"] op_ends_pure by (rule last[OF h2])
  qed
  have "op_ends (then_op (advance now (bh_allocation_id ?h) Al_Draining None None) (\<lambda>_.
      then_op (if bh_provider_managed ?h
         then then_op (ask_release (bh_allocation_id ?h) sides) (\<lambda>_.
           on_enrolled (discard_enrollment (bh_allocation_id ?h)))
         else pure_op ()) (\<lambda>_. ?released))) c ?P ?Q"
    unfolding op_ends_then[of "advance _ _ _ _ _"] ids(1)
    by (rule op_ends_weaken[OF advance_holds[OF h(1)]])
      (simp add: legal_step_def assms(5), erule middle[unfolded ids(1), OF conjunct1], assumption)
  then show ?thesis
    unfolding teardown_def op_ends_then[of "answer _"] op_ends_answer
    by (split sum.split) (intro conjI allI impI, rule disjI1, rule refl, assumption)
qed

end
