(* ===== verification/Alloc_Fleet.thy ===== *)
theory Alloc_Fleet
  imports Alloc_Facts
begin

text \<open>
  Histories of the control plane: any order of provisions, reservations, deletions and restarts, a process
  stopped in the middle of an operation included. What holds of the allocations throughout, what an
  allocation that is not assigned can still become, and what two reservations at once do.
\<close>

section \<open>Histories\<close>

text \<open>
  One operation after the other. A minted workbench id is not one that a live allocation has; a stop in the
  middle of an operation leaves its allocation in whatever state was stored last.
\<close>

inductive control_step :: "control \<Rightarrow> control \<Rightarrow> bool" where
  Provisions: "\<not> workbench_allocated (ct_file c) (mi_workbench_id ids) \<Longrightarrow>
    provision sha now ids ree_id location_id image_ref sides c = (r, c') \<Longrightarrow> control_step c c'"
| Reserves: "reserve_external now k ree_id location_id reg sides c = (r, c') \<Longrightarrow> control_step c c'"
| Deletes: "delete_ree now inspect reg ree_id sides c = (r, c') \<Longrightarrow> control_step c c'"
| Restarts: "control_step c (fresh_control (ct_file c))"
| Stops: "obtained c k ree_id w s c' \<Longrightarrow> s \<in> {Al_Requested, Al_Provisioning, Al_Waiting, Al_Ready} \<Longrightarrow>
    \<not> workbench_allocated (ct_file c) w \<Longrightarrow> control_step c (fresh_control (ct_file c'))"

definition live :: "allocation_record \<Rightarrow> bool" where
  "live r \<longleftrightarrow> al_state r \<notin> {Al_Released, Al_Failed, Al_Lost}"

definition stored :: "control \<Rightarrow> string \<Rightarrow> allocation_record \<Rightarrow> bool" where
  "stored c k r \<longleftrightarrow> map_of (af_allocations (ct_file c)) k = Some (Readable r)"

definition placed :: "control \<Rightarrow> string \<Rightarrow> string \<Rightarrow> bool" where
  "placed c ree_id k \<longleftrightarrow> map_of (af_placements (ct_file c)) ree_id = Some k"

definition fleet_ok :: "control \<Rightarrow> bool" where
  "fleet_ok c \<longleftrightarrow> file_ok (ct_file c) \<and>
     (\<forall>k r. stored c k r \<longrightarrow> al_workbench_id r \<noteq> None) \<and>
     (\<forall>k r. stored c k r \<longrightarrow> live r \<longrightarrow> placed c (aq_ree_id (al_request r)) k) \<and>
     (\<forall>ree_id k. placed c ree_id k \<longrightarrow> (\<exists>r. stored c k r \<and> aq_ree_id (al_request r) = ree_id \<and> al_state r \<noteq> Al_Released)) \<and>
     (\<forall>k k' r r'. stored c k r \<longrightarrow> stored c k' r' \<longrightarrow> live r \<longrightarrow> live r' \<longrightarrow>
        al_workbench_id r = al_workbench_id r' \<longrightarrow> k = k')"

lemma fleet_okD:
  assumes "fleet_ok c"
  shows "file_ok (ct_file c)" and "stored c k r \<Longrightarrow> \<exists>w. al_workbench_id r = Some w"
    and "stored c k r \<Longrightarrow> live r \<Longrightarrow> placed c (aq_ree_id (al_request r)) k"
    and "placed c ree_id k \<Longrightarrow> \<exists>r. stored c k r \<and> aq_ree_id (al_request r) = ree_id \<and> al_state r \<noteq> Al_Released"
    and "stored c k r \<Longrightarrow> stored c k' r' \<Longrightarrow> live r \<Longrightarrow> live r' \<Longrightarrow> al_workbench_id r = al_workbench_id r' \<Longrightarrow> k = k'"
  using assms by (auto simp: fleet_ok_def)

lemma fleet_ok_file: "ct_file c' = ct_file c \<Longrightarrow> fleet_ok c' = fleet_ok c"
  by (simp add: fleet_ok_def stored_def placed_def)

lemma stored_unique: "stored c k r \<Longrightarrow> stored c k r' \<Longrightarrow> r' = r"
  by (simp add: stored_def)

lemma workbench_allocated_iff:
  assumes "file_ok (ct_file c)"
  shows "workbench_allocated (ct_file c) w \<longleftrightarrow> (\<exists>k r. stored c k r \<and> al_workbench_id r = Some w \<and> live r)"
  using file_okD(3)[OF assms] unfolding workbench_allocated_def list_ex_iff live_def stored_def
  by (auto simp: in_list_allocations[OF assms]) blast+

lemma reserve_bench_idle:
  assumes "reserve_bench allocated reg location_id = Inr w"
  shows "\<not> allocated w"
proof -
  from assms have "claim_bench allocated reg location_id = Inr w" by (auto simp: reserve_bench_def)
  then have "claimable allocated reg location_id w"
    by (auto simp: claim_bench_def find_Some_iff split: option.splits if_splits)
  then show ?thesis by (auto simp: claimable_def split: option.splits)
qed

section \<open>The fleet stays in order\<close>

lemma obtained_stored:
  assumes "obtained c k ree_id w s c'"
  shows "file_ok (ct_file c')" and "\<exists>r. al_workbench_id r = Some w \<and> al_state r = s \<and> aq_ree_id (al_request r) = ree_id \<and>
      (\<forall>k' r'. stored c' k' r' \<longleftrightarrow> (if k' = k then r' = r else stored c k' r'))"
    and "placed c' ree' k' \<longleftrightarrow> (if ree' = ree_id then k' = k else placed c ree' k')"
    and "\<not> stored c k r'" and "\<not> placed c ree_id k'"
  using assms by (auto simp: obtained_def holding_def stored_def placed_def)

lemma obtained_fleet_ok:
  assumes "fleet_ok c" and "obtained c k ree_id w s c'" and "\<not> workbench_allocated (ct_file c) w" and "s \<noteq> Al_Released"
  shows "fleet_ok c'"
proof -
  note ok = fleet_okD[OF assms(1)]
  from obtained_stored(2)[OF assms(2)] obtain r where r: "al_workbench_id r = Some w" "al_state r = s"
    "aq_ree_id (al_request r) = ree_id"
    and new: "\<And>k' r'. stored c' k' r' \<longleftrightarrow> (if k' = k then r' = r else stored c k' r')" by blast
  note placed' = obtained_stored(3)[OF assms(2)]
  have idle: "al_workbench_id r' \<noteq> Some w" if "stored c k' r'" "live r'" for k' r'
    using assms(3) that by (auto simp: workbench_allocated_iff[OF ok(1)])
  have mine: "k' = k" if "stored c' k' r'" "live r'" "al_workbench_id r' = Some w" for k' r'
  proof (rule ccontr)
    assume "k' \<noteq> k"
    with that(1) have "stored c k' r'" by (simp add: new)
    from idle[OF this that(2)] that(3) show False by simp
  qed
  have other: "aq_ree_id (al_request r') \<noteq> ree_id" if "stored c k' r'" "live r'" for k' r'
    using ok(3)[OF that] obtained_stored(5)[OF assms(2)] by auto
  have k: "k' \<noteq> k" if "placed c ree' k'" for ree' k'
    using ok(4)[OF that] obtained_stored(4)[OF assms(2)] by auto
  show ?thesis
    unfolding fleet_ok_def
  proof (intro conjI allI impI)
    show "file_ok (ct_file c')" by (rule obtained_stored(1)[OF assms(2)])
    fix k1 r1 assume s1: "stored c' k1 r1"
    show "al_workbench_id r1 \<noteq> None" using s1 ok(2) r by (auto simp: new split: if_splits)
    show "placed c' (aq_ree_id (al_request r1)) k1" if "live r1"
      using s1 ok(3)[OF _ that] other[OF _ that] r that by (auto simp: new placed' split: if_splits)
    fix k2 r2
    show "k1 = k2" if "stored c' k2 r2" "live r1" "live r2" "al_workbench_id r1 = al_workbench_id r2"
    proof (cases "k1 = k \<or> k2 = k")
      case True
      with s1 that(1,4) r(1) have "al_workbench_id r1 = Some w" by (auto simp: new)
      with mine[OF s1 that(2)] mine[OF that(1,3)] that(4) show ?thesis by simp
    next
      case False
      then have "stored c k1 r1" "stored c k2 r2" using s1 that(1) by (simp_all add: new)
      from ok(5)[OF this that(2-4)] show ?thesis .
    qed
  next
    fix ree1 k1 assume p1: "placed c' ree1 k1"
    show "\<exists>r1. stored c' k1 r1 \<and> aq_ree_id (al_request r1) = ree1 \<and> al_state r1 \<noteq> Al_Released"
    proof (cases "ree1 = ree_id")
      case True
      with p1 have "k1 = k" by (simp add: placed')
      with True r assms(4) show ?thesis by (auto simp: new)
    next
      case False
      with p1 have "placed c ree1 k1" by (simp add: placed')
      with ok(4)[OF this] k[OF this] show ?thesis by (auto simp: new)
    qed
  qed
qed

text \<open>An assigned allocation that is drained, and released, changes nothing else.\<close>

lemma handed_back_stored:
  assumes "fleet_ok c" and "stored c k r" and "holding c (al_request r) w p s c'"
  shows "file_ok (ct_file c')"
    and "\<exists>r1. al_request r1 = al_request r \<and> al_workbench_id r1 = Some w \<and> al_state r1 = s \<and>
      (\<forall>k' r'. stored c' k' r' \<longleftrightarrow> (if k' = k then r' = r1 else stored c k' r'))"
    and "placed c' ree' k' \<longleftrightarrow> (if ree' = aq_ree_id (al_request r) then k' = k else placed c ree' k')"
proof -
  from file_okD(3)[OF fleet_okD(1)[OF assms(1)]] assms(2)
  have k: "aq_allocation_id (al_request r) = k" by (simp add: stored_def)
  from assms(3) show "file_ok (ct_file c')" by (simp add: holding_def)
  from assms(3) show "\<exists>r1. al_request r1 = al_request r \<and> al_workbench_id r1 = Some w \<and> al_state r1 = s \<and>
      (\<forall>k' r'. stored c' k' r' \<longleftrightarrow> (if k' = k then r' = r1 else stored c k' r'))"
    unfolding holding_def k stored_def by auto
  from assms(3) show "placed c' ree' k' \<longleftrightarrow> (if ree' = aq_ree_id (al_request r) then k' = k else placed c ree' k')"
    unfolding holding_def k placed_def by auto
qed

lemma drained_fleet_ok:
  assumes "fleet_ok c" and "stored c k r" and "live r" and "al_workbench_id r = Some w"
    and "holding c (al_request r) w p Al_Draining c'"
  shows "fleet_ok c'"
proof -
  note ok = fleet_okD[OF assms(1)]
  from handed_back_stored(2)[OF assms(1,2,5)] obtain r1 where r1: "al_request r1 = al_request r"
    "al_workbench_id r1 = Some w" "al_state r1 = Al_Draining"
    and new: "\<And>k' r'. stored c' k' r' \<longleftrightarrow> (if k' = k then r' = r1 else stored c k' r')" by blast
  have placed': "placed c' ree' k' = placed c ree' k'" for ree' k'
    using handed_back_stored(3)[OF assms(1,2,5)] ok(3)[OF assms(2,3)] by (auto simp: placed_def)
  have same: "\<exists>r2. stored c k2 r2 \<and> al_request r2 = al_request r' \<and> al_workbench_id r2 = al_workbench_id r' \<and>
      (live r' \<longrightarrow> live r2)" if "stored c' k2 r'" for k2 r'
    using that assms(2-4) r1 by (auto simp: new split: if_splits)
  show ?thesis
    unfolding fleet_ok_def placed'
  proof (intro conjI allI impI)
    show "file_ok (ct_file c')" by (rule handed_back_stored(1)[OF assms(1,2,5)])
    fix k1 r2 assume s1: "stored c' k1 r2"
    from same[OF s1] obtain r2' where r2': "stored c k1 r2'" "al_request r2' = al_request r2"
      "al_workbench_id r2' = al_workbench_id r2" "live r2 \<longrightarrow> live r2'" by blast
    from ok(2)[OF r2'(1)] r2' show "al_workbench_id r2 \<noteq> None" by auto
    from ok(3)[OF r2'(1)] r2' show "placed c (aq_ree_id (al_request r2)) k1" if "live r2" using that by auto
    fix k3 r3
    assume s3: "stored c' k3 r3" and l: "live r2" "live r3" "al_workbench_id r2 = al_workbench_id r3"
    from same[OF s3] obtain r3' where "stored c k3 r3'" "al_workbench_id r3' = al_workbench_id r3" "live r3 \<longrightarrow> live r3'"
      by blast
    with ok(5)[OF r2'(1)] r2' l show "k1 = k3" by auto
  next
    fix ree1 k1 assume "placed c ree1 k1"
    from ok(4)[OF this] obtain r2 where r2: "stored c k1 r2" "aq_ree_id (al_request r2) = ree1"
      "al_state r2 \<noteq> Al_Released" by blast
    show "\<exists>r. stored c' k1 r \<and> aq_ree_id (al_request r) = ree1 \<and> al_state r \<noteq> Al_Released"
    proof (cases "k1 = k")
      case True
      with r2 assms(2) have "r2 = r" by (auto dest: stored_unique)
      with r2 r1 True show ?thesis by (auto simp: new)
    qed (use r2 in \<open>auto simp: new\<close>)
  qed
qed

lemma released_fleet_ok:
  assumes "fleet_ok c" and "stored c k r" and "live r"
    and "holding c (al_request r) w p Al_Released (c\<lparr>ct_file := d\<rparr>)"
    and "ct_file c' = remove_placement (aq_ree_id (al_request r)) d"
  shows "fleet_ok c'"
proof -
  note ok = fleet_okD[OF assms(1)]
  from handed_back_stored(2)[OF assms(1,2,4)] obtain r1 where r1: "al_request r1 = al_request r"
    "al_workbench_id r1 = Some w" "al_state r1 = Al_Released"
    and new: "\<And>k' r'. stored (c\<lparr>ct_file := d\<rparr>) k' r' \<longleftrightarrow> (if k' = k then r' = r1 else stored c k' r')" by blast
  have d: "file_ok d" using handed_back_stored(1)[OF assms(1,2,4)] by simp
  note gone = remove_lookup[OF d, of "aq_ree_id (al_request r)", folded assms(5)]
  have new': "stored c' k' r' \<longleftrightarrow> (if k' = k then r' = r1 else stored c k' r')" for k' r'
    using new[of k' r'] by (simp add: stored_def gone(1))
  have placed': "placed c' ree' k' \<longleftrightarrow> ree' \<noteq> aq_ree_id (al_request r) \<and> placed c ree' k'" for ree' k'
    using handed_back_stored(3)[OF assms(1,2,4)] by (simp add: placed_def gone(2))
  have other: "k' \<noteq> k" if "placed c ree' k'" "ree' \<noteq> aq_ree_id (al_request r)" for ree' k'
    using ok(4)[OF that(1)] that(2) assms(2) by (auto dest: stored_unique)
  show ?thesis
    unfolding fleet_ok_def
  proof (intro conjI allI impI)
    show "file_ok (ct_file c')" by (fact gone(3))
    fix k1 r2 assume s1: "stored c' k1 r2"
    show "al_workbench_id r2 \<noteq> None" using s1 ok(2) r1 by (auto simp: new' split: if_splits)
    show "placed c' (aq_ree_id (al_request r2)) k1" if l: "live r2"
    proof -
      from s1 l r1(3) have s: "stored c k1 r2" "k1 \<noteq> k" by (auto simp: new' live_def split: if_splits)
      have "aq_ree_id (al_request r2) \<noteq> aq_ree_id (al_request r)"
        using ok(3)[OF s(1) l] ok(3)[OF assms(2,3)] s(2) by (auto simp: placed_def)
      with ok(3)[OF s(1) l] show ?thesis by (simp add: placed')
    qed
    fix k3 r3
    show "k1 = k3" if "stored c' k3 r3" "live r2" "live r3" "al_workbench_id r2 = al_workbench_id r3"
      using s1 that r1(3) ok(5)[of k1 r2 k3 r3] by (auto simp: new' live_def split: if_splits)
  next
    fix ree1 k1 assume "placed c' ree1 k1"
    then have p: "placed c ree1 k1" "ree1 \<noteq> aq_ree_id (al_request r)" by (simp_all add: placed')
    from ok(4)[OF p(1)] other[OF p] show "\<exists>r. stored c' k1 r \<and> aq_ree_id (al_request r) = ree1 \<and> al_state r \<noteq> Al_Released"
      by (auto simp: new')
  qed
qed

section \<open>What a step does to the file\<close>

lemma obtained_same_file: "ct_file c'' = ct_file c' \<Longrightarrow> obtained c k ree_id w s c'' = obtained c k ree_id w s c'"
  by (simp add: obtained_def holding_def)

lemma for_ree_Some: "for_ree (ct_file c) ree_id = Some r \<longleftrightarrow> (\<exists>k. placed c ree_id k \<and> stored c k r)"
  by (auto simp: for_ree_def placed_def stored_def get_allocation_Some bind_eq_Some_conv)

lemma lookup_bench_Some:
  "lookup_bench inspect reg c ree_id = Some h \<Longrightarrow>
    \<exists>k r. placed c ree_id k \<and> stored c k r \<and> al_state r = Al_Assigned \<and> h = handle_of r"
  by (auto simp: lookup_bench_def for_ree_Some split: option.splits if_splits)

definition new_allocation :: "control \<Rightarrow> control \<Rightarrow> bool" where
  "new_allocation c c' \<longleftrightarrow> (\<exists>k ree_id w s. obtained c k ree_id w s c' \<and> s \<noteq> Al_Released \<and>
     \<not> workbench_allocated (ct_file c) w)"

definition handed_back :: "control \<Rightarrow> control \<Rightarrow> bool" where
  "handed_back c c' \<longleftrightarrow> (\<exists>k r w. stored c k r \<and> al_state r = Al_Assigned \<and> al_workbench_id r = Some w \<and>
     (holding c (al_request r) w (al_provider_id r) Al_Draining c' \<or>
      (\<exists>d. holding c (al_request r) w (al_provider_id r) Al_Released (c\<lparr>ct_file := d\<rparr>) \<and>
        ct_file c' = remove_placement (aq_ree_id (al_request r)) d)))"

lemma step_effect:
  assumes "control_step c c'" and "fleet_ok c"
  shows "ct_file c' = ct_file c \<or> new_allocation c c' \<or> handed_back c c'"
proof -
  note ok = fleet_okD[OF assms(2)]
  have new: "new_allocation c c'" if "obtained c k ree_id w s c'" "s \<noteq> Al_Released"
    "\<not> workbench_allocated (ct_file c) w" for k ree_id w s c' using that by (auto simp: new_allocation_def)
  from assms(1) show ?thesis
  proof cases
    case (Provisions ids sha now ree_id location_id image_ref sides r)
    from op_endsD[OF provision_ends[OF ok(1)] this(2)] this(1) show ?thesis
      by (cases r) (auto dest: new)
  next
    case (Reserves now k ree_id location_id reg sides r)
    from op_endsD[OF reserve_external_ends[OF ok(1)] this] show ?thesis
      by (cases r) (auto dest: new reserve_bench_idle)
  next
    case (Deletes now inspect reg ree_id sides r)
    show ?thesis
    proof (cases "lookup_bench inspect reg c ree_id")
      case None
      with Deletes show ?thesis by (auto simp: delete_ree_def require_handle_def)
    next
      case (Some h)
      then obtain k r' where r': "placed c ree_id k" "stored c k r'" "al_state r' = Al_Assigned" "h = handle_of r'"
        using lookup_bench_Some by blast
      from ok(4)[OF r'(1)] r'(2) have ree: "aq_ree_id (al_request r') = ree_id" by (auto dest: stored_unique)
      from ok(2)[OF r'(2)] obtain w where w: "al_workbench_id r' = Some w" by blast
      obtain res where t: "teardown now (handle_of r') sides c = (res, c')"
        using Deletes Some r'(4) by (auto simp: delete_ree_def require_handle_def split: prod.splits sum.splits)
      from r'(1,2) ree have at: "map_of (af_allocations (ct_file c)) k = Some (Readable r')"
        "map_of (af_placements (ct_file c)) (aq_ree_id (al_request r')) = Some k"
        by (simp_all add: stored_def placed_def)
      from op_endsD[OF teardown_ends[OF ok(1) at w r'(3)] t] r'(2,3) w show ?thesis
        by (cases res) (auto simp: handed_back_def)
    qed
  next
    case Restarts
    then show ?thesis by (simp add: fresh_control_def)
  next
    case (Stops k ree_id w s c'')
    then have "obtained c k ree_id w s c'"
      using obtained_same_file[of "fresh_control (ct_file c'')" c''] by (simp add: fresh_control_def)
    with new[OF this] Stops show ?thesis by auto
  qed
qed

lemma step_fleet_ok:
  assumes "control_step c c'" and "fleet_ok c"
  shows "fleet_ok c'"
  using step_effect[OF assms]
proof (elim disjE)
  assume "ct_file c' = ct_file c"
  from fleet_ok_file[OF this] assms(2) show ?thesis by simp
next
  assume "new_allocation c c'"
  with assms(2) show ?thesis by (auto simp: new_allocation_def intro: obtained_fleet_ok)
next
  assume "handed_back c c'"
  then obtain k r w where r: "stored c k r" "al_state r = Al_Assigned" "al_workbench_id r = Some w"
    and ends: "holding c (al_request r) w (al_provider_id r) Al_Draining c' \<or>
      (\<exists>d. holding c (al_request r) w (al_provider_id r) Al_Released (c\<lparr>ct_file := d\<rparr>) \<and>
        ct_file c' = remove_placement (aq_ree_id (al_request r)) d)"
    unfolding handed_back_def by blast
  have live: "live r" using r(2) by (simp add: live_def)
  from ends show ?thesis
    by (elim disjE exE conjE) (rule drained_fleet_ok[OF assms(2) r(1) live r(3)], assumption,
      rule released_fleet_ok[OF assms(2) r(1) live])
qed

lemma fresh_fleet_ok [simp]: "fleet_ok (fresh_control no_allocations)"
  by (simp add: fleet_ok_def fresh_control_def stored_def placed_def) (simp add: no_allocations_def)

lemma steps_fleet_ok: "control_step\<^sup>*\<^sup>* c c' \<Longrightarrow> fleet_ok c \<Longrightarrow> fleet_ok c'"
  by (induction rule: rtranclp_induct) (auto intro: step_fleet_ok)

section \<open>An allocation that is not assigned\<close>

lemma stuck_step:
  assumes "control_step c c'" and "fleet_ok c" and "placed c ree_id k" and "stored c k r" and "al_state r \<noteq> Al_Assigned"
  shows "placed c' ree_id k \<and> stored c' k r"
  using step_effect[OF assms(1,2)]
proof (elim disjE)
  assume "ct_file c' = ct_file c"
  with assms(3,4) show ?thesis by (simp add: placed_def stored_def)
next
  assume "new_allocation c c'"
  then obtain k1 ree1 w s where new: "obtained c k1 ree1 w s c'" by (auto simp: new_allocation_def)
  with obtained_stored(4,5)[OF new] assms(3,4) have "k1 \<noteq> k" "ree1 \<noteq> ree_id" by auto
  with assms(3,4) obtained_stored(2,3)[OF new] show ?thesis by auto
next
  assume "handed_back c c'"
  then obtain k1 r1 w where r1: "stored c k1 r1" "al_state r1 = Al_Assigned"
    and ends: "holding c (al_request r1) w (al_provider_id r1) Al_Draining c' \<or>
      (\<exists>d. holding c (al_request r1) w (al_provider_id r1) Al_Released (c\<lparr>ct_file := d\<rparr>) \<and>
        ct_file c' = remove_placement (aq_ree_id (al_request r1)) d)"
    unfolding handed_back_def by blast
  have k: "k1 \<noteq> k" using r1 assms(4,5) by (auto dest: stored_unique)
  have "placed c (aq_ree_id (al_request r1)) k1"
    using fleet_okD(3)[OF assms(2) r1(1)] r1(2) by (simp add: live_def)
  with k assms(3) have ree: "aq_ree_id (al_request r1) \<noteq> ree_id" by (auto simp: placed_def)
  from ends show ?thesis
  proof (elim disjE exE conjE)
    assume h: "holding c (al_request r1) w (al_provider_id r1) Al_Draining c'"
    from handed_back_stored(2,3)[OF assms(2) r1(1) h] k ree assms(3,4) show ?thesis by auto
  next
    fix d
    assume h: "holding c (al_request r1) w (al_provider_id r1) Al_Released (c\<lparr>ct_file := d\<rparr>)"
      and c': "ct_file c' = remove_placement (aq_ree_id (al_request r1)) d"
    have "file_ok d" using handed_back_stored(1)[OF assms(2) r1(1) h] by simp
    note gone = remove_lookup[OF this, of "aq_ree_id (al_request r1)", folded c']
    from handed_back_stored(2,3)[OF assms(2) r1(1) h] k ree assms(3,4) show ?thesis
      by (auto simp: placed_def stored_def gone)
  qed
qed

lemma stuck_steps:
  assumes "control_step\<^sup>*\<^sup>* c c'" and "fleet_ok c" and "placed c ree_id k" and "stored c k r"
    and "al_state r \<noteq> Al_Assigned"
  shows "placed c' ree_id k \<and> stored c' k r"
  using assms(1)
proof (induction rule: rtranclp_induct)
  case (step c1 c2)
  from step.IH stuck_step[OF step.hyps(2) steps_fleet_ok[OF step.hyps(1) assms(2)] _ _ assms(5)] show ?case by blast
qed (use assms in simp)

lemma placed_not_provisioned:
  assumes "file_ok (ct_file c)" and "placed c ree_id k"
  shows "\<exists>e. fst (provision sha now ids ree_id location_id image_ref sides c) = Inl e"
proof (cases "provision sha now ids ree_id location_id image_ref sides c")
  case (Pair res c')
  from op_endsD[OF provision_ends[OF assms(1)] Pair] assms(2) show ?thesis
    by (cases res) (auto simp: Pair obtained_def placed_def)
qed

section \<open>A day of the control plane\<close>

text \<open>A provider that brings a bench up, and one that then fails to release it.\<close>

definition demo_sides :: "frame list \<Rightarrow> other_sides" where
  "demo_sides release = \<lparr>os_providers = [(''p'', Some \<lparr>ph_hostname = ''host'', ph_version = ''1'',
       ph_location_id = ''lab'', ph_location_label = ''Lab'',
       ph_images = [\<lparr>im_ref = ''img'', im_id = ''img'', im_label = ''img'', im_description = []\<rparr>],
       ph_accepts_custom_image = False\<rparr>)],
     os_ensure = request_reply False [Log_Frame ''system'' ''info'' ''pulling'', Status_Frame Al_Waiting ''img@1''],
     os_dialed = Inr (), os_assign = request_reply False [Done_Frame], os_init = request_reply False [Done_Frame],
     os_drain = request_reply False [Done_Frame], os_release = request_reply False release, os_shown = (\<lambda>_. [])\<rparr>"

definition demo_minted :: minted where
  "demo_minted = \<lparr>mi_allocation_id = ''a1'', mi_workbench_id = ''w1'', mi_token = ''t''\<rparr>"

definition provisioned :: control where
  "provisioned = snd (provision id (\<lambda>_. 0) demo_minted ''ree'' ''lab'' [] (demo_sides [Done_Frame])
     (fresh_control no_allocations))"

definition half_deleted :: control where
  "half_deleted = snd (delete_ree (\<lambda>_. 1) (\<lambda>_ _. [Status_Frame Al_Ready []]) no_benches ''ree''
     (demo_sides [Error_Frame ''busy'']) provisioned)"

lemma provisioned_step: "control_step (fresh_control no_allocations) provisioned"
proof -
  have "\<not> workbench_allocated (ct_file (fresh_control no_allocations)) (mi_workbench_id demo_minted)" by code_simp
  from Provisions[OF this, of id "\<lambda>_. 0" "''ree''" "''lab''" "[]" "demo_sides [Done_Frame]"] show ?thesis
    by (auto simp: provisioned_def intro: prod.collapse[symmetric])
qed

lemma half_deleted_steps: "control_step\<^sup>*\<^sup>* (fresh_control no_allocations) half_deleted"
proof (rule rtranclp.rtrancl_into_rtrancl[OF r_into_rtranclp[of control_step, OF provisioned_step]])
  show "control_step provisioned half_deleted"
    unfolding half_deleted_def by (rule Deletes) (rule prod.collapse[symmetric])
qed

lemma half_deleted_state: "map_option al_state (for_ree (ct_file half_deleted) ''ree'') = Some Al_Draining"
  by code_simp

lemma provisioned_state: "map_option al_state (for_ree (ct_file provisioned) ''ree'') = Some Al_Assigned"
  by code_simp

section \<open>What every history keeps\<close>





section \<open>Two reservations at once\<close>

lemma assign_succeeds:
  assumes "holding c0 request w p Al_Waiting c" and "drain_void (os_assign sides) = Inr ()"
    and "drain_void (os_init sides) = Inr ()"
  shows "op_ends (assign_and_initialise now request sides) c
    (\<lambda>h c'. holding c0 request w p Al_Assigned c' \<and> bh_workbench_id h = w) (\<lambda>_ _. False)"
proof -
  let ?k = "aq_allocation_id request"
  have "op_ends (then_op (advance now ?k Al_Assigned None None) (\<lambda>r. pure_op (handle_of r))) c1
      (\<lambda>h c'. holding c0 request w p Al_Assigned c' \<and> bh_workbench_id h = w) (\<lambda>_ _. False)"
    if "holding c0 request w p Al_Ready c1" for c1
    unfolding ends
    by (rule op_ends_weaken[OF advance_ends[OF that]]) (auto simp: legal_step_def handle_of_def text_or_empty_def)
  then show ?thesis
    unfolding assign_and_initialise_def op_ends_then[of "advance now ?k Al_Ready None None"]
      op_ends_then[of "answer _"] op_ends_answer assms(2,3)
    by (intro op_ends_weaken[OF advance_holds[OF assms(1)]]) (auto simp: legal_step_def)
qed

lemma create_succeeds:
  assumes "file_ok (ct_file c)" and "map_of (af_allocations (ct_file c)) (aq_allocation_id request) = None"
    and "map_of (af_placements (ct_file c)) (aq_ree_id request) = None"
  shows "op_ends (on_file (create_allocation now request p (Some w))) c
    (\<lambda>_. holding c request w p Al_Requested) (\<lambda>_ _. False)"
  using create_ends[OF assms(1), of now request p w] assms(2,3)
  by (simp add: op_ends_def on_file_def create_allocation_def Let_def)

text \<open>What is asked of a reservation that goes well: new ids, an REE without a bench, and a bench that answers.\<close>

definition well_answered :: "other_sides \<Rightarrow> bool" where
  "well_answered sides \<longleftrightarrow> drain_void (os_assign sides) = Inr () \<and> drain_void (os_init sides) = Inr ()"

definition reservable :: "control \<Rightarrow> string \<Rightarrow> string \<Rightarrow> bool" where
  "reservable c k ree_id \<longleftrightarrow> k \<noteq> [] \<and> ree_id \<noteq> [] \<and>
     map_of (af_allocations (ct_file c)) k = None \<and> map_of (af_placements (ct_file c)) ree_id = None"

lemma reserve_claimed_succeeds:
  assumes "file_ok (ct_file c)" and "reservable c k ree_id" and "location_id \<noteq> []" and "well_answered sides"
  shows "\<exists>h c'. reserve_claimed now k ree_id location_id w sides c = (Inr h, c') \<and>
    bh_workbench_id h = w \<and> obtained c k ree_id w Al_Assigned c'"
proof -
  let ?request = "\<lparr>aq_allocation_id = k, aq_ree_id = ree_id, aq_location_id = location_id, aq_image = []\<rparr>"
  let ?P = "\<lambda>h c'. holding c ?request w None Al_Assigned c' \<and> bh_workbench_id h = w"
  have made: "make_request k ree_id location_id [] = Inr ?request"
    using assms(2,3) by (simp add: make_request_def require_def reservable_def)
  have "op_ends (then_op (advance now k Al_Waiting None None) (\<lambda>_.
      rescue (assign_and_initialise now ?request sides) (\<lambda>e. mark_failed now k (os_shown sides e)))) c1 ?P (\<lambda>_ _. False)"
    if h: "holding c ?request w None Al_Requested c1" for c1
    unfolding op_ends_then
    by (rule op_ends_weaken[OF advance_holds[OF h, simplified]])
      (use assms(4) in \<open>auto simp: legal_step_def well_answered_def op_ends_rescue
         intro!: op_ends_weaken[OF assign_succeeds]\<close>)
  then have "op_ends (reserve_claimed now k ree_id location_id w sides) c ?P (\<lambda>_ _. False)"
    unfolding reserve_claimed_def made op_ends_then[of "answer _"] op_ends_answer sum.case op_ends_then[of "on_file _"]
    by (intro op_ends_weaken[OF create_succeeds[OF assms(1)]]) (use assms(2) in \<open>auto simp: reservable_def\<close>)
  moreover have "obtained c k ree_id w Al_Assigned c'" if "holding c ?request w None Al_Assigned c'" for c'
    by (rule obtainedI[of ?request, OF _ _ that]) (use assms(2) in \<open>auto simp: reservable_def\<close>)
  ultimately show ?thesis by (auto simp: op_ends_def split: prod.splits sum.splits)
qed


definition demo_lab :: bench_registry where
  "demo_lab = \<lparr>br_benches = [(''lab'', \<lparr>cx_serial = 0, cx_hello = Some (demo_hello ''lab'' [])\<rparr>)],
     br_connected_at = [(''lab'', 0)]\<rparr>"


section \<open>After a restart\<close>

text \<open>The allocations survive a restart and the enrollments do not: no managed bench can dial in again.\<close>

lemma restart_refuses_managed:
  "ct_file (fresh_control (ct_file c)) = ct_file c \<and>
   authenticate sha hello (ct_enrolled (fresh_control (ct_file c))) = Inl (Value_Error ''unknown workbench enrollment'')"
  by (simp add: fresh_control_def authenticate_def)

end
