(* ===== verification/Spec2Isabelle.thy ===== *)
theory Spec2Isabelle
  imports Ree_Bundle_Facts Ree_Review_Attempts Ree_Swhid Run_Registry_Facts Api_Index Inf_Gap Alloc_Fleet
begin

text \<open>
  A verification development of repo2ree.

  repo2ree turns a source repository into a reproducible execution environment (REE): an author
  acquires the source into a workbench, builds a runtime, tests it, runs experiments, and seals the
  result as a bundle with a digest; a reviewer opens the bundle and replays the steps. The program is
  the core library (\<open>src/core\<close>: documents, handlers, digests, bundle, review, script inference),
  the API (\<open>src/api\<close>: background runs, listings, the index of sealed REEs), the protocol they share
  (\<open>src/protocol\<close>), and the supervisor (\<open>src/supervisor\<close>) that obtains the workbenches on which the work
  runs, from providers or from benches that dial in.

  \<^bold>\<open>The document and its transitions.\<close> One JSON document, \<open>ree.json\<close>, is the state of an REE: a
  definition the author declares, a receipt per operation that has run, the files, and, once sealed, a seal.
  \<^item> \<open>Ree_Prelude\<close>: exceptions as the values of \<open>ree_error\<close>, operations that may raise as
    \<open>ree_error + 'a\<close> sequenced by \<open>bind_res\<close>, strings, dictionaries and sorting. A \<open>str\<close> is its
    list of bytes, a \<open>dict\<close> an association list in insertion order. An \<open>assert\<close> or an explicit
    \<open>AssertionError\<close> is an error value too, so a theorem that says no error occurs covers it.
  \<^item> \<open>Ree_Paths\<close>: \<open>path_safety.py\<close>, \<open>reserved_paths.py\<close>, the reserved script names.
  \<^item> \<open>Ree_Hbom\<close>, \<open>Ree_Receipts\<close>, \<open>Ree_Model\<close>: the records of \<open>domain/\<close> with every validator of the
    pydantic classes as a \<open>bool\<close>-valued predicate; constructing a model is building the record and
    demanding the predicate. Instants are integers (microseconds); the clock is an argument.
  \<^item> \<open>Ree_Transitions\<close>: \<open>transitions.py\<close>, one function per transition, and a step language over them.
    The locale \<open>authoring_ops\<close> states what the validators need of a set of transitions and is interpreted
    on them (\<open>authoring\<close>).
  \<^item> \<open>Ree_Audit\<close>: \<open>audit.py\<close>, which evidence is missing, current or stale, against a specification of
    what each receipt must agree with.
  \<^item> \<open>Ree_Store\<close>: \<open>persistence/\<close>, the directory of one REE as a record of trees and the document; loading
    and the compare-and-replace of \<open>save_ree\<close>. The locale \<open>versioned_store\<close> is the contract of an
    optimistic store, interpreted as \<open>ree_store\<close>.
  \<^item> \<open>Ree_Digests\<close>, \<open>Ree_Swhid\<close>: the digest of a tree and the Software Heritage identifier of a
    directory, \<open>source_repo/swhid.py\<close>.

  \<^bold>\<open>The author's operations.\<close> Handlers load the document, change files and document, and answer with an
  action result; each is one function with all its early returns, and what they catch is a case.
  \<^item> \<open>Ree_Result\<close>: \<open>result.py\<close> and \<open>failures.py\<close>. \<open>Ree_Authoring\<close>: the write, delete and patch
    handlers with their restores. \<open>Ree_Runnables\<close>: the build and the runnable handlers, the script runner
    and the capture of outputs, over an executor that maps a workspace and a script to an exit and a
    workspace.
  \<^item> \<open>Ree_Bundle\<close>, \<open>Ree_Bundle_Facts\<close>: \<open>bundle/\<close> and the seal handler. An archive is its list of
    members; the round trip covers extraction, verification and restore.
  \<^item> \<open>Ree_Sbom\<close>: versions, purls, the closure comparison and the cross-check of \<open>analysis/sbom\<close>.

  \<^bold>\<open>The reviewer.\<close> \<open>Ree_Review\<close> holds the records and verdicts of \<open>evidence/review\<close>;
  \<open>Ree_Review_Steps\<close> the four handlers, over an environment of the scripts, the scanner, the clock and the
  cancellation flag; \<open>Ree_Review_Facts\<close> an inductive relation of the ways a step can end, which the handlers
  refine; \<open>Ree_Review_Attempts\<close> the invariants of an attempt over any sequence of commands.

  \<^bold>\<open>Background runs and listings of the API.\<close> \<open>Run_Store\<close> is \<open>json_run_store.py\<close> over a disk of run
  directories; \<open>Run_Registry\<close> the life of a run in \<open>run_registry.py\<close> with its worker and an inductive step
  relation of requests, workers, faults, stops and restarts; \<open>Run_Store_Facts\<close> and \<open>Run_Registry_Facts\<close> their
  invariants, by rule induction. The locale \<open>run_table\<close> is what the registry relies on, interpreted on the
  store as \<open>json_runs\<close>. A stop leaves the disk in one of the states \<open>left_behind\<close> lists; a last line
  without its newline is treated apart, in \<open>unended_line_unreadable\<close>. \<open>Api_Pagination\<close> is the cursor of
  \<open>pagination.py\<close> with the two listings that page by it, \<open>Api_Index\<close> the index of sealed REEs,
  \<open>ree_index.py\<close>, with its attestations and its listing.

  \<^bold>\<open>Script inference.\<close> From the files of a repository and the declarations of an REE, the inference of
  \<open>author_recipes/inference\<close> proposes the scripts of the build, the activation test and the experiments. It
  walks decision graphs: checks that bind facts, forks into strategies, leaves that render a script, and a
  resolver that picks among the outcomes.
  \<^item> \<open>Inf_Model\<close>: graphs, contexts, bindings, traces, warnings. \<open>Inf_Engine\<close>: \<open>validate_dag\<close>, with a
    defect per refusal. \<open>Inf_Walk\<close>: \<open>evaluate_target\<close>. A walk is a
    \<open>partial_function (option)\<close>, so not ending is \<open>None\<close>; that it ends is a theorem.
  \<^item> \<open>Inf_Facts\<close>: the logical root and the scan. \<open>Inf_Artifact\<close>: the inspection of a built archive.
    \<open>Inf_Checks\<close>, \<open>Inf_Graphs\<close>: the checks, the resolver, the three graphs, the registry, \<open>infer_scripts\<close>.
    \<open>Inf_Render\<close>: the six renderers, text included.
  \<^item> \<open>Inf_Sound\<close> and \<open>Inf_Typed\<close> prove what validation is worth: the locale \<open>annotated_walk\<close> is a graph
    with an annotation its checks keep, \<open>typed_graph\<close> one whose parts keep their declarations, and the
    second gives the first (\<open>sublocale\<close>): the kinds of bindings the validator computes are the annotation.
    \<open>Inf_Accepted\<close> evaluates the startup validation of the deployed graphs; \<open>Inf_Graph_Facts\<close> and
    \<open>Inf_Build\<close> interpret \<open>typed_graph\<close> on them (\<open>build_graph\<close>, \<open>activation_graph\<close>,
    \<open>experiment_graph\<close>, \<open>registered_build\<close>), so inference as deployed returns. \<open>Inf_Gap\<close> is a graph that
    passes validation and still raises. \<open>Inf_Render_Facts\<close> reads the rendered text back with a lexer of
    the words of a simple command, the reference of the quoting.

  \<^bold>\<open>Workbench allocation.\<close> The control plane gives every REE a bench of its own and keeps, in one file, an
  allocation for each bench it asked for or reserved.
  \<^item> \<open>Alloc_Store\<close>: the records of \<open>protocol/allocation.py\<close>, the legal transitions of
    \<open>allocation_state.py\<close>, the durable store \<open>allocation_store.py\<close> and the secrets of \<open>enrollment.py\<close>.
  \<^item> \<open>Alloc_Links\<close>: the registries of dialed-in sides, the frames of a reply and what their consumers
    make of them (\<open>workbench_link.py\<close>, \<open>provider_link.py\<close>), and the locations of \<open>control/compute.py\<close>. A
    reply is the list of frames that arrive; falling silent is its end.
  \<^item> \<open>Alloc_Manager\<close>: \<open>manager.py\<close> and the API's use of it, over the file, the enrollments, the log sink
    and the releases asked of a provider. An operation keeps the state it has reached when it raises.
  \<^item> \<open>Alloc_Facts\<close>: \<open>op_ends\<close>, how an operation ends, with one rule per way of composing operations
    (collection \<open>ends\<close>). \<open>Alloc_Fleet\<close>: histories of the control plane, stops in the middle of an operation
    included, as the inductive relation \<open>control_step\<close> with its invariant \<open>fleet_ok\<close>.

  \<^bold>\<open>What the groups of lemmas show.\<close>
  \<^item> Documents: authoring keeps every validator true, a sealed document is frozen, the audit is exactly
    disagreement with the declaration, a save replaces the document exactly at the expected revision.
  \<^item> Files: a write is all or nothing, captured outputs replace exactly their subtree, sealing succeeds exactly
    on current evidence and what is restored is what was sealed.
  \<^item> Review: handlers refine their abstract steps, records stay well formed, and what a verdict implies.
  \<^item> Runs: every run settles, settled runs are final, keys name one run, restarts recover.
  \<^item> Listings: pages deliver every stable item once; the index only grows.
  \<^item> Allocations: a live one has its bench to itself, no operation asks for an illegal transition, what an
    allocation that never was assigned can still become, and what two claims of one bench do.
  \<^item> Inference: accepted graphs end and evaluate, answers are a function of the files, quoted words come back.
  Some properties state what the code does against its own intent (an error kind, or a text that says so);
  each is the statement of a finding.

  \<^bold>\<open>Parameters.\<close> What is not in the repository is an argument: the hash (\<open>sha\<close>, \<open>fdig\<close>; where digests are
  to tell contents apart, a hypothesis says that the hash does not collide on what is compared), the JSON
  encoder and decoder (\<open>pf_dumps\<close>, \<open>pf_loads\<close>, \<open>loads\<close>, with their round trip as a hypothesis), the
  replies of providers and benches, the executor of scripts, the package scanner, the reproducer's texts, clocks and identifiers. A property that
  assumes a law of a parameter has a witness with a concrete function.

  \<^bold>\<open>Bounds.\<close> There is no fuel: loops are structural recursions, recursions with a measure, or partial
  functions whose termination is proved. The caps of the source (eight wrapper levels, four levels of an
  image index, the sizes of archive members, 128 characters of a tag, the listed package differences) are
  the constants of the source.

  \<^bold>\<open>Not modelled.\<close> Processes and signals; the sockets, queues and timeouts of the links to benches and
  providers, with the chunked copy into a bench; the provider's containers; network fetches and version
  control; the HTTP layer, authentication, metrics, spans and log lines; threads inside
  one operation (locks are what makes an operation one step); symbolic links on disk beyond the trees that
  name them; the directory seeding, tar packing and layout names of the persistence layer; the streaming
  digest writers; the script linter, which rests on an external parser, and the static recipe templates; the
  profilers, which read registries and hardware; tracing and the diagram scripts. Text is bytes: a string
  with characters outside ASCII is its UTF-8 encoding, so case folding and character classes are the ASCII
  ones.
\<close>

end
